(* ===== verification/Gravity_Prelude.thy ===== *)
theory Gravity_Prelude
  imports Main "HOL-Library.Word" "HOL-Library.Char_ord" "HOL-Library.List_Lexorder"
begin

section \<open>Shared types, list operations and run lemmas\<close>

text \<open>
  What every component theory uses: names for the machine types of the C++ sources, the idioms
  of the standard library that the sources repeat (search loops over a list with an
  \<open>erase\<close> of the element found, optional protobuf fields with a default), the conversion from
  microseconds to seconds, and the contract of an event-driven component whose operations keep an
  invariant (the locale \<open>keeps_invariant\<close>, interpreted in the component theories).

  Strings are byte lists ordered byte by byte as unsigned values, which is how
  \<open>std::string::compare\<close> orders them.
\<close>

type_synonym u32 = "32 word"
type_synonym u64 = "64 word"
type_synonym socket = nat

named_theorems frame_simps
  "which fields and lookups an operation leaves as they were"

subsection \<open>Optional protobuf fields\<close>

text \<open>Reading an unset \<open>proto2\<close> field gives the default value of its type.\<close>

definition field :: "'a \<Rightarrow> 'a option \<Rightarrow> 'a" where
  "field d x = (case x of None \<Rightarrow> d | Some v \<Rightarrow> v)"

subsection \<open>The search-and-erase and search-and-update loops\<close>

text \<open>
  \<open>for (; it != xs.end(); it++) if (P(*it)) break; if (it != xs.end()) xs.erase(it);\<close> removes
  the first element that satisfies \<open>P\<close>; \<open>map_first\<close> is the same search followed by an
  assignment through the iterator.
\<close>

fun remove_first :: "('a \<Rightarrow> bool) \<Rightarrow> 'a list \<Rightarrow> 'a list" where
  "remove_first P [] = []"
| "remove_first P (x # xs) = (if P x then xs else x # remove_first P xs)"

fun map_first :: "('a \<Rightarrow> bool) \<Rightarrow> ('a \<Rightarrow> 'a) \<Rightarrow> 'a list \<Rightarrow> 'a list" where
  "map_first P f [] = []"
| "map_first P f (x # xs) = (if P x then f x # xs else x # map_first P f xs)"

subsection \<open>Comma-separated lists\<close>

text \<open>The names of a comma-separated list; \<open>seg\<close> is the current one, reversed.\<close>

fun split_commas :: "string \<Rightarrow> string \<Rightarrow> string list" where
  "split_commas seg [] = [rev seg]"
| "split_commas seg (c # cs) =
     (if c = CHR '','' then rev seg # split_commas [] cs else split_commas (c # seg) cs)"

lemma split_commas_not_Nil [simp]: "split_commas seg cs \<noteq> []"
  by (induction seg cs rule: split_commas.induct) auto

lemma split_commas_unfold:
  "split_commas seg cs =
     (if CHR '','' \<in> set cs
      then (rev seg @ takeWhile (\<lambda>c. c \<noteq> CHR '','') cs) #
           split_commas [] (tl (dropWhile (\<lambda>c. c \<noteq> CHR '','') cs))
      else [rev seg @ cs])"
  by (induction seg cs rule: split_commas.induct) auto

subsection \<open>Time\<close>

text \<open>
  \<open>static_cast<uint32_t>(t / 1e6)\<close>. The quotient is a double; for every \<open>t\<close> whose seconds fit
  in 32 bits (the cast is undefined otherwise) \<open>t\<close> is below \<open>2^53\<close>, the quotient is within
  half a unit in the last place of the exact one, and truncating it gives the integer quotient.
\<close>

definition secs :: "u64 \<Rightarrow> u32" where
  "secs t = word_of_nat (unat t div 1000000)"

subsection \<open>Runs of an event-driven component\<close>

text \<open>
  \<open>admissible ok step s es\<close>: every event of \<open>es\<close> meets its precondition \<open>ok\<close> in the state
  it arrives in (such as: the socket the library hands out is a new one).
\<close>

fun admissible :: "('s \<Rightarrow> 'e \<Rightarrow> bool) \<Rightarrow> ('s \<Rightarrow> 'e \<Rightarrow> 's) \<Rightarrow> 's \<Rightarrow> 'e list \<Rightarrow> bool" where
  "admissible ok step s [] = True"
| "admissible ok step s (e # es) = (ok s e \<and> admissible ok step (step s e) es)"

lemma field_simps_opt [simp]: "field d None = d" "field d (Some v) = v"
  by (simp_all add: field_def)

lemma set_remove_first: "set (remove_first P xs) \<subseteq> set xs"
  by (induction xs) auto

lemma remove_first_idle: "(\<And>x. x \<in> set xs \<Longrightarrow> \<not> P x) \<Longrightarrow> remove_first P xs = xs"
  by (induction xs) auto

lemma length_remove_first:
  "length (remove_first P xs) = (if \<exists>x\<in>set xs. P x then length xs - 1 else length xs)"
proof (induction xs)
  case (Cons x xs)
  have "\<exists>y\<in>set xs. P y \<Longrightarrow> length xs \<noteq> 0" by (cases xs) auto
  with Cons.IH show ?case by auto
qed simp

lemma distinct_map_remove_first: "distinct (map f xs) \<Longrightarrow> distinct (map f (remove_first P xs))"
  by (induction xs) (auto dest: subsetD [OF set_remove_first])

text \<open>With distinct keys the first hit is the only one.\<close>

lemma set_remove_first_distinct:
  assumes "distinct (map f xs)"
  shows "set (remove_first (\<lambda>x. f x = k) xs) = {x \<in> set xs. f x \<noteq> k}"
  using assms
proof (induction xs)
  case (Cons x xs)
  show ?case
  proof (cases "f x = k")
    case True
    with Cons.prems show ?thesis by (force simp: image_iff)
  next
    case False
    with Cons show ?thesis by auto
  qed
qed simp

lemma map_map_first: "(\<And>x. g (f x) = g x) \<Longrightarrow> map g (map_first P f xs) = map g xs"
  by (induction xs) auto

lemma map_first_set:
  "find P xs = Some y \<Longrightarrow> f y \<in> set (map_first P f xs)"
  by (induction xs) (auto split: if_splits)

lemma set_map_first_subset: "set (map_first P f xs) \<subseteq> set xs \<union> f ` {x \<in> set xs. P x}"
  by (induction xs) auto

lemma find_SomeD: "find P xs = Some y \<Longrightarrow> y \<in> set xs \<and> P y"
  by (induction xs) (auto split: if_splits)

lemma find_None_all: "find P xs = None \<longleftrightarrow> (\<forall>x\<in>set xs. \<not> P x)"
  by (auto simp: find_None_iff)

lemma admissible_True [simp]: "admissible (\<lambda>s e. True) step s es"
  by (induction es arbitrary: s) simp_all

locale keeps_invariant =
  fixes step :: "'s \<Rightarrow> 'e \<Rightarrow> 's"
    and ok :: "'s \<Rightarrow> 'e \<Rightarrow> bool"
    and inv :: "'s \<Rightarrow> bool"
  assumes step_inv: "inv s \<Longrightarrow> ok s e \<Longrightarrow> inv (step s e)"
begin

lemma run_inv: "inv s \<Longrightarrow> admissible ok step s es \<Longrightarrow> inv (foldl step s es)"
  by (induction es arbitrary: s) (auto intro: step_inv)

lemma run_inv_prefix:
  assumes "inv s" and "admissible ok step s (es @ fs)"
  shows "inv (foldl step s es) \<and> admissible ok step (foldl step s es) fs"
  using assms by (induction es arbitrary: s) (auto intro: step_inv)

end

subsection \<open>Interleavings of threads\<close>

text \<open>
  \<open>run_threads step ts s\<close>: the threads of the schedule \<open>ts\<close> make one step each; \<open>None\<close> is a
  failure that ends the process. In \<open>scheduled_steps\<close> every step of any thread succeeds and keeps
  the invariant, and a step of \<open>main\<close> brings it nearer to its end, which no other step moves away.
\<close>

fun run_threads :: "('t \<Rightarrow> 's \<Rightarrow> 's option) \<Rightarrow> 't list \<Rightarrow> 's \<Rightarrow> 's option" where
  "run_threads step [] s = Some s"
| "run_threads step (t # ts) s =
     (case step t s of None \<Rightarrow> None | Some s1 \<Rightarrow> run_threads step ts s1)"

locale scheduled_steps =
  fixes step :: "'t \<Rightarrow> 's \<Rightarrow> 's option"
    and inv :: "'s \<Rightarrow> bool"
    and distance :: "'s \<Rightarrow> nat"
    and main :: 't
  assumes step_ok: "inv s \<Longrightarrow>
      \<exists>s1. step t s = Some s1 \<and> inv s1 \<and> distance s1 \<le> distance s - (if t = main then 1 else 0)"
begin

lemma run_ok:
  "inv s \<Longrightarrow> \<exists>s1. run_threads step ts s = Some s1 \<and> inv s1 \<and>
     distance s1 \<le> distance s - length (filter (\<lambda>t. t = main) ts)"
proof (induction ts arbitrary: s)
  case (Cons t ts)
  obtain s1 where s1: "step t s = Some s1" "inv s1"
      "distance s1 \<le> distance s - (if t = main then 1 else 0)"
    using step_ok [OF Cons.prems, of t] by blast
  then show ?case using Cons.IH [OF s1(2)] by (auto split: if_splits)
qed simp

end

end
