(* ===== verification/Std_Map.thy ===== *)
theory Std_Map
  imports Gravity_Prelude
begin

section \<open>Ordered maps and sets of the C++ standard library\<close>

text \<open>
  A \<open>std::map\<close> is an association list in ascending order of its keys, so that iteration visits
  it in the order the sources rely on. \<open>smap_put\<close> is \<open>m[k] = v\<close>, \<open>smap_erase\<close> is
  \<open>m.erase(k)\<close>, \<open>map_of\<close> is \<open>m.find(k)\<close>, \<open>smap_at\<close> reads \<open>m[k]\<close> and \<open>smap_touch\<close> is
  the insertion of a default value that reading a missing key by \<open>operator[]\<close> performs. A
  \<open>std::set\<close> is its ascending list of elements.

  The locale \<open>ordered_map\<close> states what the components rely on; its interpretation
  \<open>smap\<close> discharges the contract for these definitions.
\<close>

type_synonym ('k, 'v) smap = "('k \<times> 'v) list"

fun smap_put :: "'k::linorder \<Rightarrow> 'v \<Rightarrow> ('k, 'v) smap \<Rightarrow> ('k, 'v) smap" where
  "smap_put k v [] = [(k, v)]"
| "smap_put k v (p # m) =
     (if fst p < k then p # smap_put k v m
      else if fst p = k then (k, v) # m
      else (k, v) # p # m)"

definition smap_erase :: "'k \<Rightarrow> ('k, 'v) smap \<Rightarrow> ('k, 'v) smap" where
  "smap_erase k m = filter (\<lambda>p. fst p \<noteq> k) m"

definition smap_at :: "'v \<Rightarrow> ('k, 'v) smap \<Rightarrow> 'k \<Rightarrow> 'v" where
  "smap_at d m k = field d (map_of m k)"

definition smap_touch :: "'k::linorder \<Rightarrow> 'v \<Rightarrow> ('k, 'v) smap \<Rightarrow> ('k, 'v) smap" where
  "smap_touch k d m = (case map_of m k of None \<Rightarrow> smap_put k d m | Some _ \<Rightarrow> m)"

definition smap_has :: "('k, 'v) smap \<Rightarrow> 'k \<Rightarrow> bool" where
  "smap_has m k = (map_of m k \<noteq> None)"

definition smap_keys :: "('k, 'v) smap \<Rightarrow> 'k list" where
  "smap_keys m = map fst m"

definition smap_wf :: "('k::linorder, 'v) smap \<Rightarrow> bool" where
  "smap_wf m = sorted_wrt (<) (map fst m)"

fun sset_insert :: "'k::linorder \<Rightarrow> 'k list \<Rightarrow> 'k list" where
  "sset_insert k [] = [k]"
| "sset_insert k (x # xs) =
     (if x < k then x # sset_insert k xs else if x = k then x # xs else k # x # xs)"

locale ordered_map =
  fixes emp :: "'m"
    and look :: "'m \<Rightarrow> 'k::linorder \<Rightarrow> 'v option"
    and put :: "'k \<Rightarrow> 'v \<Rightarrow> 'm \<Rightarrow> 'm"
    and erase :: "'k \<Rightarrow> 'm \<Rightarrow> 'm"
    and entries :: "'m \<Rightarrow> ('k \<times> 'v) list"
    and wf :: "'m \<Rightarrow> bool"
  assumes look_emp: "look emp k = None"
    and look_put: "look (put k v m) j = (if j = k then Some v else look m j)"
    and look_erase: "look (erase k m) j = (if j = k then None else look m j)"
    and wf_emp: "wf emp"
    and wf_put: "wf m \<Longrightarrow> wf (put k v m)"
    and wf_erase: "wf m \<Longrightarrow> wf (erase k m)"
    and entries_sorted: "wf m \<Longrightarrow> sorted_wrt (<) (map fst (entries m))"
    and entries_look: "wf m \<Longrightarrow> (k, v) \<in> set (entries m) \<longleftrightarrow> look m k = Some v"
begin

lemma entries_distinct: "wf m \<Longrightarrow> distinct (map fst (entries m))"
  by (drule entries_sorted) (simp add: strict_sorted_iff)

lemma put_put: "look (put k v (put k w m)) j = look (put k v m) j"
  by (simp add: look_put)

lemma erase_put: "look (erase k (put k v m)) j = look (erase k m) j"
  by (simp add: look_put look_erase)

lemma put_commute: "k \<noteq> l \<Longrightarrow> look (put k v (put l w m)) j = look (put l w (put k v m)) j"
  by (simp add: look_put)

lemma ext_entries:
  assumes "wf m" and "wf n" and "\<And>k. look m k = look n k"
  shows "set (entries m) = set (entries n)"
  using assms entries_look by (auto simp: set_eq_iff)

end

lemma map_of_smap_put [simp]: "map_of (smap_put k v m) j = (if j = k then Some v else map_of m j)"
  by (induction m) auto

lemma map_of_smap_erase [simp]: "map_of (smap_erase k m) j = (if j = k then None else map_of m j)"
  unfolding smap_erase_def by (induction m) auto

lemma set_smap_put: "set (smap_put k v m) \<subseteq> insert (k, v) (set m)"
  by (induction m) auto

lemma smap_wf_put [simp]: "smap_wf m \<Longrightarrow> smap_wf (smap_put k v m)"
proof (induction m)
  case (Cons p m)
  then show ?case
    by (auto simp: smap_wf_def dest!: subsetD [OF set_smap_put] dest: less_trans)
qed (simp add: smap_wf_def)

lemma smap_wf_erase [simp]: "smap_wf m \<Longrightarrow> smap_wf (smap_erase k m)"
  unfolding smap_wf_def smap_erase_def by (induction m) auto

lemma smap_wf_Nil [simp]: "smap_wf []"
  by (simp add: smap_wf_def)

lemma smap_wf_distinct: "smap_wf m \<Longrightarrow> distinct (map fst m)"
  by (simp add: smap_wf_def strict_sorted_iff)

interpretation smap: ordered_map "[]" map_of smap_put smap_erase "\<lambda>m. m" smap_wf
proof unfold_locales
  fix m :: "('k::linorder, 'v) smap" and k v
  assume "smap_wf m"
  then show "((k, v) \<in> set m) = (map_of m k = Some v)"
    by (simp add: smap_wf_distinct map_of_eq_Some_iff)
next
  fix m :: "('k::linorder, 'v) smap"
  assume "smap_wf m"
  then show "sorted_wrt (<) (map fst m)" by (simp add: smap_wf_def)
qed simp_all

subsection \<open>Reading with a default\<close>

lemma smap_at_Nil [simp]: "smap_at d [] k = d"
  by (simp add: smap_at_def)

lemma smap_at_put [simp]: "smap_at d (smap_put k v m) j = (if j = k then v else smap_at d m j)"
  by (simp add: smap_at_def)

lemma smap_at_erase [simp]: "smap_at d (smap_erase k m) j = (if j = k then d else smap_at d m j)"
  by (simp add: smap_at_def)

lemma smap_at_touch [simp]: "smap_at d (smap_touch k d m) j = smap_at d m j"
  by (auto simp: smap_at_def smap_touch_def split: option.splits)

lemma map_of_smap_touch:
  "map_of (smap_touch k d m) j = (if j = k then Some (smap_at d m k) else map_of m j)"
  by (auto simp: smap_at_def smap_touch_def split: option.splits)

lemma smap_wf_touch [simp]: "smap_wf m \<Longrightarrow> smap_wf (smap_touch k d m)"
  by (simp add: smap_touch_def split: option.splits)

lemma smap_touch_id: "map_of m k = Some v \<Longrightarrow> smap_touch k d m = m"
  by (simp add: smap_touch_def)

lemma smap_has_iff: "smap_has m k \<longleftrightarrow> k \<in> set (smap_keys m)"
  by (simp add: smap_has_def smap_keys_def map_of_eq_None_iff)

lemma smap_keys_distinct: "smap_wf m \<Longrightarrow> distinct (smap_keys m)"
  unfolding smap_keys_def by (rule smap.entries_distinct)

lemma smap_entryI: "smap_wf m \<Longrightarrow> map_of m k = Some v \<Longrightarrow> (k, v) \<in> set m"
  by (simp add: smap.entries_look)

subsection \<open>Sets\<close>

lemma set_sset_insert [simp]: "set (sset_insert k xs) = insert k (set xs)"
  by (induction xs) auto

lemma sorted_sset_insert [simp]: "sorted_wrt (<) xs \<Longrightarrow> sorted_wrt (<) (sset_insert k xs)"
  by (induction xs) (auto dest: less_trans)

end
