(* ===== verification/Protobufs.thy ===== *)
theory Protobufs
  imports Gravity_Prelude
begin

section \<open>The messages of \<open>src/api/protobufs\<close>\<close>

text \<open>
  One record per message of the \<open>.proto\<close> files that the modelled components exchange. An
  \<open>optional\<close> field is an \<open>option\<close> (\<open>None\<close>: \<open>has_x()\<close> is false), read with
  \<open>field\<close> and the default of its type; a \<open>required\<close> field is a value, a \<open>repeated\<close> one a
  list. The registration types that four messages declare separately with the same two values are
  one datatype; an unset registration type reads as \<open>DATA\<close>, the value with number 0.
\<close>

datatype RegistrationType = DATA | SERVICE

datatype ChangeType = REMOVE | ADD

datatype ReturnCodes = SD_SUCCESS | SD_DUPLICATE_REGISTRATION | SD_REGISTRATION_CONFLICT
  | SD_NOT_REGISTERED

record PublisherInfoPB =
  pi_url :: "string option"
  pi_isRelay :: "bool option"
  pi_componentID :: "string option"
  pi_ipAddress :: "string option"
  pi_registration_time :: "u32 option"

record ComponentDataLookupResponsePB =
  dl_lookupID :: "string option"
  dl_publishers :: "PublisherInfoPB list"
  dl_domain_id :: "string option"

record ComponentLookupRequestPB =
  lk_lookupID :: string
  lk_type :: "RegistrationType option"
  lk_domain_id :: "string option"

record ComponentServiceLookupResponsePB =
  sl_lookupID :: string
  sl_url :: string
  sl_domain_id :: "string option"
  sl_registration_time :: "u32 option"

record ServiceDirectoryRegistrationPB =
  rg_id :: "string option"
  rg_url :: "string option"
  rg_type :: "RegistrationType option"
  rg_component_id :: "string option"
  rg_domain :: "string option"
  rg_timestamp :: "u64 option"
  rg_is_relay :: "bool option"
  rg_ip_address :: "string option"

record ServiceDirectoryUnregistrationPB =
  ur_id :: string
  ur_url :: string
  ur_type :: "RegistrationType option"
  ur_domain :: "string option"
  ur_registration_time :: "u32 option"

record ServiceDirectoryResponsePB =
  sr_id :: string
  sr_returnCode :: "ReturnCodes option"

record ProductLocations =
  pl_product_id :: "string option"
  pl_url :: "string list"
  pl_component_id :: "string list"
  pl_domain_id :: "string list"
  pl_timestamp :: "u64 list"

record ProductChange =
  pc_product_id :: "string option"
  pc_url :: "string option"
  pc_registration_type :: "RegistrationType option"
  pc_change_type :: "ChangeType option"
  pc_component_id :: "string option"
  pc_timestamp :: "u64 option"

record ServiceDirectoryMapPB =
  mp_service_provider :: "ProductLocations list"
  mp_data_provider :: "ProductLocations list"
  mp_change :: "ProductChange option"
  mp_domain :: "string option"

record ServiceDirectoryDomainUpdatePB =
  du_known_domains :: "string list"
  du_type :: "ChangeType option"
  du_update_domain :: "string option"

record ServiceDirectoryBroadcastPB =
  bc_id :: "string option"
  bc_domain :: string
  bc_url :: string
  bc_rate :: "u32 option"
  bc_starttime :: int

text \<open>An unset \<open>change()\<close> submessage reads as the default instance: every field unset.\<close>

definition default_ProductChange :: ProductChange where
  "default_ProductChange = \<lparr>pc_product_id = None, pc_url = None, pc_registration_type = None,
     pc_change_type = None, pc_component_id = None, pc_timestamp = None\<rparr>"

end
