(* ===== verification/ServiceDirectory.thy ===== *)
theory ServiceDirectory
  imports Std_Map Protobufs
begin

section \<open>The service directory (\<open>ServiceDirectory.cpp\<close>)\<close>

text \<open>
  The name server of a Gravity system: which publishers serve a data product and which provider
  serves a service, per domain. The record \<open>sd_state\<close> holds the members of the class; the calls
  of \<open>gn.publish\<close> that a method makes are appended to \<open>sd_published\<close> in order, with the data
  product id, the message and the filter text. A method of the class is a function on this record,
  with the statements in the order of the source, including the default entries that
  \<open>operator[]\<close> inserts when it reads a missing key.

  Decoding a request (\<open>populateMessage\<close>) and encoding a response (\<open>setData\<close>) are protobuf
  calls: they are a parameter of \<open>request\<close> (the record \<open>sd_codec\<close>), and the handlers work on the
  decoded messages.

  The abstract specification, the list \<open>listed\<close> of the registrations of a product, and the refinement
  of each request to it are in \<open>Directory_Spec\<close>.
\<close>

definition REGISTERED_PUBLISHERS_DPID :: string where
  "REGISTERED_PUBLISHERS_DPID = ''RegisteredPublishers''"

definition DOMAIN_DETAILS_DPID :: string where
  "DOMAIN_DETAILS_DPID = ''ServiceDirectory_DomainDetails''"

definition DOMAIN_UPDATE_DPID :: string where
  "DOMAIN_UPDATE_DPID = ''ServiceDirectory_DomainUpdate''"

definition DIRECTORY_SERVICE_DPID :: string where
  "DIRECTORY_SERVICE_DPID = ''DirectoryService''"

datatype sd_message = MsgDataLookup ComponentDataLookupResponsePB
  | MsgProviderMap ServiceDirectoryMapPB
  | MsgDomainUpdate ServiceDirectoryDomainUpdatePB

record sd_publication =
  pub_id :: string
  pub_message :: sd_message
  pub_filter :: string

record sd_state =
  sd_domain :: string
  dataProductMap :: "(string, (string, PublisherInfoPB list) smap) smap"
  serviceMap :: "(string, (string, string) smap) smap"
  urlToComponentMap :: "(string, string) smap"
  registrationInstanceMap :: "(string, u64) smap"
  domainMap :: "(string, string) smap"
  registeredPublishersReady :: bool
  registeredPublishersProcessed :: bool
  registerUpdatesToSend :: "string list"
  sd_published :: "sd_publication list"
  synchronizer_sent :: "string list list"

definition sd_init :: "string \<Rightarrow> sd_state" where
  "sd_init d = \<lparr>sd_domain = d, dataProductMap = [], serviceMap = [], urlToComponentMap = [],
     registrationInstanceMap = [], domainMap = [], registeredPublishersReady = False,
     registeredPublishersProcessed = False, registerUpdatesToSend = [], sd_published = [],
     synchronizer_sent = []\<rparr>"

text \<open>Assignments and insertions on one member, named so that lemmas can speak of them.\<close>

definition touch_products :: "string \<Rightarrow> sd_state \<Rightarrow> sd_state" where
  "touch_products d s = s\<lparr>dataProductMap := smap_touch d [] (dataProductMap s)\<rparr>"

definition touch_services :: "string \<Rightarrow> sd_state \<Rightarrow> sd_state" where
  "touch_services d s = s\<lparr>serviceMap := smap_touch d [] (serviceMap s)\<rparr>"

definition set_services :: "string \<Rightarrow> (string, string) smap \<Rightarrow> sd_state \<Rightarrow> sd_state" where
  "set_services d m s = s\<lparr>serviceMap := smap_put d m (serviceMap s)\<rparr>"

definition put_instance :: "string \<Rightarrow> u64 \<Rightarrow> sd_state \<Rightarrow> sd_state" where
  "put_instance u t s =
     s\<lparr>registrationInstanceMap := smap_put u t (registrationInstanceMap s)\<rparr>"

definition touch_instance :: "string \<Rightarrow> sd_state \<Rightarrow> sd_state" where
  "touch_instance u s =
     s\<lparr>registrationInstanceMap := smap_touch u 0 (registrationInstanceMap s)\<rparr>"

definition erase_instance :: "string \<Rightarrow> sd_state \<Rightarrow> sd_state" where
  "erase_instance u s =
     s\<lparr>registrationInstanceMap := smap_erase u (registrationInstanceMap s)\<rparr>"

definition instance_of :: "string \<Rightarrow> sd_state \<Rightarrow> u64" where
  "instance_of u s = smap_at 0 (registrationInstanceMap s) u"

definition put_component :: "string \<Rightarrow> string \<Rightarrow> sd_state \<Rightarrow> sd_state" where
  "put_component u c s = s\<lparr>urlToComponentMap := smap_put u c (urlToComponentMap s)\<rparr>"

definition touch_component :: "string \<Rightarrow> sd_state \<Rightarrow> sd_state" where
  "touch_component u s = s\<lparr>urlToComponentMap := smap_touch u [] (urlToComponentMap s)\<rparr>"

definition mark_ready :: "sd_state \<Rightarrow> sd_state" where
  "mark_ready s = s\<lparr>registeredPublishersReady := True\<rparr>"

definition note_update :: "string \<Rightarrow> sd_state \<Rightarrow> sd_state" where
  "note_update i s = s\<lparr>registerUpdatesToSend := sset_insert i (registerUpdatesToSend s)\<rparr>"

definition gn_publish :: "string \<Rightarrow> sd_message \<Rightarrow> string \<Rightarrow> sd_state \<Rightarrow> sd_state" where
  "gn_publish i m f s =
     s\<lparr>sd_published := sd_published s @ [\<lparr>pub_id = i, pub_message = m, pub_filter = f\<rparr>]\<rparr>"

subsection \<open>Domain names\<close>

definition isalnum_c :: "char \<Rightarrow> bool" where
  "isalnum_c c = ((CHR ''0'' \<le> c \<and> c \<le> CHR ''9'') \<or> (CHR ''A'' \<le> c \<and> c \<le> CHR ''Z'') \<or>
     (CHR ''a'' \<le> c \<and> c \<le> CHR ''z''))"

fun validateDomainName :: "string \<Rightarrow> bool" where
  "validateDomainName [] = True"
| "validateDomainName (c # cs) =
     (if \<not> isalnum_c c \<and> c \<noteq> CHR ''.'' then False else validateDomainName cs)"

text \<open>
  The loop of \<open>parseDomainCSV\<close>: \<open>rest\<close> is the string from \<open>prevPos\<close> on, and \<open>csv.find(",",\<dots>)\<close>
  splits it at its first comma.
\<close>

fun parseDomainCSV_loop :: "nat \<Rightarrow> string \<Rightarrow> string \<Rightarrow> int" where
  "parseDomainCSV_loop commaCount seg [] = int commaCount + 1"
| "parseDomainCSV_loop commaCount seg (c # cs) =
     (if c = CHR '','' then
        (if \<not> validateDomainName (rev seg) then -1
         else parseDomainCSV_loop (Suc commaCount) [] cs)
      else parseDomainCSV_loop commaCount (c # seg) cs)"

definition parseDomainCSV :: "string \<Rightarrow> int" where
  "parseDomainCSV csv = (if length csv = 0 then 0 else parseDomainCSV_loop 0 [] csv)"

subsection \<open>Looking up publishers\<close>

definition dpMap :: "sd_state \<Rightarrow> string \<Rightarrow> (string, PublisherInfoPB list) smap" where
  "dpMap s d = smap_at [] (dataProductMap s) d"

definition sMap :: "sd_state \<Rightarrow> string \<Rightarrow> (string, string) smap" where
  "sMap s d = smap_at [] (serviceMap s) d"

definition addPublishers ::
  "string \<Rightarrow> string \<Rightarrow> sd_state \<Rightarrow> sd_state \<times> ComponentDataLookupResponsePB" where
  "addPublishers dataProductID d s =
     (touch_products d s,
      \<lparr>dl_lookupID = Some dataProductID,
       dl_publishers = (if smap_has (dpMap s d) dataProductID
                        then smap_at [] (dpMap s d) dataProductID else []),
       dl_domain_id = Some d\<rparr>)"

text \<open>
  \<open>GravityDataProduct update(REGISTERED_PUBLISHERS_DPID); addPublishers(id, update, domain);
  gn.publish(update, id);\<close> when subscribers can be told, or a note to tell them later.
\<close>

definition announcePublishers :: "string \<Rightarrow> string \<Rightarrow> sd_state \<Rightarrow> sd_state" where
  "announcePublishers dataProductID d s =
     (if registeredPublishersReady s then
        (let (s1, r) = addPublishers dataProductID d s
         in gn_publish REGISTERED_PUBLISHERS_DPID (MsgDataLookup r) dataProductID s1)
      else note_update dataProductID s)"

subsection \<open>Publishing the provider map\<close>

definition url_of :: "PublisherInfoPB \<Rightarrow> string" where
  "url_of p = field '''' (pi_url p)"

text \<open>Reading \<open>urlToComponentMap[u]\<close> and \<open>registrationInstanceMap[u]\<close> inserts a default.\<close>

definition touchUrl :: "string \<Rightarrow> sd_state \<Rightarrow> sd_state" where
  "touchUrl u s = touch_instance u (touch_component u s)"

definition serviceLocations :: "sd_state \<Rightarrow> string \<Rightarrow> ProductLocations list" where
  "serviceLocations s d = map (\<lambda>(i, u).
     \<lparr>pl_product_id = Some i, pl_url = [u],
      pl_component_id = [smap_at '''' (urlToComponentMap s) u], pl_domain_id = [d],
      pl_timestamp = [instance_of u s]\<rparr>) (sMap s d)"

definition dataLocations :: "sd_state \<Rightarrow> string \<Rightarrow> ProductLocations list" where
  "dataLocations s d = map (\<lambda>(i, ps).
     \<lparr>pl_product_id = Some i, pl_url = map url_of ps,
      pl_component_id = map (\<lambda>p. smap_at '''' (urlToComponentMap s) (url_of p)) ps,
      pl_domain_id = [d],
      pl_timestamp = map (\<lambda>p. instance_of (url_of p) s) ps\<rparr>) (dpMap s d)"

definition serviceUrls :: "sd_state \<Rightarrow> string \<Rightarrow> string list" where
  "serviceUrls s d = map snd (sMap s d)"

definition dataUrls :: "sd_state \<Rightarrow> string \<Rightarrow> string list" where
  "dataUrls s d = concat (map (\<lambda>(i, ps). map url_of ps) (dpMap s d))"

definition updateProductLocations ::
  "string \<Rightarrow> string \<Rightarrow> u64 \<Rightarrow> ChangeType \<Rightarrow> RegistrationType \<Rightarrow> sd_state \<Rightarrow> sd_state" where
  "updateProductLocations productID url timestamp changeType registrationType s =
     (let d = sd_domain s;
          s1 = fold touchUrl (serviceUrls s d)
                 (touch_services d s);
          s2 = fold touchUrl (dataUrls s1 d)
                 (touch_products d s1);
          s3 = touch_component url s2;
          change = \<lparr>pc_product_id = Some productID, pc_url = Some url,
             pc_registration_type = Some registrationType, pc_change_type = Some changeType,
             pc_component_id = Some (smap_at '''' (urlToComponentMap s3) url),
             pc_timestamp = Some timestamp\<rparr>;
          providerMap = \<lparr>mp_service_provider = serviceLocations s d,
             mp_data_provider = dataLocations s1 d, mp_change = Some change, mp_domain = Some d\<rparr>
      in gn_publish DOMAIN_DETAILS_DPID (MsgProviderMap providerMap) '''' s3)"

subsection \<open>Removing registrations that a new one at the same URL replaces\<close>

definition set_products :: "string \<Rightarrow> string \<Rightarrow> PublisherInfoPB list \<Rightarrow> sd_state \<Rightarrow> sd_state" where
  "set_products d i ps s =
     s\<lparr>dataProductMap := smap_put d (smap_put i ps (dpMap s d)) (dataProductMap s)\<rparr>"

definition erase_product :: "string \<Rightarrow> string \<Rightarrow> sd_state \<Rightarrow> sd_state" where
  "erase_product d i s =
     s\<lparr>dataProductMap := smap_put d (smap_erase i (dpMap s d)) (dataProductMap s)\<rparr>"

definition products :: "sd_state \<Rightarrow> string \<Rightarrow> string \<Rightarrow> PublisherInfoPB list" where
  "products s d i = smap_at [] (dpMap s d) i"

text \<open>One round of the \<open>while\<close> loop, at the data product \<open>k\<close>.\<close>

definition purge_step :: "string \<Rightarrow> string \<Rightarrow> string \<Rightarrow> sd_state \<Rightarrow> sd_state" where
  "purge_step dataProductID url k s =
     (let d = sd_domain s;
          s1 = (if k \<noteq> dataProductID then
                  (case find (\<lambda>p. url_of p = url) (products s d k) of
                     None \<Rightarrow> s
                   | Some _ \<Rightarrow>
                       (let a = set_products d k
                                  (remove_first (\<lambda>p. url_of p = url) (products s d k)) s;
                            b = announcePublishers k d a;
                            c = touch_instance url b;
                            e = updateProductLocations k url (instance_of url c) REMOVE DATA c
                        in erase_instance url e))
                else s)
      in if products s1 d k = [] then erase_product d k s1 else s1)"

definition purgeObsoletePublishers :: "string \<Rightarrow> string \<Rightarrow> sd_state \<Rightarrow> sd_state" where
  "purgeObsoletePublishers dataProductID url s =
     (let d = sd_domain s;
          s0 = touch_products d s
      in fold (purge_step dataProductID url) (smap_keys (dpMap s0 d)) s0)"

subsection \<open>Registration\<close>

text \<open>A registration without a timestamp, or older than the one known for its URL, is ignored.\<close>

definition registration_accepted :: "ServiceDirectoryRegistrationPB \<Rightarrow> sd_state \<Rightarrow> bool" where
  "registration_accepted reg s =
     (case rg_timestamp reg of
        None \<Rightarrow> False
      | Some t \<Rightarrow> (case map_of (registrationInstanceMap s) (field '''' (rg_url reg)) of
                     None \<Rightarrow> True
                   | Some old \<Rightarrow> \<not> t < old))"

definition new_info :: "ServiceDirectoryRegistrationPB \<Rightarrow> u32 \<Rightarrow> PublisherInfoPB" where
  "new_info reg regTimeSecs =
     \<lparr>pi_url = Some (field '''' (rg_url reg)), pi_isRelay = rg_is_relay reg,
      pi_componentID = rg_component_id reg, pi_ipAddress = rg_ip_address reg,
      pi_registration_time = Some regTimeSecs\<rparr>"

definition set_if :: "'a option \<Rightarrow> 'a option \<Rightarrow> 'a option" where
  "set_if new old = (case new of None \<Rightarrow> old | Some v \<Rightarrow> Some v)"

definition refresh_info ::
  "ServiceDirectoryRegistrationPB \<Rightarrow> u32 \<Rightarrow> PublisherInfoPB \<Rightarrow> PublisherInfoPB" where
  "refresh_info reg regTimeSecs p =
     p\<lparr>pi_isRelay := set_if (rg_is_relay reg) (pi_isRelay p),
       pi_componentID := set_if (rg_component_id reg) (pi_componentID p),
       pi_ipAddress := set_if (rg_ip_address reg) (pi_ipAddress p),
       pi_registration_time := Some regTimeSecs\<rparr>"

text \<open>
  The publisher list of the product after the search for the registered URL: a new entry at the
  end, or the entry found brought up to date.
\<close>

definition upsert_info ::
  "ServiceDirectoryRegistrationPB \<Rightarrow> u32 \<Rightarrow> PublisherInfoPB list \<Rightarrow> PublisherInfoPB list" where
  "upsert_info reg regTimeSecs urls =
     (case find (\<lambda>p. url_of p = field '''' (rg_url reg)) urls of
        None \<Rightarrow> urls @ [new_info reg regTimeSecs]
      | Some _ \<Rightarrow> map_first (\<lambda>p. url_of p = field '''' (rg_url reg))
                    (refresh_info reg regTimeSecs) urls)"

definition registration_changes ::
  "ServiceDirectoryRegistrationPB \<Rightarrow> u32 \<Rightarrow> PublisherInfoPB list \<Rightarrow> bool" where
  "registration_changes reg regTimeSecs urls =
     (case find (\<lambda>p. url_of p = field '''' (rg_url reg)) urls of
        None \<Rightarrow> True
      | Some p \<Rightarrow> field 0 (pi_registration_time p) \<noteq> regTimeSecs)"

text \<open>
  The \<open>DATA\<close> branch in three parts: the search for the URL (which creates the product's list when
  it is new) and the new timestamp; the new or refreshed entry and its announcement; the rest.
\<close>

definition open_registration :: "ServiceDirectoryRegistrationPB \<Rightarrow> string \<Rightarrow> sd_state \<Rightarrow> sd_state" where
  "open_registration reg d s =
     (let i = field '''' (rg_id reg);
          s1 = touch_products d s;
          s2 = (if i = REGISTERED_PUBLISHERS_DPID then mark_ready s1 else s1);
          s3 = set_products d i (products s2 d i) s2
      in put_instance (field '''' (rg_url reg)) (field 0 (rg_timestamp reg)) s3)"

definition store_info :: "ServiceDirectoryRegistrationPB \<Rightarrow> string \<Rightarrow> sd_state \<Rightarrow> sd_state" where
  "store_info reg d s =
     (let i = field '''' (rg_id reg);
          regTimeSecs = secs (field 0 (rg_timestamp reg));
          s1 = set_products d i (upsert_info reg regTimeSecs (products s d i)) s;
          s2 = put_component (field '''' (rg_url reg)) (field '''' (rg_component_id reg)) s1
      in announcePublishers i d s2)"

definition register_data :: "ServiceDirectoryRegistrationPB \<Rightarrow> string \<Rightarrow> sd_state \<Rightarrow> sd_state" where
  "register_data reg d s =
     (let i = field '''' (rg_id reg);
          u = field '''' (rg_url reg);
          t = field 0 (rg_timestamp reg);
          s1 = open_registration reg d s
      in if registration_changes reg (secs t) (products s1 d i)
         then (let s2 = store_info reg d s1;
                   s3 = purgeObsoletePublishers i u s2
               in if d = sd_domain s3 \<and> i \<noteq> REGISTERED_PUBLISHERS_DPID
                  then updateProductLocations i u t ADD DATA s3 else s3)
         else (if d = sd_domain s1 then updateProductLocations i u t ADD DATA s1 else s1))"

definition register_service :: "ServiceDirectoryRegistrationPB \<Rightarrow> string \<Rightarrow> sd_state \<Rightarrow> sd_state" where
  "register_service reg d s =
     (let i = field '''' (rg_id reg);
          u = field '''' (rg_url reg);
          t = field 0 (rg_timestamp reg);
          s1 = set_services d (smap_put i u (sMap s d)) s;
          s2 = put_component u (field '''' (rg_component_id reg)) s1;
          s3 = purgeObsoletePublishers i u s2;
          s4 = put_instance u t s3
      in if d = sd_domain s4 then updateProductLocations i u t ADD SERVICE s4 else s4)"

definition handleRegister ::
  "ServiceDirectoryRegistrationPB \<Rightarrow> sd_state \<Rightarrow> sd_state \<times> ServiceDirectoryResponsePB" where
  "handleRegister reg s =
     (let d = (case rg_domain reg of None \<Rightarrow> sd_domain s | Some x \<Rightarrow> x);
          s1 = (if registration_accepted reg s then
                  (if field DATA (rg_type reg) = DATA then register_data reg d s
                   else register_service reg d s)
                else s)
      in (s1, \<lparr>sr_id = field '''' (rg_id reg), sr_returnCode = Some SD_SUCCESS\<rparr>))"

subsection \<open>Unregistration\<close>

definition is_unregistered :: "ServiceDirectoryUnregistrationPB \<Rightarrow> PublisherInfoPB \<Rightarrow> bool" where
  "is_unregistered ur p =
     (url_of p = ur_url ur \<and>
      field 0 (pi_registration_time p) = field 0 (ur_registration_time ur))"

definition unregister_data ::
  "ServiceDirectoryUnregistrationPB \<Rightarrow> string \<Rightarrow> sd_state \<Rightarrow> sd_state \<times> bool" where
  "unregister_data ur d s =
     (let i = ur_id ur;
          u = ur_url ur;
          s1 = set_products d i (products s d i) s;
          infoPBs = products s1 d i
      in case find (is_unregistered ur) infoPBs of
           None \<Rightarrow> (s1, False)
         | Some _ \<Rightarrow>
             (let s2 = set_products d i (remove_first (is_unregistered ur) infoPBs) s1;
                  s3 = (if products s2 d i = [] then erase_product d i s2 else s2);
                  s4 = announcePublishers i d s3;
                  s5 = (if d = sd_domain s4
                        then (let a = touch_instance u s4
                              in updateProductLocations i u (instance_of u a) REMOVE DATA a)
                        else s4)
              in (erase_instance u s5, True)))"

definition unregister_service ::
  "ServiceDirectoryUnregistrationPB \<Rightarrow> string \<Rightarrow> sd_state \<Rightarrow> sd_state \<times> bool" where
  "unregister_service ur d s =
     (let i = ur_id ur;
          u = ur_url ur;
          s1 = touch_services d s
      in if smap_has (sMap s1 d) i \<and> smap_has (registrationInstanceMap s1) u \<and>
            secs (instance_of u s1) = field 0 (ur_registration_time ur)
         then (let s2 = set_services d (smap_erase i (sMap s1 d)) s1;
                   s3 = (if d = sd_domain s2
                         then updateProductLocations i u (instance_of u s2) REMOVE SERVICE s2
                         else s2)
               in (erase_instance u s3, True))
         else (s1, False))"

definition handleUnregister ::
  "ServiceDirectoryUnregistrationPB \<Rightarrow> sd_state \<Rightarrow> sd_state \<times> ServiceDirectoryResponsePB" where
  "handleUnregister ur s =
     (let d = (case ur_domain ur of None \<Rightarrow> sd_domain s | Some x \<Rightarrow> x);
          (s1, foundUrl) = (if field DATA (ur_type ur) = DATA then unregister_data ur d s
                            else unregister_service ur d s)
      in (s1, \<lparr>sr_id = ur_id ur,
               sr_returnCode = Some (if foundUrl then SD_SUCCESS else SD_NOT_REGISTERED)\<rparr>))"

subsection \<open>Lookup\<close>

datatype sd_response = RespDataLookup ComponentDataLookupResponsePB
  | RespServiceLookup ComponentServiceLookupResponsePB
  | RespDirectory ServiceDirectoryResponsePB
  | RespProviderMap ServiceDirectoryMapPB
  | RespBytes string
  | RespEmpty

definition lookup_domain :: "ComponentLookupRequestPB \<Rightarrow> sd_state \<Rightarrow> string" where
  "lookup_domain lk s =
     (case lk_domain_id lk of
        None \<Rightarrow> sd_domain s
      | Some d \<Rightarrow> (if d = [] then sd_domain s else d))"

definition handleLookup :: "ComponentLookupRequestPB \<Rightarrow> sd_state \<Rightarrow> sd_state \<times> sd_response" where
  "handleLookup lk s =
     (let d = lookup_domain lk s; i = lk_lookupID lk
      in if field DATA (lk_type lk) = DATA
         then (let (s1, r) = addPublishers i d s in (s1, RespDataLookup r))
         else if smap_has (serviceMap s) d \<and> smap_has (sMap s d) i
         then (let u = smap_at '''' (sMap s d) i;
                   s1 = touch_instance u s
               in (s1, RespServiceLookup
                     \<lparr>sl_lookupID = i, sl_url = u, sl_domain_id = Some d,
                      sl_registration_time =
                        Some (secs (instance_of u s))\<rparr>))
         else (s, RespServiceLookup
                 \<lparr>sl_lookupID = i, sl_url = '''', sl_domain_id = Some d,
                  sl_registration_time = None\<rparr>))"

subsection \<open>Requests\<close>

datatype sd_request = ComponentLookupRequest ComponentLookupRequestPB
  | RegistrationRequest ServiceDirectoryRegistrationPB
  | UnregistrationRequest ServiceDirectoryUnregistrationPB
  | GetDomain
  | UnknownRequest string

record sd_codec =
  parse_lookup :: "string \<Rightarrow> ComponentLookupRequestPB"
  parse_registration :: "string \<Rightarrow> ServiceDirectoryRegistrationPB"
  parse_unregistration :: "string \<Rightarrow> ServiceDirectoryUnregistrationPB"

text \<open>
  The dispatch of \<open>request(const GravityDataProduct&)\<close> on the data product id, with the
  \<open>populateMessage\<close> at the start of each handler.
\<close>

definition classify :: "sd_codec \<Rightarrow> string \<Rightarrow> string \<Rightarrow> sd_request" where
  "classify c requestType bytes =
     (if requestType = ''ComponentLookupRequest'' then ComponentLookupRequest (parse_lookup c bytes)
      else if requestType = ''RegistrationRequest'' then
        RegistrationRequest (parse_registration c bytes)
      else if requestType = ''UnregistrationRequest'' then
        UnregistrationRequest (parse_unregistration c bytes)
      else if requestType = ''GetDomain'' then GetDomain
      else UnknownRequest requestType)"

fun handle_request :: "sd_request \<Rightarrow> sd_state \<Rightarrow> sd_state \<times> sd_response" where
  "handle_request (ComponentLookupRequest lk) s = handleLookup lk s"
| "handle_request (RegistrationRequest reg) s =
     (let (s1, r) = handleRegister reg s in (s1, RespDirectory r))"
| "handle_request (UnregistrationRequest ur) s =
     (let (s1, r) = handleUnregister ur s in (s1, RespDirectory r))"
| "handle_request GetDomain s = (s, RespBytes (sd_domain s))"
| "handle_request (UnknownRequest _) s = (s, RespEmpty)"

definition request :: "sd_codec \<Rightarrow> string \<Rightarrow> string \<Rightarrow> sd_state \<Rightarrow> sd_state \<times> sd_response" where
  "request c requestType bytes s = handle_request (classify c requestType bytes) s"

text \<open>The service request of other components: the whole provider map, all domains.\<close>

definition getProviders :: "sd_state \<Rightarrow> sd_state \<times> ServiceDirectoryMapPB" where
  "getProviders s =
     (let s1 = fold touchUrl (concat (map (serviceUrls s) (smap_keys (serviceMap s)))) s;
          s2 = fold touchUrl (concat (map (dataUrls s1) (smap_keys (dataProductMap s1)))) s1
      in (s2, \<lparr>mp_service_provider =
                 concat (map (serviceLocations s) (smap_keys (serviceMap s))),
               mp_data_provider =
                 concat (map (dataLocations s1) (smap_keys (dataProductMap s1))),
               mp_change = None, mp_domain = Some (sd_domain s)\<rparr>))"

definition request_service :: "string \<Rightarrow> string \<Rightarrow> sd_state \<Rightarrow> sd_state \<times> sd_response" where
  "request_service serviceID requestType s =
     (if serviceID = DIRECTORY_SERVICE_DPID then
        (if requestType = ''GetProviders'' then
           (let (s1, m) = getProviders s in (s1, RespProviderMap m))
         else if requestType = ''GetDomain'' then (s, RespBytes (sd_domain s))
         else (s, RespEmpty))
      else (s, RespEmpty))"

subsection \<open>The main loop\<close>

definition publishDomainUpdateMessage :: "string \<Rightarrow> ChangeType \<Rightarrow> sd_state \<Rightarrow> sd_state" where
  "publishDomainUpdateMessage updateDomain ty s =
     gn_publish DOMAIN_UPDATE_DPID
       (MsgDomainUpdate \<lparr>du_known_domains = smap_keys (domainMap s), du_type = Some ty,
          du_update_domain = Some updateDomain\<rparr>) '''' s"

definition flush_one :: "string \<Rightarrow> sd_state \<Rightarrow> sd_state" where
  "flush_one i s =
     (let (s1, r) = addPublishers i (sd_domain s) s
      in gn_publish REGISTERED_PUBLISHERS_DPID (MsgDataLookup r) i s1)"

definition flush_pending :: "sd_state \<Rightarrow> sd_state" where
  "flush_pending s =
     (if \<not> registeredPublishersProcessed s \<and> registeredPublishersReady s
      then (fold flush_one (registerUpdatesToSend s) s)\<lparr>registerUpdatesToSend := [],
             registeredPublishersProcessed := True\<rparr>
      else s)"

text \<open>What the loop does with a message on the request socket: serve it, then flush.\<close>

definition serve_request :: "sd_request \<Rightarrow> sd_state \<Rightarrow> sd_state \<times> sd_response" where
  "serve_request rq s = (let (s1, r) = handle_request rq s in (flush_pending s1, r))"

definition send_synchronizer :: "string list \<Rightarrow> sd_state \<Rightarrow> sd_state" where
  "send_synchronizer msg s = s\<lparr>synchronizer_sent := synchronizer_sent s @ [msg]\<rparr>"

text \<open>
  What the loop does with a command of the UDP receiver. The list holds the message parts; a
  command with the wrong number of parts is not sent by the receiver and is ignored here.
\<close>

fun domain_command :: "string list \<Rightarrow> sd_state \<Rightarrow> sd_state" where
  "domain_command [command, d, url] s =
     (if command = ''Add'' then
        send_synchronizer [''Add'', d, url]
          (publishDomainUpdateMessage d ADD (s\<lparr>domainMap := smap_put d url (domainMap s)\<rparr>))
      else if command = ''Update'' then
        send_synchronizer [''Update'', d, url] (s\<lparr>domainMap := smap_put d url (domainMap s)\<rparr>)
      else s)"
| "domain_command [command, d] s =
     (if command = ''Remove'' then
        send_synchronizer [''Remove'', d]
          (publishDomainUpdateMessage d REMOVE (s\<lparr>domainMap := smap_erase d (domainMap s)\<rparr>))
      else s)"
| "domain_command _ s = s"

datatype sd_event = ESRequest sd_request | ESService string string | ESDomain "string list"

fun sd_step :: "sd_state \<Rightarrow> sd_event \<Rightarrow> sd_state" where
  "sd_step s (ESRequest rq) = fst (serve_request rq s)"
| "sd_step s (ESService serviceID requestType) = fst (request_service serviceID requestType s)"
| "sd_step s (ESDomain parts) = domain_command parts s"

end
