(* ===== verification/Directory_Correct.thy ===== *)
theory Directory_Correct
  imports ServiceDirectory
begin

section \<open>Correctness of the service directory\<close>

text \<open>
  Frame lemmas say what each method leaves alone, the invariant \<open>sd_wf\<close> says that every map is
  ordered and that no publisher URL is listed twice for a product, and the refinement lemmas give
  the publisher lists after each request in terms of the lists before it.
\<close>

lemmas sd_defs = dpMap_def sMap_def products_def instance_of_def

lemmas member_defs = touch_products_def touch_services_def set_services_def put_instance_def
  touch_instance_def erase_instance_def put_component_def touch_component_def mark_ready_def
  note_update_def gn_publish_def set_products_def erase_product_def

definition sd_wf :: "sd_state \<Rightarrow> bool" where
  "sd_wf s \<longleftrightarrow> smap_wf (dataProductMap s) \<and> (\<forall>d. smap_wf (dpMap s d)) \<and>
     smap_wf (serviceMap s) \<and> (\<forall>d. smap_wf (sMap s d)) \<and>
     smap_wf (urlToComponentMap s) \<and> smap_wf (registrationInstanceMap s) \<and>
     smap_wf (domainMap s) \<and> sorted_wrt (<) (registerUpdatesToSend s) \<and>
     (\<forall>d i. distinct (map url_of (products s d i)))"

subsection \<open>Frames\<close>

lemma touch_products_frame [simp]:
  "sd_domain (touch_products e s) = sd_domain s"
  "dpMap (touch_products e s) d' = dpMap s d'"
  "products (touch_products e s) d' j = products s d' j"
  "sMap (touch_products e s) d' = sMap s d'"
  "domainMap (touch_products e s) = domainMap s"
  "registeredPublishersReady (touch_products e s) = registeredPublishersReady s"
  "registeredPublishersProcessed (touch_products e s) = registeredPublishersProcessed s"
  "synchronizer_sent (touch_products e s) = synchronizer_sent s"
  "registerUpdatesToSend (touch_products e s) = registerUpdatesToSend s"
  "registrationInstanceMap (touch_products e s) = registrationInstanceMap s"
  "instance_of v (touch_products e s) = instance_of v s"
  "urlToComponentMap (touch_products e s) = urlToComponentMap s"
  "sd_published (touch_products e s) = sd_published s"
  "sd_wf s \<Longrightarrow> sd_wf (touch_products e s)"
  by (simp_all add: member_defs sd_defs sd_wf_def)

lemma touch_services_frame [simp]:
  "sd_domain (touch_services e s) = sd_domain s"
  "dpMap (touch_services e s) d' = dpMap s d'"
  "products (touch_services e s) d' j = products s d' j"
  "sMap (touch_services e s) d' = sMap s d'"
  "domainMap (touch_services e s) = domainMap s"
  "registeredPublishersReady (touch_services e s) = registeredPublishersReady s"
  "registeredPublishersProcessed (touch_services e s) = registeredPublishersProcessed s"
  "synchronizer_sent (touch_services e s) = synchronizer_sent s"
  "registerUpdatesToSend (touch_services e s) = registerUpdatesToSend s"
  "registrationInstanceMap (touch_services e s) = registrationInstanceMap s"
  "instance_of v (touch_services e s) = instance_of v s"
  "urlToComponentMap (touch_services e s) = urlToComponentMap s"
  "sd_published (touch_services e s) = sd_published s"
  "sd_wf s \<Longrightarrow> sd_wf (touch_services e s)"
  by (simp_all add: member_defs sd_defs sd_wf_def)

lemma set_services_frame [simp]:
  "sd_domain (set_services e m s) = sd_domain s"
  "dpMap (set_services e m s) d' = dpMap s d'"
  "products (set_services e m s) d' j = products s d' j"
  "domainMap (set_services e m s) = domainMap s"
  "registeredPublishersReady (set_services e m s) = registeredPublishersReady s"
  "registeredPublishersProcessed (set_services e m s) = registeredPublishersProcessed s"
  "synchronizer_sent (set_services e m s) = synchronizer_sent s"
  "registerUpdatesToSend (set_services e m s) = registerUpdatesToSend s"
  "registrationInstanceMap (set_services e m s) = registrationInstanceMap s"
  "instance_of v (set_services e m s) = instance_of v s"
  "urlToComponentMap (set_services e m s) = urlToComponentMap s"
  "sd_published (set_services e m s) = sd_published s"
  "sMap (set_services e m s) d' = (if d' = e then m else sMap s d')"
  "sd_wf s \<Longrightarrow> smap_wf m \<Longrightarrow> sd_wf (set_services e m s)"
  by (simp_all add: member_defs sd_defs sd_wf_def)

lemma put_instance_frame [simp]:
  "sd_domain (put_instance u t s) = sd_domain s"
  "dpMap (put_instance u t s) d' = dpMap s d'"
  "products (put_instance u t s) d' j = products s d' j"
  "sMap (put_instance u t s) d' = sMap s d'"
  "domainMap (put_instance u t s) = domainMap s"
  "registeredPublishersReady (put_instance u t s) = registeredPublishersReady s"
  "registeredPublishersProcessed (put_instance u t s) = registeredPublishersProcessed s"
  "synchronizer_sent (put_instance u t s) = synchronizer_sent s"
  "registerUpdatesToSend (put_instance u t s) = registerUpdatesToSend s"
  "urlToComponentMap (put_instance u t s) = urlToComponentMap s"
  "sd_published (put_instance u t s) = sd_published s"
  "sd_wf s \<Longrightarrow> sd_wf (put_instance u t s)"
  "map_of (registrationInstanceMap (put_instance u t s)) v =
     (if v = u then Some t else map_of (registrationInstanceMap s) v)"
  "instance_of v (put_instance u t s) = (if v = u then t else instance_of v s)"
  by (simp_all add: member_defs sd_defs sd_wf_def)

lemma touch_instance_frame [simp]:
  "sd_domain (touch_instance u s) = sd_domain s"
  "dpMap (touch_instance u s) d' = dpMap s d'"
  "products (touch_instance u s) d' j = products s d' j"
  "sMap (touch_instance u s) d' = sMap s d'"
  "domainMap (touch_instance u s) = domainMap s"
  "registeredPublishersReady (touch_instance u s) = registeredPublishersReady s"
  "registeredPublishersProcessed (touch_instance u s) = registeredPublishersProcessed s"
  "synchronizer_sent (touch_instance u s) = synchronizer_sent s"
  "registerUpdatesToSend (touch_instance u s) = registerUpdatesToSend s"
  "instance_of v (touch_instance u s) = instance_of v s"
  "urlToComponentMap (touch_instance u s) = urlToComponentMap s"
  "sd_published (touch_instance u s) = sd_published s"
  "sd_wf s \<Longrightarrow> sd_wf (touch_instance u s)"
  "map_of (registrationInstanceMap (touch_instance u s)) v =
     (if v = u then Some (instance_of u s) else map_of (registrationInstanceMap s) v)"
  by (simp_all add: member_defs sd_defs sd_wf_def map_of_smap_touch)

lemma erase_instance_frame [simp]:
  "sd_domain (erase_instance u s) = sd_domain s"
  "dpMap (erase_instance u s) d' = dpMap s d'"
  "products (erase_instance u s) d' j = products s d' j"
  "sMap (erase_instance u s) d' = sMap s d'"
  "domainMap (erase_instance u s) = domainMap s"
  "registeredPublishersReady (erase_instance u s) = registeredPublishersReady s"
  "registeredPublishersProcessed (erase_instance u s) = registeredPublishersProcessed s"
  "synchronizer_sent (erase_instance u s) = synchronizer_sent s"
  "registerUpdatesToSend (erase_instance u s) = registerUpdatesToSend s"
  "urlToComponentMap (erase_instance u s) = urlToComponentMap s"
  "sd_published (erase_instance u s) = sd_published s"
  "sd_wf s \<Longrightarrow> sd_wf (erase_instance u s)"
  "map_of (registrationInstanceMap (erase_instance u s)) v =
     (if v = u then None else map_of (registrationInstanceMap s) v)"
  "instance_of v (erase_instance u s) = (if v = u then 0 else instance_of v s)"
  by (simp_all add: member_defs sd_defs sd_wf_def)

lemma put_component_frame [simp]:
  "sd_domain (put_component u c s) = sd_domain s"
  "dpMap (put_component u c s) d' = dpMap s d'"
  "products (put_component u c s) d' j = products s d' j"
  "sMap (put_component u c s) d' = sMap s d'"
  "domainMap (put_component u c s) = domainMap s"
  "registeredPublishersReady (put_component u c s) = registeredPublishersReady s"
  "registeredPublishersProcessed (put_component u c s) = registeredPublishersProcessed s"
  "synchronizer_sent (put_component u c s) = synchronizer_sent s"
  "registerUpdatesToSend (put_component u c s) = registerUpdatesToSend s"
  "registrationInstanceMap (put_component u c s) = registrationInstanceMap s"
  "instance_of v (put_component u c s) = instance_of v s"
  "sd_published (put_component u c s) = sd_published s"
  "sd_wf s \<Longrightarrow> sd_wf (put_component u c s)"
  by (simp_all add: member_defs sd_defs sd_wf_def)

lemma touch_component_frame [simp]:
  "sd_domain (touch_component u s) = sd_domain s"
  "dpMap (touch_component u s) d' = dpMap s d'"
  "products (touch_component u s) d' j = products s d' j"
  "sMap (touch_component u s) d' = sMap s d'"
  "domainMap (touch_component u s) = domainMap s"
  "registeredPublishersReady (touch_component u s) = registeredPublishersReady s"
  "registeredPublishersProcessed (touch_component u s) = registeredPublishersProcessed s"
  "synchronizer_sent (touch_component u s) = synchronizer_sent s"
  "registerUpdatesToSend (touch_component u s) = registerUpdatesToSend s"
  "registrationInstanceMap (touch_component u s) = registrationInstanceMap s"
  "instance_of v (touch_component u s) = instance_of v s"
  "sd_published (touch_component u s) = sd_published s"
  "sd_wf s \<Longrightarrow> sd_wf (touch_component u s)"
  "smap_at [] (urlToComponentMap (touch_component u s)) v = smap_at [] (urlToComponentMap s) v"
  by (simp_all add: member_defs sd_defs sd_wf_def)

lemma mark_ready_frame [simp]:
  "sd_domain (mark_ready s) = sd_domain s"
  "dpMap (mark_ready s) d' = dpMap s d'"
  "products (mark_ready s) d' j = products s d' j"
  "sMap (mark_ready s) d' = sMap s d'"
  "domainMap (mark_ready s) = domainMap s"
  "registeredPublishersProcessed (mark_ready s) = registeredPublishersProcessed s"
  "synchronizer_sent (mark_ready s) = synchronizer_sent s"
  "registerUpdatesToSend (mark_ready s) = registerUpdatesToSend s"
  "registrationInstanceMap (mark_ready s) = registrationInstanceMap s"
  "instance_of v (mark_ready s) = instance_of v s"
  "urlToComponentMap (mark_ready s) = urlToComponentMap s"
  "sd_published (mark_ready s) = sd_published s"
  "sd_wf s \<Longrightarrow> sd_wf (mark_ready s)"
  "registeredPublishersReady (mark_ready s)"
  by (simp_all add: member_defs sd_defs sd_wf_def)

lemma note_update_frame [simp]:
  "sd_domain (note_update i s) = sd_domain s"
  "dpMap (note_update i s) d' = dpMap s d'"
  "products (note_update i s) d' j = products s d' j"
  "sMap (note_update i s) d' = sMap s d'"
  "domainMap (note_update i s) = domainMap s"
  "registeredPublishersReady (note_update i s) = registeredPublishersReady s"
  "registeredPublishersProcessed (note_update i s) = registeredPublishersProcessed s"
  "synchronizer_sent (note_update i s) = synchronizer_sent s"
  "registrationInstanceMap (note_update i s) = registrationInstanceMap s"
  "instance_of v (note_update i s) = instance_of v s"
  "urlToComponentMap (note_update i s) = urlToComponentMap s"
  "sd_wf s \<Longrightarrow> sd_wf (note_update i s)"
  "sd_published (note_update i s) = sd_published s"
  "registerUpdatesToSend (note_update i s) = sset_insert i (registerUpdatesToSend s)"
  by (simp_all add: member_defs sd_defs sd_wf_def)

lemma gn_publish_frame [simp]:
  "sd_domain (gn_publish i m f s) = sd_domain s"
  "dpMap (gn_publish i m f s) d' = dpMap s d'"
  "products (gn_publish i m f s) d' j = products s d' j"
  "sMap (gn_publish i m f s) d' = sMap s d'"
  "domainMap (gn_publish i m f s) = domainMap s"
  "registeredPublishersReady (gn_publish i m f s) = registeredPublishersReady s"
  "registeredPublishersProcessed (gn_publish i m f s) = registeredPublishersProcessed s"
  "synchronizer_sent (gn_publish i m f s) = synchronizer_sent s"
  "registerUpdatesToSend (gn_publish i m f s) = registerUpdatesToSend s"
  "registrationInstanceMap (gn_publish i m f s) = registrationInstanceMap s"
  "instance_of v (gn_publish i m f s) = instance_of v s"
  "urlToComponentMap (gn_publish i m f s) = urlToComponentMap s"
  "sd_wf s \<Longrightarrow> sd_wf (gn_publish i m f s)"
  "sd_published (gn_publish i m f s) =
     sd_published s @ [\<lparr>pub_id = i, pub_message = m, pub_filter = f\<rparr>]"
  by (simp_all add: member_defs sd_defs sd_wf_def)

lemma set_products_frame [simp]:
  "sd_domain (set_products e i ps s) = sd_domain s"
  "sMap (set_products e i ps s) d' = sMap s d'"
  "domainMap (set_products e i ps s) = domainMap s"
  "registeredPublishersReady (set_products e i ps s) = registeredPublishersReady s"
  "registeredPublishersProcessed (set_products e i ps s) = registeredPublishersProcessed s"
  "synchronizer_sent (set_products e i ps s) = synchronizer_sent s"
  "registerUpdatesToSend (set_products e i ps s) = registerUpdatesToSend s"
  "registrationInstanceMap (set_products e i ps s) = registrationInstanceMap s"
  "instance_of v (set_products e i ps s) = instance_of v s"
  "urlToComponentMap (set_products e i ps s) = urlToComponentMap s"
  "sd_published (set_products e i ps s) = sd_published s"
  "dpMap (set_products e i ps s) d' = (if d' = e then smap_put i ps (dpMap s e) else dpMap s d')"
  "products (set_products e i ps s) d' j = (if d' = e \<and> j = i then ps else products s d' j)"
  "sd_wf s \<Longrightarrow> distinct (map url_of ps) \<Longrightarrow> sd_wf (set_products e i ps s)"
  by (simp_all add: member_defs sd_defs sd_wf_def)

lemma erase_product_frame [simp]:
  "sd_domain (erase_product e i s) = sd_domain s"
  "sMap (erase_product e i s) d' = sMap s d'"
  "domainMap (erase_product e i s) = domainMap s"
  "registeredPublishersReady (erase_product e i s) = registeredPublishersReady s"
  "registeredPublishersProcessed (erase_product e i s) = registeredPublishersProcessed s"
  "synchronizer_sent (erase_product e i s) = synchronizer_sent s"
  "registerUpdatesToSend (erase_product e i s) = registerUpdatesToSend s"
  "registrationInstanceMap (erase_product e i s) = registrationInstanceMap s"
  "instance_of v (erase_product e i s) = instance_of v s"
  "urlToComponentMap (erase_product e i s) = urlToComponentMap s"
  "sd_published (erase_product e i s) = sd_published s"
  "sd_wf s \<Longrightarrow> sd_wf (erase_product e i s)"
  "dpMap (erase_product e i s) d' = (if d' = e then smap_erase i (dpMap s e) else dpMap s d')"
  "products (erase_product e i s) d' j = (if d' = e \<and> j = i then [] else products s d' j)"
  by (simp_all add: member_defs sd_defs sd_wf_def)

lemma touchUrls_frame [simp]:
  "sd_domain (fold touchUrl us s) = sd_domain s"
  "dpMap (fold touchUrl us s) d' = dpMap s d'"
  "products (fold touchUrl us s) d' j = products s d' j"
  "sMap (fold touchUrl us s) d' = sMap s d'"
  "domainMap (fold touchUrl us s) = domainMap s"
  "registeredPublishersReady (fold touchUrl us s) = registeredPublishersReady s"
  "registeredPublishersProcessed (fold touchUrl us s) = registeredPublishersProcessed s"
  "synchronizer_sent (fold touchUrl us s) = synchronizer_sent s"
  "registerUpdatesToSend (fold touchUrl us s) = registerUpdatesToSend s"
  "instance_of v (fold touchUrl us s) = instance_of v s"
  "sd_published (fold touchUrl us s) = sd_published s"
  "sd_wf s \<Longrightarrow> sd_wf (fold touchUrl us s)"
  "smap_at [] (urlToComponentMap (fold touchUrl us s)) v = smap_at [] (urlToComponentMap s) v"
  "map_of (registrationInstanceMap (fold touchUrl us s)) v =
     (if v \<in> set us then Some (instance_of v s) else map_of (registrationInstanceMap s) v)"
  by (induction us arbitrary: s) (simp_all add: touchUrl_def)

lemma urls_frame [simp]:
  "dataUrls (fold touchUrl us s) d = dataUrls s d"
  "dataUrls (touch_services e s) d = dataUrls s d"
  by (simp_all add: dataUrls_def)

lemma updateProductLocations_frame [simp]:
  "sd_domain (updateProductLocations i u t ct rt s) = sd_domain s"
  "dpMap (updateProductLocations i u t ct rt s) d' = dpMap s d'"
  "products (updateProductLocations i u t ct rt s) d' j = products s d' j"
  "sMap (updateProductLocations i u t ct rt s) d' = sMap s d'"
  "domainMap (updateProductLocations i u t ct rt s) = domainMap s"
  "registeredPublishersReady (updateProductLocations i u t ct rt s) = registeredPublishersReady s"
  "registeredPublishersProcessed (updateProductLocations i u t ct rt s) = registeredPublishersProcessed s"
  "synchronizer_sent (updateProductLocations i u t ct rt s) = synchronizer_sent s"
  "registerUpdatesToSend (updateProductLocations i u t ct rt s) = registerUpdatesToSend s"
  "instance_of v (updateProductLocations i u t ct rt s) = instance_of v s"
  "sd_wf s \<Longrightarrow> sd_wf (updateProductLocations i u t ct rt s)"
  "map_of (registrationInstanceMap (updateProductLocations i u t ct rt s)) v =
     (if v \<in> set (serviceUrls s (sd_domain s)) \<union> set (dataUrls s (sd_domain s))
      then Some (instance_of v s) else map_of (registrationInstanceMap s) v)"
  by (simp_all add: updateProductLocations_def Let_def)

lemma addPublishers_frame [simp]:
  "sd_domain (fst (addPublishers i e s)) = sd_domain s"
  "dpMap (fst (addPublishers i e s)) d' = dpMap s d'"
  "products (fst (addPublishers i e s)) d' j = products s d' j"
  "sMap (fst (addPublishers i e s)) d' = sMap s d'"
  "domainMap (fst (addPublishers i e s)) = domainMap s"
  "registeredPublishersReady (fst (addPublishers i e s)) = registeredPublishersReady s"
  "registeredPublishersProcessed (fst (addPublishers i e s)) = registeredPublishersProcessed s"
  "synchronizer_sent (fst (addPublishers i e s)) = synchronizer_sent s"
  "registerUpdatesToSend (fst (addPublishers i e s)) = registerUpdatesToSend s"
  "registrationInstanceMap (fst (addPublishers i e s)) = registrationInstanceMap s"
  "instance_of v (fst (addPublishers i e s)) = instance_of v s"
  "urlToComponentMap (fst (addPublishers i e s)) = urlToComponentMap s"
  "sd_published (fst (addPublishers i e s)) = sd_published s"
  "sd_wf s \<Longrightarrow> sd_wf (fst (addPublishers i e s))"
  by (simp_all add: addPublishers_def)

lemma announcePublishers_frame [simp]:
  "sd_domain (announcePublishers i e s) = sd_domain s"
  "dpMap (announcePublishers i e s) d' = dpMap s d'"
  "products (announcePublishers i e s) d' j = products s d' j"
  "sMap (announcePublishers i e s) d' = sMap s d'"
  "domainMap (announcePublishers i e s) = domainMap s"
  "registeredPublishersReady (announcePublishers i e s) = registeredPublishersReady s"
  "registeredPublishersProcessed (announcePublishers i e s) = registeredPublishersProcessed s"
  "synchronizer_sent (announcePublishers i e s) = synchronizer_sent s"
  "registrationInstanceMap (announcePublishers i e s) = registrationInstanceMap s"
  "instance_of v (announcePublishers i e s) = instance_of v s"
  "urlToComponentMap (announcePublishers i e s) = urlToComponentMap s"
  by (simp_all add: announcePublishers_def addPublishers_def)

lemma sd_wf_announcePublishers [simp]: "sd_wf s \<Longrightarrow> sd_wf (announcePublishers i e s)"
  by (simp add: announcePublishers_def addPublishers_def)

lemma sd_wfD:
  assumes "sd_wf s"
  shows "smap_wf (registrationInstanceMap s)" and "smap_wf (urlToComponentMap s)"
    and "smap_wf (dpMap s d)" and "smap_wf (sMap s d)"
    and "distinct (map url_of (products s d i))"
    and "smap_wf (serviceMap s)" and "smap_wf (dataProductMap s)" and "smap_wf (domainMap s)"
    and "sorted_wrt (<) (registerUpdatesToSend s)"
  using assms by (simp_all add: sd_wf_def)

subsection \<open>Purging\<close>

lemma purge_step_frame [simp]:
  "sd_domain (purge_step i u k s) = sd_domain s"
  "sMap (purge_step i u k s) d' = sMap s d'"
  "domainMap (purge_step i u k s) = domainMap s"
  "registeredPublishersReady (purge_step i u k s) = registeredPublishersReady s"
  "registeredPublishersProcessed (purge_step i u k s) = registeredPublishersProcessed s"
  "synchronizer_sent (purge_step i u k s) = synchronizer_sent s"
  "sd_wf s \<Longrightarrow> sd_wf (purge_step i u k s)"
  by (auto simp: purge_step_def Let_def sd_wfD distinct_map_remove_first split: option.split)

lemma products_purge_step:
  "products (purge_step i u k s) d j =
     (if d = sd_domain s \<and> j = k \<and> k \<noteq> i
      then remove_first (\<lambda>p. url_of p = u) (products s d j) else products s d j)"
proof (cases "find (\<lambda>p. url_of p = u) (products s (sd_domain s) k)")
  case None
  then have "remove_first (\<lambda>p. url_of p = u) (products s (sd_domain s) k) = products s (sd_domain s) k"
    by (auto simp: find_None_all intro: remove_first_idle)
  with None show ?thesis by (auto simp: purge_step_def Let_def)
qed (auto simp: purge_step_def Let_def)

lemma purge_steps_frame [simp]:
  "sd_domain (fold (purge_step i u) ks s) = sd_domain s"
  "sMap (fold (purge_step i u) ks s) d' = sMap s d'"
  "domainMap (fold (purge_step i u) ks s) = domainMap s"
  "registeredPublishersReady (fold (purge_step i u) ks s) = registeredPublishersReady s"
  "registeredPublishersProcessed (fold (purge_step i u) ks s) = registeredPublishersProcessed s"
  "synchronizer_sent (fold (purge_step i u) ks s) = synchronizer_sent s"
  "sd_wf s \<Longrightarrow> sd_wf (fold (purge_step i u) ks s)"
  by (induction ks arbitrary: s) simp_all

lemma products_purge_steps:
  "distinct ks \<Longrightarrow> products (fold (purge_step i u) ks s) d j =
     (if d = sd_domain s \<and> j \<in> set ks \<and> j \<noteq> i
      then remove_first (\<lambda>p. url_of p = u) (products s d j) else products s d j)"
proof (induction ks arbitrary: s)
  case (Cons k ks)
  then show ?case by (cases "j = k") (simp_all add: products_purge_step)
qed simp

lemma products_unlisted: "j \<notin> set (smap_keys (dpMap s d)) \<Longrightarrow> products s d j = []"
  by (simp add: products_def smap_at_def smap_keys_def map_of_eq_None_iff [THEN iffD2])

lemma purgeObsoletePublishers_frame [simp]:
  "sd_domain (purgeObsoletePublishers i u s) = sd_domain s"
  "sMap (purgeObsoletePublishers i u s) d' = sMap s d'"
  "domainMap (purgeObsoletePublishers i u s) = domainMap s"
  "registeredPublishersReady (purgeObsoletePublishers i u s) = registeredPublishersReady s"
  "registeredPublishersProcessed (purgeObsoletePublishers i u s) = registeredPublishersProcessed s"
  "synchronizer_sent (purgeObsoletePublishers i u s) = synchronizer_sent s"
  "sd_wf s \<Longrightarrow> sd_wf (purgeObsoletePublishers i u s)"
  by (simp_all add: purgeObsoletePublishers_def Let_def)

lemma products_purgeObsoletePublishers:
  assumes "sd_wf s"
  shows "products (purgeObsoletePublishers i u s) d j =
     (if d = sd_domain s \<and> j \<noteq> i
      then remove_first (\<lambda>p. url_of p = u) (products s d j) else products s d j)"
proof -
  have "distinct (smap_keys (dpMap s (sd_domain s)))"
    using assms by (simp add: sd_wfD smap_keys_distinct)
  then show ?thesis
    using products_unlisted [of j s d]
    by (auto simp: purgeObsoletePublishers_def Let_def products_purge_steps)
qed

subsection \<open>Registration\<close>

lemma url_of_new_info [simp]: "url_of (new_info reg t) = field '''' (rg_url reg)"
  by (simp add: url_of_def new_info_def)

lemma url_of_refresh_info [simp]: "url_of (refresh_info reg t p) = url_of p"
  by (simp add: url_of_def refresh_info_def)

lemma map_url_upsert_info:
  "map url_of (upsert_info reg t ps) =
     (if \<exists>p\<in>set ps. url_of p = field '''' (rg_url reg) then map url_of ps
      else map url_of ps @ [field '''' (rg_url reg)])"
proof (cases "find (\<lambda>p. url_of p = field '''' (rg_url reg)) ps")
  case None
  then have "\<not> (\<exists>p\<in>set ps. url_of p = field [] (rg_url reg))" by (auto simp: find_None_all)
  with None show ?thesis by (simp add: upsert_info_def)
next
  case (Some p)
  then show ?thesis
    by (auto simp: upsert_info_def map_map_first dest: find_SomeD)
qed

lemma distinct_upsert_info:
  "distinct (map url_of ps) \<Longrightarrow> distinct (map url_of (upsert_info reg t ps))"
  by (auto simp: map_url_upsert_info)

text \<open>The URL is listed with the registration time of the request.\<close>

lemma upsert_info_listed:
  "\<exists>p\<in>set (upsert_info reg t ps). url_of p = field '''' (rg_url reg) \<and>
     pi_registration_time p = Some t"
proof (cases "find (\<lambda>p. url_of p = field '''' (rg_url reg)) ps")
  case None
  then show ?thesis by (auto simp: upsert_info_def new_info_def url_of_def)
next
  case (Some p)
  then have "refresh_info reg t p \<in> set (upsert_info reg t ps)"
    by (simp add: upsert_info_def map_first_set)
  moreover have "url_of p = field '''' (rg_url reg)" using Some by (auto dest: find_SomeD)
  moreover have "pi_registration_time (refresh_info reg t p) = Some t"
    by (simp add: refresh_info_def)
  ultimately show ?thesis by (metis url_of_refresh_info)
qed

lemma open_registration_frame [simp]:
  "sd_domain (open_registration reg d s) = sd_domain s"
  "sd_wf s \<Longrightarrow> sd_wf (open_registration reg d s)"
  "products (open_registration reg d s) e j = products s e j"
  "registeredPublishersReady (open_registration reg d s) \<longleftrightarrow>
     registeredPublishersReady s \<or> field '''' (rg_id reg) = REGISTERED_PUBLISHERS_DPID"
  "sd_published (open_registration reg d s) = sd_published s"
  "instance_of v (open_registration reg d s) =
     (if v = field '''' (rg_url reg) then field 0 (rg_timestamp reg) else instance_of v s)"
  "sMap (open_registration reg d s) e = sMap s e"
  by (simp_all add: open_registration_def Let_def sd_wfD)

lemma store_info_frame [simp]:
  "sd_domain (store_info reg d s) = sd_domain s"
  "sd_wf s \<Longrightarrow> sd_wf (store_info reg d s)"
  "products (store_info reg d s) e j =
     (if e = d \<and> j = field '''' (rg_id reg)
      then upsert_info reg (secs (field 0 (rg_timestamp reg))) (products s d j)
      else products s e j)"
  "registeredPublishersReady (store_info reg d s) = registeredPublishersReady s"
  "instance_of v (store_info reg d s) = instance_of v s"
  "sMap (store_info reg d s) e = sMap s e"
  by (simp_all add: store_info_def Let_def sd_wfD distinct_upsert_info)

lemma register_data_frame [simp]:
  "sd_domain (register_data reg d s) = sd_domain s"
  "sMap (register_data reg d s) e = sMap s e"
  by (simp_all add: register_data_def Let_def)

lemma sd_wf_register_data [simp]: "sd_wf s \<Longrightarrow> sd_wf (register_data reg d s)"
  by (simp add: register_data_def Let_def)

lemma products_register_data:
  assumes "sd_wf s"
  shows "products (register_data reg d s) e j =
     (let i = field '''' (rg_id reg); t = secs (field 0 (rg_timestamp reg))
      in if registration_changes reg t (products s d i) then
           (if e = d \<and> j = i then upsert_info reg t (products s d i)
            else if e = sd_domain s \<and> j \<noteq> i
            then remove_first (\<lambda>p. url_of p = field '''' (rg_url reg)) (products s e j)
            else products s e j)
         else products s e j)"
  using assms
  by (auto simp: register_data_def Let_def products_purgeObsoletePublishers)

lemma register_service_frame [simp]:
  "sd_domain (register_service reg d s) = sd_domain s"
  "sd_wf s \<Longrightarrow> sd_wf (register_service reg d s)"
  "sMap (register_service reg d s) e =
     (if e = d then smap_put (field '''' (rg_id reg)) (field '''' (rg_url reg)) (sMap s d)
      else sMap s e)"
  "instance_of (field '''' (rg_url reg)) (register_service reg d s) = field 0 (rg_timestamp reg)"
  by (simp_all add: register_service_def Let_def sd_wfD)

lemma products_register_service:
  "sd_wf s \<Longrightarrow> products (register_service reg d s) e j =
     (if e = sd_domain s \<and> j \<noteq> field '''' (rg_id reg)
      then remove_first (\<lambda>p. url_of p = field '''' (rg_url reg)) (products s e j)
      else products s e j)"
  by (simp add: register_service_def Let_def products_purgeObsoletePublishers sd_wfD)

definition registration_domain :: "ServiceDirectoryRegistrationPB \<Rightarrow> sd_state \<Rightarrow> string" where
  "registration_domain reg s = (case rg_domain reg of None \<Rightarrow> sd_domain s | Some x \<Rightarrow> x)"

lemma fst_handleRegister:
  "fst (handleRegister reg s) =
     (if registration_accepted reg s then
        (if field DATA (rg_type reg) = DATA then register_data reg (registration_domain reg s) s
         else register_service reg (registration_domain reg s) s)
      else s)"
  by (simp add: handleRegister_def Let_def registration_domain_def)

lemma sd_wf_handleRegister [simp]: "sd_wf s \<Longrightarrow> sd_wf (fst (handleRegister reg s))"
  by (simp add: fst_handleRegister)

subsection \<open>Unregistration\<close>

lemma unregister_data_frame [simp]:
  "sd_wf s \<Longrightarrow> sd_wf (fst (unregister_data ur d s))"
  "sd_domain (fst (unregister_data ur d s)) = sd_domain s"
  by (simp_all add: unregister_data_def Let_def sd_wfD distinct_map_remove_first split: option.split)

lemma products_unregister_data:
  "products (fst (unregister_data ur d s)) e j =
     (if e = d \<and> j = ur_id ur then remove_first (is_unregistered ur) (products s e j)
      else products s e j)"
proof (cases "find (is_unregistered ur) (products s d (ur_id ur))")
  case None
  then have "remove_first (is_unregistered ur) (products s d (ur_id ur)) = products s d (ur_id ur)"
    by (auto simp: find_None_all intro: remove_first_idle)
  with None show ?thesis by (simp add: unregister_data_def Let_def)
next
  case (Some p)
  then show ?thesis by (simp add: unregister_data_def Let_def)
qed

lemma snd_unregister_data:
  "snd (unregister_data ur d s) \<longleftrightarrow> (\<exists>p\<in>set (products s d (ur_id ur)). is_unregistered ur p)"
proof (cases "find (is_unregistered ur) (products s d (ur_id ur))")
  case None
  then show ?thesis by (simp add: unregister_data_def Let_def) (auto simp: find_None_all)
next
  case (Some p)
  then show ?thesis by (simp add: unregister_data_def Let_def) (auto dest: find_SomeD)
qed

lemma unregister_service_frame [simp]:
  "sd_wf s \<Longrightarrow> sd_wf (fst (unregister_service ur d s))"
  "sd_domain (fst (unregister_service ur d s)) = sd_domain s"
  "products (fst (unregister_service ur d s)) e j = products s e j"
  by (simp_all add: unregister_service_def Let_def sd_wfD)

lemma snd_unregister_service:
  "snd (unregister_service ur d s) \<longleftrightarrow>
     smap_has (sMap s d) (ur_id ur) \<and> smap_has (registrationInstanceMap s) (ur_url ur) \<and>
     secs (instance_of (ur_url ur) s) = field 0 (ur_registration_time ur)"
  by (simp add: unregister_service_def Let_def)

lemma sMap_unregister_service:
  "sMap (fst (unregister_service ur d s)) e =
     (if e = d \<and> snd (unregister_service ur d s) then smap_erase (ur_id ur) (sMap s d)
      else sMap s e)"
  by (simp add: unregister_service_def Let_def)

definition unregistration_domain :: "ServiceDirectoryUnregistrationPB \<Rightarrow> sd_state \<Rightarrow> string" where
  "unregistration_domain ur s = (case ur_domain ur of None \<Rightarrow> sd_domain s | Some x \<Rightarrow> x)"

lemma fst_handleUnregister:
  "fst (handleUnregister ur s) =
     (if field DATA (ur_type ur) = DATA then fst (unregister_data ur (unregistration_domain ur s) s)
      else fst (unregister_service ur (unregistration_domain ur s) s))"
  by (simp add: handleUnregister_def Let_def unregistration_domain_def split: prod.split)

lemma snd_handleUnregister:
  "snd (handleUnregister ur s) = \<lparr>sr_id = ur_id ur, sr_returnCode = Some
     (if (if field DATA (ur_type ur) = DATA
          then snd (unregister_data ur (unregistration_domain ur s) s)
          else snd (unregister_service ur (unregistration_domain ur s) s))
      then SD_SUCCESS else SD_NOT_REGISTERED)\<rparr>"
  by (simp add: handleUnregister_def Let_def unregistration_domain_def split: prod.split)

lemma sd_wf_handleUnregister [simp]: "sd_wf s \<Longrightarrow> sd_wf (fst (handleUnregister ur s))"
  by (simp add: fst_handleUnregister)

subsection \<open>Lookup and the other requests\<close>

lemma snd_addPublishers:
  "snd (addPublishers i d s) =
     \<lparr>dl_lookupID = Some i, dl_publishers = products s d i, dl_domain_id = Some d\<rparr>"
  by (simp add: addPublishers_def products_def smap_has_def smap_at_def)

lemma sd_wf_handleLookup [simp]: "sd_wf s \<Longrightarrow> sd_wf (fst (handleLookup lk s))"
  by (simp add: handleLookup_def Let_def split_def)

lemma snd_handleLookup_data:
  "field DATA (lk_type lk) = DATA \<Longrightarrow>
     snd (handleLookup lk s) = RespDataLookup
       \<lparr>dl_lookupID = Some (lk_lookupID lk),
        dl_publishers = products s (lookup_domain lk s) (lk_lookupID lk),
        dl_domain_id = Some (lookup_domain lk s)\<rparr>"
  by (simp add: handleLookup_def Let_def split_def snd_addPublishers)

lemma sd_wf_handle_request [simp]: "sd_wf s \<Longrightarrow> sd_wf (fst (handle_request rq s))"
  by (cases rq) (simp_all add: split_def Let_def)

lemma sd_wf_flush [simp]: "sd_wf s \<Longrightarrow> sd_wf (flush_pending s)"
proof -
  have "sd_wf s \<Longrightarrow> sd_wf (fold flush_one is s)" for "is"
    by (induction "is" arbitrary: s) (simp_all add: flush_one_def split_def Let_def)
  moreover have "sd_wf s \<Longrightarrow>
      sd_wf (s\<lparr>registerUpdatesToSend := [], registeredPublishersProcessed := True\<rparr>)" for s
    by (simp add: sd_wf_def sd_defs)
  ultimately show "sd_wf s \<Longrightarrow> sd_wf (flush_pending s)" by (simp add: flush_pending_def)
qed

lemma sd_wf_domain_command [simp]: "sd_wf s \<Longrightarrow> sd_wf (domain_command parts s)"
  by (cases "(parts, s)" rule: domain_command.cases)
    (simp_all add: sd_wf_def sd_defs send_synchronizer_def publishDomainUpdateMessage_def
      gn_publish_def)

lemma sd_wf_request_service [simp]: "sd_wf s \<Longrightarrow> sd_wf (fst (request_service a b s))"
  by (simp add: request_service_def getProviders_def Let_def split_def)

interpretation sd_run: keeps_invariant sd_step "\<lambda>s e. True" sd_wf
proof
  fix s e
  assume "sd_wf s"
  then show "sd_wf (sd_step s e)"
    by (cases e) (simp_all add: serve_request_def split_def Let_def)
qed

lemma sd_wf_init [simp]: "sd_wf (sd_init d)"
  by (simp add: sd_wf_def sd_init_def sd_defs)

lemma sd_wf_run: "sd_wf (foldl sd_step (sd_init d) es)"
  by (rule sd_run.run_inv) simp_all

subsection \<open>What a registration does to the timestamps\<close>

text \<open>
  The purge erases the timestamp of the URL it purges. In the \<open>DATA\<close> branch of
  \<open>handleRegister\<close> the purge runs after the new timestamp was stored.
\<close>

lemma instance_purge_step:
  "instance_of v (purge_step i u k s) =
     (if v = u \<and> k \<noteq> i \<and> (\<exists>p\<in>set (products s (sd_domain s) k). url_of p = u) then 0
      else instance_of v s)"
proof (cases "find (\<lambda>p. url_of p = u) (products s (sd_domain s) k)")
  case None
  then show ?thesis by (simp add: purge_step_def Let_def) (auto simp: find_None_all)
next
  case (Some p)
  then show ?thesis by (simp add: purge_step_def Let_def) (auto dest: find_SomeD)
qed

lemma instance_purge_steps:
  "distinct ks \<Longrightarrow> instance_of v (fold (purge_step i u) ks s) =
     (if v = u \<and> (\<exists>k\<in>set ks. k \<noteq> i \<and> (\<exists>p\<in>set (products s (sd_domain s) k). url_of p = u))
      then 0 else instance_of v s)"
proof (induction ks arbitrary: s)
  case (Cons k ks)
  have "products (purge_step i u k s) (sd_domain s) k' = products s (sd_domain s) k'"
    if "k' \<in> set ks" for k'
    using Cons.prems that by (auto simp: products_purge_step)
  with Cons show ?case by (auto simp: instance_purge_step)
qed simp

lemma instance_purgeObsoletePublishers:
  assumes "sd_wf s"
  shows "instance_of v (purgeObsoletePublishers i u s) =
     (if v = u \<and> (\<exists>k. k \<noteq> i \<and> (\<exists>p\<in>set (products s (sd_domain s) k). url_of p = u))
      then 0 else instance_of v s)"
proof -
  have "distinct (smap_keys (dpMap s (sd_domain s)))"
    using assms by (simp add: sd_wfD smap_keys_distinct)
  moreover have "k \<in> set (smap_keys (dpMap s (sd_domain s)))"
    if "p \<in> set (products s (sd_domain s) k)" for k p
    using that products_unlisted [of k s "sd_domain s"] by force
  ultimately show ?thesis
    by (auto simp: purgeObsoletePublishers_def Let_def instance_purge_steps)
qed

lemma instance_register_data:
  assumes "sd_wf s"
    and "registration_changes reg (secs (field 0 (rg_timestamp reg)))
           (products s d (field '''' (rg_id reg)))"
    and "k \<noteq> field '''' (rg_id reg)"
    and "\<exists>p\<in>set (products s (sd_domain s) k). url_of p = field '''' (rg_url reg)"
  shows "instance_of (field '''' (rg_url reg)) (register_data reg d s) = 0"
proof -
  have "products (store_info reg d (open_registration reg d s)) (sd_domain s) k =
      products s (sd_domain s) k"
    using assms(3) by simp
  with assms show ?thesis
    by (auto simp: register_data_def Let_def instance_purgeObsoletePublishers)
qed

subsection \<open>Announcements\<close>

text \<open>
  \<open>announces s t e j\<close>: between the states \<open>s\<close> and \<open>t\<close> the directory published, under the
  filter \<open>j\<close>, the publisher list that product \<open>j\<close> of domain \<open>e\<close> has in \<open>t\<close>.
\<close>

definition extends_log :: "sd_state \<Rightarrow> sd_state \<Rightarrow> bool" where
  "extends_log s t \<longleftrightarrow> (\<exists>xs. sd_published t = sd_published s @ xs)"

definition announcement :: "sd_state \<Rightarrow> string \<Rightarrow> string \<Rightarrow> sd_publication" where
  "announcement t e j = \<lparr>pub_id = REGISTERED_PUBLISHERS_DPID,
     pub_message = MsgDataLookup \<lparr>dl_lookupID = Some j, dl_publishers = products t e j,
       dl_domain_id = Some e\<rparr>,
     pub_filter = j\<rparr>"

definition announces :: "sd_state \<Rightarrow> sd_state \<Rightarrow> string \<Rightarrow> string \<Rightarrow> bool" where
  "announces s t e j \<longleftrightarrow>
     (\<exists>xs. sd_published t = sd_published s @ xs \<and> announcement t e j \<in> set xs)"

lemma extends_log_refl [simp]: "extends_log s s"
  by (simp add: extends_log_def)

lemma extends_log_trans: "extends_log s t \<Longrightarrow> extends_log t r \<Longrightarrow> extends_log s r"
  by (auto simp: extends_log_def)

lemma extends_announces: "extends_log s t \<Longrightarrow> announces t r e j \<Longrightarrow> announces s r e j"
  by (force simp: extends_log_def announces_def)

lemma announces_extends:
  "announces s t e j \<Longrightarrow> extends_log t r \<Longrightarrow> products r e j = products t e j \<Longrightarrow> announces s r e j"
  by (force simp: extends_log_def announces_def announcement_def)

lemma extends_log_updateProductLocations [simp]:
  "extends_log s (updateProductLocations i u t ct rt s)"
  by (simp add: extends_log_def updateProductLocations_def Let_def)

lemma extends_log_announcePublishers [simp]: "extends_log s (announcePublishers i d s)"
  by (simp add: extends_log_def announcePublishers_def addPublishers_def)

lemma announces_announcePublishers:
  "registeredPublishersReady s \<Longrightarrow> announces s (announcePublishers i d s) d i"
  by (simp add: announces_def announcePublishers_def split_def Let_def announcement_def
      snd_addPublishers)

lemma published_same_extends: "sd_published t = sd_published s \<Longrightarrow> extends_log s t"
  by (simp add: extends_log_def)

lemma purge_step_hit:
  assumes "k \<noteq> i" and "\<exists>p\<in>set (products s (sd_domain s) k). url_of p = u"
  obtains a where "sd_published a = sd_published s" and "sd_domain a = sd_domain s"
    and "registeredPublishersReady a = registeredPublishersReady s"
    and "extends_log (announcePublishers k (sd_domain s) a) (purge_step i u k s)"
    and "products (purge_step i u k s) (sd_domain s) k = products a (sd_domain s) k"
proof
  let ?a = "set_products (sd_domain s) k
    (remove_first (\<lambda>p. url_of p = u) (products s (sd_domain s) k)) s"
  let ?c = "touch_instance u (announcePublishers k (sd_domain s) ?a)"
  obtain p where p: "find (\<lambda>p. url_of p = u) (products s (sd_domain s) k) = Some p"
    using assms(2) by (cases "find (\<lambda>p. url_of p = u) (products s (sd_domain s) k)")
      (auto simp: find_None_all)
  have "extends_log (announcePublishers k (sd_domain s) ?a) ?c"
    by (rule published_same_extends) simp
  also have "extends_log ?c (updateProductLocations k u (instance_of u ?c) REMOVE DATA ?c)"
    by simp
  then show "extends_log (announcePublishers k (sd_domain s) ?a) (purge_step i u k s)"
    using assms(1) p by (auto simp: purge_step_def Let_def extends_log_def)
  show "products (purge_step i u k s) (sd_domain s) k = products ?a (sd_domain s) k"
    using assms(1) by (simp add: products_purge_step)
qed simp_all

lemma extends_log_purge_step [simp]: "extends_log s (purge_step i u k s)"
proof (cases "k \<noteq> i \<and> (\<exists>p\<in>set (products s (sd_domain s) k). url_of p = u)")
  case True
  then obtain a where "sd_published a = sd_published s"
    and "extends_log (announcePublishers k (sd_domain s) a) (purge_step i u k s)"
    using purge_step_hit [of k i s u] by metis
  then show ?thesis
    using extends_log_announcePublishers extends_log_trans published_same_extends by metis
next
  case False
  then have "k = i \<or> find (\<lambda>p. url_of p = u) (products s (sd_domain s) k) = None"
    by (auto simp: find_None_all)
  then show ?thesis by (auto simp: purge_step_def Let_def intro: published_same_extends)
qed

lemma extends_log_purge_steps [simp]: "extends_log s (fold (purge_step i u) ks s)"
  by (induction ks arbitrary: s) (auto intro: extends_log_trans [OF extends_log_purge_step])

lemma announces_purge_step:
  assumes "k \<noteq> i" and "\<exists>p\<in>set (products s (sd_domain s) k). url_of p = u"
    and "registeredPublishersReady s"
  shows "announces s (purge_step i u k s) (sd_domain s) k"
proof -
  obtain a where a: "sd_published a = sd_published s" "sd_domain a = sd_domain s"
    "registeredPublishersReady a = registeredPublishersReady s"
    "extends_log (announcePublishers k (sd_domain s) a) (purge_step i u k s)"
    "products (purge_step i u k s) (sd_domain s) k = products a (sd_domain s) k"
    using purge_step_hit [OF assms(1,2)] by metis
  have "announces a (announcePublishers k (sd_domain s) a) (sd_domain s) k"
    using a(3) assms(3) by (simp add: announces_announcePublishers)
  then have "announces a (purge_step i u k s) (sd_domain s) k"
    using a(4,5) by (auto intro: announces_extends)
  then show ?thesis using a(1) published_same_extends extends_announces by metis
qed

lemma announces_purge_steps:
  assumes "distinct ks" and "k \<in> set ks" and "k \<noteq> i"
    and "\<exists>p\<in>set (products s (sd_domain s) k). url_of p = u" and "registeredPublishersReady s"
  shows "announces s (fold (purge_step i u) ks s) (sd_domain s) k"
  using assms
proof (induction ks arbitrary: s)
  case (Cons k' ks)
  show ?case
  proof (cases "k = k'")
    case True
    then have "announces s (purge_step i u k s) (sd_domain s) k"
      using Cons.prems by (auto intro: announces_purge_step)
    then show ?thesis
      using True Cons.prems(1)
      by (auto intro: announces_extends simp: products_purge_steps)
  next
    case False
    then have "announces (purge_step i u k' s) (fold (purge_step i u) ks (purge_step i u k' s))
        (sd_domain (purge_step i u k' s)) k"
      using Cons.prems by (intro Cons.IH) (auto simp: products_purge_step)
    then show ?thesis using extends_announces [OF extends_log_purge_step] by simp
  qed
qed simp

end
