(* ===== verification/Directory_Spec.thy ===== *)
theory Directory_Spec
  imports Directory_Correct
begin

section \<open>What the service directory promises\<close>

text \<open>
  The abstract directory is a set of registrations: domain, data product, publisher URL and
  registration time. \<open>listed\<close> reads it off the state; \<open>spec_register\<close>,
  \<open>spec_purge\<close> and \<open>spec_unregister\<close> are the promised effects of the requests on it, and
  the refinement theorems say that the handlers have exactly these effects.
\<close>

type_synonym registration = "string \<times> string \<times> string \<times> u32"

definition info_time :: "PublisherInfoPB \<Rightarrow> u32" where
  "info_time p = field 0 (pi_registration_time p)"

definition listed :: "sd_state \<Rightarrow> registration set" where
  "listed s = {(d, i, u, t). \<exists>p\<in>set (products s d i). url_of p = u \<and> info_time p = t}"

definition spec_purge :: "string \<Rightarrow> string \<Rightarrow> string \<Rightarrow> registration set \<Rightarrow> registration set" where
  "spec_purge own i u R = {(e, j, v, t) \<in> R. \<not> (e = own \<and> j \<noteq> i \<and> v = u)}"

definition spec_register ::
  "string \<Rightarrow> string \<Rightarrow> string \<Rightarrow> string \<Rightarrow> u32 \<Rightarrow> registration set \<Rightarrow> registration set" where
  "spec_register own d i u t R =
     (if (d, i, u, t) \<in> R then R
      else insert (d, i, u, t) ({(e, j, v, w) \<in> R. \<not> (e = d \<and> j = i \<and> v = u)} \<inter> spec_purge own i u R))"

definition spec_unregister ::
  "string \<Rightarrow> string \<Rightarrow> string \<Rightarrow> u32 \<Rightarrow> registration set \<Rightarrow> registration set" where
  "spec_unregister d i u t R = R - {(d, i, u, t)}"

definition publishes :: "PublisherInfoPB list \<Rightarrow> (string \<times> u32) set" where
  "publishes ps = (\<lambda>p. (url_of p, info_time p)) ` set ps"

lemma listed_iff: "(d, i, u, t) \<in> listed s \<longleftrightarrow> (u, t) \<in> publishes (products s d i)"
  by (auto simp: listed_def publishes_def)

lemma publishes_remove_url:
  "distinct (map url_of ps) \<Longrightarrow>
     publishes (remove_first (\<lambda>p. url_of p = u) ps) = {(v, t) \<in> publishes ps. v \<noteq> u}"
  by (auto simp: publishes_def set_remove_first_distinct)

lemma publishes_upsert:
  assumes "distinct (map url_of ps)"
  shows "publishes (upsert_info reg t ps) =
     insert (field '''' (rg_url reg), t) {(v, w) \<in> publishes ps. v \<noteq> field '''' (rg_url reg)}"
  using assms
proof (induction ps)
  case Nil
  then show ?case
    by (simp add: publishes_def upsert_info_def info_time_def new_info_def url_of_def)
next
  case (Cons p ps)
  let ?u = "field '''' (rg_url reg)"
  show ?case
  proof (cases "url_of p = ?u")
    case True
    have "publishes (upsert_info reg t (p # ps)) = publishes (refresh_info reg t p # ps)"
      using True by (simp add: upsert_info_def)
    moreover have "(url_of (refresh_info reg t p), info_time (refresh_info reg t p)) = (?u, t)"
      using True by (simp add: info_time_def refresh_info_def url_of_def)
    moreover have "\<forall>q\<in>set ps. url_of q \<noteq> ?u" using Cons.prems True by (auto simp: image_iff)
    ultimately show ?thesis using True by (auto simp: publishes_def)
  next
    case False
    then have "upsert_info reg t (p # ps) = p # upsert_info reg t ps"
      by (simp add: upsert_info_def split: option.split)
    moreover have "publishes (q # qs) = insert (url_of q, info_time q) (publishes qs)" for q qs
      by (simp add: publishes_def)
    ultimately show ?thesis using Cons False by auto
  qed
qed

lemma registration_changes_iff:
  assumes "distinct (map url_of ps)"
  shows "registration_changes reg t ps \<longleftrightarrow> (field '''' (rg_url reg), t) \<notin> publishes ps"
proof (cases "find (\<lambda>p. url_of p = field '''' (rg_url reg)) ps")
  case None
  then show ?thesis
    by (simp add: registration_changes_def publishes_def) (auto simp: find_None_all)
next
  case (Some p)
  then have p: "p \<in> set ps" "url_of p = field '''' (rg_url reg)" by (auto dest: find_SomeD)
  moreover have "inj_on url_of (set ps)" using assms by (simp add: distinct_map)
  ultimately have "(field [] (rg_url reg), t) \<in> publishes ps \<longleftrightarrow> info_time p = t"
    unfolding publishes_def image_iff by (metis inj_onD prod.inject)
  with Some show ?thesis by (simp add: registration_changes_def info_time_def)
qed

lemma publishes_remove_unregistered:
  assumes "distinct (map url_of ps)"
  shows "publishes (remove_first (is_unregistered ur) ps) =
     publishes ps - {(ur_url ur, field 0 (ur_registration_time ur))}"
  using assms
proof (induction ps)
  case (Cons p ps)
  have ins: "publishes (q # qs) = insert (url_of q, info_time q) (publishes qs)" for q qs
    by (simp add: publishes_def)
  have "(url_of p, w) \<notin> publishes ps" for w
    using Cons.prems by (auto simp: publishes_def image_iff)
  with Cons show ?case
    by (auto simp: ins is_unregistered_def info_time_def)
qed (simp add: publishes_def)

lemma unregistered_iff:
  "(\<exists>p\<in>set ps. is_unregistered ur p) \<longleftrightarrow>
     (ur_url ur, field 0 (ur_registration_time ur)) \<in> publishes ps"
  by (force simp: publishes_def is_unregistered_def info_time_def image_iff)

lemma listed_register_data:
  assumes "sd_wf s"
  shows "listed (register_data reg d s) =
     spec_register (sd_domain s) d (field '''' (rg_id reg)) (field '''' (rg_url reg))
       (secs (field 0 (rg_timestamp reg))) (listed s)"
proof -
  have dist: "distinct (map url_of (products s e j))" for e j
    using assms by (rule sd_wfD)
  show ?thesis
    by (auto simp: listed_iff products_register_data [OF assms] Let_def spec_register_def
        spec_purge_def registration_changes_iff [OF dist] publishes_upsert [OF dist]
        publishes_remove_url [OF dist] split: if_splits)
qed

lemma listed_register_service:
  assumes "sd_wf s"
  shows "listed (register_service reg d s) =
     spec_purge (sd_domain s) (field '''' (rg_id reg)) (field '''' (rg_url reg)) (listed s)"
  using assms
  by (auto simp: listed_iff products_register_service spec_purge_def publishes_remove_url sd_wfD
      split: if_splits)

lemma listed_unregister_data:
  assumes "sd_wf s"
  shows "listed (fst (unregister_data ur d s)) =
     spec_unregister d (ur_id ur) (ur_url ur) (field 0 (ur_registration_time ur)) (listed s)"
  using assms
  by (auto simp: listed_iff products_unregister_data spec_unregister_def
      publishes_remove_unregistered sd_wfD split: if_splits)

subsection \<open>Refinement\<close>

text \<open>C1. The publisher lists after a registration request are exactly those that the abstract
  directory prescribes: nothing changes when the request is not accepted; a data product
  registration adds the publisher (or moves its registration time) and removes its URL from every
  other product of the directory's own domain; a service registration only does that removal.\<close>

theorem handleRegister_refines:
  assumes "sd_wf s"
  shows "listed (fst (handleRegister reg s)) =
     (let i = field '''' (rg_id reg); u = field '''' (rg_url reg)
      in if \<not> registration_accepted reg s then listed s
         else if field DATA (rg_type reg) = DATA
         then spec_register (sd_domain s) (registration_domain reg s) i u
                (secs (field 0 (rg_timestamp reg))) (listed s)
         else spec_purge (sd_domain s) i u (listed s))"
  using assms by (simp add: fst_handleRegister Let_def listed_register_data listed_register_service)

text \<open>C2. The publisher lists after an unregistration request are those of the abstract directory:
  a data product unregistration removes the one registration with that domain, product, URL and
  registration time and nothing else, a service unregistration removes none; and for a data
  product the return code is \<open>NOT_REGISTERED\<close> exactly when no such registration was listed.\<close>

theorem handleUnregister_refines:
  assumes "sd_wf s"
  shows "listed (fst (handleUnregister ur s)) =
      (if field DATA (ur_type ur) = DATA
       then spec_unregister (unregistration_domain ur s) (ur_id ur) (ur_url ur)
              (field 0 (ur_registration_time ur)) (listed s)
       else listed s) \<and>
    (field DATA (ur_type ur) = DATA \<longrightarrow>
       sr_returnCode (snd (handleUnregister ur s)) = Some
         (if (unregistration_domain ur s, ur_id ur, ur_url ur, field 0 (ur_registration_time ur))
             \<in> listed s then SD_SUCCESS else SD_NOT_REGISTERED))"
proof -
  have "listed (fst (unregister_service ur d s)) = listed s" for d
    by (auto simp: listed_iff)
  then show ?thesis
    using assms
    by (simp add: fst_handleUnregister snd_handleUnregister listed_unregister_data
        snd_unregister_data unregistered_iff listed_iff)
qed

subsection \<open>A sample registration\<close>

definition sample_reg :: "string \<Rightarrow> string \<Rightarrow> u64 \<Rightarrow> ServiceDirectoryRegistrationPB" where
  "sample_reg i u t = \<lparr>rg_id = Some i, rg_url = Some u, rg_type = Some DATA,
     rg_component_id = Some ''c'', rg_domain = None, rg_timestamp = Some t, rg_is_relay = None,
     rg_ip_address = None\<rparr>"

definition sample_unreg :: "string \<Rightarrow> string \<Rightarrow> u32 \<Rightarrow> ServiceDirectoryUnregistrationPB" where
  "sample_unreg i u t = \<lparr>ur_id = i, ur_url = u, ur_type = Some DATA, ur_domain = None,
     ur_registration_time = Some t\<rparr>"

lemma sample_reg_simps [simp]:
  "rg_id (sample_reg i u t) = Some i" "rg_url (sample_reg i u t) = Some u"
  "rg_type (sample_reg i u t) = Some DATA" "rg_domain (sample_reg i u t) = None"
  "rg_timestamp (sample_reg i u t) = Some t" "rg_component_id (sample_reg i u t) = Some ''c''"
  "ur_id (sample_unreg i u w) = i" "ur_url (sample_unreg i u w) = u"
  "ur_type (sample_unreg i u w) = Some DATA" "ur_domain (sample_unreg i u w) = None"
  "ur_registration_time (sample_unreg i u w) = Some w"
  by (simp_all add: sample_reg_def sample_unreg_def)

lemma listed_init [simp]: "listed (sd_init d) = {}"
  by (simp add: listed_def products_def dpMap_def sd_init_def)

lemma init_fields [simp]:
  "sd_domain (sd_init d) = d" "registrationInstanceMap (sd_init d) = []"
  "products (sd_init d) e i = []" "sMap (sd_init d) e = []" "instance_of u (sd_init d) = 0"
  "registeredPublishersReady (sd_init d) = False"
  by (simp_all add: products_def dpMap_def sMap_def instance_of_def sd_init_def)

theorem handleRegister_refines_witness:
  "listed (fst (handleRegister (sample_reg ''P'' ''tcp://h:1'' 3000000) (sd_init ''D''))) =
     {(''D'', ''P'', ''tcp://h:1'', secs 3000000)}"
  using handleRegister_refines [of "sd_init ''D''" "sample_reg ''P'' ''tcp://h:1'' 3000000"]
  by (auto simp: registration_accepted_def registration_domain_def spec_register_def
      spec_purge_def)

theorem handleUnregister_refines_witness:
  "let s = fst (handleRegister (sample_reg ''P'' ''tcp://h:1'' 3000000) (sd_init ''D''));
       u = sample_unreg ''P'' ''tcp://h:1'' (secs 3000000)
   in listed (fst (handleUnregister u s)) = listed s - {(''D'', ''P'', ''tcp://h:1'', secs 3000000)}"
  using handleUnregister_refines
    [of "fst (handleRegister (sample_reg ''P'' ''tcp://h:1'' 3000000) (sd_init ''D''))"
        "sample_unreg ''P'' ''tcp://h:1'' (secs 3000000)"]
  by (simp add: unregistration_domain_def spec_unregister_def fst_handleRegister
      registration_accepted_def registration_domain_def Let_def)

subsection \<open>Runs\<close>

text \<open>C36. In every run of the directory, whatever requests, service calls and domain commands it
  serves, all its maps stay ordered with distinct keys and no publisher URL is listed twice for a
  data product of a domain.\<close>

theorem directory_run_wf: "sd_wf (foldl sd_step (sd_init d) es)"
  by (rule sd_wf_run)

text \<open>
  Between two events the flags agree: \<open>RegisteredPublishers\<close> was registered exactly when the
  pending updates were processed, and then none is pending.
\<close>

definition nothing_pending :: "sd_state \<Rightarrow> bool" where
  "nothing_pending s \<longleftrightarrow> registeredPublishersReady s = registeredPublishersProcessed s \<and>
     (registeredPublishersReady s \<longrightarrow> registerUpdatesToSend s = [])"

lemma announce_ready_pending [simp]:
  "registeredPublishersReady s \<Longrightarrow>
     registerUpdatesToSend (announcePublishers i d s) = registerUpdatesToSend s"
  by (simp add: announcePublishers_def addPublishers_def)

lemma purge_step_pending [simp]:
  "registeredPublishersReady s \<Longrightarrow>
     registerUpdatesToSend (purge_step i u k s) = registerUpdatesToSend s"
  by (auto simp: purge_step_def Let_def split: option.split)

lemma purge_steps_pending [simp]:
  "registeredPublishersReady s \<Longrightarrow>
     registerUpdatesToSend (fold (purge_step i u) ks s) = registerUpdatesToSend s"
  by (induction ks arbitrary: s) simp_all

lemma purge_pending [simp]:
  "registeredPublishersReady s \<Longrightarrow>
     registerUpdatesToSend (purgeObsoletePublishers i u s) = registerUpdatesToSend s"
  by (simp add: purgeObsoletePublishers_def Let_def)

lemma register_data_pending:
  "registeredPublishersReady s \<Longrightarrow>
     registerUpdatesToSend (register_data reg d s) = registerUpdatesToSend s"
  "registeredPublishersProcessed (register_data reg d s) = registeredPublishersProcessed s"
  "registeredPublishersReady s \<Longrightarrow> registeredPublishersReady (register_data reg d s)"
  by (simp_all add: register_data_def Let_def store_info_def open_registration_def)

lemma register_service_pending:
  "registeredPublishersReady s \<Longrightarrow>
     registerUpdatesToSend (register_service reg d s) = registerUpdatesToSend s"
  "registeredPublishersProcessed (register_service reg d s) = registeredPublishersProcessed s"
  "registeredPublishersReady (register_service reg d s) = registeredPublishersReady s"
  by (simp_all add: register_service_def Let_def)

lemma unregister_pending:
  "registeredPublishersReady s \<Longrightarrow>
     registerUpdatesToSend (fst (unregister_data ur d s)) = registerUpdatesToSend s"
  "registeredPublishersProcessed (fst (unregister_data ur d s)) = registeredPublishersProcessed s"
  "registeredPublishersReady (fst (unregister_data ur d s)) = registeredPublishersReady s"
  "registerUpdatesToSend (fst (unregister_service ur d s)) = registerUpdatesToSend s"
  "registeredPublishersProcessed (fst (unregister_service ur d s)) = registeredPublishersProcessed s"
  "registeredPublishersReady (fst (unregister_service ur d s)) = registeredPublishersReady s"
  by (simp_all add: unregister_data_def unregister_service_def Let_def split: option.split)

lemma handle_request_flags:
  "registeredPublishersReady s \<Longrightarrow>
     registerUpdatesToSend (fst (handle_request rq s)) = registerUpdatesToSend s"
  "registeredPublishersProcessed (fst (handle_request rq s)) = registeredPublishersProcessed s"
  "registeredPublishersReady s \<Longrightarrow> registeredPublishersReady (fst (handle_request rq s))"
  by (cases rq; simp add: split_def Let_def handleLookup_def fst_handleRegister
      fst_handleUnregister register_data_pending register_service_pending unregister_pending)+

lemma flush_one_flags [simp]:
  "registeredPublishersReady (fold flush_one is s) = registeredPublishersReady s"
  by (induction "is" arbitrary: s) (simp_all add: flush_one_def split_def Let_def)

lemma nothing_pending_serve:
  "nothing_pending s \<Longrightarrow> nothing_pending (fst (serve_request rq s))"
  using handle_request_flags [where s = s and rq = rq]
  by (auto simp: nothing_pending_def serve_request_def flush_pending_def split_def Let_def)

lemma nothing_pending_domain_command:
  "nothing_pending s \<Longrightarrow> nothing_pending (domain_command parts s)"
  by (cases "(parts, s)" rule: domain_command.cases)
    (simp_all add: nothing_pending_def send_synchronizer_def publishDomainUpdateMessage_def
      gn_publish_def)

lemma nothing_pending_request_service:
  "nothing_pending s \<Longrightarrow> nothing_pending (fst (request_service a b s))"
  by (simp add: nothing_pending_def request_service_def getProviders_def Let_def split_def)

interpretation sd_pending: keeps_invariant sd_step "\<lambda>s e. True" nothing_pending
proof
  fix s e
  assume "nothing_pending s"
  then show "nothing_pending (sd_step s e)"
    by (cases e) (simp_all add: nothing_pending_serve nothing_pending_domain_command
        nothing_pending_request_service)
qed

text \<open>C35. No publisher update stays in the waiting list: at the end of every event of every run,
  once the \<open>RegisteredPublishers\<close> data product is registered the flag
  \<open>registeredPublishersProcessed\<close> is set and \<open>registerUpdatesToSend\<close> is empty.\<close>

theorem updates_never_stay_pending:
  "let s = foldl sd_step (sd_init d) es
   in registeredPublishersProcessed s = registeredPublishersReady s \<and>
      (registeredPublishersReady s \<longrightarrow> registerUpdatesToSend s = [])"
proof -
  have "nothing_pending (sd_init d)" by (simp add: nothing_pending_def sd_init_def)
  then have "nothing_pending (foldl sd_step (sd_init d) es)"
    by (rule sd_pending.run_inv) simp
  then show ?thesis by (auto simp: nothing_pending_def Let_def)
qed

lemma ready_register_data:
  "registeredPublishersReady (register_data reg d s) \<longleftrightarrow>
     registeredPublishersReady s \<or> field [] (rg_id reg) = REGISTERED_PUBLISHERS_DPID"
  by (simp add: register_data_def Let_def)

theorem updates_never_stay_pending_witness:
  "let s = foldl sd_step (sd_init ''D'')
       [ESRequest (RegistrationRequest (sample_reg REGISTERED_PUBLISHERS_DPID ''tcp://h:2'' 4000000))]
   in registeredPublishersReady s \<and> registerUpdatesToSend s = []"
proof -
  let ?es = "[ESRequest
    (RegistrationRequest (sample_reg REGISTERED_PUBLISHERS_DPID ''tcp://h:2'' 4000000))]"
  have "registeredPublishersReady (foldl sd_step (sd_init ''D'') ?es)"
    by (simp add: serve_request_def split_def Let_def flush_pending_def fst_handleRegister
        registration_accepted_def ready_register_data)
  then show ?thesis
    using updates_never_stay_pending [of "''D''" ?es] unfolding Let_def by blast
qed

subsection \<open>Registration and lookup\<close>

definition data_lookup :: "string \<Rightarrow> string \<Rightarrow> ComponentLookupRequestPB" where
  "data_lookup d i = \<lparr>lk_lookupID = i, lk_type = Some DATA, lk_domain_id = Some d\<rparr>"

definition service_lookup :: "string \<Rightarrow> string \<Rightarrow> ComponentLookupRequestPB" where
  "service_lookup d i = \<lparr>lk_lookupID = i, lk_type = Some SERVICE, lk_domain_id = Some d\<rparr>"

fun found_publishers :: "sd_response \<Rightarrow> PublisherInfoPB list" where
  "found_publishers (RespDataLookup r) = dl_publishers r"
| "found_publishers _ = []"

lemma lookup_domain_data: "d \<noteq> [] \<Longrightarrow> lookup_domain (data_lookup d i) s = d"
  by (simp add: lookup_domain_def data_lookup_def)

lemma found_after:
  "d \<noteq> [] \<Longrightarrow> found_publishers (snd (handleLookup (data_lookup d i) s)) = products s d i"
  by (simp add: snd_handleLookup_data data_lookup_def lookup_domain_def)

lemma filter_distinct_key:
  "distinct (map f xs) \<Longrightarrow> x \<in> set xs \<Longrightarrow> filter (\<lambda>y. f y = f x) xs = [x]"
  by (induction xs) (auto simp: filter_empty_conv image_iff)

text \<open>C4. A lookup of a data product right after an accepted registration of a publisher for it
  returns the publisher's URL exactly once, with the seconds of the registration's timestamp.\<close>

theorem register_then_lookup:
  assumes "sd_wf s" and "registration_accepted reg s" and "field DATA (rg_type reg) = DATA"
    and "registration_domain reg s \<noteq> []"
  shows "map info_time (filter (\<lambda>p. url_of p = field '''' (rg_url reg))
      (found_publishers (snd (handleLookup
         (data_lookup (registration_domain reg s) (field '''' (rg_id reg)))
         (fst (handleRegister reg s)))))) = [secs (field 0 (rg_timestamp reg))]"
proof -
  let ?d = "registration_domain reg s" and ?i = "field '''' (rg_id reg)"
  let ?u = "field '''' (rg_url reg)" and ?t = "secs (field 0 (rg_timestamp reg))"
  let ?s = "fst (handleRegister reg s)"
  have "(?d, ?i, ?u, ?t) \<in> listed ?s"
    using assms by (simp add: fst_handleRegister listed_register_data spec_register_def)
  then obtain p where p: "p \<in> set (products ?s ?d ?i)" "url_of p = ?u" "info_time p = ?t"
    by (auto simp: listed_iff publishes_def)
  moreover have "distinct (map url_of (products ?s ?d ?i))" using assms(1) by (simp add: sd_wfD)
  ultimately have "filter (\<lambda>q. url_of q = url_of p) (products ?s ?d ?i) = [p]"
    by (intro filter_distinct_key)
  with p assms(4) show ?thesis by (simp add: found_after)
qed

theorem register_then_lookup_witness:
  "map info_time (filter (\<lambda>p. url_of p = ''tcp://h:1'')
     (found_publishers (snd (handleLookup (data_lookup ''D'' ''P'')
        (fst (handleRegister (sample_reg ''P'' ''tcp://h:1'' 3000000) (sd_init ''D'')))))))
   = [secs 3000000]"
  using register_then_lookup [of "sd_init ''D''" "sample_reg ''P'' ''tcp://h:1'' 3000000"]
  by (simp add: registration_accepted_def registration_domain_def)

text \<open>A lookup of a service right after an accepted registration of it returns the registered
  URL and the seconds of the registration's timestamp.\<close>

theorem register_service_then_lookup:
  assumes "sd_wf s" and "registration_accepted reg s" and "field DATA (rg_type reg) = SERVICE"
    and "registration_domain reg s \<noteq> []"
  shows "snd (handleLookup (service_lookup (registration_domain reg s) (field '''' (rg_id reg)))
           (fst (handleRegister reg s))) =
     RespServiceLookup \<lparr>sl_lookupID = field '''' (rg_id reg), sl_url = field '''' (rg_url reg),
       sl_domain_id = Some (registration_domain reg s),
       sl_registration_time = Some (secs (field 0 (rg_timestamp reg)))\<rparr>"
proof -
  let ?d = "registration_domain reg s" and ?i = "field '''' (rg_id reg)"
  let ?s = "register_service reg ?d s"
  have eq: "fst (handleRegister reg s) = ?s" using assms(2,3) by (simp add: fst_handleRegister)
  have look: "map_of (sMap ?s ?d) ?i = Some (field '''' (rg_url reg))" by simp
  then have "smap_has (serviceMap ?s) ?d"
    by (auto simp: smap_has_def sMap_def smap_at_def field_def split: option.splits)
  with look assms(4) show ?thesis
    unfolding eq
    by (simp add: handleLookup_def service_lookup_def lookup_domain_def Let_def smap_has_def
        smap_at_def)
qed

theorem register_service_then_lookup_witness:
  "snd (handleLookup (service_lookup ''D'' ''S'')
      (fst (handleRegister ((sample_reg ''S'' ''tcp://h:1'' 3000000)\<lparr>rg_type := Some SERVICE\<rparr>)
         (sd_init ''D'')))) =
   RespServiceLookup \<lparr>sl_lookupID = ''S'', sl_url = ''tcp://h:1'', sl_domain_id = Some ''D'',
     sl_registration_time = Some (secs 3000000)\<rparr>"
  using register_service_then_lookup
    [of "sd_init ''D''" "(sample_reg ''S'' ''tcp://h:1'' 3000000)\<lparr>rg_type := Some SERVICE\<rparr>"]
  by (simp add: registration_accepted_def registration_domain_def)

subsection \<open>Subscribers are told of every change\<close>

lemma announces_via:
  "announces a b e j \<Longrightarrow> sd_published a = sd_published s \<Longrightarrow> extends_log b r \<Longrightarrow>
     products r e j = products b e j \<Longrightarrow> announces s r e j"
  by (auto intro: extends_announces [OF published_same_extends] announces_extends)

lemma announces_store_info:
  assumes "registeredPublishersReady s"
  shows "announces s (store_info reg d s) d (field '''' (rg_id reg))"
  unfolding store_info_def Let_def
  by (rule extends_announces [OF published_same_extends announces_announcePublishers])
    (simp_all add: assms)

lemma extends_log_store_info [simp]: "extends_log s (store_info reg d s)"
  unfolding store_info_def Let_def
  by (rule extends_log_trans [OF published_same_extends extends_log_announcePublishers]) simp

lemma extends_log_purge [simp]: "extends_log s (purgeObsoletePublishers i u s)"
  unfolding purgeObsoletePublishers_def Let_def
  by (rule extends_log_trans [OF published_same_extends extends_log_purge_steps]) simp

lemma announces_purge:
  assumes "sd_wf s" and "registeredPublishersReady s" and "j \<noteq> i" and e: "e = sd_domain s"
    and "products (purgeObsoletePublishers i u s) e j \<noteq> products s e j"
  shows "announces s (purgeObsoletePublishers i u s) e j"
proof -
  let ?s = "touch_products (sd_domain s) s"
  have hit: "\<exists>p\<in>set (products s (sd_domain s) j). url_of p = u"
    using assms remove_first_idle [of "products s (sd_domain s) j" "\<lambda>p. url_of p = u"]
    by (auto simp: products_purgeObsoletePublishers)
  have "j \<in> set (smap_keys (dpMap s (sd_domain s)))"
    using hit products_unlisted [of j s "sd_domain s"] by force
  then have "announces ?s (fold (purge_step i u) (smap_keys (dpMap ?s (sd_domain s))) ?s)
      (sd_domain ?s) j"
    using assms hit by (intro announces_purge_steps) (simp_all add: smap_keys_distinct sd_wfD)
  then have "announces s (fold (purge_step i u) (smap_keys (dpMap ?s (sd_domain s))) ?s)
      (sd_domain ?s) j"
    by (rule extends_announces [OF published_same_extends, rotated]) simp
  then show ?thesis by (simp add: e purgeObsoletePublishers_def Let_def)
qed

lemma announces_register_data:
  assumes wf: "sd_wf s" and ready: "registeredPublishersReady s"
    and changed: "products (register_data reg d s) e j \<noteq> products s e j"
  shows "announces s (register_data reg d s) e j"
proof -
  let ?i = "field '''' (rg_id reg)" and ?u = "field '''' (rg_url reg)"
  let ?t = "field 0 (rg_timestamp reg)"
  let ?s1 = "open_registration reg d s"
  let ?s2 = "store_info reg d ?s1"
  let ?s3 = "purgeObsoletePublishers ?i ?u ?s2"
  let ?r = "register_data reg d s"
  have ch: "registration_changes reg (secs ?t) (products s d ?i)"
    using changed products_register_data [OF wf, of reg d e j] by (auto simp: Let_def split: if_splits)
  then have r: "?r = (if d = sd_domain ?s3 \<and> ?i \<noteq> REGISTERED_PUBLISHERS_DPID
      then updateProductLocations ?i ?u ?t ADD DATA ?s3 else ?s3)"
    by (simp add: register_data_def Let_def)
  have ext: "extends_log ?s3 ?r" and same: "\<And>e j. products ?r e j = products ?s3 e j"
    unfolding r by simp_all
  show ?thesis
  proof (cases "e = d \<and> j = ?i")
    case True
    have "announces s ?s2 d ?i"
      by (rule announces_via [OF announces_store_info [of ?s1 reg d]]) (simp_all add: ready)
    moreover have "extends_log ?s2 ?r" using ext extends_log_purge extends_log_trans by blast
    ultimately show ?thesis
      using True wf by (auto intro: announces_extends simp: same products_purgeObsoletePublishers)
  next
    case False
    have "products ?s2 e j = products s e j" using False by auto
    then have neq: "products ?s3 e j \<noteq> products ?s2 e j" using changed same by simp
    then have "e = sd_domain ?s2" "j \<noteq> ?i"
      using wf by (auto simp: products_purgeObsoletePublishers split: if_splits)
    then have "announces ?s2 ?s3 e j"
      using wf ready neq by (intro announces_purge) simp_all
    moreover have "extends_log s ?s2"
      by (rule extends_log_trans [OF published_same_extends extends_log_store_info]) simp
    ultimately show ?thesis
      using ext by (auto intro: announces_extends extends_announces simp: same)
  qed
qed

lemma announces_register_service:
  assumes wf: "sd_wf s" and ready: "registeredPublishersReady s"
    and changed: "products (register_service reg d s) e j \<noteq> products s e j"
  shows "announces s (register_service reg d s) e j"
proof -
  let ?i = "field '''' (rg_id reg)" and ?u = "field '''' (rg_url reg)"
  let ?s2 = "put_component ?u (field '''' (rg_component_id reg))
    (set_services d (smap_put ?i ?u (sMap s d)) s)"
  let ?s3 = "purgeObsoletePublishers ?i ?u ?s2"
  let ?s4 = "put_instance ?u (field 0 (rg_timestamp reg)) ?s3"
  have wf2: "sd_wf ?s2" using wf by (simp add: sd_wfD)
  have e: "e = sd_domain ?s2" "j \<noteq> ?i"
    using changed wf by (auto simp: products_register_service split: if_splits)
  have "products ?s3 e j \<noteq> products ?s2 e j"
    using changed by (auto simp: register_service_def Let_def split: if_splits)
  then have "announces ?s2 ?s3 e j" using wf2 ready e by (intro announces_purge) simp_all
  moreover have "sd_published ?s2 = sd_published s" by simp
  moreover have "extends_log ?s3 ?s4" by (rule published_same_extends) simp
  then have "extends_log ?s3 (register_service reg d s)"
    by (auto simp: register_service_def Let_def
        intro: extends_log_trans [OF _ extends_log_updateProductLocations])
  moreover have "products (register_service reg d s) e j = products ?s3 e j"
    by (simp add: register_service_def Let_def)
  ultimately show ?thesis by (rule announces_via)
qed

lemma announces_unregister_data:
  assumes ready: "registeredPublishersReady s"
    and changed: "products (fst (unregister_data ur d s)) e j \<noteq> products s e j"
  shows "announces s (fst (unregister_data ur d s)) e j"
proof -
  let ?i = "ur_id ur" and ?u = "ur_url ur" and ?xs = "products s d (ur_id ur)"
  have ej: "e = d" "j = ?i"
    using changed by (auto simp: products_unregister_data split: if_splits)
  have "remove_first (is_unregistered ur) ?xs \<noteq> ?xs"
    using changed ej by (auto simp: products_unregister_data)
  then obtain p where p: "find (is_unregistered ur) ?xs = Some p"
    by (cases "find (is_unregistered ur) ?xs") (auto simp: find_None_all remove_first_idle)
  let ?s2 = "set_products d ?i (remove_first (is_unregistered ur) ?xs) (set_products d ?i ?xs s)"
  let ?s3 = "if products ?s2 d ?i = [] then erase_product d ?i ?s2 else ?s2"
  let ?s4 = "announcePublishers ?i d ?s3"
  have "announces ?s3 ?s4 d ?i" by (rule announces_announcePublishers) (simp add: ready)
  moreover have "sd_published ?s3 = sd_published s" by simp
  moreover have "extends_log ?s4 (fst (unregister_data ur d s))"
    using p by (auto simp: unregister_data_def Let_def updateProductLocations_def extends_log_def)
  moreover have "products (fst (unregister_data ur d s)) d ?i = products ?s4 d ?i"
    using p by (simp add: unregister_data_def Let_def)
  ultimately show ?thesis unfolding ej by (rule announces_via)
qed

lemma products_lookup_unchanged: "products (fst (handleLookup lk s)) e j = products s e j"
  by (simp add: handleLookup_def Let_def split_def)

text \<open>C3. Once the \<open>RegisteredPublishers\<close> data product is registered, every request that
  changes the publisher list of a data product in a domain publishes, while it is handled, the
  list as it is after the request, with the product's id as filter text.\<close>

theorem changes_are_announced:
  assumes "sd_wf s" and "registeredPublishersReady s"
    and "products (fst (handle_request rq s)) e j \<noteq> products s e j"
  shows "announces s (fst (handle_request rq s)) e j"
proof (cases rq)
  case (RegistrationRequest reg)
  with assms show ?thesis
    by (auto simp: split_def Let_def fst_handleRegister announces_register_data
        announces_register_service split: if_splits)
next
  case (UnregistrationRequest ur)
  with assms show ?thesis
    by (auto simp: split_def Let_def fst_handleUnregister announces_unregister_data split: if_splits)
qed (use assms in \<open>simp_all add: products_lookup_unchanged\<close>)

definition ready_directory :: "sd_state" where
  "ready_directory = mark_ready (sd_init ''D'')"

lemma ready_directory_simps [simp]:
  "sd_wf ready_directory" "registeredPublishersReady ready_directory"
  "sd_domain ready_directory = ''D''" "products ready_directory e j = []"
  "map_of (registrationInstanceMap ready_directory) u = None" "listed ready_directory = {}"
  by (auto simp: ready_directory_def listed_iff publishes_def)

theorem changes_are_announced_witness:
  "announces ready_directory
     (fst (handle_request (RegistrationRequest (sample_reg ''P'' ''tcp://h:1'' 5000000))
        ready_directory)) ''D'' ''P''"
proof (rule changes_are_announced)
  let ?s = "fst (handleRegister (sample_reg ''P'' ''tcp://h:1'' 5000000) ready_directory)"
  have "(''D'', ''P'', ''tcp://h:1'', secs 5000000) \<in> listed ?s"
    by (simp add: fst_handleRegister registration_accepted_def listed_register_data
        registration_domain_def spec_register_def)
  then show "products (fst (handle_request
      (RegistrationRequest (sample_reg ''P'' ''tcp://h:1'' 5000000)) ready_directory)) ''D'' ''P''
    \<noteq> products ready_directory ''D'' ''P''"
    by (auto simp: split_def Let_def listed_iff publishes_def)
qed simp_all

subsection \<open>A timestamp that is forgotten\<close>

text \<open>When a publisher moves its URL from one data product to another of the directory's own
  domain, \<open>handleRegister\<close> stores the new timestamp and then lets the purge erase it, so the
  directory has no timestamp for the URL afterwards: a registration with any older timestamp is
  accepted in the state it leaves.\<close>

theorem moved_url_forgets_timestamp:
  assumes "sd_wf s" and "registration_accepted reg s" and "field DATA (rg_type reg) = DATA"
    and "(registration_domain reg s, field '''' (rg_id reg), field '''' (rg_url reg),
          secs (field 0 (rg_timestamp reg))) \<notin> listed s"
    and "(sd_domain s, k, field '''' (rg_url reg), t) \<in> listed s" and "k \<noteq> field '''' (rg_id reg)"
    and "rg_url old = rg_url reg" and "rg_timestamp old \<noteq> None"
  shows "instance_of (field '''' (rg_url reg)) (fst (handleRegister reg s)) = 0 \<and>
         registration_accepted old (fst (handleRegister reg s))"
proof -
  let ?u = "field '''' (rg_url reg)"
  have "registration_changes reg (secs (field 0 (rg_timestamp reg)))
      (products s (registration_domain reg s) (field '''' (rg_id reg)))"
    using assms(1,4) by (simp add: registration_changes_iff sd_wfD listed_iff)
  moreover have "\<exists>p\<in>set (products s (sd_domain s) k). url_of p = ?u"
    using assms(5) by (auto simp: listed_iff publishes_def)
  ultimately have zero: "instance_of ?u (fst (handleRegister reg s)) = 0"
    using assms by (simp add: fst_handleRegister instance_register_data)
  have "old_t = 0" if "map_of (registrationInstanceMap (fst (handleRegister reg s))) ?u = Some old_t"
    for old_t
    using zero that by (simp add: instance_of_def smap_at_def)
  with zero assms(7,8) show ?thesis
    by (auto simp: registration_accepted_def split: option.split)
qed

lemma registration_accepted_iff:
  "registration_accepted reg s \<longleftrightarrow>
     (\<exists>t. rg_timestamp reg = Some t \<and> instance_of (field '''' (rg_url reg)) s \<le> t)"
  by (auto simp: registration_accepted_def instance_of_def smap_at_def field_def not_less
      split: option.splits)

lemma instance_register_first:
  "instance_of u (register_data (sample_reg i u t) d (sd_init d)) = t"
  by (simp add: register_data_def Let_def instance_purgeObsoletePublishers)

lemma instance_register_data_le:
  assumes "sd_wf s"
  shows "instance_of v (register_data reg d s) \<le>
     (if v = field '''' (rg_url reg) then field 0 (rg_timestamp reg) else instance_of v s)"
  using assms by (auto simp: register_data_def Let_def instance_purgeObsoletePublishers)

lemma instance_register_service_le:
  assumes "sd_wf s"
  shows "instance_of v (register_service reg d s) \<le>
     (if v = field '''' (rg_url reg) then field 0 (rg_timestamp reg) else instance_of v s)"
  using assms by (auto simp: register_service_def Let_def instance_purgeObsoletePublishers sd_wfD)

theorem moved_url_forgets_timestamp_witness:
  "let s = fst (handleRegister (sample_reg ''P'' ''tcp://h:1'' 3000000) (sd_init ''D''));
       s' = fst (handleRegister (sample_reg ''Q'' ''tcp://h:1'' 5000000) s)
   in registration_accepted (sample_reg ''P'' ''tcp://h:1'' 1) s' \<and>
      \<not> registration_accepted (sample_reg ''P'' ''tcp://h:1'' 1) s"
proof -
  let ?u = "''tcp://h:1''"
  let ?s = "register_data (sample_reg ''P'' ?u 3000000) ''D'' (sd_init ''D'')"
  have s: "fst (handleRegister (sample_reg ''P'' ?u 3000000) (sd_init ''D'')) = ?s"
    by (simp add: fst_handleRegister registration_accepted_iff registration_domain_def)
  have l: "listed ?s = {(''D'', ''P'', ?u, secs 3000000)}"
    by (auto simp: listed_register_data spec_register_def spec_purge_def)
  have acc: "registration_accepted (sample_reg j ?u t) ?s \<longleftrightarrow> 3000000 \<le> t" for j t
    by (simp add: registration_accepted_iff instance_register_first)
  have "registration_accepted (sample_reg ''P'' ?u 1)
      (fst (handleRegister (sample_reg ''Q'' ?u 5000000) ?s))"
    using moved_url_forgets_timestamp [of ?s "sample_reg ''Q'' ?u 5000000" "''P''" "secs 3000000"
        "sample_reg ''P'' ?u 1"]
    by (simp add: l acc registration_domain_def)
  then show ?thesis unfolding s Let_def by (simp add: acc word_le_nat_alt)
qed

subsection \<open>The list of domains\<close>

lemma parseDomainCSV_loop_split:
  "parseDomainCSV_loop n seg cs =
     (if \<forall>d\<in>set (butlast (split_commas seg cs)). validateDomainName d
      then int n + int (length (split_commas seg cs)) else - 1)"
  by (induction n seg cs rule: parseDomainCSV_loop.induct) auto

lemma validateDomainName_iff:
  "validateDomainName d \<longleftrightarrow> (\<forall>c\<in>set d. isalnum_c c \<or> c = CHR ''.'')"
  by (induction d) auto

text \<open>\<open>parseDomainCSV\<close> of a nonempty list returns the number of its comma-separated names when
  all of them but the last consist of letters, digits and dots, and -1 otherwise; the last name is
  never validated.\<close>

theorem parseDomainCSV_spec:
  "parseDomainCSV csv =
     (if csv = [] then 0
      else if \<exists>d\<in>set (butlast (split_commas [] csv)). \<exists>c\<in>set d. \<not> isalnum_c c \<and> c \<noteq> CHR ''.''
      then - 1 else int (length (split_commas [] csv)))"
  by (auto simp: parseDomainCSV_def parseDomainCSV_loop_split validateDomainName_iff)

end
