(* ===== verification/CommUtil.thy ===== *)
theory CommUtil
  imports Gravity_Prelude
begin

unbundle bit_operations_syntax

section \<open>Messages, ports and times (\<open>CommUtil.cpp\<close>)\<close>

text \<open>
  The helpers that every manager uses: the frames in which integers travel over inproc sockets,
  the search for a free port, and arithmetic on \<open>struct timeval\<close>. A frame is the list of its
  bytes, least significant first, as \<open>memcpy\<close> leaves them on the supported platforms. Reading an
  integer copies as many bytes as the frame has into a variable of fixed size that was not
  initialised: with any other number of bytes the result is not defined, which is \<open>None\<close> here.
\<close>

type_synonym frame = "8 word list"

definition sendUint32Message :: "u32 \<Rightarrow> frame" where
  "sendUint32Message val = map (\<lambda>i. ucast (drop_bit (8 * i) val)) [0..<4]"

definition readUint32Message :: "frame \<Rightarrow> u32 option" where
  "readUint32Message fr =
     (if length fr = 4
      then Some (foldr (\<lambda>b acc. push_bit 8 acc OR ucast b) fr 0) else None)"

definition sendUint64Message :: "u64 \<Rightarrow> frame" where
  "sendUint64Message val = map (\<lambda>i. ucast (drop_bit (8 * i) val)) [0..<8]"

definition readUint64Message :: "frame \<Rightarrow> u64 option" where
  "readUint64Message fr =
     (if length fr = 8
      then Some (foldr (\<lambda>b acc. push_bit 8 acc OR ucast b) fr 0) else None)"

definition sendIntMessage :: "int \<Rightarrow> frame" where
  "sendIntMessage val = sendUint32Message (word_of_int val)"

definition readIntMessage :: "frame \<Rightarrow> int option" where
  "readIntMessage fr = map_option sint (readUint32Message fr)"

text \<open>A string frame has the bytes of the string, also when one of them is zero.\<close>

definition sendStringMessage :: "string \<Rightarrow> frame" where
  "sendStringMessage str = map (\<lambda>c. word_of_nat (of_char c)) str"

definition readStringMessage :: "frame \<Rightarrow> string" where
  "readStringMessage fr = map (\<lambda>b. char_of (unat b)) fr"

subsection \<open>Binding to a port\<close>

fun show_nat :: "nat \<Rightarrow> string" where
  "show_nat n = (if n < 10 then [char_of (48 + n)] else show_nat (n div 10) @ [char_of (48 + n mod 10)])"

definition show_int :: "int \<Rightarrow> string" where
  "show_int i = (if i < 0 then CHR ''-'' # show_nat (nat (- i)) else show_nat (nat i))"

definition port_address :: "string \<Rightarrow> int \<Rightarrow> string" where
  "port_address ipAddr i = ''tcp://'' @ ipAddr @ '':'' @ show_int i"

text \<open>
  \<open>zmq_bind\<close> is a parameter: what it returns for each address it is called with. The first
  argument counts the ports that are left to try.
\<close>

fun bind_loop :: "(string \<Rightarrow> int) \<Rightarrow> string \<Rightarrow> nat \<Rightarrow> int \<Rightarrow> int" where
  "bind_loop zmq_bind ipAddr 0 i = -1"
| "bind_loop zmq_bind ipAddr (Suc n) i =
     (if zmq_bind (port_address ipAddr i) = 0 then i else bind_loop zmq_bind ipAddr n (i + 1))"

definition bindFirstAvailablePort :: "(string \<Rightarrow> int) \<Rightarrow> string \<Rightarrow> int \<Rightarrow> int \<Rightarrow> int" where
  "bindFirstAvailablePort zmq_bind ipAddr minPort maxPort =
     bind_loop zmq_bind ipAddr (nat (maxPort - minPort + 1)) minPort"

subsection \<open>Times\<close>

record timeval =
  tv_sec :: int
  tv_usec :: int

definition addTime :: "timeval \<Rightarrow> int \<Rightarrow> timeval" where
  "addTime t1 sec = \<lparr>tv_sec = tv_sec t1 + sec, tv_usec = tv_usec t1\<rparr>"

definition timevalcmp :: "timeval \<Rightarrow> timeval \<Rightarrow> int" where
  "timevalcmp t1 t2 =
     (if tv_sec t1 = tv_sec t2 then
        (if tv_usec t1 = tv_usec t2 then 0 else if tv_usec t1 < tv_usec t2 then -1 else 1)
      else if tv_sec t1 < tv_sec t2 then -1 else 1)"

definition subtractTime :: "timeval \<Rightarrow> timeval \<Rightarrow> timeval" where
  "subtractTime t1 t2 =
     (if timevalcmp t1 t2 \<le> 0 then \<lparr>tv_sec = 0, tv_usec = 0\<rparr>
      else \<lparr>tv_sec = tv_sec t1 - tv_sec t2,
            tv_usec = (if tv_usec t2 > tv_usec t1 then 1000000 else tv_usec t1) - tv_usec t2\<rparr>)"

definition timevalToMilliSeconds :: "timeval \<Rightarrow> u32" where
  "timevalToMilliSeconds tv = word_of_int (tv_usec tv div 1000) + word_of_int (tv_sec tv * 1000)"

subsection \<open>Round trips\<close>

definition join_bytes :: "frame \<Rightarrow> 'a::len word" where
  "join_bytes fr = foldr (\<lambda>b acc. push_bit 8 acc OR ucast b) fr 0"

definition split_bytes :: "nat \<Rightarrow> 'a::len word \<Rightarrow> frame" where
  "split_bytes n val = map (\<lambda>i. ucast (drop_bit (8 * i) val)) [0..<n]"

lemma split_bytes_Suc:
  "split_bytes (Suc n) val = ucast val # split_bytes n (drop_bit 8 val)"
proof -
  have "[0..<Suc n] = 0 # map Suc [0..<n]" by (simp add: upt_conv_Cons map_Suc_upt)
  then show ?thesis by (simp add: split_bytes_def drop_bit_drop_bit add.commute)
qed

lemma ucast_byte: "8 \<le> LENGTH('a) \<Longrightarrow> ucast (ucast val :: 8 word) = take_bit 8 (val :: 'a::len word)"
  by (rule bit_word_eqI) (auto simp: bit_simps)

lemma join_split_bytes:
  "8 \<le> LENGTH('a) \<Longrightarrow> join_bytes (split_bytes n val) = take_bit (8 * n) (val :: 'a::len word)"
proof (induction n arbitrary: val)
  case 0
  then show ?case by (simp add: join_bytes_def split_bytes_def)
next
  case (Suc n)
  have "push_bit 8 (take_bit (8 * n) (drop_bit 8 val)) OR take_bit 8 val = take_bit (8 + 8 * n) val"
    by (rule bit_word_eqI) (auto simp: bit_simps)
  then show ?case
    using Suc by (simp add: split_bytes_Suc join_bytes_def ucast_byte)
qed

lemma take_bit_full: "take_bit LENGTH('a) (val :: 'a::len word) = val"
  by (rule bit_word_eqI) (simp add: bit_simps)

lemma read_send_uint32: "readUint32Message (sendUint32Message val) = Some val"
  using join_split_bytes [of 4 val] take_bit_full [of val]
  by (simp add: readUint32Message_def sendUint32Message_def join_bytes_def split_bytes_def)

lemma read_send_uint64: "readUint64Message (sendUint64Message val) = Some val"
  using join_split_bytes [of 8 val] take_bit_full [of val]
  by (simp add: readUint64Message_def sendUint64Message_def join_bytes_def split_bytes_def)

lemma read_send_int:
  "- (2 ^ 31) \<le> val \<Longrightarrow> val < 2 ^ 31 \<Longrightarrow> readIntMessage (sendIntMessage val) = Some val"
  by (simp add: readIntMessage_def sendIntMessage_def read_send_uint32 signed_of_int
      signed_take_bit_int_eq_self)

lemma read_send_string: "readStringMessage (sendStringMessage str) = str"
  by (simp add: readStringMessage_def sendStringMessage_def comp_def unat_of_nat)

text \<open>What one thread sends the other reads back: every unsigned 32-bit and 64-bit value and
  every string, zero bytes included, survives the frame it is sent in.\<close>

theorem message_round_trips:
  "readUint32Message (sendUint32Message a) = Some a \<and>
   readUint64Message (sendUint64Message b) = Some b \<and>
   readStringMessage (sendStringMessage str) = str"
  by (simp add: read_send_uint32 read_send_uint64 read_send_string)

subsection \<open>Ports\<close>

text \<open>\<open>least_free free p\<close>: \<open>p\<close> is the smallest element of \<open>free\<close>, or -1 when it is empty.\<close>

definition least_free :: "int set \<Rightarrow> int \<Rightarrow> bool" where
  "least_free free p \<longleftrightarrow> (if free = {} then p = -1 else p \<in> free \<and> (\<forall>i\<in>free. p \<le> i))"

lemma bind_loop_least:
  "least_free {i. m \<le> i \<and> i < m + int n \<and> zmq_bind (port_address ip i) = 0} (bind_loop zmq_bind ip n m)"
proof (induction n arbitrary: m)
  case (Suc n)
  let ?P = "\<lambda>j. zmq_bind (port_address ip j) = 0"
  show ?case
  proof (cases "?P m")
    case False
    have "m \<le> i \<and> i < m + int (Suc n) \<and> ?P i \<longleftrightarrow> m + 1 \<le> i \<and> i < m + 1 + int n \<and> ?P i" for i
      using False by (cases "i = m") auto
    then have "{i. m \<le> i \<and> i < m + int (Suc n) \<and> ?P i} =
        {i. m + 1 \<le> i \<and> i < m + 1 + int n \<and> ?P i}" by blast
    moreover have "bind_loop zmq_bind ip (Suc n) m = bind_loop zmq_bind ip n (m + 1)"
      using False by simp
    ultimately show ?thesis by (simp only: Suc.IH)
  qed (auto simp: least_free_def)
qed (simp add: least_free_def)

text \<open>\<open>bindFirstAvailablePort\<close> returns the smallest port of the range at which \<open>zmq_bind\<close>
  succeeds, and -1 exactly when it succeeds at none of them.\<close>

theorem bindFirstAvailablePort_least:
  "least_free {i. minPort \<le> i \<and> i \<le> maxPort \<and> zmq_bind (port_address ip i) = 0}
     (bindFirstAvailablePort zmq_bind ip minPort maxPort)"
proof -
  have "{i. minPort \<le> i \<and> i \<le> maxPort \<and> zmq_bind (port_address ip i) = 0} =
      {i. minPort \<le> i \<and> i < minPort + int (nat (maxPort - minPort + 1)) \<and>
          zmq_bind (port_address ip i) = 0}"
    by auto
  then show ?thesis unfolding bindFirstAvailablePort_def by (simp only: bind_loop_least)
qed

subsection \<open>Times\<close>

definition micros :: "timeval \<Rightarrow> int" where
  "micros t = tv_sec t * 1000000 + tv_usec t"

definition normal_time :: "timeval \<Rightarrow> bool" where
  "normal_time t \<longleftrightarrow> 0 \<le> tv_usec t \<and> tv_usec t < 1000000"

lemma timevalcmp_micros:
  "normal_time a \<Longrightarrow> normal_time b \<Longrightarrow>
     (timevalcmp a b < 0 \<longleftrightarrow> micros a < micros b) \<and> (timevalcmp a b = 0 \<longleftrightarrow> micros a = micros b)"
  by (auto simp: timevalcmp_def micros_def normal_time_def)

lemma timevalcmp_le: "normal_time a \<Longrightarrow> normal_time b \<Longrightarrow> timevalcmp a b \<le> 0 \<longleftrightarrow> micros a \<le> micros b"
  using timevalcmp_micros [of a b] by linarith

text \<open>\<open>subtractTime\<close> is zero when the first time is not after the second, and otherwise the
  exact difference in microseconds unless it has to borrow from the seconds: then it returns
  too much, by a million less the microseconds of the first time.\<close>

theorem subtractTime_micros:
  assumes "normal_time t1" and "normal_time t2"
  shows "micros (subtractTime t1 t2) =
     (if micros t1 \<le> micros t2 then 0
      else micros t1 - micros t2 + (if tv_usec t2 > tv_usec t1 then 1000000 - tv_usec t1 else 0))"
  using assms timevalcmp_le [OF assms]
  by (auto simp: subtractTime_def micros_def algebra_simps)

theorem subtractTime_micros_witness:
  "micros (subtractTime \<lparr>tv_sec = 5, tv_usec = 100\<rparr> \<lparr>tv_sec = 4, tv_usec = 200\<rparr>) =
     999900 + (1000000 - 100)"
  using subtractTime_micros [of "\<lparr>tv_sec = 5, tv_usec = 100\<rparr>" "\<lparr>tv_sec = 4, tv_usec = 200\<rparr>"]
  by (simp add: normal_time_def micros_def)

end
