(* ===== verification/UDP_Domains.thy ===== *)
theory UDP_Domains
  imports CommUtil Std_Map Protobufs
begin

section \<open>Finding other domains (\<open>ServiceDirectoryUDPReceiver.cpp\<close>, \<open>\<dots>Broadcaster.cpp\<close>)\<close>

text \<open>
  The broadcaster thread announces the own domain by UDP; the receiver thread counts the
  announcements of the others, reports a domain to the service directory after
  \<open>MAX_RECEIVE_COUNT\<close> of them, reports a restart when the start time changes, and withdraws the
  domain when enough expected announcements did not come. The state holds the four file-scope maps
  of the receiver and the commands sent to the service directory. \<open>map::at\<close> throws on a missing
  key: that is the result \<open>None\<close> here, and \<open>receiver_never_throws\<close> excludes it.
\<close>

definition MAX_RECEIVE_COUNT :: nat where
  "MAX_RECEIVE_COUNT = 3"

record rv_state =
  receivedCountMap :: "(string, u32) smap"
  broadcastRateMap :: "(string, u32) smap"
  expectedMsgTimeMap :: "(string, timeval) smap"
  connectedDomainMap :: "(string, int) smap"
  rv_commands :: "string list list"
  rv_timeout :: timeval

definition zeroTime :: timeval where
  "zeroTime = \<lparr>tv_sec = 0, tv_usec = 0\<rparr>"

definition rv_init :: rv_state where
  "rv_init = \<lparr>receivedCountMap = [], broadcastRateMap = [], expectedMsgTimeMap = [],
     connectedDomainMap = [], rv_commands = [], rv_timeout = zeroTime\<rparr>"

subsection \<open>Which domains to listen to\<close>

fun isValidDomain :: "string list \<Rightarrow> string \<Rightarrow> bool" where
  "isValidDomain [] d = False"
| "isValidDomain (v # vs) d = (if d = v \<or> v = ''*'' then True else isValidDomain vs d)"

text \<open>
  \<open>string::find(",", start)\<close> stored in an \<open>unsigned int\<close>: \<open>npos\<close> is truncated to
  \<open>2^32 - 1\<close>, which never equals the 64-bit \<open>npos\<close> it is compared with, so the assignment
  \<open>end = domainString.length()\<close> is never made; \<open>substr\<close> clips its length argument, and throws
  when it starts past the end (\<open>None\<close>).
\<close>

definition find_comma :: "string \<Rightarrow> nat \<Rightarrow> u32" where
  "find_comma str start =
     (case find (\<lambda>k. str ! k = CHR '','') [start..<length str] of
        None \<Rightarrow> - 1
      | Some k \<Rightarrow> word_of_nat k)"

definition substr :: "string \<Rightarrow> nat \<Rightarrow> nat \<Rightarrow> string option" where
  "substr str start n = (if start \<le> length str then Some (take n (drop start str)) else None)"

fun parseValidDomains_loop :: "string \<Rightarrow> nat \<Rightarrow> u32 \<Rightarrow> u32 \<Rightarrow> string list \<Rightarrow> string list option" where
  "parseValidDomains_loop str 0 start end acc = Some acc"
| "parseValidDomains_loop str (Suc n) start end acc =
     (case substr str (unat start) (unat (end - start)) of
        None \<Rightarrow> None
      | Some sub \<Rightarrow> parseValidDomains_loop str n (end + 1) (find_comma str (unat (end + 1))) (acc @ [sub]))"

definition parseValidDomains :: "string \<Rightarrow> nat \<Rightarrow> string list option" where
  "parseValidDomains domainString numDomains =
     parseValidDomains_loop domainString numDomains 0 (find_comma domainString 0) []"

subsection \<open>A broadcast is received\<close>

definition send_command :: "string list \<Rightarrow> rv_state \<Rightarrow> rv_state" where
  "send_command cmd s = s\<lparr>rv_commands := rv_commands s @ [cmd]\<rparr>"

definition set_count :: "string \<Rightarrow> u32 \<Rightarrow> rv_state \<Rightarrow> rv_state" where
  "set_count d n s = s\<lparr>receivedCountMap := smap_put d n (receivedCountMap s)\<rparr>"

definition set_connected :: "string \<Rightarrow> int \<Rightarrow> rv_state \<Rightarrow> rv_state" where
  "set_connected d t s = s\<lparr>connectedDomainMap := smap_put d t (connectedDomainMap s)\<rparr>"

definition set_expected :: "string \<Rightarrow> timeval \<Rightarrow> rv_state \<Rightarrow> rv_state" where
  "set_expected d t s = s\<lparr>expectedMsgTimeMap := smap_put d t (expectedMsgTimeMap s)\<rparr>"

definition set_rate :: "string \<Rightarrow> u32 \<Rightarrow> rv_state \<Rightarrow> rv_state" where
  "set_rate d r s = s\<lparr>broadcastRateMap := smap_put d r (broadcastRateMap s)\<rparr>"

definition connect_domain :: "ServiceDirectoryBroadcastPB \<Rightarrow> rv_state \<Rightarrow> rv_state" where
  "connect_domain pb s =
     (let d = bc_domain pb
      in case map_of (connectedDomainMap s) d of
           None \<Rightarrow> send_command [''Add'', d, bc_url pb] (set_connected d (bc_starttime pb) s)
         | Some t \<Rightarrow>
             (if t \<noteq> bc_starttime pb
              then send_command [''Update'', d, bc_url pb] (set_connected d (bc_starttime pb) s)
              else s))"

definition rate_of :: "ServiceDirectoryBroadcastPB \<Rightarrow> u32" where
  "rate_of pb = field 0 (bc_rate pb)"

definition count_broadcast :: "ServiceDirectoryBroadcastPB \<Rightarrow> rv_state \<Rightarrow> rv_state" where
  "count_broadcast pb s =
     (let d = bc_domain pb
      in case map_of (receivedCountMap s) d of
           None \<Rightarrow> set_rate d (rate_of pb) (set_count d 1 s)
         | Some n \<Rightarrow>
             (let count = n + 1
              in if of_nat MAX_RECEIVE_COUNT \<le> count
                 then set_count d (of_nat MAX_RECEIVE_COUNT) (connect_domain pb s)
                 else set_count d count s))"

definition on_broadcast ::
  "string \<Rightarrow> string list \<Rightarrow> timeval \<Rightarrow> ServiceDirectoryBroadcastPB \<Rightarrow> rv_state \<Rightarrow> rv_state" where
  "on_broadcast ourDomain validDomains now pb s =
     (if ourDomain \<noteq> bc_domain pb \<and> isValidDomain validDomains (bc_domain pb)
      then set_expected (bc_domain pb) (addTime now (sint (rate_of pb))) (count_broadcast pb s)
      else s)"

subsection \<open>The deadlines\<close>

definition forget_domain :: "string \<Rightarrow> rv_state \<Rightarrow> rv_state" where
  "forget_domain d s =
     (let s1 = (if smap_has (connectedDomainMap s) d
                then (send_command [''Remove'', d] s)\<lparr>connectedDomainMap :=
                       smap_erase d (connectedDomainMap s)\<rparr>
                else s)
      in s1\<lparr>receivedCountMap := smap_erase d (receivedCountMap s1),
            broadcastRateMap := smap_erase d (broadcastRateMap s1)\<rparr>)"

definition shorten_timeout :: "timeval \<Rightarrow> timeval \<Rightarrow> rv_state \<Rightarrow> rv_state" where
  "shorten_timeout now nextTime s =
     (let timeToWait = subtractTime nextTime now
      in if timevalcmp zeroTime (rv_timeout s) = 0 \<or> timevalcmp timeToWait (rv_timeout s) < 0
         then s\<lparr>rv_timeout := timeToWait\<rparr> else s)"

text \<open>
  The body of the loop over \<open>expectedMsgTimeMap\<close> at the domain \<open>d\<close>; the second component is
  \<open>removeSet\<close>.
\<close>

definition check_deadline ::
  "timeval \<Rightarrow> string \<Rightarrow> rv_state \<times> string list \<Rightarrow> (rv_state \<times> string list) option" where
  "check_deadline now d sr =
     (let s = fst sr; expected = smap_at zeroTime (expectedMsgTimeMap s) d
      in if timevalcmp expected now \<le> 0 then
           (case map_of (receivedCountMap s) d of
              None \<Rightarrow> None
            | Some n \<Rightarrow>
                (let count = sint n - 1
                 in if count \<le> 0 then Some (forget_domain d s, sset_insert d (snd sr))
                    else (case map_of (broadcastRateMap s) d of
                            None \<Rightarrow> None
                          | Some r \<Rightarrow>
                              (let e = addTime expected (sint r)
                               in Some (shorten_timeout now e
                                    (set_count d (word_of_int count) (set_expected d e s)), snd sr)))))
         else Some (shorten_timeout now expected s, snd sr))"

fun check_deadlines ::
  "timeval \<Rightarrow> string list \<Rightarrow> rv_state \<times> string list \<Rightarrow> (rv_state \<times> string list) option" where
  "check_deadlines now [] sr = Some sr"
| "check_deadlines now (d # ds) sr =
     (case check_deadline now d sr of None \<Rightarrow> None | Some sr1 \<Rightarrow> check_deadlines now ds sr1)"

definition erase_expected :: "string \<Rightarrow> rv_state \<Rightarrow> rv_state" where
  "erase_expected d s = s\<lparr>expectedMsgTimeMap := smap_erase d (expectedMsgTimeMap s)\<rparr>"

definition expire :: "timeval \<Rightarrow> rv_state \<Rightarrow> rv_state option" where
  "expire now s =
     (case check_deadlines now (smap_keys (expectedMsgTimeMap s)) (s\<lparr>rv_timeout := zeroTime\<rparr>, []) of
        None \<Rightarrow> None
      | Some (s1, removeSet) \<Rightarrow> Some (fold erase_expected removeSet s1))"

text \<open>
  An iteration of the receiver's loop: \<open>recvfrom\<close> gave a broadcast, or timed out (\<open>None\<close>). An
  empty datagram makes the loop start over and a socket error ends it.
\<close>

definition rv_iteration ::
  "string \<Rightarrow> string list \<Rightarrow> timeval \<times> ServiceDirectoryBroadcastPB option \<Rightarrow> rv_state \<Rightarrow> rv_state option" where
  "rv_iteration ourDomain validDomains ev s =
     expire (fst ev) (case snd ev of None \<Rightarrow> s
                      | Some pb \<Rightarrow> on_broadcast ourDomain validDomains (fst ev) pb s)"

fun rv_run ::
  "string \<Rightarrow> string list \<Rightarrow> (timeval \<times> ServiceDirectoryBroadcastPB option) list \<Rightarrow> rv_state \<Rightarrow>
     rv_state option" where
  "rv_run ourDomain validDomains [] s = Some s"
| "rv_run ourDomain validDomains (ev # evs) s =
     (case rv_iteration ourDomain validDomains ev s of
        None \<Rightarrow> None | Some s1 \<Rightarrow> rv_run ourDomain validDomains evs s1)"

subsection \<open>The broadcaster\<close>

text \<open>
  The loop of the broadcaster as a function of one \<open>zmq_poll\<close>: the command read, if any, and
  whether \<open>sendto\<close> succeeds. The parameters of a \<open>broadcast\<close> command are the five message
  parts that \<open>receiveBroadcastParameters\<close> reads. \<open>bd_block\<close> is the timeout of the next poll.
\<close>

record bd_params =
  bp_domainName :: string
  bp_url :: string
  bp_broadcastIP :: string
  bp_port :: u32
  bp_broadcastRate :: u32

datatype bd_command = Start_broadcast bd_params | Stop_broadcast | Kill_broadcast | Other_broadcast

record bd_state =
  bd_starttime :: int
  bd_block :: int
  bd_broadcasting :: bool
  bd_message :: ServiceDirectoryBroadcastPB
  bd_destination :: "string \<times> u32"
  bd_sent :: "((string \<times> u32) \<times> ServiceDirectoryBroadcastPB) list"
  bd_running :: bool

definition bd_init :: "int \<Rightarrow> bd_state" where
  "bd_init now = \<lparr>bd_starttime = now, bd_block = -1, bd_broadcasting = False,
     bd_message = \<lparr>bc_id = None, bc_domain = '''', bc_url = '''', bc_rate = None, bc_starttime = 0\<rparr>,
     bd_destination = ('''', 0), bd_sent = [], bd_running = True\<rparr>"

fun contains :: "string \<Rightarrow> string \<Rightarrow> bool" where
  "contains pat [] = (pat = [])"
| "contains pat (c # cs) = (take (length pat) (c # cs) = pat \<or> contains pat cs)"

text \<open>The destination address of \<open>initBroadcastSocket\<close>.\<close>

definition broadcast_address :: "bd_params \<Rightarrow> string" where
  "broadcast_address p =
     (if bp_broadcastIP p = '''' then
        (if contains ''127.0.0.1'' (bp_url p) then ''127.255.255.255'' else ''255.255.255.255'')
      else bp_broadcastIP p)"

definition start_broadcast :: "bd_params \<Rightarrow> bd_state \<Rightarrow> bd_state" where
  "start_broadcast p s =
     s\<lparr>bd_block := 0,
       bd_message := \<lparr>bc_id = Some '''', bc_domain = bp_domainName p, bc_url = bp_url p,
         bc_rate = Some (bp_broadcastRate p), bc_starttime = bd_starttime s\<rparr>,
       bd_destination := (broadcast_address p, bp_port p),
       bd_broadcasting := True\<rparr>"

definition send_broadcast :: "bool \<Rightarrow> bd_state \<Rightarrow> bd_state" where
  "send_broadcast sendto_ok s =
     (if bd_broadcasting s then
        (if sendto_ok then s\<lparr>bd_sent := bd_sent s @ [(bd_destination s, bd_message s)]\<rparr>
         else s\<lparr>bd_running := False\<rparr>)
      else s)"

definition bd_iteration :: "bd_command option \<Rightarrow> bool \<Rightarrow> bd_state \<Rightarrow> bd_state" where
  "bd_iteration cmd sendto_ok s =
     (case cmd of
        Some (Start_broadcast p) \<Rightarrow> send_broadcast sendto_ok (start_broadcast p s)
      | Some Stop_broadcast \<Rightarrow> s\<lparr>bd_block := -1, bd_broadcasting := False\<rparr>
      | Some Kill_broadcast \<Rightarrow> s\<lparr>bd_running := False\<rparr>
      | _ \<Rightarrow> send_broadcast sendto_ok s)"

fun bd_step :: "bd_state \<Rightarrow> bd_command option \<times> bool \<Rightarrow> bd_state" where
  "bd_step s (cmd, ok) = (if bd_running s then bd_iteration cmd ok s else s)"

end
