(* ===== verification/UDP_Correct.thy ===== *)
theory UDP_Correct
  imports UDP_Domains
begin

section \<open>Correctness of the UDP receiver\<close>

text \<open>
  The four maps of the receiver always have the same domains, so no \<open>map::at\<close> throws; the counts
  stay between 1 and \<open>MAX_RECEIVE_COUNT\<close>; and the commands sent to the service directory follow
  the protocol that the directory and its synchronizer rely on.
\<close>

lemmas rv_defs = send_command_def set_count_def set_connected_def set_expected_def set_rate_def
  erase_expected_def MAX_RECEIVE_COUNT_def

subsection \<open>The command protocol\<close>

text \<open>
  Which domains are connected after a list of commands, starting from \<open>K\<close>; \<open>None\<close> when a
  command does not fit: an \<open>Add\<close> of a known domain, an \<open>Update\<close> or \<open>Remove\<close> of an unknown one.
\<close>

fun protocol :: "string set \<Rightarrow> string list list \<Rightarrow> string set option" where
  "protocol K [] = Some K"
| "protocol K ([c, d, u] # cs) =
     (if c = ''Add'' \<and> d \<notin> K then protocol (insert d K) cs
      else if c = ''Update'' \<and> d \<in> K then protocol K cs else None)"
| "protocol K ([c, d] # cs) = (if c = ''Remove'' \<and> d \<in> K then protocol (K - {d}) cs else None)"
| "protocol K (_ # cs) = None"

lemma protocol_append:
  "protocol K (xs @ ys) = (case protocol K xs of None \<Rightarrow> None | Some K' \<Rightarrow> protocol K' ys)"
  by (induction K xs rule: protocol.induct) auto

definition connected :: "rv_state \<Rightarrow> string set" where
  "connected s = {d. map_of (connectedDomainMap s) d \<noteq> None}"

subsection \<open>The invariant\<close>

text \<open>\<open>R\<close> holds the domains that the deadline loop has removed so far.\<close>

definition rv_inv :: "string set \<Rightarrow> rv_state \<Rightarrow> bool" where
  "rv_inv R s \<longleftrightarrow> smap_wf (expectedMsgTimeMap s) \<and>
     (\<forall>d. map_of (receivedCountMap s) d \<noteq> None \<longleftrightarrow> map_of (expectedMsgTimeMap s) d \<noteq> None \<and> d \<notin> R) \<and>
     (\<forall>d. map_of (broadcastRateMap s) d \<noteq> None \<longleftrightarrow> map_of (receivedCountMap s) d \<noteq> None) \<and>
     (\<forall>d. map_of (connectedDomainMap s) d \<noteq> None \<longrightarrow> map_of (receivedCountMap s) d \<noteq> None) \<and>
     (\<forall>d n. map_of (receivedCountMap s) d = Some n \<longrightarrow> n \<in> {1, 2, 3}) \<and>
     protocol {} (rv_commands s) = Some (connected s)"

lemma rv_inv_init: "rv_inv {} rv_init"
  by (simp add: rv_inv_def rv_init_def connected_def)

lemma connect_domain_frame [simp]:
  "receivedCountMap (connect_domain pb s) = receivedCountMap s"
  "broadcastRateMap (connect_domain pb s) = broadcastRateMap s"
  "expectedMsgTimeMap (connect_domain pb s) = expectedMsgTimeMap s"
  "map_of (connectedDomainMap (connect_domain pb s)) d =
     (if d = bc_domain pb then Some (bc_starttime pb) else map_of (connectedDomainMap s) d)"
  by (auto simp: connect_domain_def rv_defs Let_def split: option.splits)

lemma connect_domain_protocol:
  "protocol {} (rv_commands s) = Some (connected s) \<Longrightarrow>
     protocol {} (rv_commands (connect_domain pb s)) = Some (connected (connect_domain pb s))"
  by (auto simp: connect_domain_def rv_defs Let_def protocol_append connected_def split: option.splits)

lemma rv_inv_broadcast: "rv_inv {} s \<Longrightarrow> rv_inv {} (on_broadcast our valid now pb s)"
proof (cases "map_of (receivedCountMap s) (bc_domain pb)")
  case None
  moreover assume "rv_inv {} s"
  ultimately show ?thesis
    by (auto simp: rv_inv_def on_broadcast_def count_broadcast_def Let_def rv_defs connected_def)
next
  case (Some n)
  assume inv: "rv_inv {} s"
  then have "n \<in> {1, 2, 3}" using Some by (auto simp: rv_inv_def)
  then have "n = 1 \<and> \<not> 3 \<le> n + 1 \<and> n + 1 = 2 \<or> 3 \<le> n + 1" by auto
  then show ?thesis
  proof
    assume "n = 1 \<and> \<not> 3 \<le> n + 1 \<and> n + 1 = 2"
    with inv Some show ?thesis
      by (auto simp: rv_inv_def on_broadcast_def count_broadcast_def Let_def rv_defs connected_def)
  next
    assume le: "3 \<le> n + 1"
    have "protocol {} (rv_commands (connect_domain pb s)) = Some (connected (connect_domain pb s))"
      using inv by (intro connect_domain_protocol) (simp add: rv_inv_def)
    with inv Some le show ?thesis
      by (auto simp: rv_inv_def on_broadcast_def count_broadcast_def Let_def rv_defs connected_def)
  qed
qed

lemma shorten_timeout_frame [simp]:
  "receivedCountMap (shorten_timeout now e s) = receivedCountMap s"
  "broadcastRateMap (shorten_timeout now e s) = broadcastRateMap s"
  "expectedMsgTimeMap (shorten_timeout now e s) = expectedMsgTimeMap s"
  "connectedDomainMap (shorten_timeout now e s) = connectedDomainMap s"
  "rv_commands (shorten_timeout now e s) = rv_commands s"
  by (simp_all add: shorten_timeout_def Let_def)

lemma rv_inv_shorten [simp]: "rv_inv R (shorten_timeout now e s) = rv_inv R s"
  by (simp add: rv_inv_def connected_def)

lemma rv_inv_forget:
  assumes "rv_inv R s"
  shows "rv_inv (insert d R) (forget_domain d s)"
proof (cases "smap_has (connectedDomainMap s) d")
  case True
  then have "d \<in> connected s" by (simp add: connected_def smap_has_def)
  moreover have "connected (forget_domain d s) = connected s - {d}"
    using True by (auto simp: forget_domain_def Let_def rv_defs connected_def)
  ultimately have "protocol {} (rv_commands (forget_domain d s)) = Some (connected (forget_domain d s))"
    using assms True by (simp add: rv_inv_def forget_domain_def Let_def rv_defs protocol_append)
  with assms True show ?thesis
    by (auto simp: rv_inv_def forget_domain_def Let_def rv_defs)
next
  case False
  with assms show ?thesis
    by (auto simp: rv_inv_def forget_domain_def Let_def connected_def smap_has_def)
qed

lemma forget_domain_expected [simp]:
  "expectedMsgTimeMap (forget_domain d s) = expectedMsgTimeMap s"
  by (simp add: forget_domain_def Let_def rv_defs)

text \<open>A domain with a count of 2 or 3 loses one of it when a deadline passes.\<close>

lemma rv_inv_missed:
  assumes "rv_inv R s" and "d \<notin> R" and "map_of (expectedMsgTimeMap s) d \<noteq> None"
    and "map_of (receivedCountMap s) d = Some n" and "\<not> sint n - 1 \<le> 0"
  shows "rv_inv R (set_count d (word_of_int (sint n - 1)) (set_expected d e s))"
proof -
  have "n \<in> {1, 2, 3}" using assms(1,4) by (auto simp: rv_inv_def)
  then have "word_of_int (sint n - 1) \<in> {1, 2, 3 :: u32}" using assms(5) by auto
  then show ?thesis using assms by (auto simp: rv_inv_def rv_defs connected_def)
qed

lemma check_deadline_inv:
  assumes "rv_inv (set (snd sr)) (fst sr)" and "d \<notin> set (snd sr)"
    and "map_of (expectedMsgTimeMap (fst sr)) d \<noteq> None"
  shows "\<exists>sr'. check_deadline now d sr = Some sr' \<and> rv_inv (set (snd sr')) (fst sr') \<and>
     set (snd sr') \<subseteq> insert d (set (snd sr)) \<and>
     (\<forall>x. (map_of (expectedMsgTimeMap (fst sr')) x \<noteq> None) =
          (map_of (expectedMsgTimeMap (fst sr)) x \<noteq> None))"
proof -
  let ?s = "fst sr"
  obtain n where n: "map_of (receivedCountMap ?s) d = Some n"
    using assms unfolding rv_inv_def by blast
  obtain r where r: "map_of (broadcastRateMap ?s) d = Some r"
    using assms n unfolding rv_inv_def by blast
  show ?thesis
  proof (cases "timevalcmp (smap_at zeroTime (expectedMsgTimeMap ?s) d) now \<le> 0")
    case False
    then show ?thesis using assms by (auto simp: check_deadline_def Let_def)
  next
    case missed: True
    show ?thesis
    proof (cases "sint n - 1 \<le> 0")
      case True
      then show ?thesis
        using assms(1) missed n by (auto simp: check_deadline_def Let_def rv_inv_forget)
    next
      case False
      then show ?thesis
        using assms missed n r rv_inv_missed [OF assms(1,2,3) n False]
        by (auto simp: check_deadline_def Let_def rv_defs)
    qed
  qed
qed

lemma check_deadlines_inv:
  "rv_inv (set (snd sr)) (fst sr) \<Longrightarrow> distinct ds \<Longrightarrow> set ds \<inter> set (snd sr) = {} \<Longrightarrow>
     (\<forall>d\<in>set ds. map_of (expectedMsgTimeMap (fst sr)) d \<noteq> None) \<Longrightarrow>
     \<exists>sr'. check_deadlines now ds sr = Some sr' \<and> rv_inv (set (snd sr')) (fst sr')"
proof (induction ds arbitrary: sr)
  case (Cons d ds)
  then obtain sr' where "check_deadline now d sr = Some sr'" "rv_inv (set (snd sr')) (fst sr')"
    "set (snd sr') \<subseteq> insert d (set (snd sr))"
    "\<forall>x. (map_of (expectedMsgTimeMap (fst sr')) x \<noteq> None) =
         (map_of (expectedMsgTimeMap (fst sr)) x \<noteq> None)"
    using check_deadline_inv [of sr d now] by auto
  moreover from this have "\<exists>sr''. check_deadlines now ds sr' = Some sr'' \<and> rv_inv (set (snd sr'')) (fst sr'')"
    using Cons.prems by (intro Cons.IH) auto
  ultimately show ?case by auto
qed simp

lemma rv_inv_erase_expected:
  "rv_inv (set R) s \<Longrightarrow> rv_inv {} (fold erase_expected R s)"
proof -
  have f: "receivedCountMap (fold erase_expected R s) = receivedCountMap s \<and>
      broadcastRateMap (fold erase_expected R s) = broadcastRateMap s \<and>
      connectedDomainMap (fold erase_expected R s) = connectedDomainMap s \<and>
      rv_commands (fold erase_expected R s) = rv_commands s \<and>
      (smap_wf (expectedMsgTimeMap s) \<longrightarrow> smap_wf (expectedMsgTimeMap (fold erase_expected R s))) \<and>
      map_of (expectedMsgTimeMap (fold erase_expected R s)) d =
        (if d \<in> set R then None else map_of (expectedMsgTimeMap s) d)" for d
    by (induction R arbitrary: s) (auto simp: erase_expected_def)
  assume "rv_inv (set R) s"
  then show ?thesis by (simp add: rv_inv_def f connected_def) blast
qed

lemma expire_inv: "rv_inv {} s \<Longrightarrow> \<exists>s'. expire now s = Some s' \<and> rv_inv {} s'"
proof -
  let ?s = "s\<lparr>rv_timeout := zeroTime\<rparr>"
  assume inv: "rv_inv {} s"
  then have "rv_inv {} ?s" by (simp add: rv_inv_def connected_def) blast
  moreover have "distinct (smap_keys (expectedMsgTimeMap s))"
    using inv by (simp add: rv_inv_def smap_keys_distinct)
  moreover have "map_of (expectedMsgTimeMap s) d \<noteq> None" if "d \<in> set (smap_keys (expectedMsgTimeMap s))" for d
    using that by (auto simp: smap_has_iff [symmetric] smap_has_def)
  ultimately have "\<exists>sr'. check_deadlines now (smap_keys (expectedMsgTimeMap s)) (?s, []) = Some sr' \<and>
      rv_inv (set (snd sr')) (fst sr')"
    by (intro check_deadlines_inv) auto
  then show ?thesis
    unfolding expire_def by (auto simp: split_def intro: rv_inv_erase_expected)
qed

lemma rv_run_inv: "rv_inv {} s \<Longrightarrow> \<exists>s'. rv_run our valid evs s = Some s' \<and> rv_inv {} s'"
proof (induction evs arbitrary: s)
  case (Cons ev evs)
  then obtain s1 where "rv_iteration our valid ev s = Some s1" "rv_inv {} s1"
    unfolding rv_iteration_def
    using expire_inv rv_inv_broadcast by (cases "snd ev") (simp, blast)+
  with Cons.IH [of s1] show ?case by auto
qed simp

text \<open>C14. Whatever broadcasts the receiver gets and whatever deadlines pass, no \<open>map::at\<close> throws:
  every run completes. In the state it leaves, each known domain is counted between 1 and
  \<open>MAX_RECEIVE_COUNT\<close>, is known to the rate and deadline maps too, and every connected domain is
  known; and the commands sent on the way follow the protocol (\<open>Add\<close> only for a domain that is
  not connected, \<open>Update\<close> and \<open>Remove\<close> only for one that is) and leave exactly the domains of
  \<open>connectedDomainMap\<close> connected.\<close>

theorem receiver_run:
  "\<exists>s. rv_run our valid evs rv_init = Some s \<and> rv_inv {} s"
  by (rule rv_run_inv [OF rv_inv_init])

subsection \<open>Connecting\<close>

text \<open>Three broadcasts of an unknown valid domain, with no missed deadline in between, connect
  it: one \<open>Add\<close> with the last announced URL is sent, and no other command.\<close>

theorem third_broadcast_connects:
  assumes "rv_inv {} s" and "map_of (receivedCountMap s) d = None"
    and "our \<noteq> d" and "isValidDomain valid d"
    and "bc_domain pb1 = d" and "bc_domain pb2 = d" and "bc_domain pb3 = d"
  shows "let s' = on_broadcast our valid now3 pb3 (on_broadcast our valid now2 pb2
                   (on_broadcast our valid now1 pb1 s))
     in rv_commands s' = rv_commands s @ [[''Add'', d, bc_url pb3]] \<and>
        map_of (connectedDomainMap s') d = Some (bc_starttime pb3)"
proof -
  have "map_of (connectedDomainMap s) d = None"
    using assms(1,2) unfolding rv_inv_def by (metis not_None_eq)
  with assms(2-) show ?thesis
    by (simp add: on_broadcast_def count_broadcast_def connect_domain_def rv_defs Let_def)
qed

definition sample_broadcast :: "string \<Rightarrow> ServiceDirectoryBroadcastPB" where
  "sample_broadcast url = \<lparr>bc_id = None, bc_domain = ''B'', bc_url = url, bc_rate = Some 10,
     bc_starttime = 7\<rparr>"

theorem third_broadcast_connects_witness:
  "let pb = sample_broadcast ''tcp://b:5555'';
       s = on_broadcast ''A'' [''*''] zeroTime pb (on_broadcast ''A'' [''*''] zeroTime pb
             (on_broadcast ''A'' [''*''] zeroTime pb rv_init))
   in rv_commands s = [[''Add'', ''B'', ''tcp://b:5555'']] \<and>
      map_of (connectedDomainMap s) ''B'' = Some 7"
  using third_broadcast_connects [OF rv_inv_init, of "''B''" "''A''" "[''*'']"
      "sample_broadcast ''tcp://b:5555''" "sample_broadcast ''tcp://b:5555''"
      "sample_broadcast ''tcp://b:5555''" zeroTime zeroTime zeroTime]
  by (simp add: sample_broadcast_def rv_init_def Let_def)

subsection \<open>The list of valid domains\<close>

lemma find_comma_rest:
  "find_comma (pre @ rest) (length pre) =
     (if CHR '','' \<in> set rest
      then word_of_nat (length pre + length (takeWhile (\<lambda>c. c \<noteq> CHR '','') rest)) else - 1)"
proof (induction rest arbitrary: pre)
  case (Cons c rest)
  show ?case
  proof (cases "c = CHR '',''")
    case False
    have "find_comma (pre @ c # rest) (length pre) = find_comma ((pre @ [c]) @ rest) (length (pre @ [c]))"
      using False by (simp add: find_comma_def upt_conv_Cons del: upt_Suc)
    with False show ?thesis by (simp only: Cons.IH) simp
  qed (simp add: find_comma_def upt_conv_Cons del: upt_Suc)
qed (simp add: find_comma_def)

lemma parseValidDomains_loop_split:
  "length (pre @ rest) < 2 ^ 32 - 1 \<Longrightarrow>
   parseValidDomains_loop (pre @ rest) (length (split_commas [] rest)) (word_of_nat (length pre))
     (find_comma (pre @ rest) (length pre)) acc = Some (acc @ split_commas [] rest)"
proof (induction "length rest" arbitrary: pre rest acc rule: less_induct)
  case less
  let ?w = "takeWhile (\<lambda>c. c \<noteq> CHR '','') rest" and ?d = "dropWhile (\<lambda>c. c \<noteq> CHR '','') rest"
  have start: "unat (word_of_nat (length pre) :: u32) = length pre"
    using less.prems by (simp add: unat_of_nat)
  show ?case
  proof (cases "CHR '','' \<in> set rest")
    case False
    have "unat (- 1 - word_of_nat (length pre) :: u32) = 2 ^ 32 - 1 - length pre"
      using unat_sub [of "word_of_nat (length pre) :: u32" "- 1"] start
      by (simp add: unsigned_minus_1_eq_mask mask_eq_exp_minus_1)
    then have "take (unat (- 1 - word_of_nat (length pre) :: u32)) rest = rest"
      using less.prems by simp
    then show ?thesis
      using False split_commas_unfold [of "[]" rest] start
      by (simp add: find_comma_rest substr_def)
  next
    case True
    obtain tail where d: "?d = CHR '','' # tail"
      using True by (cases ?d) (auto simp: dropWhile_eq_Cons_conv dropWhile_eq_Nil_conv)
    then have rest: "rest = (?w @ [CHR '','']) @ tail"
      using takeWhile_dropWhile_id [of "\<lambda>c. c \<noteq> CHR '',''" rest] by (metis append.assoc append_Cons append_Nil)
    let ?pre = "pre @ ?w @ [CHR '','']"
    have eq: "pre @ rest = ?pre @ tail" using rest by (metis append.assoc)
    have len: "length ?pre + length tail < 2 ^ 32 - 1" using less.prems unfolding eq by simp
    have split: "split_commas [] rest = ?w # split_commas [] tail"
      using True d split_commas_unfold [of "[]" rest] by simp
    have fc: "find_comma (pre @ rest) (length pre) = word_of_nat (length pre + length ?w)"
      using True by (simp add: find_comma_rest)
    have next1: "(word_of_nat (length pre + length ?w) :: u32) + 1 = word_of_nat (length ?pre)"
      by simp
    have next2: "unat (word_of_nat (length ?pre) :: u32) = length ?pre"
      using len unfolding unat_of_nat by simp
    have "unat (word_of_nat (length pre + length ?w) - word_of_nat (length pre) :: u32) = length ?w"
      using len by (simp add: unat_of_nat)
    then have "substr (pre @ rest) (length pre)
        (unat (word_of_nat (length pre + length ?w) - word_of_nat (length pre) :: u32)) = Some ?w"
      by (simp add: substr_def takeWhile_eq_take [symmetric])
    then have "parseValidDomains_loop (pre @ rest) (length (split_commas [] rest))
        (word_of_nat (length pre)) (find_comma (pre @ rest) (length pre)) acc =
      parseValidDomains_loop (?pre @ tail) (length (split_commas [] tail)) (word_of_nat (length ?pre))
        (find_comma (?pre @ tail) (length ?pre)) (acc @ [?w])"
      unfolding split fc by (simp only: list.size parseValidDomains_loop.simps start option.case next1 next2 eq add_Suc_right add_0_right)
    also have "\<dots> = Some ((acc @ [?w]) @ split_commas [] tail)"
    proof (rule less.hyps)
      show "length tail < length rest" using rest by (metis length_append less_add_same_cancel2 length_greater_0_conv append_is_Nil_conv list.distinct(1))
      show "length (?pre @ tail) < 2 ^ 32 - 1" using len by simp
    qed
    finally show ?thesis by (simp add: split)
  qed
qed

text \<open>Although the test for \<open>string::npos\<close> never succeeds, \<open>parseValidDomains\<close> splits the
  list the service directory sends correctly: called with the number of names in it, it returns
  exactly the comma-separated names.\<close>

theorem parseValidDomains_split:
  assumes "length csv < 2 ^ 32 - 1"
  shows "parseValidDomains csv (length (split_commas [] csv)) = Some (split_commas [] csv)"
  using parseValidDomains_loop_split [of "[]" csv "[]"] assms by (simp add: parseValidDomains_def)

theorem parseValidDomains_split_witness:
  "parseValidDomains ''ab,c'' 2 = Some [''ab'', ''c'']"
  using parseValidDomains_split [of "''ab,c''"] by (simp flip: numeral_2_eq_2)

subsection \<open>The broadcaster\<close>

text \<open>
  The poll blocks exactly when nothing is to be broadcast, and what was sent carries the start
  time of this process.
\<close>

definition bd_inv :: "int \<Rightarrow> bd_state \<Rightarrow> bool" where
  "bd_inv t0 s \<longleftrightarrow> bd_starttime s = t0 \<and> bd_block s = (if bd_broadcasting s then 0 else -1) \<and>
     (bd_broadcasting s \<longrightarrow> bc_starttime (bd_message s) = t0) \<and>
     (\<forall>m\<in>set (bd_sent s). bc_starttime (snd m) = t0)"

interpretation bd_run: keeps_invariant bd_step "\<lambda>s e. True" "bd_inv t0" for t0
proof
  fix s e
  assume "bd_inv t0 s"
  then show "bd_inv t0 (bd_step s e)"
    by (cases e)
      (auto simp: bd_inv_def bd_iteration_def start_broadcast_def send_broadcast_def
        split: option.splits bd_command.splits)
qed

text \<open>In every run of the broadcaster, each announcement sent carries the start time taken when
  the thread started (which is how a receiver recognises a restart), and the poll for commands
  blocks exactly while the broadcast is switched off.\<close>

theorem broadcaster_run:
  "let s = foldl bd_step (bd_init t0) es
   in (\<forall>m. m \<in> set (bd_sent s) \<longrightarrow> bc_starttime (snd m) = t0) \<and>
      bd_block s = (if bd_broadcasting s then 0 else -1)"
proof -
  have "bd_inv t0 (bd_init t0)" by (simp add: bd_inv_def bd_init_def)
  then have "bd_inv t0 (foldl bd_step (bd_init t0) es)" by (rule bd_run.run_inv) simp
  then show ?thesis unfolding bd_inv_def Let_def by blast
qed

theorem broadcaster_run_witness:
  "let p = \<lparr>bp_domainName = ''A'', bp_url = ''tcp://127.0.0.1:5555'', bp_broadcastIP = '''',
             bp_port = 8276, bp_broadcastRate = 10\<rparr>;
       s = foldl bd_step (bd_init 7) [(Some (Start_broadcast p), True)]
   in length (bd_sent s) = 1 \<and> bc_starttime (snd (hd (bd_sent s))) = 7"
proof -
  let ?p = "\<lparr>bp_domainName = ''A'', bp_url = ''tcp://127.0.0.1:5555'', bp_broadcastIP = '''',
             bp_port = 8276, bp_broadcastRate = 10\<rparr>"
  let ?s = "foldl bd_step (bd_init 7) [(Some (Start_broadcast ?p), True)]"
  have one: "length (bd_sent ?s) = 1"
    by (simp add: bd_init_def bd_iteration_def start_broadcast_def send_broadcast_def)
  then have "hd (bd_sent ?s) \<in> set (bd_sent ?s)" by (cases "bd_sent ?s") auto
  then have "bc_starttime (snd (hd (bd_sent ?s))) = 7"
    using broadcaster_run [of 7 "[(Some (Start_broadcast ?p), True)]"] unfolding Let_def by blast
  with one show ?thesis unfolding Let_def by blast
qed

end
