(* ===== verification/Utility.thy ===== *)
theory Utility
  imports Std_Map CommUtil
begin

section \<open>String helpers and configuration (\<open>Utility.cpp\<close>, \<open>GravityConfigParser.cpp\<close>)\<close>

text \<open>
  Characters are bytes. \<open>tolower\<close> changes the ASCII letters, which is what the C and UTF-8
  locales do to single bytes. \<open>replaceAll\<close> searches again from the start after every replacement
  and need not end, so it is a partial function: \<open>None\<close> is the loop that does not return.
\<close>

subsection \<open>Case, numbers, trimming\<close>

definition tolower_c :: "char \<Rightarrow> char" where
  "tolower_c c = (if CHR ''A'' \<le> c \<and> c \<le> CHR ''Z'' then char_of (of_char c + 32 :: nat) else c)"

definition StringToLowerCase :: "string \<Rightarrow> string" where
  "StringToLowerCase str = map tolower_c str"

definition isspace_c :: "char \<Rightarrow> bool" where
  "isspace_c c = (c \<in> set [CHR '' '', CHR 0x0C, CHR 0x0A, CHR 0x0D, CHR 0x09, CHR 0x0B])"

definition isdigit_c :: "char \<Rightarrow> bool" where
  "isdigit_c c = (CHR ''0'' \<le> c \<and> c \<le> CHR ''9'')"

definition digit_value :: "char \<Rightarrow> int" where
  "digit_value c = int (of_char c) - 48"

definition digits_value :: "string \<Rightarrow> int" where
  "digits_value ds = foldl (\<lambda>n c. 10 * n + digit_value c) 0 ds"

text \<open>
  \<open>stringstream >> int\<close>: leading white space is skipped, a sign may follow, then the longest run
  of digits; no digit, or a value that is not an \<open>int\<close>, is a failure.
\<close>

definition read_int :: "string \<Rightarrow> int option" where
  "read_int str =
     (let s1 = dropWhile isspace_c str;
          neg = (take 1 s1 = ''-'');
          s2 = (if take 1 s1 = ''-'' \<or> take 1 s1 = ''+'' then drop 1 s1 else s1);
          ds = takeWhile isdigit_c s2;
          v = (if neg then - digits_value ds else digits_value ds)
      in if ds = [] \<or> v < - (2 ^ 31) \<or> 2 ^ 31 \<le> v then None else Some v)"

definition StringToInt :: "string \<Rightarrow> int \<Rightarrow> int" where
  "StringToInt str default_value = (case read_int str of None \<Rightarrow> default_value | Some v \<Rightarrow> v)"

definition trim_right_inplace :: "string \<Rightarrow> string \<Rightarrow> string" where
  "trim_right_inplace s delimiters = rev (dropWhile (\<lambda>c. c \<in> set delimiters) (rev s))"

definition trim_left_inplace :: "string \<Rightarrow> string \<Rightarrow> string" where
  "trim_left_inplace s delimiters = dropWhile (\<lambda>c. c \<in> set delimiters) s"

definition trim :: "string \<Rightarrow> string \<Rightarrow> string" where
  "trim s delimiters = trim_left_inplace (trim_right_inplace s delimiters) delimiters"

subsection \<open>Replacing\<close>

text \<open>\<open>find_sub pat s\<close> splits \<open>s\<close> at the first occurrence of \<open>pat\<close>: what is before and after it.\<close>

fun find_sub :: "string \<Rightarrow> string \<Rightarrow> (string \<times> string) option" where
  "find_sub pat [] = (if pat = [] then Some ([], []) else None)"
| "find_sub pat (c # cs) =
     (if take (length pat) (c # cs) = pat then Some ([], drop (length pat) (c # cs))
      else map_option (\<lambda>(pre, post). (c # pre, post)) (find_sub pat cs))"

partial_function (option) replace_loop :: "string \<Rightarrow> string \<Rightarrow> string \<Rightarrow> string option" where
  "replace_loop oldValue newValue target =
     (case find_sub oldValue target of
        None \<Rightarrow> Some target
      | Some (pre, post) \<Rightarrow> replace_loop oldValue newValue (pre @ newValue @ post))"

definition replaceAll :: "string \<Rightarrow> string \<Rightarrow> string \<Rightarrow> string option" where
  "replaceAll target oldValue newValue =
     (if oldValue = [] then Some target else replace_loop oldValue newValue target)"

subsection \<open>File names\<close>

definition restrictedChars :: string where
  "restrictedChars = [CHR ''/'', CHR 0x5C, CHR ''?'', CHR ''%'', CHR ''*'', CHR '':'', CHR ''|'',
     CHR 0x22, CHR ''<'', CHR ''>'']"

text \<open>A \<open>char\<close> is signed: a byte from 128 on is negative, and less than 31.\<close>

definition char_value :: "char \<Rightarrow> int" where
  "char_value c = (if (of_char c :: int) < 128 then of_char c else of_char c - 256)"

fun filename_loop :: "nat \<Rightarrow> string \<Rightarrow> nat option" where
  "filename_loop numDots [] = Some numDots"
| "filename_loop numDots (c # cs) =
     (if char_value c < 31 then None
      else if c \<in> set restrictedChars then None
      else filename_loop (if c = CHR ''.'' then Suc numDots else numDots) cs)"

definition IsValidFilename :: "string \<Rightarrow> bool" where
  "IsValidFilename filename =
     (case filename_loop 0 filename of None \<Rightarrow> False | Some numDots \<Rightarrow> numDots \<noteq> length filename)"

subsection \<open>Time\<close>

definition getCurrentTime :: "int \<Rightarrow> int \<Rightarrow> u64" where
  "getCurrentTime sec nsec = word_of_int sec * 1000000 + word_of_int (nsec div 1000)"

subsection \<open>Configuration\<close>

text \<open>
  \<open>key_value_map\<close> of the class; the keys and values of the file are what the key-value parser
  returned for the sections of the component, in its order, and \<open>response\<close> is the answer of the
  configuration service, if there was one.
\<close>

type_synonym config = "(string, string) smap"

definition hasKey :: "string \<Rightarrow> config \<Rightarrow> bool" where
  "hasKey key m = smap_has m (StringToLowerCase key)"

definition ParseConfigFile :: "(string \<times> string) list \<Rightarrow> config \<Rightarrow> config" where
  "ParseConfigFile kvs m = fold (\<lambda>(k, v). smap_put (StringToLowerCase k) v) kvs m"

definition config_entry :: "string \<times> string \<Rightarrow> config \<Rightarrow> config" where
  "config_entry kv m =
     (if smap_has m (StringToLowerCase (fst kv)) then m else smap_put (StringToLowerCase (fst kv)) (snd kv) m)"

definition ParseConfigService :: "(string list \<times> string list) option \<Rightarrow> config \<Rightarrow> config" where
  "ParseConfigService response m =
     (case response of
        None \<Rightarrow> m
      | Some (ks, vs) \<Rightarrow> fold config_entry (zip ks vs) m)"

definition getString :: "string \<Rightarrow> string \<Rightarrow> config \<Rightarrow> string" where
  "getString key default_value m =
     (case map_of m (StringToLowerCase key) of None \<Rightarrow> default_value | Some v \<Rightarrow> v)"

subsection \<open>Correctness of replaceAll\<close>

lemma find_sub_SomeD: "find_sub pat s = Some (pre, post) \<Longrightarrow> s = pre @ pat @ post"
proof (induction s arbitrary: pre)
  case (Cons c cs)
  show ?case
  proof (cases "take (length pat) (c # cs) = pat")
    case True
    then show ?thesis
      using Cons.prems append_take_drop_id [of "length pat" "c # cs"] by simp
  next
    case False
    then show ?thesis using Cons by auto
  qed
qed (simp split: if_splits)

lemma find_sub_append: "find_sub pat (pre @ pat @ post) \<noteq> None"
proof (induction pre)
  case Nil
  then show ?case by (cases "pat @ post") (auto simp: append_eq_Cons_conv)
next
  case (Cons c pre)
  then show ?case by auto
qed

lemma find_sub_None_iff: "find_sub pat s = None \<longleftrightarrow> \<not> (\<exists>pre post. s = pre @ pat @ post)"
  by (metis find_sub_SomeD find_sub_append option.exhaust surj_pair)

text \<open>The characters of \<open>oldValue\<close> in the target become fewer with every replacement.\<close>

lemma replace_loop_terminates:
  assumes "oldValue \<noteq> []" and "set newValue \<inter> set oldValue = {}"
  shows "\<exists>r. replace_loop oldValue newValue target = Some r \<and> find_sub oldValue r = None"
proof (induction "length (filter (\<lambda>c. c \<in> set oldValue) target)" arbitrary: target rule: less_induct)
  case less
  show ?case
  proof (cases "find_sub oldValue target")
    case None
    then show ?thesis by (simp add: replace_loop.simps)
  next
    case (Some pp)
    obtain pre post where pp: "pp = (pre, post)" by force
    then have target: "target = pre @ oldValue @ post" using Some find_sub_SomeD by simp
    have "filter (\<lambda>c. c \<in> set oldValue) newValue = []"
      using assms(2) by (auto simp: filter_empty_conv)
    moreover have "filter (\<lambda>c. c \<in> set oldValue) oldValue = oldValue" by simp
    ultimately have "length (filter (\<lambda>c. c \<in> set oldValue) (pre @ newValue @ post)) <
        length (filter (\<lambda>c. c \<in> set oldValue) target)"
      using assms(1) unfolding target filter_append length_append by simp
    then have "\<exists>r. replace_loop oldValue newValue (pre @ newValue @ post) = Some r \<and> find_sub oldValue r = None"
      by (rule less)
    then show ?thesis using Some pp by (simp add: replace_loop.simps [of _ _ target])
  qed
qed

text \<open>\<open>replaceAll\<close> returns, with no occurrence of \<open>oldValue\<close> left, whenever the two values have
  no character in common, as in the calls of the service directory and the node that replace
  \<open>localhost\<close> by \<open>127.0.0.1\<close>.\<close>

theorem replaceAll_terminates:
  assumes "oldValue \<noteq> []" and "set newValue \<inter> set oldValue = {}"
  shows "\<exists>r. replaceAll target oldValue newValue = Some r \<and> \<not> (\<exists>pre post. r = pre @ oldValue @ post)"
  using replace_loop_terminates [OF assms, of target] assms(1)
  by (auto simp: replaceAll_def find_sub_None_iff)

theorem replaceAll_terminates_witness:
  "\<exists>r. replaceAll ''tcp://localhost:5555'' ''localhost'' ''127.0.0.1'' = Some r \<and>
     \<not> (\<exists>pre post. r = pre @ ''localhost'' @ post)"
  by (rule replaceAll_terminates) simp_all

lemma find_sub_replaced:
  assumes "find_sub old new \<noteq> None"
  shows "find_sub old (pre @ new @ post) \<noteq> None"
proof -
  obtain a b where "new = a @ old @ b" using assms by (auto simp: find_sub_None_iff)
  then have "pre @ new @ post = (pre @ a) @ old @ (b @ post)" by simp
  then show ?thesis using find_sub_append by metis
qed

lemma replace_loop_diverges:
  assumes "replace_loop oldValue newValue target = Some r"
  shows "find_sub oldValue newValue \<noteq> None \<longrightarrow> find_sub oldValue target = None"
  using assms
proof (rule replace_loop.raw_induct [rotated])
  fix rec old new t y
  assume ih: "\<And>old new t y. rec old new t = Some y \<Longrightarrow> find_sub old new \<noteq> None \<longrightarrow> find_sub old t = None"
    and step: "(case find_sub old t of None \<Rightarrow> Some t | Some (pre, post) \<Rightarrow> rec old new (pre @ new @ post)) =
      Some y"
  show "find_sub old new \<noteq> None \<longrightarrow> find_sub old t = None"
  proof (cases "find_sub old t")
    case (Some pp)
    then have "rec old new (fst pp @ new @ snd pp) = Some y" using step by (simp add: split_def)
    then have "find_sub old new \<noteq> None \<longrightarrow> find_sub old (fst pp @ new @ snd pp) = None" by (rule ih)
    then show ?thesis using find_sub_replaced by metis
  qed simp
qed

text \<open>\<open>replaceAll\<close> does not return when \<open>oldValue\<close> occurs in both the target and
  \<open>newValue\<close>.\<close>

theorem replaceAll_diverges:
  assumes "oldValue \<noteq> []" and "target = pre @ oldValue @ post" and "newValue = a @ oldValue @ b"
  shows "replaceAll target oldValue newValue = None"
proof -
  have "find_sub oldValue newValue \<noteq> None" "find_sub oldValue target \<noteq> None"
    unfolding assms(2,3) by (rule find_sub_append)+
  then have "replace_loop oldValue newValue target \<noteq> Some r" for r
    using replace_loop_diverges [of oldValue newValue target r] by auto
  then show ?thesis using assms(1) by (auto simp: replaceAll_def)
qed

theorem replaceAll_diverges_witness: "replaceAll ''a'' ''a'' ''aa'' = None"
  by (rule replaceAll_diverges [of _ _ "''''" "''''" _ "''''" "''a''"]) simp_all

subsection \<open>Trimming and configuration\<close>

lemma trim_parts:
  "\<exists>a b. s = a @ trim s ds @ b \<and> set a \<subseteq> set ds \<and> set b \<subseteq> set ds"
proof -
  let ?P = "\<lambda>c. c \<in> set ds"
  let ?r = "trim_right_inplace s ds"
  have "s = ?r @ rev (takeWhile ?P (rev s))"
    unfolding trim_right_inplace_def using takeWhile_dropWhile_id [of ?P "rev s"]
    by (metis rev_append rev_rev_ident)
  moreover have "?r = takeWhile ?P ?r @ trim s ds"
    by (simp add: trim_def trim_left_inplace_def)
  moreover have "set (takeWhile ?P ?r) \<subseteq> set ds" "set (rev (takeWhile ?P (rev s))) \<subseteq> set ds"
    by (auto dest: set_takeWhileD)
  ultimately show ?thesis by (metis append.assoc)
qed

text \<open>\<open>trim\<close> removes delimiters only, from both ends, and leaves no delimiter at either end.\<close>

theorem trim_spec:
  "(\<exists>a b. s = a @ trim s ds @ b \<and> set a \<union> set b \<subseteq> set ds) \<and>
   (trim s ds \<noteq> [] \<longrightarrow> hd (trim s ds) \<notin> set ds \<and> last (trim s ds) \<notin> set ds)"
proof (intro conjI impI)
  show "\<exists>a b. s = a @ trim s ds @ b \<and> set a \<union> set b \<subseteq> set ds"
    using trim_parts [of s ds] by (metis Un_least)
  assume ne: "trim s ds \<noteq> []"
  then show "hd (trim s ds) \<notin> set ds"
    using hd_dropWhile [of "\<lambda>c. c \<in> set ds"] by (auto simp: trim_def trim_left_inplace_def)
  let ?r = "trim_right_inplace s ds"
  have r: "?r = takeWhile (\<lambda>c. c \<in> set ds) ?r @ trim s ds"
    by (simp add: trim_def trim_left_inplace_def)
  then have last: "last ?r = last (trim s ds)" using ne by (metis last_append)
  have "?r \<noteq> []" using r ne by (metis append_is_Nil_conv)
  then have "last ?r \<notin> set ds"
    using hd_dropWhile [of "\<lambda>c. c \<in> set ds" "rev s"]
    by (simp add: trim_right_inplace_def last_rev)
  then show "last (trim s ds) \<notin> set ds" using last by simp
qed

theorem trim_spec_witness: "trim '' ab '' '' '' = ''ab'' \<and> hd (trim '' ab '' '' '') \<notin> set '' ''"
proof -
  have t: "trim '' ab '' '' '' = ''ab''"
    by (simp add: trim_def trim_left_inplace_def trim_right_inplace_def)
  then show ?thesis using trim_spec [of "'' ab ''" "'' ''"] by simp
qed

lemma ParseConfigFile_look:
  "map_of (ParseConfigFile kvs m) k =
     (case find (\<lambda>(j, v). StringToLowerCase j = k) (rev kvs) of
        Some (j, v) \<Rightarrow> Some v | None \<Rightarrow> map_of m k)"
  unfolding ParseConfigFile_def
  by (induction kvs rule: rev_induct) (auto split: option.splits)

lemma ParseConfigService_look:
  "map_of (fold config_entry kvs m) k =
     (case map_of m k of
        Some v \<Rightarrow> Some v
      | None \<Rightarrow> map_option snd (find (\<lambda>(j, v). StringToLowerCase j = k) kvs))"
  by (induction kvs arbitrary: m) (auto simp: config_entry_def smap_has_def split: option.splits)

text \<open>A configuration value is looked up without regard to case, first among the values of the
  file (the last one given counts), then among those of the configuration service (the first one
  counts), and is the default when there is neither.\<close>

theorem getString_precedence:
  "getString key dflt (ParseConfigService (Some (ks, vs)) (ParseConfigFile kvs [])) =
     (case find (\<lambda>(k, v). StringToLowerCase k = StringToLowerCase key) (rev kvs) of
        Some (k, v) \<Rightarrow> v
      | None \<Rightarrow>
          (case find (\<lambda>(k, v). StringToLowerCase k = StringToLowerCase key) (zip ks vs) of
             Some (k, v) \<Rightarrow> v
           | None \<Rightarrow> dflt))"
  by (auto simp: getString_def ParseConfigService_def ParseConfigService_look ParseConfigFile_look
      split: option.splits)

end
