(* ===== verification/Directory_Setup.thy ===== *)
theory Directory_Setup
  imports Directory_Spec UDP_Correct Utility
begin

section \<open>Starting the service directory\<close>

text \<open>
  The first part of \<open>ServiceDirectory::start\<close>: the configuration, the address it binds to, and
  the messages that configure the broadcaster and receiver threads, together with what these
  threads read from them (\<open>receiveBroadcastParameters\<close>, \<open>receiveReceiverParameters\<close>).
\<close>

record sd_parameters =
  par_url :: string
  par_domain :: string
  par_broadcastEnabled :: "bool option"
  par_domainSyncList :: string

record sd_config =
  cfg_sdURL :: string
  cfg_domain :: string
  cfg_broadcastEnabled :: bool
  cfg_knownDomainCSV :: string
  cfg_numDomains :: int

text \<open>\<open>None\<close> when \<open>replaceAll\<close> does not return.\<close>

definition configure_directory :: "sd_parameters \<Rightarrow> sd_config option" where
  "configure_directory par =
     (case replaceAll (par_url par) ''localhost'' ''127.0.0.1'' of
        None \<Rightarrow> None
      | Some sdURL \<Rightarrow>
          (let d = par_domain par;
               enabled = (case par_broadcastEnabled par of None \<Rightarrow> d \<noteq> [] | Some b \<Rightarrow> b);
               valid = validateDomainName d;
               n = parseDomainCSV (par_domainSyncList par)
           in Some \<lparr>cfg_sdURL = sdURL, cfg_domain = (if valid then d else ''''),
                cfg_broadcastEnabled = (valid \<and> enabled),
                cfg_knownDomainCSV = (if n < 0 then '''' else par_domainSyncList par),
                cfg_numDomains = (if n < 0 then 0 else n)\<rparr>))"

text \<open>
  The bind with its fallback to all interfaces: the address bound, or \<open>None\<close> when the process
  exits. \<open>substr(rfind(":") + 1)\<close> is what follows the last colon.
\<close>

definition after_last_colon :: "string \<Rightarrow> string" where
  "after_last_colon url = rev (takeWhile (\<lambda>c. c \<noteq> CHR '':'') (rev url))"

definition bind_directory :: "(string \<Rightarrow> int) \<Rightarrow> string \<Rightarrow> string option" where
  "bind_directory zmq_bind sdURL =
     (if zmq_bind sdURL < 0 then
        (if take 6 sdURL = ''tcp://'' then
           (let newURL = ''tcp://*:'' @ after_last_colon sdURL
            in if zmq_bind newURL < 0 then None else Some newURL)
         else None)
      else Some sdURL)"

definition sendBroadcasterParameters :: "string \<Rightarrow> string \<Rightarrow> string \<Rightarrow> u32 \<Rightarrow> u32 \<Rightarrow> frame list" where
  "sendBroadcasterParameters sdDomain url ip port rate =
     [sendStringMessage ''broadcast'', sendStringMessage sdDomain, sendStringMessage url,
      sendStringMessage ip, sendUint32Message port, sendUint32Message rate]"

definition sendReceiverParameters :: "string \<Rightarrow> string \<Rightarrow> u32 \<Rightarrow> u32 \<Rightarrow> string \<Rightarrow> frame list" where
  "sendReceiverParameters sdDomain url port numValidDomains validDomains =
     [sendStringMessage ''receive'', sendStringMessage sdDomain, sendStringMessage url,
      sendUint32Message port, sendUint32Message numValidDomains, sendStringMessage validDomains]"

text \<open>The command and, for \<open>broadcast\<close>, the parts that follow it.\<close>

fun read_broadcast_command :: "frame list \<Rightarrow> bd_command option" where
  "read_broadcast_command [] = None"
| "read_broadcast_command (c # fs) =
     (if readStringMessage c = ''broadcast'' then
        (case fs of
           [d, u, ip, p, r] \<Rightarrow>
             (case (readUint32Message p, readUint32Message r) of
                (Some port, Some rate) \<Rightarrow>
                  Some (Start_broadcast \<lparr>bp_domainName = readStringMessage d, bp_url = readStringMessage u,
                    bp_broadcastIP = readStringMessage ip, bp_port = port, bp_broadcastRate = rate\<rparr>)
              | _ \<Rightarrow> None)
         | _ \<Rightarrow> None)
      else if readStringMessage c = ''stop'' then Some Stop_broadcast
      else if readStringMessage c = ''kill'' then Some Kill_broadcast
      else Some Other_broadcast)"

record rv_params =
  rp_ourDomain :: string
  rp_ourUrl :: string
  rp_port :: u32
  rp_validDomains :: "string list"

text \<open>The list of domains is assigned from a C string, which ends at the first zero byte.\<close>

fun receiveReceiverParameters :: "frame list \<Rightarrow> rv_params option" where
  "receiveReceiverParameters [d, u, p, n, ds] =
     (case (readUint32Message p, readUint32Message n) of
        (Some port, Some numDomains) \<Rightarrow>
          (case parseValidDomains (takeWhile (\<lambda>c. c \<noteq> CHR 0x00) (readStringMessage ds)) (unat numDomains) of
             None \<Rightarrow> None
           | Some valid \<Rightarrow>
               Some \<lparr>rp_ourDomain = readStringMessage d, rp_ourUrl = readStringMessage u,
                     rp_port = port, rp_validDomains = valid\<rparr>)
      | _ \<Rightarrow> None)"
| "receiveReceiverParameters _ = None"

text \<open>The directory and its threads agree: the broadcaster reads back exactly the domain, URL,
  address, port and rate the directory sent; and the receiver, sent a list of domains that the
  directory accepted together with their number, listens to exactly the names in it.\<close>

theorem parameters_reach_threads:
  assumes "0 < parseDomainCSV csv" and "length csv < 2 ^ 32 - 1" and "CHR 0x00 \<notin> set csv"
    and "parseDomainCSV csv < 2 ^ 32"
  shows "read_broadcast_command (sendBroadcasterParameters d url ip port rate) =
      Some (Start_broadcast \<lparr>bp_domainName = d, bp_url = url, bp_broadcastIP = ip, bp_port = port,
        bp_broadcastRate = rate\<rparr>) \<and>
    receiveReceiverParameters (tl (sendReceiverParameters d url port (word_of_int (parseDomainCSV csv)) csv)) =
      Some \<lparr>rp_ourDomain = d, rp_ourUrl = url, rp_port = port, rp_validDomains = split_commas [] csv\<rparr>"
proof -
  let ?n = "length (split_commas [] csv)"
  have n: "parseDomainCSV csv = int ?n"
    using assms(1) unfolding parseDomainCSV_def parseDomainCSV_loop_split by (auto split: if_splits)
  then have u: "unat (word_of_int (parseDomainCSV csv) :: u32) = ?n"
    using assms(4) by (simp add: unat_of_nat)
  have w: "takeWhile (\<lambda>c. c \<noteq> CHR 0x00) csv = csv"
    using assms(3) by (auto simp: takeWhile_eq_all_conv)
  show ?thesis
    using parseValidDomains_loop_split [of "[]" csv "[]"] assms(2)
    by (simp add: sendBroadcasterParameters_def sendReceiverParameters_def read_send_string
        read_send_uint32 parseValidDomains_def u w)
qed

theorem parameters_reach_threads_witness:
  "receiveReceiverParameters (tl (sendReceiverParameters ''D'' ''u'' 9 2 ''A,B'')) =
     Some \<lparr>rp_ourDomain = ''D'', rp_ourUrl = ''u'', rp_port = 9, rp_validDomains = [''A'', ''B'']\<rparr>"
proof -
  have "parseDomainCSV ''A,B'' = 2"
    unfolding parseDomainCSV_def parseDomainCSV_loop_split validateDomainName_iff
    by (simp add: isalnum_c_def)
  then show ?thesis using parameters_reach_threads [of "''A,B''" "''D''" "''u''" "''''" 9 0] by simp
qed
end
