(* ===== verification/Directory_Start.thy ===== *)
theory Directory_Start
  imports Directory_Setup
begin

section \<open>The threads of the service directory\<close>

text \<open>
  The second part of \<open>ServiceDirectory::start\<close>: which threads the directory starts and with which
  messages it configures them. The broadcaster is told the URL of the configuration, also when the
  directory has bound to all interfaces instead; the receiver and the synchronizer are told the
  address that was bound.
\<close>

record sd_network =
  net_broadcastIP :: string
  net_broadcastPort :: int
  net_broadcastRate :: int

record sd_threads =
  th_broadcaster :: "frame list option"
  th_receiver :: "frame list option"
  th_synchronizer :: "string option"

definition start_threads :: "sd_config \<Rightarrow> string \<Rightarrow> sd_network \<Rightarrow> sd_threads" where
  "start_threads cfg sdURL net =
     (let port = word_of_int (net_broadcastPort net)
      in \<lparr>th_broadcaster =
            (if cfg_broadcastEnabled cfg
             then Some (sendBroadcasterParameters (cfg_domain cfg) (cfg_sdURL cfg) (net_broadcastIP net) port
                    (word_of_int (net_broadcastRate net)))
             else None),
          th_receiver =
            (if cfg_numDomains cfg > 0
             then Some (sendReceiverParameters (cfg_domain cfg) sdURL port (word_of_int (cfg_numDomains cfg))
                    (cfg_knownDomainCSV cfg))
             else None),
          th_synchronizer = (if cfg_numDomains cfg > 0 then Some sdURL else None)\<rparr>)"

definition start_directory ::
  "(string \<Rightarrow> int) \<Rightarrow> sd_parameters \<Rightarrow> sd_network \<Rightarrow> (string \<times> sd_threads) option" where
  "start_directory zmq_bind par net =
     (case configure_directory par of
        None \<Rightarrow> None
      | Some cfg \<Rightarrow> map_option (\<lambda>url. (url, start_threads cfg url net)) (bind_directory zmq_bind (cfg_sdURL cfg)))"

text \<open>What the receiver of a directory listens to: the names of an accepted list.\<close>

definition listens_to :: "sd_threads \<Rightarrow> string list option" where
  "listens_to t =
     (case th_receiver t of
        None \<Rightarrow> None
      | Some fs \<Rightarrow> map_option rp_validDomains (receiveReceiverParameters (tl fs)))"

definition announces :: "sd_threads \<Rightarrow> (string \<times> string) option" where
  "announces t =
     (case th_broadcaster t of
        None \<Rightarrow> None
      | Some fs \<Rightarrow> (case read_broadcast_command fs of
                      Some (Start_broadcast b) \<Rightarrow> Some (bp_domainName b, bp_url b)
                    | _ \<Rightarrow> None))"

lemma read_sent_broadcast:
  "read_broadcast_command (sendBroadcasterParameters d url ip port rate) =
     Some (Start_broadcast \<lparr>bp_domainName = d, bp_url = url, bp_broadcastIP = ip, bp_port = port, bp_broadcastRate = rate\<rparr>)"
  by (simp add: sendBroadcasterParameters_def read_send_string read_send_uint32)

text \<open>
  A directory that has started announces its domain and the URL of its configuration exactly when its
  domain is valid and broadcasts are enabled (by default: when it has a domain), and listens to exactly
  the names of its list when that is not empty and accepted. The address it has bound is the configured
  one, or that of all interfaces with the same port.
\<close>

theorem directory_threads_configured:
  assumes "start_directory zmq_bind par net = Some (url, t)"
    and "length (par_domainSyncList par) < 2 ^ 32 - 1" and "CHR 0x00 \<notin> set (par_domainSyncList par)"
    and "parseDomainCSV (par_domainSyncList par) < 2 ^ 32"
  shows "\<exists>sdURL. replaceAll (par_url par) ''localhost'' ''127.0.0.1'' = Some sdURL \<and>
     (url = sdURL \<or> url = ''tcp://*:'' @ after_last_colon sdURL) \<and> 0 \<le> zmq_bind url \<and>
     announces t =
       (if validateDomainName (par_domain par) \<and>
           (case par_broadcastEnabled par of None \<Rightarrow> par_domain par \<noteq> [] | Some b \<Rightarrow> b)
        then Some (par_domain par, sdURL) else None) \<and>
     listens_to t =
       (if 0 < parseDomainCSV (par_domainSyncList par) then Some (split_commas [] (par_domainSyncList par)) else None) \<and>
     th_synchronizer t = (if 0 < parseDomainCSV (par_domainSyncList par) then Some url else None)"
proof -
  obtain cfg where cfg: "configure_directory par = Some cfg" and bound: "bind_directory zmq_bind (cfg_sdURL cfg) = Some url"
    and t: "t = start_threads cfg url net"
    using assms(1) by (auto simp: start_directory_def split: option.splits)
  obtain sdURL where sd: "replaceAll (par_url par) ''localhost'' ''127.0.0.1'' = Some sdURL" "cfg_sdURL cfg = sdURL"
    using cfg by (auto simp: configure_directory_def Let_def split: option.splits)
  have url: "url = sdURL \<or> url = ''tcp://*:'' @ after_last_colon sdURL" "0 \<le> zmq_bind url"
    using bound sd(2) by (auto simp: bind_directory_def Let_def split: if_splits)
  have "announces t =
       (if validateDomainName (par_domain par) \<and>
           (case par_broadcastEnabled par of None \<Rightarrow> par_domain par \<noteq> [] | Some b \<Rightarrow> b)
        then Some (par_domain par, sdURL) else None)"
    using cfg sd unfolding t
    by (auto simp: announces_def start_threads_def configure_directory_def read_sent_broadcast Let_def)
  moreover have "listens_to t =
       (if 0 < parseDomainCSV (par_domainSyncList par) then Some (split_commas [] (par_domainSyncList par)) else None)"
    "th_synchronizer t = (if 0 < parseDomainCSV (par_domainSyncList par) then Some url else None)"
  proof -
    have list: "cfg_numDomains cfg = max 0 (parseDomainCSV (par_domainSyncList par))"
      "0 < parseDomainCSV (par_domainSyncList par) \<Longrightarrow> cfg_knownDomainCSV cfg = par_domainSyncList par"
      using cfg sd(1) by (auto simp: configure_directory_def Let_def)
    show "listens_to t =
       (if 0 < parseDomainCSV (par_domainSyncList par) then Some (split_commas [] (par_domainSyncList par)) else None)"
      using list parameters_reach_threads [OF _ assms(2-4)] unfolding t
      by (cases "0 < parseDomainCSV (par_domainSyncList par)")
         (simp_all add: listens_to_def start_threads_def max_def Let_def)
    show "th_synchronizer t = (if 0 < parseDomainCSV (par_domainSyncList par) then Some url else None)"
      using list(1) unfolding t by (simp add: start_threads_def max_def Let_def)
  qed
  ultimately show ?thesis using sd(1) url by blast
qed

end
