(* ===== verification/Synchronizer.thy ===== *)
theory Synchronizer
  imports Directory_Spec
begin

section \<open>Synchronising with other domains (\<open>ServiceDirectorySynchronizer.cpp\<close>)\<close>

text \<open>
  The thread that mirrors the directories of other domains into this one. It takes \<open>Add\<close>,
  \<open>Update\<close> and \<open>Remove\<close> commands from its service directory, asks the directory of another
  domain for its \<open>ServiceDirectory_DomainDetails\<close> publisher, subscribes to it, turns every
  update into registration and unregistration requests, and sends these one at a time to its own
  directory.

  The objects behind \<open>shared_ptr<SyncDomainDetails>\<close> are reachable from both \<open>syncMap\<close> and
  \<open>socketToDomainDetailsMap\<close> and are changed in place: they live in the store \<open>sy_heap\<close>, and
  the maps hold addresses. \<open>syncMap[domain]\<close> of an unknown domain is a null pointer that every
  caller dereferences at once: such a call is the result \<open>None\<close>.

  \<open>zmq_socket\<close>, \<open>zmq_poll\<close> and \<open>zmq_recvmsg\<close> are inputs of an iteration of the loop (the
  record \<open>sy_env\<close>); the requests that it sends are logged in the state.
\<close>

record SyncDomainDetails =
  sy_domain :: string
  sy_ipAddress :: string
  sy_socket :: socket
  sy_initialized :: bool
  sy_providerMap :: ServiceDirectoryMapPB
  sy_registrationTime :: u32

record pollitem =
  po_socket :: socket
  po_revents :: bool

record sy_state =
  sy_pollItems :: "pollitem list"
  syncMap :: "(string, nat) smap"
  socketToDomainDetailsMap :: "(socket, nat) smap"
  sy_heap :: "(nat, SyncDomainDetails) smap"
  sy_next :: nat
  registrationUpdates :: "sd_request list"
  pendingResponse :: bool
  sy_sent :: "sd_request list"
  sy_lookups :: "(socket \<times> ComponentLookupRequestPB) list"
  sy_connections :: "(socket \<times> string) list"
  sy_closed :: "socket list"

definition empty_map :: ServiceDirectoryMapPB where
  "empty_map = \<lparr>mp_service_provider = [], mp_data_provider = [], mp_change = None,
     mp_domain = None\<rparr>"

definition sy_init :: "string \<Rightarrow> socket \<Rightarrow> socket \<Rightarrow> sy_state" where
  "sy_init ownURL commandSocket requestSocket =
     \<lparr>sy_pollItems = [\<lparr>po_socket = commandSocket, po_revents = False\<rparr>,
                      \<lparr>po_socket = requestSocket, po_revents = False\<rparr>],
      syncMap = [], socketToDomainDetailsMap = [], sy_heap = [], sy_next = 0,
      registrationUpdates = [], pendingResponse = False, sy_sent = [], sy_lookups = [],
      sy_connections = [(requestSocket, ownURL)], sy_closed = []\<rparr>"

subsection \<open>The requests for the own directory\<close>

definition registration_request ::
  "string \<Rightarrow> string \<Rightarrow> string \<Rightarrow> string \<Rightarrow> RegistrationType \<Rightarrow> u64 \<Rightarrow> sd_request" where
  "registration_request productID url componentID d ty timestamp =
     RegistrationRequest \<lparr>rg_id = Some productID, rg_url = Some url, rg_type = Some ty,
       rg_component_id = Some componentID, rg_domain = Some d, rg_timestamp = Some timestamp,
       rg_is_relay = None, rg_ip_address = None\<rparr>"

definition unregistration_request ::
  "string \<Rightarrow> string \<Rightarrow> string \<Rightarrow> RegistrationType \<Rightarrow> u32 \<Rightarrow> sd_request" where
  "unregistration_request productID url d ty regTime =
     UnregistrationRequest \<lparr>ur_id = productID, ur_url = url, ur_type = Some ty,
       ur_domain = Some d, ur_registration_time = Some regTime\<rparr>"

definition push_updates :: "sd_request list \<Rightarrow> sy_state \<Rightarrow> sy_state" where
  "push_updates rqs s = s\<lparr>registrationUpdates := registrationUpdates s @ rqs\<rparr>"

definition createRegistrationRequest ::
  "string \<Rightarrow> string \<Rightarrow> string \<Rightarrow> string \<Rightarrow> RegistrationType \<Rightarrow> u64 \<Rightarrow> sy_state \<Rightarrow> sy_state" where
  "createRegistrationRequest productID url componentID d ty timestamp s =
     push_updates [registration_request productID url componentID d ty timestamp] s"

definition createUnregistrationRequest ::
  "string \<Rightarrow> string \<Rightarrow> string \<Rightarrow> RegistrationType \<Rightarrow> u32 \<Rightarrow> sy_state \<Rightarrow> sy_state" where
  "createUnregistrationRequest productID url d ty regTime s =
     push_updates [unregistration_request productID url d ty regTime] s"

text \<open>
  The double loops over the providers of a map and their URLs: \<open>component_id(j)\<close> and
  \<open>timestamp(j)\<close> are read at the index of the URL (the sender fills the three lists together).
\<close>

fun provider_registrations :: "string \<Rightarrow> RegistrationType \<Rightarrow> ProductLocations \<Rightarrow> sd_request list" where
  "provider_registrations d ty p =
     map (\<lambda>j. registration_request (field '''' (pl_product_id p)) (pl_url p ! j)
                (pl_component_id p ! j) d ty (pl_timestamp p ! j)) [0..<length (pl_url p)]"

fun provider_unregistrations ::
  "string \<Rightarrow> RegistrationType \<Rightarrow> u32 \<Rightarrow> ProductLocations \<Rightarrow> sd_request list" where
  "provider_unregistrations d ty regTime p =
     map (\<lambda>u. unregistration_request (field '''' (pl_product_id p)) u d ty regTime) (pl_url p)"

definition map_change :: "ServiceDirectoryMapPB \<Rightarrow> ProductChange" where
  "map_change m = field default_ProductChange (mp_change m)"

definition initial_update :: "string \<Rightarrow> ServiceDirectoryMapPB \<Rightarrow> sd_request list" where
  "initial_update d m =
     concat (map (provider_registrations d SERVICE) (mp_service_provider m)) @
     concat (map (provider_registrations d DATA) (mp_data_provider m))"

definition incremental_update :: "string \<Rightarrow> ServiceDirectoryMapPB \<Rightarrow> sy_state \<Rightarrow> sy_state" where
  "incremental_update d m s =
     (let c = map_change m;
          productID = field [] (pc_product_id c); url = field [] (pc_url c);
          ty = field DATA (pc_registration_type c); timestamp = field 0 (pc_timestamp c)
      in if field REMOVE (pc_change_type c) = ADD
         then createRegistrationRequest productID url (field [] (pc_component_id c)) d ty timestamp s
         else createUnregistrationRequest productID url d ty (secs timestamp) s)"

definition removal_update :: "string \<Rightarrow> SyncDomainDetails \<Rightarrow> sd_request list" where
  "removal_update d details =
     (let m = sy_providerMap details;
          ty = field DATA (pc_registration_type (map_change m));
          unreg = provider_unregistrations d ty (sy_registrationTime details)
      in concat (map unreg (mp_service_provider m)) @ concat (map unreg (mp_data_provider m)))"

subsection \<open>The commands of the service directory\<close>

definition details_lookup :: "string \<Rightarrow> ComponentLookupRequestPB" where
  "details_lookup d = \<lparr>lk_lookupID = DOMAIN_DETAILS_DPID, lk_type = Some DATA, lk_domain_id = Some d\<rparr>"

definition send_lookup :: "socket \<Rightarrow> string \<Rightarrow> sy_state \<Rightarrow> sy_state" where
  "send_lookup sock d s = s\<lparr>sy_lookups := sy_lookups s @ [(sock, details_lookup d)]\<rparr>"

text \<open>
  The part that \<open>Add\<close> and \<open>Update\<close> share: a request socket with its poll item, the connection,
  the lookup request and the entry in \<open>syncMap\<close>.
\<close>

definition contact_domain ::
  "string \<Rightarrow> string \<Rightarrow> socket \<Rightarrow> nat \<Rightarrow> SyncDomainDetails \<Rightarrow> sy_state \<Rightarrow> sy_state" where
  "contact_domain d ip sock a details s =
     (let s1 = s\<lparr>sy_heap := smap_put a (details\<lparr>sy_domain := d, sy_ipAddress := ip,
                  sy_initialized := False, sy_socket := sock\<rparr>) (sy_heap s),
                sy_pollItems := sy_pollItems s @ [\<lparr>po_socket = sock, po_revents = False\<rparr>],
                sy_connections := sy_connections s @ [(sock, ip)]\<rparr>;
          s2 = send_lookup sock d s1
      in s2\<lparr>syncMap := smap_put d a (syncMap s2)\<rparr>)"

definition new_details :: SyncDomainDetails where
  "new_details = \<lparr>sy_domain = '''', sy_ipAddress = '''', sy_socket = 0, sy_initialized = False,
     sy_providerMap = empty_map, sy_registrationTime = 0\<rparr>"

definition add_domain :: "string \<Rightarrow> string \<Rightarrow> socket \<Rightarrow> sy_state \<Rightarrow> sy_state" where
  "add_domain d ip sock s =
     (if smap_has (syncMap s) d then s
      else contact_domain d ip sock (sy_next s) new_details (s\<lparr>sy_next := Suc (sy_next s)\<rparr>))"

definition details_of :: "string \<Rightarrow> sy_state \<Rightarrow> (nat \<times> SyncDomainDetails) option" where
  "details_of d s =
     (case map_of (syncMap s) d of
        None \<Rightarrow> None
      | Some a \<Rightarrow> (case map_of (sy_heap s) a of None \<Rightarrow> None | Some x \<Rightarrow> Some (a, x)))"

definition drop_socket :: "socket \<Rightarrow> sy_state \<Rightarrow> sy_state" where
  "drop_socket sock s =
     s\<lparr>sy_pollItems := filter (\<lambda>p. po_socket p \<noteq> sock) (sy_pollItems s)\<rparr>"

definition forget_socket :: "socket \<Rightarrow> sy_state \<Rightarrow> sy_state" where
  "forget_socket sock s =
     s\<lparr>socketToDomainDetailsMap := smap_erase sock (socketToDomainDetailsMap s)\<rparr>"

definition close_socket :: "socket \<Rightarrow> sy_state \<Rightarrow> sy_state" where
  "close_socket sock s = s\<lparr>sy_closed := sy_closed s @ [sock]\<rparr>"

definition update_domain :: "string \<Rightarrow> string \<Rightarrow> socket \<Rightarrow> sy_state \<Rightarrow> sy_state option" where
  "update_domain d ip sock s =
     (case details_of d s of
        None \<Rightarrow> None
      | Some (a, details) \<Rightarrow>
          Some (contact_domain d ip sock a details
            (close_socket (sy_socket details)
              (forget_socket (sy_socket details) (drop_socket (sy_socket details) s)))))"

definition remove_domain :: "string \<Rightarrow> sy_state \<Rightarrow> sy_state option" where
  "remove_domain d s =
     (if smap_has (syncMap s) d then
        (case details_of d s of
           None \<Rightarrow> None
         | Some (a, details) \<Rightarrow>
             (let s1 = close_socket (sy_socket details) (drop_socket (sy_socket details) s);
                  s2 = push_updates (removal_update d details) s1;
                  s3 = s2\<lparr>syncMap := smap_erase d (syncMap s2)\<rparr>
              in Some (forget_socket (sy_socket details) s3)))
      else Some s)"

datatype sync_command = Add_domain string string | Update_domain string string
  | Remove_domain string | Other_command

fun run_command :: "sync_command \<Rightarrow> socket \<Rightarrow> sy_state \<Rightarrow> sy_state option" where
  "run_command (Add_domain d ip) sock s = Some (add_domain d ip sock s)"
| "run_command (Update_domain d ip) sock s = update_domain d ip sock s"
| "run_command (Remove_domain d) sock s = remove_domain d s"
| "run_command Other_command sock s = Some s"

subsection \<open>Messages from other directories\<close>

datatype sync_payload = LookupResponse ComponentDataLookupResponsePB
  | DomainDetails ServiceDirectoryMapPB
  | OtherPayload

record sync_message =
  sm_size :: nat
  sm_domain :: string
  sm_registrationTime :: u32
  sm_payload :: sync_payload

text \<open>A message whose registration time is not the one of the publisher subscribed to.\<close>

definition from_stale_publisher :: "socket \<Rightarrow> sync_message \<Rightarrow> sy_state \<Rightarrow> bool" where
  "from_stale_publisher sock msg s =
     (0 < sm_size msg \<and>
      (case map_of (socketToDomainDetailsMap s) sock of
         None \<Rightarrow> False
       | Some a \<Rightarrow> sy_registrationTime (smap_at new_details (sy_heap s) a) \<noteq> sm_registrationTime msg))"

definition set_poll_socket :: "nat \<Rightarrow> socket \<Rightarrow> sy_state \<Rightarrow> sy_state" where
  "set_poll_socket k sock s =
     s\<lparr>sy_pollItems := (sy_pollItems s)[k := \<lparr>po_socket = sock, po_revents = False\<rparr>]\<rparr>"

definition on_lookup_response ::
  "nat \<Rightarrow> socket \<Rightarrow> socket \<Rightarrow> string \<Rightarrow> ComponentDataLookupResponsePB \<Rightarrow> sy_state \<Rightarrow> sy_state option" where
  "on_lookup_response k sock newSock responseDomain resp s =
     (case dl_publishers resp of
        [] \<Rightarrow> Some (send_lookup sock responseDomain s)
      | p # _ \<Rightarrow>
          (case pi_url p of
             None \<Rightarrow> Some (send_lookup sock responseDomain s)
           | Some url \<Rightarrow>
               (case details_of (field '''' (dl_domain_id resp)) s of
                  None \<Rightarrow> None
                | Some (a, details) \<Rightarrow>
                    (let s1 = close_socket (sy_socket details) (forget_socket (sy_socket details) s);
                         s2 = s1\<lparr>sy_heap := smap_put a (details\<lparr>sy_socket := newSock,
                                   sy_initialized := False,
                                   sy_registrationTime := field 0 (pi_registration_time p)\<rparr>) (sy_heap s1),
                                 socketToDomainDetailsMap :=
                                   smap_put newSock a (socketToDomainDetailsMap s1),
                                 sy_connections := sy_connections s1 @ [(newSock, url)]\<rparr>
                     in Some (set_poll_socket k newSock s2)))))"

definition on_domain_details :: "ServiceDirectoryMapPB \<Rightarrow> sy_state \<Rightarrow> sy_state option" where
  "on_domain_details m s =
     (let d = field '''' (mp_domain m)
      in case details_of d s of
           None \<Rightarrow> None
         | Some (a, details) \<Rightarrow>
             (let s1 = s\<lparr>sy_heap := smap_put a (details\<lparr>sy_providerMap := m, sy_initialized := True\<rparr>)
                           (sy_heap s)\<rparr>
              in Some (if \<not> sy_initialized details then push_updates (initial_update d m) s1
                       else incremental_update d m s1)))"

definition on_message :: "nat \<Rightarrow> socket \<Rightarrow> sync_message \<Rightarrow> socket \<Rightarrow> sy_state \<Rightarrow> sy_state option" where
  "on_message k sock msg newSock s =
     (if from_stale_publisher sock msg s then Some s
      else case sm_payload msg of
             LookupResponse resp \<Rightarrow> on_lookup_response k sock newSock (sm_domain msg) resp s
           | DomainDetails m \<Rightarrow> on_domain_details m s
           | OtherPayload \<Rightarrow> Some s)"

subsection \<open>An iteration of the loop\<close>

record sy_env =
  env_ready :: "socket \<Rightarrow> bool"
  env_command :: sync_command
  env_command_socket :: socket
  env_recv :: "socket \<Rightarrow> sync_message"
  env_new_socket :: "socket \<Rightarrow> socket"

definition poll_items :: "sy_env \<Rightarrow> sy_state \<Rightarrow> sy_state" where
  "poll_items env s =
     s\<lparr>sy_pollItems := map (\<lambda>p. p\<lparr>po_revents := env_ready env (po_socket p)\<rparr>) (sy_pollItems s)\<rparr>"

text \<open>The checks of the first two poll items.\<close>

definition check_control :: "sy_env \<Rightarrow> sy_state \<Rightarrow> sy_state option" where
  "check_control env s =
     (if po_revents (sy_pollItems s ! 0) then run_command (env_command env) (env_command_socket env) s
      else if po_revents (sy_pollItems s ! 1) then Some (s\<lparr>pendingResponse := False\<rparr>)
      else Some s)"

text \<open>The \<open>while\<close> loop over the poll items from index \<open>k\<close> on.\<close>

fun check_responses :: "sy_env \<Rightarrow> nat \<Rightarrow> nat \<Rightarrow> sy_state \<Rightarrow> sy_state option" where
  "check_responses env k 0 s = Some s"
| "check_responses env k (Suc n) s =
     (let p = sy_pollItems s ! k
      in case (if po_revents p
               then on_message k (po_socket p) (env_recv env (po_socket p))
                      (env_new_socket env (po_socket p)) s
               else Some s) of
           None \<Rightarrow> None
         | Some s1 \<Rightarrow> check_responses env (Suc k) n s1)"

definition send_update :: "sy_state \<Rightarrow> sy_state" where
  "send_update s =
     (if \<not> pendingResponse s
      then (case registrationUpdates s of
              [] \<Rightarrow> s
            | gdp # rest \<Rightarrow> s\<lparr>registrationUpdates := rest, sy_sent := sy_sent s @ [gdp],
                              pendingResponse := True\<rparr>)
      else s)"

definition sy_iteration :: "sy_env \<Rightarrow> sy_state \<Rightarrow> sy_state option" where
  "sy_iteration env s =
     (case check_control env (poll_items env s) of
        None \<Rightarrow> None
      | Some s1 \<Rightarrow>
          (case check_responses env 2 (length (sy_pollItems s1) - 2) s1 of
             None \<Rightarrow> None
           | Some s2 \<Rightarrow> Some (send_update s2)))"

fun sy_run :: "sy_env list \<Rightarrow> sy_state \<Rightarrow> sy_state option" where
  "sy_run [] s = Some s"
| "sy_run (env # envs) s =
     (case sy_iteration env s of None \<Rightarrow> None | Some s1 \<Rightarrow> sy_run envs s1)"

end
