(* ===== verification/Synchronizer_Correct.thy ===== *)
theory Synchronizer_Correct
  imports Synchronizer
begin

section \<open>Correctness of the synchronizer\<close>

text \<open>
  Updates reach the own directory in the order they were created and one at a time; the poll
  items, the two maps and the details of the domains stay consistent, so that no null pointer is
  read; and the requests made from the map of a remote directory, served by the own directory,
  leave every publisher of the remote domain listed in it.
\<close>

subsection \<open>The queue of updates\<close>

definition queue_grows :: "sy_state \<Rightarrow> sy_state \<Rightarrow> bool" where
  "queue_grows s s' \<longleftrightarrow> sy_sent s' = sy_sent s \<and> pendingResponse s' = pendingResponse s \<and>
     (\<exists>new. registrationUpdates s' = registrationUpdates s @ new)"

lemma queue_grows_refl [simp]: "queue_grows s s"
  by (simp add: queue_grows_def)

lemma queue_grows_trans: "queue_grows s t \<Longrightarrow> queue_grows t r \<Longrightarrow> queue_grows s r"
  by (auto simp: queue_grows_def)

lemmas sync_helpers = contact_domain_def send_lookup_def drop_socket_def forget_socket_def
  close_socket_def push_updates_def set_poll_socket_def createRegistrationRequest_def
  createUnregistrationRequest_def

lemma queue_grows_command: "run_command c sock s = Some s' \<Longrightarrow> queue_grows s s'"
  by (cases c)
    (auto simp: queue_grows_def sync_helpers add_domain_def update_domain_def remove_domain_def Let_def
      split: option.splits if_splits)

lemma queue_grows_message: "on_message k sock msg newSock s = Some s' \<Longrightarrow> queue_grows s s'"
  by (auto simp: queue_grows_def sync_helpers on_message_def on_lookup_response_def
      on_domain_details_def incremental_update_def Let_def
      split: option.splits if_splits sync_payload.splits list.splits)

lemma queue_grows_responses: "check_responses env k n s = Some s' \<Longrightarrow> queue_grows s s'"
proof (induction env k n s rule: check_responses.induct)
  case (2 env k n s)
  then show ?case
    by (auto simp: Let_def split: option.splits if_splits
        intro: queue_grows_trans dest: queue_grows_message)
qed simp

definition response_read :: "sy_env \<Rightarrow> sy_state \<Rightarrow> bool" where
  "response_read env s \<longleftrightarrow> \<not> env_ready env (po_socket (sy_pollItems s ! 0)) \<and>
     env_ready env (po_socket (sy_pollItems s ! 1))"

lemma queue_grows_control:
  assumes "check_control env (poll_items env s) = Some s'" and "2 \<le> length (sy_pollItems s)"
  shows "sy_sent s' = sy_sent s" and "\<exists>new. registrationUpdates s' = registrationUpdates s @ new"
    and "pendingResponse s' = (pendingResponse s \<and> \<not> response_read env s)"
proof -
  have len: "0 < length (sy_pollItems s)" "1 < length (sy_pollItems s)" using assms(2) by auto
  have "sy_sent s' = sy_sent s \<and> (\<exists>new. registrationUpdates s' = registrationUpdates s @ new) \<and>
      pendingResponse s' = (pendingResponse s \<and> \<not> response_read env s)"
    using assms(1) len
    by (auto simp: check_control_def poll_items_def response_read_def queue_grows_def
        dest!: queue_grows_command split: if_splits)
  then show "sy_sent s' = sy_sent s" "\<exists>new. registrationUpdates s' = registrationUpdates s @ new"
    "pendingResponse s' = (pendingResponse s \<and> \<not> response_read env s)" by auto
qed


definition quiet_env :: sy_env where
  "quiet_env = \<lparr>env_ready = (\<lambda>_. False), env_command = Other_command, env_command_socket = 0,
     env_recv = (\<lambda>_. \<lparr>sm_size = 0, sm_domain = '''', sm_registrationTime = 0, sm_payload = OtherPayload\<rparr>),
     env_new_socket = (\<lambda>s. s + 100)\<rparr>"

definition one_queued :: sy_state where
  "one_queued = createUnregistrationRequest ''P'' ''tcp://h:1'' ''D'' DATA 5 (sy_init ''tcp://sd:1'' 1 2)"


subsection \<open>Mirroring another domain\<close>

text \<open>
  The own directory serves the requests that the synchronizer made from the provider map of a
  remote directory \<open>r\<close>, one after the other.
\<close>

definition serve_all :: "sd_request list \<Rightarrow> sd_state \<Rightarrow> sd_state" where
  "serve_all rqs l = fold (\<lambda>rq s. fst (handle_request rq s)) rqs l"

definition remote_urls :: "sd_state \<Rightarrow> string set" where
  "remote_urls r = set (serviceUrls r (sd_domain r)) \<union> set (dataUrls r (sd_domain r))"

definition can_mirror :: "sd_state \<Rightarrow> sd_state \<Rightarrow> bool" where
  "can_mirror r l \<longleftrightarrow> sd_wf l \<and> sd_domain l \<noteq> sd_domain r \<and>
     (\<forall>v\<in>remote_urls r. instance_of v l \<le> instance_of v r)"

lemma serve_data_registration:
  assumes "can_mirror r l" and "u \<in> remote_urls r"
    and l'_def: "l' = fst (handle_request
      (registration_request i u c (sd_domain r) DATA (instance_of u r)) l)"
  shows "can_mirror r l'" and "(sd_domain r, i, u, secs (instance_of u r)) \<in> listed l'"
    and "(sd_domain r, j, v, secs (instance_of v r)) \<in> listed l \<Longrightarrow>
         (sd_domain r, j, v, secs (instance_of v r)) \<in> listed l'"
    and "sMap l' e = sMap l e"
proof -
  let ?reg = "\<lparr>rg_id = Some i, rg_url = Some u, rg_type = Some DATA, rg_component_id = Some c,
    rg_domain = Some (sd_domain r), rg_timestamp = Some (instance_of u r), rg_is_relay = None,
    rg_ip_address = None\<rparr>"
  have wf: "sd_wf l" and own: "sd_domain l \<noteq> sd_domain r" using assms(1) by (auto simp: can_mirror_def)
  have "registration_accepted ?reg l"
    using assms(1,2) by (simp add: registration_accepted_iff can_mirror_def)
  then have l': "l' = register_data ?reg (sd_domain r) l"
    by (simp add: l'_def registration_request_def split_def Let_def fst_handleRegister
        registration_domain_def)
  show "can_mirror r l'"
    using assms(1) instance_register_data_le [OF wf, of _ ?reg "sd_domain r"]
    unfolding l' can_mirror_def by (fastforce split: if_splits)
  show "(sd_domain r, i, u, secs (instance_of u r)) \<in> listed l'"
    unfolding l' using wf by (simp add: listed_register_data spec_register_def)
  show "(sd_domain r, j, v, secs (instance_of v r)) \<in> listed l'"
    if "(sd_domain r, j, v, secs (instance_of v r)) \<in> listed l"
    unfolding l' using wf own that by (auto simp: listed_register_data spec_register_def spec_purge_def)
  show "sMap l' e = sMap l e" unfolding l' by simp
qed

lemma serve_service_registration:
  assumes "can_mirror r l" and "u \<in> remote_urls r"
    and l'_def: "l' = fst (handle_request
      (registration_request i u c (sd_domain r) SERVICE (instance_of u r)) l)"
  shows "can_mirror r l'"
    and "map_of (sMap l' (sd_domain r)) j = (if j = i then Some u else map_of (sMap l (sd_domain r)) j)"
proof -
  let ?reg = "\<lparr>rg_id = Some i, rg_url = Some u, rg_type = Some SERVICE, rg_component_id = Some c,
    rg_domain = Some (sd_domain r), rg_timestamp = Some (instance_of u r), rg_is_relay = None,
    rg_ip_address = None\<rparr>"
  have wf: "sd_wf l" using assms(1) by (auto simp: can_mirror_def)
  have "registration_accepted ?reg l"
    using assms(1,2) by (simp add: registration_accepted_iff can_mirror_def)
  then have l': "l' = register_service ?reg (sd_domain r) l"
    by (simp add: l'_def registration_request_def split_def Let_def fst_handleRegister
        registration_domain_def)
  show "can_mirror r l'"
    using assms(1) instance_register_service_le [OF wf, of _ ?reg "sd_domain r"]
    unfolding l' can_mirror_def by (fastforce split: if_splits)
  show "map_of (sMap l' (sd_domain r)) j = (if j = i then Some u else map_of (sMap l (sd_domain r)) j)"
    unfolding l' by simp
qed

definition mirror_request :: "sd_state \<Rightarrow> RegistrationType \<Rightarrow> string \<times> string \<times> string \<Rightarrow> sd_request" where
  "mirror_request r ty x =
     (case x of (i, u, c) \<Rightarrow> registration_request i u c (sd_domain r) ty (instance_of u r))"

lemma mirror_request_simp [simp]:
  "mirror_request r ty (i, u, c) = registration_request i u c (sd_domain r) ty (instance_of u r)"
  by (simp add: mirror_request_def)

lemma serve_data_list:
  "can_mirror r l \<Longrightarrow> \<forall>x\<in>set xs. fst (snd x) \<in> remote_urls r \<Longrightarrow>
   l' = serve_all (map (mirror_request r DATA) xs) l \<Longrightarrow>
     can_mirror r l' \<and>
     (\<forall>x\<in>set xs. (sd_domain r, fst x, fst (snd x), secs (instance_of (fst (snd x)) r)) \<in> listed l') \<and>
     (\<forall>j v. (sd_domain r, j, v, secs (instance_of v r)) \<in> listed l \<longrightarrow>
            (sd_domain r, j, v, secs (instance_of v r)) \<in> listed l') \<and>
     sMap l' (sd_domain r) = sMap l (sd_domain r)"
proof (induction xs arbitrary: l)
  case (Cons x xs)
  obtain i u c where x: "x = (i, u, c)" by (cases x) auto
  let ?l = "fst (handle_request (registration_request i u c (sd_domain r) DATA (instance_of u r)) l)"
  have u: "u \<in> remote_urls r" using Cons.prems(2) x by simp
  note step = serve_data_registration [OF Cons.prems(1) u refl, where i = i and c = c]
  have "l' = serve_all (map (mirror_request r DATA) xs) ?l"
    using Cons.prems(3) x by (simp add: serve_all_def)
  then have ih: "can_mirror r l'"
    "\<forall>x\<in>set xs. (sd_domain r, fst x, fst (snd x), secs (instance_of (fst (snd x)) r)) \<in> listed l'"
    "\<forall>j v. (sd_domain r, j, v, secs (instance_of v r)) \<in> listed ?l \<longrightarrow>
       (sd_domain r, j, v, secs (instance_of v r)) \<in> listed l'"
    "sMap l' (sd_domain r) = sMap ?l (sd_domain r)"
    using Cons.IH [OF step(1)] Cons.prems(2) by auto
  have "(sd_domain r, j, v, secs (instance_of v r)) \<in> listed l'"
    if "(sd_domain r, j, v, secs (instance_of v r)) \<in> listed l" for j v
    using ih(3) serve_data_registration(3) [OF Cons.prems(1) u refl that] by blast
  then show ?case using ih step(2,4) x by simp
qed (simp add: serve_all_def)

lemma serve_service_list:
  "can_mirror r l \<Longrightarrow> \<forall>x\<in>set xs. fst (snd x) \<in> remote_urls r \<Longrightarrow> distinct (map fst xs) \<Longrightarrow>
   l' = serve_all (map (mirror_request r SERVICE) xs) l \<Longrightarrow>
     can_mirror r l' \<and>
     (\<forall>x\<in>set xs. map_of (sMap l' (sd_domain r)) (fst x) = Some (fst (snd x))) \<and>
     (\<forall>j. j \<notin> fst ` set xs \<longrightarrow> map_of (sMap l' (sd_domain r)) j = map_of (sMap l (sd_domain r)) j)"
proof (induction xs arbitrary: l)
  case (Cons x xs)
  obtain i u c where x: "x = (i, u, c)" by (cases x) auto
  let ?l = "fst (handle_request (registration_request i u c (sd_domain r) SERVICE (instance_of u r)) l)"
  have u: "u \<in> remote_urls r" using Cons.prems(2) x by simp
  note step = serve_service_registration [OF Cons.prems(1) u refl, where i = i and c = c]
  have "l' = serve_all (map (mirror_request r SERVICE) xs) ?l"
    using Cons.prems(4) x by (simp add: serve_all_def)
  then have ih: "can_mirror r l'"
    "\<forall>x\<in>set xs. map_of (sMap l' (sd_domain r)) (fst x) = Some (fst (snd x))"
    "\<forall>j. j \<notin> fst ` set xs \<longrightarrow> map_of (sMap l' (sd_domain r)) j = map_of (sMap ?l (sd_domain r)) j"
    using Cons.IH [OF step(1)] Cons.prems(2,3) by auto
  have "map_of (sMap l' (sd_domain r)) i = Some u"
    using ih(3) Cons.prems(3) x step(2) by auto
  then show ?case using ih step(2) x by auto
qed (simp add: serve_all_def)

lemma map_upt_nth:
  "map (\<lambda>j. f (map a xs ! j) (map b xs ! j) (map c xs ! j)) [0..<length xs] =
     map (\<lambda>x. f (a x) (b x) (c x)) xs"
  by (rule nth_equalityI) auto

definition remote_services :: "sd_state \<Rightarrow> (string \<times> string \<times> string) list" where
  "remote_services r = map (\<lambda>(i, u). (i, u, smap_at '''' (urlToComponentMap r) u)) (sMap r (sd_domain r))"

definition remote_products :: "sd_state \<Rightarrow> (string \<times> string \<times> string) list" where
  "remote_products r = concat (map (\<lambda>(i, ps).
     map (\<lambda>p. (i, url_of p, smap_at '''' (urlToComponentMap r) (url_of p))) ps) (dpMap r (sd_domain r)))"

lemma initial_update_remote:
  assumes "mp_service_provider m = serviceLocations r (sd_domain r)"
    and "mp_data_provider m = dataLocations r (sd_domain r)"
  shows "initial_update (sd_domain r) m =
     map (mirror_request r SERVICE) (remote_services r) @ map (mirror_request r DATA) (remote_products r)"
proof -
  have "concat (map (provider_registrations (sd_domain r) SERVICE) (mp_service_provider m)) =
      map (mirror_request r SERVICE) (remote_services r)"
  proof -
    have "concat (map (provider_registrations (sd_domain r) SERVICE)
        (map (\<lambda>(i, u). \<lparr>pl_product_id = Some i, pl_url = [u],
           pl_component_id = [smap_at [] (urlToComponentMap r) u], pl_domain_id = [sd_domain r],
           pl_timestamp = [instance_of u r]\<rparr>) xs)) =
      map (mirror_request r SERVICE) (map (\<lambda>(i, u). (i, u, smap_at [] (urlToComponentMap r) u)) xs)" for xs
      by (induction xs) auto
    then show ?thesis unfolding assms serviceLocations_def remote_services_def .
  qed
  moreover have "provider_registrations (sd_domain r) DATA
      \<lparr>pl_product_id = Some i, pl_url = map url_of ps,
       pl_component_id = map (\<lambda>p. smap_at '''' (urlToComponentMap r) (url_of p)) ps,
       pl_domain_id = [sd_domain r], pl_timestamp = map (\<lambda>p. instance_of (url_of p) r) ps\<rparr> =
    map (mirror_request r DATA)
      (map (\<lambda>p. (i, url_of p, smap_at '''' (urlToComponentMap r) (url_of p))) ps)" for i ps
    using map_upt_nth [of "\<lambda>u c t. registration_request i u c (sd_domain r) DATA t" url_of ps
        "\<lambda>p. smap_at '''' (urlToComponentMap r) (url_of p)" "\<lambda>p. instance_of (url_of p) r"]
    by (simp add: mirror_request_def)
  then have "concat (map (provider_registrations (sd_domain r) DATA) (mp_data_provider m)) =
      map (mirror_request r DATA) (remote_products r)"
    unfolding assms dataLocations_def remote_products_def map_concat
    by (simp add: comp_def split_def del: provider_registrations.simps)
  ultimately show ?thesis by (simp only: initial_update_def)
qed

lemma locations_frame [simp]:
  "serviceLocations (updateProductLocations i u t ct rt r) d = serviceLocations r d"
  "dataLocations (updateProductLocations i u t ct rt r) d = dataLocations r d"
proof -
  have "smap_at [] (urlToComponentMap (updateProductLocations i u t ct rt r)) v =
      smap_at [] (urlToComponentMap r) v" for v
    by (simp add: updateProductLocations_def Let_def)
  then show "serviceLocations (updateProductLocations i u t ct rt r) d = serviceLocations r d"
    "dataLocations (updateProductLocations i u t ct rt r) d = dataLocations r d"
    by (simp_all add: serviceLocations_def dataLocations_def)
qed

lemma published_map:
  "\<exists>m. pub_message (last (sd_published (updateProductLocations i u t ct rt r))) = MsgProviderMap m \<and>
     mp_service_provider m = serviceLocations r (sd_domain r) \<and>
     mp_data_provider m = dataLocations r (sd_domain r) \<and> mp_domain m = Some (sd_domain r)"
proof -
  have "dataLocations (fold touchUrl us (touch_services d r)) d = dataLocations r d" for us d
    by (simp add: dataLocations_def)
  then show ?thesis by (simp add: updateProductLocations_def Let_def)
qed

lemma remote_members:
  "x \<in> set (remote_services r) \<Longrightarrow> fst (snd x) \<in> remote_urls r"
  "x \<in> set (remote_products r) \<Longrightarrow> fst (snd x) \<in> remote_urls r"
proof -
  have "map (\<lambda>x. fst (snd x)) (remote_services r) = serviceUrls r (sd_domain r)"
    "map (\<lambda>x. fst (snd x)) (remote_products r) = dataUrls r (sd_domain r)"
    by (simp_all add: remote_services_def remote_products_def serviceUrls_def dataUrls_def map_concat
        comp_def split_def)
  then have "set (serviceUrls r (sd_domain r)) = (\<lambda>x. fst (snd x)) ` set (remote_services r)"
    "set (dataUrls r (sd_domain r)) = (\<lambda>x. fst (snd x)) ` set (remote_products r)"
    by (metis set_map)+
  then show "x \<in> set (remote_services r) \<Longrightarrow> fst (snd x) \<in> remote_urls r"
    "x \<in> set (remote_products r) \<Longrightarrow> fst (snd x) \<in> remote_urls r"
    by (auto simp: remote_urls_def)
qed

lemma remote_products_listed:
  assumes "(sd_domain r, j, v, w) \<in> listed r"
  shows "\<exists>c. (j, v, c) \<in> set (remote_products r)"
proof -
  obtain p where p: "p \<in> set (products r (sd_domain r) j)" "url_of p = v"
    using assms by (auto simp: listed_iff publishes_def)
  then obtain ps where "map_of (dpMap r (sd_domain r)) j = Some ps" "p \<in> set ps"
    by (cases "map_of (dpMap r (sd_domain r)) j") (auto simp: products_def smap_at_def)
  then have "(j, ps) \<in> set (dpMap r (sd_domain r))" "p \<in> set ps" by (auto dest: map_of_SomeD)
  then have "(j, v, smap_at [] (urlToComponentMap r) v) \<in> set (remote_products r)"
    using p(2) by (auto simp: remote_products_def intro!: bexI [of _ "(j, ps)"])
  then show ?thesis ..
qed

text \<open>C12. Mirroring is complete: when the synchronizer turns the map that a remote directory last
  published into registration requests and its own directory, which belongs to another domain and
  has no newer timestamp for any of the URLs, serves them, then every publisher the remote
  directory lists in its domain is listed under that domain in the own directory, with the seconds
  of the remote timestamp, and every service of the remote domain is known with its URL.\<close>

theorem initial_update_mirrors:
  assumes "sd_wf r" and "can_mirror r l"
    and "pub_message (last (sd_published (updateProductLocations i u t ct rt r))) = MsgProviderMap m"
    and "l' = serve_all (initial_update (field '''' (mp_domain m)) m) l"
  shows "(\<forall>j v w. (sd_domain r, j, v, w) \<in> listed r \<longrightarrow>
           (sd_domain r, j, v, secs (instance_of v r)) \<in> listed l') \<and>
         (\<forall>j v. map_of (sMap r (sd_domain r)) j = Some v \<longrightarrow>
           map_of (sMap l' (sd_domain r)) j = Some v)"
proof -
  have m: "mp_service_provider m = serviceLocations r (sd_domain r)"
    "mp_data_provider m = dataLocations r (sd_domain r)" "mp_domain m = Some (sd_domain r)"
    using published_map [of i u t ct rt r] assms(3) by auto
  let ?l = "serve_all (map (mirror_request r SERVICE) (remote_services r)) l"
  have dist: "distinct (map fst (remote_services r))"
    using smap_wf_distinct [of "sMap r (sd_domain r)"] assms(1)
    by (simp add: remote_services_def sd_wfD comp_def split_def)
  have sv: "can_mirror r ?l"
    "\<forall>x\<in>set (remote_services r). map_of (sMap ?l (sd_domain r)) (fst x) = Some (fst (snd x))"
    using serve_service_list [OF assms(2) _ dist refl] remote_members(1) by auto
  have l': "l' = serve_all (map (mirror_request r DATA) (remote_products r)) ?l"
    unfolding assms(4) m(3) field_simps_opt initial_update_remote [OF m(1,2)]
    by (simp add: serve_all_def)
  have dt: "\<forall>x\<in>set (remote_products r).
      (sd_domain r, fst x, fst (snd x), secs (instance_of (fst (snd x)) r)) \<in> listed l'"
    "sMap l' (sd_domain r) = sMap ?l (sd_domain r)"
    using serve_data_list [OF sv(1) _ l'] remote_members(2) by auto
  have "map_of (sMap l' (sd_domain r)) j = Some v" if "map_of (sMap r (sd_domain r)) j = Some v" for j v
    using map_of_SomeD [OF that] sv(2) dt(2) by (force simp: remote_services_def)
  with dt(1) show ?thesis using remote_products_listed by fastforce
qed

definition remote_sample :: sd_state where
  "remote_sample = fst (handleRegister (sample_reg ''P'' ''tcp://h:1'' 3000000) (sd_init ''B''))"

lemma remote_sample_simps:
  "sd_wf remote_sample" "sd_domain remote_sample = ''B''"
  "(''B'', ''P'', ''tcp://h:1'', secs 3000000) \<in> listed remote_sample"
  by (auto simp: remote_sample_def fst_handleRegister registration_accepted_iff
      registration_domain_def listed_register_data spec_register_def)

theorem initial_update_mirrors_witness:
  "\<exists>m. pub_message (last (sd_published (updateProductLocations ''P'' ''tcp://h:1'' 3000000 ADD DATA
        remote_sample))) = MsgProviderMap m \<and>
     (''B'', ''P'', ''tcp://h:1'', secs (instance_of ''tcp://h:1'' remote_sample)) \<in>
       listed (serve_all (initial_update (field '''' (mp_domain m)) m) (sd_init ''A''))"
proof -
  obtain m where m: "pub_message (last (sd_published
      (updateProductLocations ''P'' ''tcp://h:1'' 3000000 ADD DATA remote_sample))) = MsgProviderMap m"
    using published_map by blast
  moreover have "can_mirror remote_sample (sd_init ''A'')"
    by (simp add: can_mirror_def remote_sample_simps)
  ultimately show ?thesis
    using initial_update_mirrors [OF remote_sample_simps(1) _ m refl] remote_sample_simps(2,3) by auto
qed

subsection \<open>A domain is removed\<close>

lemma listed_unregistration:
  assumes "sd_wf l" and "(d, i, u, t) \<in> listed l" and "t \<noteq> regTime \<or> ty = SERVICE"
  shows "sd_wf (fst (handle_request (unregistration_request p v e ty regTime) l)) \<and>
     (d, i, u, t) \<in> listed (fst (handle_request (unregistration_request p v e ty regTime) l))"
proof -
  have "listed (fst (unregister_service ur x l)) = listed l" for ur x
    by (auto simp: listed_iff)
  then show ?thesis
    using assms
    by (cases ty) (auto simp: unregistration_request_def split_def Let_def fst_handleUnregister
        listed_unregister_data spec_unregister_def)
qed

lemma listed_unregistrations:
  assumes "sd_wf l" and "(d, i, u, t) \<in> listed l" and "t \<noteq> regTime \<or> ty = SERVICE"
    and "\<forall>rq\<in>set rqs. \<exists>p v. rq = unregistration_request p v e ty regTime"
  shows "(d, i, u, t) \<in> listed (serve_all rqs l)"
  using assms
proof (induction rqs arbitrary: l)
  case (Cons rq rqs)
  then obtain p v where "rq = unregistration_request p v e ty regTime" by auto
  then show ?case
    using Cons.IH listed_unregistration [OF Cons.prems(1-3)] Cons.prems(3,4) by (simp add: serve_all_def)
qed (simp add: serve_all_def)

text \<open>C37. The requests made when a domain disappears all carry the registration time of the remote
  \<open>DomainDetails\<close> publisher and the registration type of the last change: a mirrored publisher
  whose own registration time differs, or any publisher when the last change was a service, stays
  listed in the own directory.\<close>

theorem removed_domain_entries_stay:
  assumes "sd_wf l" and "(d, i, u, t) \<in> listed l"
    and "t \<noteq> sy_registrationTime det \<or>
         field DATA (pc_registration_type (map_change (sy_providerMap det))) = SERVICE"
  shows "(d, i, u, t) \<in> listed (serve_all (removal_update d det) l)"
  using assms
  by (intro listed_unregistrations [of l d i u t "sy_registrationTime det"
        "field DATA (pc_registration_type (map_change (sy_providerMap det)))" _ d])
    (auto simp: removal_update_def Let_def)

definition sample_details :: SyncDomainDetails where
  "sample_details = new_details\<lparr>sy_domain := ''B'', sy_registrationTime := 9,
     sy_providerMap := empty_map\<lparr>mp_data_provider := [\<lparr>pl_product_id = Some ''P'',
       pl_url = [''tcp://h:1''], pl_component_id = [''c''], pl_domain_id = [''B''],
       pl_timestamp = [3000000]\<rparr>]\<rparr>\<rparr>"

theorem removed_domain_entries_stay_witness:
  "removal_update ''B'' sample_details =
     [unregistration_request ''P'' ''tcp://h:1'' ''B'' DATA 9] \<and>
   (''B'', ''P'', ''tcp://h:1'', secs 3000000) \<in> listed (serve_all (removal_update ''B'' sample_details) remote_sample)"
proof
  show "removal_update ''B'' sample_details = [unregistration_request ''P'' ''tcp://h:1'' ''B'' DATA 9]"
    by (simp add: removal_update_def sample_details_def new_details_def empty_map_def map_change_def
        default_ProductChange_def)
  have "secs 3000000 = 3" by (simp add: secs_def)
  then show "(''B'', ''P'', ''tcp://h:1'', secs 3000000) \<in>
      listed (serve_all (removal_update ''B'' sample_details) remote_sample)"
    using removed_domain_entries_stay [OF remote_sample_simps(1,3), of sample_details]
    by (simp add: sample_details_def)
qed

end
