(* ===== verification/Data_Products.thy ===== *)
theory Data_Products
  imports CommUtil Std_Map
begin

section \<open>Data products and metrics (\<open>GravityDataProduct.cpp\<close>, \<open>GravityMetrics.cpp\<close>)\<close>

text \<open>
  A data product is the record of the protobuf message that the class wraps; the class's accessors
  read the fields with the defaults of \<open>proto2\<close>. \<open>GravityMetrics\<close> counts messages and bytes per
  data product and travels between threads as a list of frames. Sizes and counts are C++ \<open>int\<close>s
  whose overflow is undefined; they are unbounded here, and the round trip asks for the range.
\<close>

subsection \<open>Data products\<close>

record GravityDataProductPB =
  dp_timestamp :: "u64 option"
  dp_dataProductID :: "string option"
  dp_softwareVersion :: "string option"
  dp_data :: "string option"
  dp_componentID :: "string option"
  dp_domain :: "string option"
  dp_future_response :: "bool option"
  dp_future_socket_url :: "string option"
  dp_received_timestamp :: "u64 option"
  dp_is_cached_dataproduct :: "bool option"
  dp_is_relayed_dataproduct :: "bool option"
  dp_protocol :: "string option"
  dp_type_name :: "string option"
  dp_registration_time :: "u32 option"

definition GravityDataProduct :: "string \<Rightarrow> GravityDataProductPB" where
  "GravityDataProduct dataProductID =
     \<lparr>dp_timestamp = None, dp_dataProductID = Some dataProductID, dp_softwareVersion = None,
      dp_data = None, dp_componentID = None, dp_domain = None, dp_future_response = None,
      dp_future_socket_url = None, dp_received_timestamp = None, dp_is_cached_dataproduct = None,
      dp_is_relayed_dataproduct = None, dp_protocol = None, dp_type_name = None,
      dp_registration_time = None\<rparr>"

definition getDataProductID :: "GravityDataProductPB \<Rightarrow> string" where
  "getDataProductID p = field '''' (dp_dataProductID p)"

definition getReceivedTimestamp :: "GravityDataProductPB \<Rightarrow> u64" where
  "getReceivedTimestamp p = (case dp_received_timestamp p of None \<Rightarrow> 0 | Some t \<Rightarrow> t)"

definition getGravityTimestamp :: "GravityDataProductPB \<Rightarrow> u64" where
  "getGravityTimestamp p = field 0 (dp_timestamp p)"

definition setData :: "string \<Rightarrow> GravityDataProductPB \<Rightarrow> GravityDataProductPB" where
  "setData bytes p = p\<lparr>dp_data := Some bytes\<rparr>"

text \<open>\<open>setData(Message)\<close>: the bytes of the message and the name of its type are the arguments.\<close>

definition setData_message :: "string \<Rightarrow> string \<Rightarrow> GravityDataProductPB \<Rightarrow> GravityDataProductPB" where
  "setData_message bytes typeName p =
     p\<lparr>dp_data := Some bytes, dp_protocol := Some ''protobuf2'', dp_type_name := Some typeName\<rparr>"

definition gdp_bytes :: "GravityDataProductPB \<Rightarrow> string" where
  "gdp_bytes p = field '''' (dp_data p)"

definition getDataSize :: "GravityDataProductPB \<Rightarrow> nat" where
  "getDataSize p = length (gdp_bytes p)"

definition gdp_eq :: "GravityDataProductPB \<Rightarrow> GravityDataProductPB \<Rightarrow> bool" where
  "gdp_eq p q =
     (if getDataSize p \<noteq> getDataSize q then False
      else if getDataProductID p \<noteq> getDataProductID q then False
      else take (getDataSize p) (gdp_bytes p) = take (getDataSize p) (gdp_bytes q))"

definition isCachedDataproduct :: "GravityDataProductPB \<Rightarrow> bool" where
  "isCachedDataproduct p = (dp_is_cached_dataproduct p \<noteq> None \<and> field False (dp_is_cached_dataproduct p))"

definition setIsCachedDataproduct :: "bool \<Rightarrow> GravityDataProductPB \<Rightarrow> GravityDataProductPB" where
  "setIsCachedDataproduct b p = p\<lparr>dp_is_cached_dataproduct := Some b\<rparr>"

definition isRelayedDataproduct :: "GravityDataProductPB \<Rightarrow> bool" where
  "isRelayedDataproduct p =
     (dp_is_relayed_dataproduct p \<noteq> None \<and> field False (dp_is_relayed_dataproduct p))"

definition getRegistrationTime :: "GravityDataProductPB \<Rightarrow> u32" where
  "getRegistrationTime p = (case dp_registration_time p of None \<Rightarrow> 0 | Some t \<Rightarrow> t)"

definition isFutureResponse :: "GravityDataProductPB \<Rightarrow> bool" where
  "isFutureResponse p = field False (dp_future_response p)"

subsection \<open>Metrics\<close>

record MetricsSample =
  messageCount :: int
  byteCount :: int

record GravityMetrics =
  gm_metrics :: "(string, MetricsSample) smap"
  startTime :: u64
  endTime :: u64

definition zero_sample :: MetricsSample where
  "zero_sample = \<lparr>messageCount = 0, byteCount = 0\<rparr>"

definition clear_metrics :: GravityMetrics where
  "clear_metrics = \<lparr>gm_metrics = [], startTime = 0, endTime = 0\<rparr>"

definition incrementMessageCount :: "string \<Rightarrow> int \<Rightarrow> GravityMetrics \<Rightarrow> GravityMetrics" where
  "incrementMessageCount i n m =
     (let x = smap_at zero_sample (gm_metrics m) i
      in m\<lparr>gm_metrics := smap_put i (x\<lparr>messageCount := messageCount x + n\<rparr>) (gm_metrics m)\<rparr>)"

definition incrementByteCount :: "string \<Rightarrow> int \<Rightarrow> GravityMetrics \<Rightarrow> GravityMetrics" where
  "incrementByteCount i n m =
     (let x = smap_at zero_sample (gm_metrics m) i
      in m\<lparr>gm_metrics := smap_put i (x\<lparr>byteCount := byteCount x + n\<rparr>) (gm_metrics m)\<rparr>)"

definition reset_metrics :: "u64 \<Rightarrow> GravityMetrics \<Rightarrow> GravityMetrics" where
  "reset_metrics now m =
     \<lparr>gm_metrics = map (\<lambda>(i, x). (i, zero_sample)) (gm_metrics m), startTime = now, endTime = 0\<rparr>"

definition remove_metrics :: "string \<Rightarrow> GravityMetrics \<Rightarrow> GravityMetrics" where
  "remove_metrics i m = m\<lparr>gm_metrics := smap_erase i (gm_metrics m)\<rparr>"

definition done_metrics :: "u64 \<Rightarrow> GravityMetrics \<Rightarrow> GravityMetrics" where
  "done_metrics now m = m\<lparr>endTime := now\<rparr>"

definition getMessageCount :: "string \<Rightarrow> GravityMetrics \<Rightarrow> int" where
  "getMessageCount i m = (case map_of (gm_metrics m) i of None \<Rightarrow> -1 | Some x \<Rightarrow> messageCount x)"

definition getByteCount :: "string \<Rightarrow> GravityMetrics \<Rightarrow> int" where
  "getByteCount i m = (case map_of (gm_metrics m) i of None \<Rightarrow> -1 | Some x \<Rightarrow> byteCount x)"

definition sample_frames :: "string \<times> MetricsSample \<Rightarrow> frame list" where
  "sample_frames ix = [sendStringMessage (fst ix), sendIntMessage (messageCount (snd ix)),
     sendIntMessage (byteCount (snd ix))]"

definition sendAsMessage :: "GravityMetrics \<Rightarrow> frame list" where
  "sendAsMessage m =
     (if gm_metrics m = [] then [sendIntMessage 0]
      else sendIntMessage (int (length (gm_metrics m))) # concat (map sample_frames (gm_metrics m)) @
           [sendUint64Message (startTime m), sendUint64Message (endTime m)])"

fun read_samples ::
  "nat \<Rightarrow> frame list \<Rightarrow> (string, MetricsSample) smap \<Rightarrow> ((string, MetricsSample) smap \<times> frame list) option" where
  "read_samples 0 fs m = Some (m, fs)"
| "read_samples (Suc n) (i # a # b # fs) m =
     (case (readIntMessage a, readIntMessage b) of
        (Some x, Some y) \<Rightarrow>
          read_samples n fs (smap_put (readStringMessage i) \<lparr>messageCount = x, byteCount = y\<rparr> m)
      | _ \<Rightarrow> None)"
| "read_samples (Suc n) _ m = None"

text \<open>
  \<open>populateFromMessage\<close>, reading frames in order; \<open>None\<close> when a frame does not have the size of
  the integer read from it or the message ends early. The second component is what is left.
\<close>

fun read_times :: "(string, MetricsSample) smap \<times> frame list \<Rightarrow> (GravityMetrics \<times> frame list) option" where
  "read_times (m, a # b # fs) =
     (case (readUint64Message a, readUint64Message b) of
        (Some x, Some y) \<Rightarrow> Some (\<lparr>gm_metrics = m, startTime = x, endTime = y\<rparr>, fs)
      | _ \<Rightarrow> None)"
| "read_times _ = None"

fun populateFromMessage :: "frame list \<Rightarrow> (GravityMetrics \<times> frame list) option" where
  "populateFromMessage [] = None"
| "populateFromMessage (s # fs) =
     (case readIntMessage s of
        None \<Rightarrow> None
      | Some n \<Rightarrow>
          (if n > 0
           then (case read_samples (nat n) fs [] of None \<Rightarrow> None | Some r \<Rightarrow> read_times r)
           else Some (clear_metrics, fs)))"

subsection \<open>Equality of data products\<close>

lemma gdp_eq_iff: "gdp_eq p q \<longleftrightarrow> getDataProductID p = getDataProductID q \<and> gdp_bytes p = gdp_bytes q"
  by (auto simp: gdp_eq_def getDataSize_def)

subsection \<open>The round trip of the metrics\<close>

definition int_range :: "int \<Rightarrow> bool" where
  "int_range n \<longleftrightarrow> - (2 ^ 31) \<le> n \<and> n < 2 ^ 31"

definition metrics_sendable :: "GravityMetrics \<Rightarrow> bool" where
  "metrics_sendable m \<longleftrightarrow> smap_wf (gm_metrics m) \<and> int_range (int (length (gm_metrics m))) \<and>
     (\<forall>x\<in>snd ` set (gm_metrics m). int_range (messageCount x) \<and> int_range (byteCount x))"

lemma smap_put_last: "\<forall>x\<in>fst ` set m. x < k \<Longrightarrow> smap_put k v m = m @ [(k, v)]"
  by (induction m) auto

lemma read_samples_send:
  "smap_wf (done @ todo) \<Longrightarrow>
   \<forall>x\<in>snd ` set todo. int_range (messageCount x) \<and> int_range (byteCount x) \<Longrightarrow>
   read_samples (length todo) (concat (map sample_frames todo) @ rest) done = Some (done @ todo, rest)"
proof (induction todo arbitrary: "done")
  case (Cons ix todo)
  obtain i a b where ix: "ix = (i, \<lparr>messageCount = a, byteCount = b\<rparr>)"
    by (cases ix, cases "snd ix") auto
  let ?x = "\<lparr>messageCount = a, byteCount = b\<rparr>"
  have "smap_put i ?x done = done @ [(i, ?x)]"
    using Cons.prems(1) ix by (intro smap_put_last) (auto simp: smap_wf_def sorted_wrt_append)
  moreover have "read_samples (length todo) (concat (map sample_frames todo) @ rest) (done @ [(i, ?x)]) =
      Some ((done @ [(i, ?x)]) @ todo, rest)"
    using Cons.prems ix by (intro Cons.IH) auto
  ultimately show ?case
    using Cons.prems ix by (simp add: sample_frames_def [of "(i, ?x)"] read_send_string read_send_int int_range_def)
qed simp

text \<open>Metrics survive the trip between threads: what \<open>populateFromMessage\<close> reads from the frames
  that \<open>sendAsMessage\<close> sent, whatever follows them, is the same counts and times, except that
  metrics without any data product come back with both times zero.\<close>

theorem metrics_round_trip:
  assumes "metrics_sendable m"
  shows "populateFromMessage (sendAsMessage m @ rest) =
     Some (if gm_metrics m = [] then clear_metrics else m, rest)"
proof (cases "gm_metrics m = []")
  case True
  then show ?thesis by (simp add: sendAsMessage_def read_send_int)
next
  case False
  have "read_samples (length (gm_metrics m)) (concat (map sample_frames (gm_metrics m)) @
      [sendUint64Message (startTime m), sendUint64Message (endTime m)] @ rest) [] =
    Some (gm_metrics m, [sendUint64Message (startTime m), sendUint64Message (endTime m)] @ rest)"
    using assms read_samples_send [of "[]" "gm_metrics m"] by (simp add: metrics_sendable_def)
  then show ?thesis
    using assms False
    by (simp add: sendAsMessage_def metrics_sendable_def int_range_def read_send_int read_send_uint64)
qed

theorem metrics_round_trip_witness:
  "populateFromMessage (sendAsMessage
      \<lparr>gm_metrics = [(''P'', \<lparr>messageCount = 3, byteCount = 90\<rparr>)], startTime = 5, endTime = 6\<rparr>) =
   Some (\<lparr>gm_metrics = [(''P'', \<lparr>messageCount = 3, byteCount = 90\<rparr>)], startTime = 5, endTime = 6\<rparr>, [])"
  using metrics_round_trip [of "\<lparr>gm_metrics = [(''P'', \<lparr>messageCount = 3, byteCount = 90\<rparr>)],
      startTime = 5, endTime = 6\<rparr>" "[]"]
  by (simp add: metrics_sendable_def int_range_def smap_wf_def)
end
