(* ===== verification/PublishManager.thy ===== *)
theory PublishManager
  imports Data_Products
begin

section \<open>The publish manager (\<open>GravityPublishManager.cpp\<close>)\<close>

text \<open>
  The thread that owns the publish sockets of a node and resends the last value of each filter
  text to late subscribers. Each turn of its loop handles the messages of the readable sockets one
  after the other; a message is an event here, with its parts already read, and the effect of
  handling it is a function on the record \<open>pm_state\<close>.

  The \<open>PublishDetails\<close> objects are shared by the two maps. Each is created with a socket of its
  own that never changes, so the socket serves as the address of the object: \<open>publishMapBySocket\<close>
  is the store, and \<open>publishMapByID\<close> holds addresses, or \<open>None\<close> for the null pointer that
  \<open>operator[]\<close> inserts for an unknown id. Dereferencing a null pointer is the result \<open>None\<close> of a
  step. The size of a cached value is the length of its byte list; the \<open>new\<close> and \<open>delete\<close> of the
  copies are not modelled. \<open>zmq_socket\<close> and \<open>zmq_bind\<close> are parameters of a registration, and
  what is sent on the publish sockets is logged.
\<close>

record CacheValue =
  cv_filterText :: string
  cv_value :: string
  cv_timestamp :: u64

record PublishDetails =
  pd_url :: string
  pd_dataProductID :: string
  pd_cacheLastValue :: bool
  pd_lastCachedValues :: "(string, CacheValue) smap"
  pd_hasSubscribers :: bool

record pm_state =
  publishMapBySocket :: "(socket, PublishDetails) smap"
  publishMapByID :: "(string, socket option) smap"
  pm_pollItems :: "socket list"
  publishHWM :: int
  pm_metricsEnabled :: bool
  pm_metricsData :: GravityMetrics
  tcpKeepAlive :: "(int \<times> int \<times> int) option"
  pm_sent :: "(socket \<times> string \<times> string) list"
  pm_closed :: "socket list"

text \<open>\<open>pm_pollItems\<close> holds the sockets from index 4 on; the first four are the manager's own.\<close>

definition pm_init :: pm_state where
  "pm_init = \<lparr>publishMapBySocket = [], publishMapByID = [], pm_pollItems = [], publishHWM = 1000,
     pm_metricsEnabled = False, pm_metricsData = clear_metrics, tcpKeepAlive = None, pm_sent = [],
     pm_closed = []\<rparr>"

datatype pm_reply = ReplyString string | ReplyMetrics "frame list" | NoReply

subsection \<open>Registration\<close>

record pm_registration =
  pr_dataProductID :: string
  pr_cacheLastValue :: bool
  pr_transportType :: string
  pr_minPort :: int
  pr_maxPort :: int
  pr_endpoint :: string

text \<open>The URL the socket was bound to, if the bind succeeded.\<close>

definition bind_publisher :: "(string \<Rightarrow> int) \<Rightarrow> pm_registration \<Rightarrow> string option" where
  "bind_publisher zmq_bind r =
     (if pr_transportType r = ''tcp'' then
        (let port = bindFirstAvailablePort zmq_bind (pr_endpoint r) (pr_minPort r) (pr_maxPort r)
         in if port < 0 then None
            else Some (pr_transportType r @ ''://'' @ pr_endpoint r @ '':'' @ show_int port))
      else
        (let url = pr_transportType r @ ''://'' @ pr_endpoint r
         in if zmq_bind url < 0 then None else Some url))"

definition registerDataProduct ::
  "(string \<Rightarrow> int) \<Rightarrow> socket option \<Rightarrow> pm_registration \<Rightarrow> pm_state \<Rightarrow> pm_state \<times> pm_reply" where
  "registerDataProduct zmq_bind pubSocket r s =
     (case pubSocket of
        None \<Rightarrow> (s, NoReply)
      | Some sock \<Rightarrow>
          (case bind_publisher zmq_bind r of
             None \<Rightarrow> (s\<lparr>pm_closed := pm_closed s @ [sock]\<rparr>, ReplyString '''')
           | Some connectionURL \<Rightarrow>
               (s\<lparr>pm_pollItems := pm_pollItems s @ [sock],
                  publishMapByID := smap_put (pr_dataProductID r) (Some sock) (publishMapByID s),
                  publishMapBySocket := smap_put sock
                    \<lparr>pd_url = connectionURL, pd_dataProductID = pr_dataProductID r,
                     pd_cacheLastValue = pr_cacheLastValue r, pd_lastCachedValues = [],
                     pd_hasSubscribers = False\<rparr> (publishMapBySocket s)\<rparr>,
                ReplyString connectionURL)))"

definition unregisterDataProduct :: "string \<Rightarrow> pm_state \<Rightarrow> (pm_state \<times> pm_reply) option" where
  "unregisterDataProduct dataProductID s =
     (let s1 = s\<lparr>pm_metricsData := remove_metrics dataProductID (pm_metricsData s)\<rparr>
      in case map_of (publishMapByID s1) dataProductID of
           None \<Rightarrow> Some (s1, ReplyString '''')
         | Some None \<Rightarrow> None
         | Some (Some sock) \<Rightarrow>
             Some (s1\<lparr>publishMapBySocket := smap_erase sock (publishMapBySocket s1),
                      publishMapByID := smap_erase dataProductID (publishMapByID s1),
                      pm_closed := pm_closed s1 @ [sock],
                      pm_pollItems := filter (\<lambda>p. p \<noteq> sock) (pm_pollItems s1)\<rparr>,
                   ReplyString ''''))"

subsection \<open>Publishing\<close>

definition send_published :: "socket \<Rightarrow> string \<Rightarrow> string \<Rightarrow> pm_state \<Rightarrow> pm_state" where
  "send_published sock filterText bytes s =
     s\<lparr>pm_sent := pm_sent s @ [(sock, filterText, bytes)]\<rparr>"

definition update_details ::
  "socket \<Rightarrow> (PublishDetails \<Rightarrow> PublishDetails) \<Rightarrow> pm_state \<Rightarrow> pm_state option" where
  "update_details sock f s =
     (case map_of (publishMapBySocket s) sock of
        None \<Rightarrow> None
      | Some pd \<Rightarrow> Some (s\<lparr>publishMapBySocket := smap_put sock (f pd) (publishMapBySocket s)\<rparr>))"

definition cache_value :: "string \<Rightarrow> u64 \<Rightarrow> string \<Rightarrow> PublishDetails \<Rightarrow> PublishDetails" where
  "cache_value filterText timestamp bytes pd =
     (if pd_cacheLastValue pd
      then pd\<lparr>pd_lastCachedValues := smap_put filterText
             \<lparr>cv_filterText = filterText, cv_value = bytes, cv_timestamp = timestamp\<rparr>
             (pd_lastCachedValues pd)\<rparr>
      else pd)"

definition count_metrics :: "string \<Rightarrow> nat \<Rightarrow> pm_state \<Rightarrow> pm_state" where
  "count_metrics i n s =
     (if pm_metricsEnabled s
      then s\<lparr>pm_metricsData := incrementByteCount i (int n) (incrementMessageCount i 1 (pm_metricsData s))\<rparr>
      else s)"

definition publish :: "string \<Rightarrow> u64 \<Rightarrow> string \<Rightarrow> string \<Rightarrow> pm_state \<Rightarrow> pm_state option" where
  "publish dataProductId timestamp filterText bytes s =
     (let s1 = s\<lparr>publishMapByID := smap_touch dataProductId None (publishMapByID s)\<rparr>
      in case smap_at None (publishMapByID s1) dataProductId of
           None \<Rightarrow> Some s1
         | Some sock \<Rightarrow>
             (case update_details sock (cache_value filterText timestamp bytes) s1 of
                None \<Rightarrow> None
              | Some s2 \<Rightarrow>
                  Some (count_metrics dataProductId (length bytes)
                    (send_published sock filterText bytes s2))))"

definition subscribersExist :: "string \<Rightarrow> pm_state \<Rightarrow> pm_state \<times> pm_reply" where
  "subscribersExist dataProductID s =
     (let s1 = s\<lparr>publishMapByID := smap_touch dataProductID None (publishMapByID s)\<rparr>
      in (s1, ReplyString
            (case smap_at None (publishMapByID s1) dataProductID of
               None \<Rightarrow> ''Unknown data product id: '' @ dataProductID
             | Some sock \<Rightarrow>
                 (case map_of (publishMapBySocket s1) sock of
                    Some pd \<Rightarrow> (if pd_hasSubscribers pd then ''Y'' else ''N'')
                  | None \<Rightarrow> ''N''))))"

subsection \<open>Subscriptions\<close>

text \<open>
  \<open>mark_cached\<close> stands for parsing the cached bytes, \<open>setIsCachedDataproduct(true)\<close> and
  serialising again. \<open>list::sort\<close> is stable, as is \<open>sort_key\<close>.
\<close>

definition resend_cached :: "(string \<Rightarrow> string) \<Rightarrow> socket \<Rightarrow> PublishDetails \<Rightarrow> pm_state \<Rightarrow> pm_state" where
  "resend_cached mark_cached sock pd s =
     fold (\<lambda>v. send_published sock (cv_filterText v) (mark_cached (cv_value v)))
       (sort_key cv_timestamp (map snd (pd_lastCachedValues pd))) s"

definition on_subscription :: "(string \<Rightarrow> string) \<Rightarrow> socket \<Rightarrow> bool \<Rightarrow> pm_state \<Rightarrow> pm_state option" where
  "on_subscription mark_cached sock newsub s =
     (if newsub then
        (case update_details sock (\<lambda>pd. pd\<lparr>pd_hasSubscribers := True\<rparr>) s of
           None \<Rightarrow> None
         | Some s1 \<Rightarrow>
             (case map_of (publishMapBySocket s1) sock of
                None \<Rightarrow> None
              | Some pd \<Rightarrow> Some (resend_cached mark_cached sock pd s1)))
      else update_details sock (\<lambda>pd. pd\<lparr>pd_hasSubscribers := False\<rparr>) s)"

subsection \<open>The loop\<close>

datatype pm_event = PRegister pm_registration "string \<Rightarrow> int" "socket option"
  | PUnregister string
  | PSetHWM int
  | PKeepAlive int int int
  | PSubscribersExist string
  | PPublish string u64 string string
  | PMetricsEnable u64
  | PMetricsDisable
  | PGetMetrics u64 u64
  | PSubscription nat bool

fun pm_handle :: "(string \<Rightarrow> string) \<Rightarrow> pm_event \<Rightarrow> pm_state \<Rightarrow> (pm_state \<times> pm_reply) option" where
  "pm_handle mc (PRegister r zmq_bind sock) s = Some (registerDataProduct zmq_bind sock r s)"
| "pm_handle mc (PUnregister i) s = unregisterDataProduct i s"
| "pm_handle mc (PSetHWM n) s = Some (s\<lparr>publishHWM := n\<rparr>, ReplyString ''ACK'')"
| "pm_handle mc (PKeepAlive a b c) s = Some (s\<lparr>tcpKeepAlive := Some (a, b, c)\<rparr>, ReplyString ''ACK'')"
| "pm_handle mc (PSubscribersExist i) s = Some (subscribersExist i s)"
| "pm_handle mc (PPublish i t f b) s = map_option (\<lambda>s1. (s1, NoReply)) (publish i t f b s)"
| "pm_handle mc (PMetricsEnable now) s =
     Some (s\<lparr>pm_metricsData := reset_metrics now (pm_metricsData s), pm_metricsEnabled := True\<rparr>,
           ReplyString ''ACK'')"
| "pm_handle mc PMetricsDisable s = Some (s\<lparr>pm_metricsEnabled := False\<rparr>, ReplyString ''ACK'')"
| "pm_handle mc (PGetMetrics t1 t2) s =
     (let m = done_metrics t1 (pm_metricsData s)
      in Some (s\<lparr>pm_metricsData := reset_metrics t2 m\<rparr>, ReplyMetrics (sendAsMessage m)))"
| "pm_handle mc (PSubscription k newsub) s =
     (if k < length (pm_pollItems s)
      then map_option (\<lambda>s1. (s1, NoReply)) (on_subscription mc (pm_pollItems s ! k) newsub s)
      else Some (s, NoReply))"

fun pm_run :: "(string \<Rightarrow> string) \<Rightarrow> pm_event list \<Rightarrow> pm_state \<Rightarrow> pm_state option" where
  "pm_run mc [] s = Some s"
| "pm_run mc (e # es) s =
     (case pm_handle mc e s of None \<Rightarrow> None | Some (s1, r) \<Rightarrow> pm_run mc es s1)"

text \<open>The clean-up after a \<open>kill\<close> command.\<close>

definition pm_shutdown :: "pm_state \<Rightarrow> pm_state" where
  "pm_shutdown s = s\<lparr>pm_closed := pm_closed s @ smap_keys (publishMapBySocket s),
     publishMapBySocket := [], publishMapByID := []\<rparr>"
end
