(* ===== verification/Publish_Correct.thy ===== *)
theory Publish_Correct
  imports PublishManager
begin

section \<open>Correctness of the publish manager\<close>

text \<open>
  The invariant \<open>pm_wf\<close> ties the poll items and the two maps together; under it no null pointer
  is read except the one that \<open>operator[]\<close> left for an unknown id. A late subscriber gets the
  last value of every filter text, oldest first.
\<close>

definition cache_wf :: "PublishDetails \<Rightarrow> bool" where
  "cache_wf pd \<longleftrightarrow> smap_wf (pd_lastCachedValues pd) \<and>
     (\<forall>f v. map_of (pd_lastCachedValues pd) f = Some v \<longrightarrow> cv_filterText v = f) \<and>
     (\<not> pd_cacheLastValue pd \<longrightarrow> pd_lastCachedValues pd = [])"

definition pm_wf :: "pm_state \<Rightarrow> bool" where
  "pm_wf s \<longleftrightarrow> distinct (pm_pollItems s) \<and>
     (\<forall>sock. sock \<in> set (pm_pollItems s) \<longleftrightarrow> map_of (publishMapBySocket s) sock \<noteq> None) \<and>
     (\<forall>i sock. map_of (publishMapByID s) i = Some (Some sock) \<longrightarrow>
        (\<exists>pd. map_of (publishMapBySocket s) sock = Some pd \<and> pd_dataProductID pd = i)) \<and>
     (\<forall>sock pd. map_of (publishMapBySocket s) sock = Some pd \<longrightarrow> cache_wf pd)"

text \<open>
  What a step asks of its environment: \<open>zmq_socket\<close> gives a socket that is not open already,
  and an id that only has a null entry is not unregistered.
\<close>

fun pm_ok :: "pm_state \<Rightarrow> pm_event \<Rightarrow> bool" where
  "pm_ok s (PRegister r zmq_bind sock) = (\<forall>k. sock = Some k \<longrightarrow> k \<notin> set (pm_pollItems s))"
| "pm_ok s (PUnregister i) = (map_of (publishMapByID s) i \<noteq> Some None)"
| "pm_ok s _ = True"

lemma pm_wf_init: "pm_wf pm_init"
  by (simp add: pm_wf_def pm_init_def)

lemma cache_wf_cache_value: "cache_wf pd \<Longrightarrow> cache_wf (cache_value f t b pd)"
  by (simp add: cache_wf_def cache_value_def)

lemma cache_value_id [simp]: "pd_dataProductID (cache_value f t b pd) = pd_dataProductID pd"
  by (simp add: cache_value_def)

lemma pm_wf_id:
  "pm_wf s \<Longrightarrow> map_of (publishMapByID s) i = Some (Some k) \<Longrightarrow>
     \<exists>pd. map_of (publishMapBySocket s) k = Some pd \<and> pd_dataProductID pd = i"
  by (simp add: pm_wf_def)

lemma pm_wf_id_unique:
  "pm_wf s \<Longrightarrow> map_of (publishMapByID s) i = Some (Some k) \<Longrightarrow>
     map_of (publishMapBySocket s) k = Some pd \<Longrightarrow> pd_dataProductID pd = i"
  using pm_wf_id by fastforce

lemma pm_wf_id_inj:
  "pm_wf s \<Longrightarrow> map_of (publishMapByID s) i = Some (Some k) \<Longrightarrow>
     map_of (publishMapByID s) j = Some (Some k) \<Longrightarrow> i = j"
  using pm_wf_id pm_wf_id_unique by metis

lemma pm_wf_update:
  assumes "pm_wf s" and "map_of (publishMapBySocket s) sock = Some pd"
    and "cache_wf (f pd)" and "pd_dataProductID (f pd) = pd_dataProductID pd"
  shows "\<exists>s'. update_details sock f s = Some s' \<and> pm_wf s' \<and>
     s' = s\<lparr>publishMapBySocket := smap_put sock (f pd) (publishMapBySocket s)\<rparr>"
proof -
  have "pd_dataProductID pd = i" if "map_of (publishMapByID s) i = Some (Some sock)" for i
    using assms(1,2) that pm_wf_id_unique by metis
  with assms show ?thesis by (auto simp: update_details_def pm_wf_def)
qed

lemma pm_wf_logs [simp]:
  "pm_wf (send_published k f b s) = pm_wf s" "pm_wf (count_metrics i n s) = pm_wf s"
  by (simp_all add: pm_wf_def send_published_def count_metrics_def)

lemma pm_wf_touch:
  "pm_wf s \<Longrightarrow> pm_wf (s\<lparr>publishMapByID := smap_touch i None (publishMapByID s)\<rparr>)"
  by (auto simp: pm_wf_def map_of_smap_touch smap_at_def field_def split: option.splits if_splits)

lemma resend_cached_frame:
  "resend_cached mc sock pd s =
     s\<lparr>pm_sent := pm_sent s @ map (\<lambda>v. (sock, cv_filterText v, mc (cv_value v)))
        (sort_key cv_timestamp (map snd (pd_lastCachedValues pd)))\<rparr>"
proof -
  have "fold (\<lambda>v. send_published sock (cv_filterText v) (mc (cv_value v))) vs s =
      s\<lparr>pm_sent := pm_sent s @ map (\<lambda>v. (sock, cv_filterText v, mc (cv_value v))) vs\<rparr>" for vs
    by (induction vs arbitrary: s) (simp_all add: send_published_def)
  then show ?thesis by (simp add: resend_cached_def)
qed

lemma pm_wf_register:
  assumes "pm_wf s" and "pm_ok s (PRegister r zmq_bind sock)"
  shows "pm_wf (fst (registerDataProduct zmq_bind sock r s))"
proof (cases sock)
  case (Some k)
  then have k: "k \<notin> set (pm_pollItems s)" "map_of (publishMapBySocket s) k = None"
    using assms by (auto simp: pm_wf_def)
  then have "j \<noteq> k" if "map_of (publishMapByID s) i = Some (Some j)" for i j
    using k(2) pm_wf_id [OF assms(1) that] by auto
  with Some k assms(1) show ?thesis
    by (auto simp: pm_wf_def registerDataProduct_def cache_wf_def split: option.splits)
qed (use assms in \<open>simp add: registerDataProduct_def\<close>)

lemma pm_wf_unregister:
  assumes "pm_wf s" and "map_of (publishMapByID s) i \<noteq> Some None"
  shows "\<exists>s' r. unregisterDataProduct i s = Some (s', r) \<and> pm_wf s'"
proof (cases "map_of (publishMapByID s) i")
  case None
  then show ?thesis using assms(1) by (auto simp: unregisterDataProduct_def Let_def pm_wf_def)
next
  case (Some x)
  then obtain sock where sock: "map_of (publishMapByID s) i = Some (Some sock)"
    using assms(2) by (cases x) auto
  then have other: "k \<noteq> sock" if "map_of (publishMapByID s) j = Some (Some k)" "j \<noteq> i" for j k
    using pm_wf_id_inj [OF assms(1)] that by metis
  let ?s = "s\<lparr>pm_metricsData := remove_metrics i (pm_metricsData s),
      publishMapBySocket := smap_erase sock (publishMapBySocket s),
      publishMapByID := smap_erase i (publishMapByID s), pm_closed := pm_closed s @ [sock],
      pm_pollItems := filter (\<lambda>p. p \<noteq> sock) (pm_pollItems s)\<rparr>"
  have "pm_wf ?s" using assms(1) other by (auto simp: pm_wf_def)
  then show ?thesis using sock by (simp add: unregisterDataProduct_def Let_def)
qed

lemma pm_wf_publish:
  assumes "pm_wf s"
  shows "\<exists>s'. publish i t f b s = Some s' \<and> pm_wf s'"
proof -
  let ?s = "s\<lparr>publishMapByID := smap_touch i None (publishMapByID s)\<rparr>"
  show ?thesis
  proof (cases "smap_at None (publishMapByID ?s) i")
    case None
    then show ?thesis using pm_wf_touch [OF assms] by (simp add: publish_def Let_def)
  next
    case (Some sock)
    then have id: "map_of (publishMapByID s) i = Some (Some sock)"
      by (auto simp: map_of_smap_touch smap_at_def field_def split: option.splits)
    obtain pd where pd: "map_of (publishMapBySocket ?s) sock = Some pd" "cache_wf pd"
      using pm_wf_id [OF assms id] assms by (auto simp: pm_wf_def)
    then obtain s2 where s2: "update_details sock (cache_value f t b) ?s = Some s2" "pm_wf s2"
      using pm_wf_update [OF pm_wf_touch [OF assms] pd(1), of "cache_value f t b"]
      by (auto simp: cache_wf_cache_value)
    show ?thesis unfolding publish_def Let_def using Some s2 by simp
  qed
qed

lemma pm_wf_subscription:
  assumes "pm_wf s" and "k < length (pm_pollItems s)"
  shows "\<exists>s'. on_subscription mc (pm_pollItems s ! k) newsub s = Some s' \<and> pm_wf s'"
proof -
  obtain pd where pd: "map_of (publishMapBySocket s) (pm_pollItems s ! k) = Some pd" "cache_wf pd"
    using assms unfolding pm_wf_def by (metis nth_mem not_None_eq)
  have "\<exists>s'. update_details (pm_pollItems s ! k) (\<lambda>pd. pd\<lparr>pd_hasSubscribers := h\<rparr>) s = Some s' \<and> pm_wf s' \<and>
     s' = s\<lparr>publishMapBySocket := smap_put (pm_pollItems s ! k) (pd\<lparr>pd_hasSubscribers := h\<rparr>)
             (publishMapBySocket s)\<rparr>" for h
    using pd by (intro pm_wf_update [OF assms(1)]) (auto simp: cache_wf_def)
  then show ?thesis
    by (fastforce simp: on_subscription_def resend_cached_frame pm_wf_def)
qed

lemma pm_handle_wf:
  assumes "pm_wf s" and "pm_ok s e"
  shows "\<exists>s' r. pm_handle mc e s = Some (s', r) \<and> pm_wf s'"
proof (cases e)
  case (PRegister r zmq_bind sock)
  then show ?thesis
    using assms pm_wf_register [of s r zmq_bind sock]
    by (cases "registerDataProduct zmq_bind sock r s") auto
next
  case (PUnregister i)
  then show ?thesis using assms pm_wf_unregister by simp
next
  case (PPublish i t f b)
  then show ?thesis using assms pm_wf_publish [of s i t f b] by auto
next
  case (PSubscribersExist i)
  then show ?thesis using pm_wf_touch [OF assms(1)] by (simp add: subscribersExist_def Let_def)
next
  case (PSubscription k newsub)
  then show ?thesis using assms pm_wf_subscription [of s k mc newsub] by (auto split: if_splits)
qed (use assms(1) in \<open>simp_all add: pm_wf_def Let_def\<close>)

definition pm_next :: "(string \<Rightarrow> string) \<Rightarrow> pm_state \<Rightarrow> pm_event \<Rightarrow> pm_state" where
  "pm_next mc s e = (case pm_handle mc e s of None \<Rightarrow> s | Some (s1, r) \<Rightarrow> s1)"

interpretation pm: keeps_invariant "pm_next mc" pm_ok pm_wf for mc
  using pm_handle_wf [where mc = mc] by unfold_locales (fastforce simp: pm_next_def)

lemma pm_run_next:
  "pm_wf s \<Longrightarrow> admissible pm_ok (pm_next mc) s es \<Longrightarrow> pm_run mc es s = Some (foldl (pm_next mc) s es)"
proof (induction es arbitrary: s)
  case (Cons e es)
  then obtain s' r where "pm_handle mc e s = Some (s', r)" "pm_wf s'"
    using pm_handle_wf [of s e mc] by auto
  then show ?case using Cons by (simp add: pm_next_def)
qed simp


definition sample_pub :: "pm_registration" where
  "sample_pub = \<lparr>pr_dataProductID = ''P'', pr_cacheLastValue = True, pr_transportType = ''ipc'',
     pr_minPort = 0, pr_maxPort = 0, pr_endpoint = ''/tmp/p''\<rparr>"


subsection \<open>Late subscribers\<close>

text \<open>The last publication of product \<open>i\<close> with filter text \<open>f\<close> in a list of them.\<close>

type_synonym publication = "string \<times> u64 \<times> string \<times> string"

fun latest :: "string \<Rightarrow> string \<Rightarrow> publication list \<Rightarrow> CacheValue option" where
  "latest i f [] = None"
| "latest i f ((j, t, g, b) # ps) =
     (case latest i f ps of
        Some v \<Rightarrow> Some v
      | None \<Rightarrow> (if j = i \<and> g = f
                 then Some \<lparr>cv_filterText = f, cv_value = b, cv_timestamp = t\<rparr> else None))"

definition publications :: "publication list \<Rightarrow> pm_event list" where
  "publications ps = map (\<lambda>(j, t, g, b). PPublish j t g b) ps"

definition cached :: "socket \<Rightarrow> string \<Rightarrow> pm_state \<Rightarrow> CacheValue option" where
  "cached sock f s =
     (case map_of (publishMapBySocket s) sock of
        None \<Rightarrow> None | Some pd \<Rightarrow> map_of (pd_lastCachedValues pd) f)"

definition caches :: "socket \<Rightarrow> string \<Rightarrow> pm_state \<Rightarrow> bool" where
  "caches sock i s \<longleftrightarrow> map_of (publishMapByID s) i = Some (Some sock) \<and>
     (\<exists>pd. map_of (publishMapBySocket s) sock = Some pd \<and> pd_cacheLastValue pd)"

lemma publish_shape:
  assumes "pm_wf s" and "publish i t f b s = Some s'"
  shows "pm_pollItems s' = pm_pollItems s"
    and "map_of (publishMapByID s') j = (if j = i then Some (smap_at None (publishMapByID s) i)
           else map_of (publishMapByID s) j)"
    and "map_of (publishMapBySocket s') k =
      (if smap_at None (publishMapByID s) i = Some k
       then map_option (cache_value f t b) (map_of (publishMapBySocket s) k)
       else map_of (publishMapBySocket s) k)"
  using assms(2)
  by (auto simp: publish_def Let_def update_details_def count_metrics_def send_published_def
      map_of_smap_touch split: option.splits if_splits)

lemma publish_caches:
  assumes "pm_wf s" and "publish j t g b s = Some s'" and "caches sock i s"
  shows "caches sock i s'"
    and "cached sock f s' = (if j = i \<and> g = f
           then Some \<lparr>cv_filterText = f, cv_value = b, cv_timestamp = t\<rparr> else cached sock f s)"
proof -
  obtain pd where pd: "map_of (publishMapByID s) i = Some (Some sock)"
    "map_of (publishMapBySocket s) sock = Some pd" "pd_cacheLastValue pd"
    using assms(3) by (auto simp: caches_def)
  have "smap_at None (publishMapByID s) j = Some sock \<longleftrightarrow> j = i"
    using pm_wf_id_inj [OF assms(1), of j sock i] pd(1)
    by (auto simp: smap_at_def field_def split: option.splits)
  note facts = this publish_shape [OF assms(1,2)] pd
  show "caches sock i s'"
    using facts by (auto simp: caches_def cache_value_def smap_at_def)
  show "cached sock f s' = (if j = i \<and> g = f
           then Some \<lparr>cv_filterText = f, cv_value = b, cv_timestamp = t\<rparr> else cached sock f s)"
    using facts by (simp add: cached_def cache_value_def)
qed

lemma cached_after_publications:
  assumes "pm_wf s" and "caches sock i s" and "pm_run mc (publications ps) s = Some s'"
  shows "pm_wf s' \<and> pm_pollItems s' = pm_pollItems s \<and>
     cached sock f s' = (case latest i f ps of Some v \<Rightarrow> Some v | None \<Rightarrow> cached sock f s)"
  using assms
proof (induction ps arbitrary: s)
  case (Cons p ps)
  obtain j t g b where p: "p = (j, t, g, b)" by (cases p) auto
  obtain s1 where s1: "publish j t g b s = Some s1" "pm_wf s1"
    using pm_wf_publish [OF Cons.prems(1)] by blast
  have run: "pm_run mc (publications ps) s1 = Some s'"
    using Cons.prems(3) s1(1) p by (simp add: publications_def)
  show ?case
    using Cons.IH [OF s1(2) publish_caches(1) [OF Cons.prems(1) s1(1) Cons.prems(2)] run]
      publish_caches(2) [OF Cons.prems(1) s1(1) Cons.prems(2), of f]
      publish_shape(1) [OF Cons.prems(1) s1(1)] p
    by (simp split: option.splits)
qed (simp add: publications_def)

text \<open>C17. A subscriber that connects to a caching publisher after any sequence of publications (to
  this and other data products) is sent, on that publisher's socket and marked as cached, the last
  value published with each filter text, each filter text once, in the order of the timestamps.\<close>

theorem late_subscriber:
  assumes "pm_wf s" and "caches sock i s" and "\<And>f. cached sock f s = None"
    and "pm_run mc (publications ps) s = Some s1"
    and "k < length (pm_pollItems s)" and "pm_pollItems s ! k = sock"
  shows "\<exists>s2 vs. pm_handle mc (PSubscription k True) s1 = Some (s2, NoReply) \<and>
     pm_sent s2 = pm_sent s1 @ map (\<lambda>v. (sock, cv_filterText v, mc (cv_value v))) vs \<and>
     set vs = {v. \<exists>f. latest i f ps = Some v} \<and> distinct (map cv_filterText vs) \<and>
     sorted (map cv_timestamp vs)"
proof -
  have c: "pm_wf s1" "pm_pollItems s1 = pm_pollItems s" "\<And>f. cached sock f s1 = latest i f ps"
    using cached_after_publications [OF assms(1,2,4)] assms(3) by (auto split: option.split)
  then have "sock \<in> set (pm_pollItems s1)" using assms(5,6) by auto
  then obtain pd where pd: "map_of (publishMapBySocket s1) sock = Some pd" "cache_wf pd"
    using c(1) by (auto simp: pm_wf_def)
  let ?vs = "sort_key cv_timestamp (map snd (pd_lastCachedValues pd))"
  have look: "map_of (pd_lastCachedValues pd) f = latest i f ps" for f
    using c(3) [of f] pd(1) by (simp add: cached_def)
  have wf: "smap_wf (pd_lastCachedValues pd)" and key: "\<And>f v. (f, v) \<in> set (pd_lastCachedValues pd) \<Longrightarrow> cv_filterText v = f"
    using pd(2) by (auto simp: cache_wf_def smap.entries_look)
  have "set ?vs = {v. \<exists>f. latest i f ps = Some v}"
    by (force simp: look [symmetric] smap.entries_look [OF wf, symmetric] image_iff)
  moreover have "map cv_filterText (map snd (pd_lastCachedValues pd)) = map fst (pd_lastCachedValues pd)"
    using key by (auto simp: comp_def)
  then have "distinct (map cv_filterText (map snd (pd_lastCachedValues pd)))"
    using wf by (simp only: smap_wf_distinct)
  then have "distinct (map cv_filterText ?vs)"
    by (metis distinct_map distinct_sort set_sort)
  moreover have "sorted (map cv_timestamp ?vs)" by simp
  ultimately show ?thesis
    using assms(5,6) c(2) pd(1)
    by (intro exI conjI) (auto simp: on_subscription_def update_details_def resend_cached_frame)
qed

definition sample_pm :: pm_state where
  "sample_pm = fst (registerDataProduct (\<lambda>a. 0) (Some 9) sample_pub pm_init)"

lemma sample_pm_wf: "pm_wf sample_pm" "caches 9 ''P'' sample_pm" "cached 9 f sample_pm = None"
    "pm_pollItems sample_pm = [9]"
  by (auto simp: sample_pm_def registerDataProduct_def bind_publisher_def sample_pub_def pm_init_def
      pm_wf_def cache_wf_def caches_def cached_def)

theorem late_subscriber_witness:
  "\<exists>s1 s2 vs. pm_run id (publications [(''P'', 5, ''f'', ''old''), (''P'', 6, ''f'', ''new'')]) sample_pm = Some s1 \<and>
     pm_handle id (PSubscription 0 True) s1 = Some (s2, NoReply) \<and>
     pm_sent s2 = pm_sent s1 @ map (\<lambda>v. (9, cv_filterText v, cv_value v)) vs \<and>
     set vs = {\<lparr>cv_filterText = ''f'', cv_value = ''new'', cv_timestamp = 6\<rparr>}"
proof -
  let ?ps = "[(''P'', 5, ''f'', ''old''), (''P'', 6, ''f'', ''new'')] :: publication list"
  have "admissible pm_ok (pm_next id) sample_pm (publications ?ps)" by (simp add: publications_def)
  then obtain s1 where s1: "pm_run id (publications ?ps) sample_pm = Some s1"
    using pm_run_next [OF sample_pm_wf(1)] by blast
  moreover have "{v. \<exists>f. latest ''P'' f ?ps = Some v} =
      {\<lparr>cv_filterText = ''f'', cv_value = ''new'', cv_timestamp = 6\<rparr>}"
    by (auto split: if_splits)
  ultimately show ?thesis
    using late_subscriber [OF sample_pm_wf(1-3) s1, of 0] sample_pm_wf(4) by auto
qed

subsection \<open>Unknown data products\<close>

text \<open>Publishing to, or asking about, a data product that was never registered sends nothing, but
  leaves a null entry behind: unregistering that id afterwards dereferences the null pointer,
  while without the entry it would only have been acknowledged.\<close>

theorem unknown_product_null_entry:
  assumes "map_of (publishMapByID s) i = None"
  shows "unregisterDataProduct i s \<noteq> None \<and>
    (\<exists>s1. publish i t f b s = Some s1 \<and> pm_sent s1 = pm_sent s \<and> unregisterDataProduct i s1 = None) \<and>
    unregisterDataProduct i (fst (subscribersExist i s)) = None"
  using assms
  by (simp add: unregisterDataProduct_def publish_def subscribersExist_def Let_def smap_touch_def
      smap_at_def)

theorem unknown_product_null_entry_witness:
  "unregisterDataProduct ''X'' (fst (subscribersExist ''X'' pm_init)) = None"
  using unknown_product_null_entry [of pm_init "''X''"] by (simp add: pm_init_def)

end
