(* ===== verification/DomainDataKey.thy ===== *)
theory DomainDataKey
  imports Gravity_Prelude
begin

section \<open>The key of a subscription (\<open>DomainDataKey.cpp\<close>)\<close>

text \<open>
  A domain and a data product id, ordered by \<open>operator<\<close>: by domain, then by id. The comparisons
  of the class are written out as in the source and shown to be a linear order with its equality,
  so that the keys can be those of an ordered map.
\<close>

datatype DomainDataKey = DomainDataKey (key_domain: string) (key_dataProductID: string)

definition operator_less :: "DomainDataKey \<Rightarrow> DomainDataKey \<Rightarrow> bool" where
  "operator_less l r =
     (if key_domain l = key_domain r then key_dataProductID l < key_dataProductID r
      else key_domain l < key_domain r)"

definition operator_eq :: "DomainDataKey \<Rightarrow> DomainDataKey \<Rightarrow> bool" where
  "operator_eq l r = (\<not> operator_less l r \<and> \<not> operator_less r l)"

definition operator_greater :: "DomainDataKey \<Rightarrow> DomainDataKey \<Rightarrow> bool" where
  "operator_greater l r = (\<not> (operator_less l r \<or> operator_eq l r))"

instantiation DomainDataKey :: linorder
begin

definition less_DomainDataKey :: "DomainDataKey \<Rightarrow> DomainDataKey \<Rightarrow> bool" where
  "less_DomainDataKey = operator_less"

definition less_eq_DomainDataKey :: "DomainDataKey \<Rightarrow> DomainDataKey \<Rightarrow> bool" where
  "less_eq_DomainDataKey l r = (l = r \<or> operator_less l r)"

instance
proof
  fix x y z :: DomainDataKey
  show "(x < y) = (x \<le> y \<and> \<not> y \<le> x)"
    by (auto simp: less_DomainDataKey_def less_eq_DomainDataKey_def operator_less_def split: if_splits)
  show "x \<le> x" by (simp add: less_eq_DomainDataKey_def)
  show "x \<le> y \<Longrightarrow> y \<le> z \<Longrightarrow> x \<le> z"
    by (auto simp: less_eq_DomainDataKey_def operator_less_def split: if_splits)
  show "x \<le> y \<Longrightarrow> y \<le> x \<Longrightarrow> x = y"
    by (auto simp: less_eq_DomainDataKey_def operator_less_def split: if_splits)
  show "x \<le> y \<or> y \<le> x"
    by (cases x; cases y) (auto simp: less_eq_DomainDataKey_def operator_less_def)
qed

end

lemma operator_eq_iff: "operator_eq l r \<longleftrightarrow> l = r"
  by (cases l; cases r) (auto simp: operator_eq_def operator_less_def)

lemma operator_greater_iff: "operator_greater l r \<longleftrightarrow> operator_less r l"
  using less_linear [of l r] less_asym [of l r]
  by (auto simp: operator_greater_def operator_eq_def less_DomainDataKey_def)

end
