(* ===== verification/SubscriptionManager.thy ===== *)
theory SubscriptionManager
  imports Data_Products DomainDataKey Protobufs
begin

section \<open>The subscription manager (\<open>GravitySubscriptionManager.cpp\<close>)\<close>

text \<open>
  The thread that owns the subscription sockets of a node: it connects to the publishers the
  service directory names, follows updates of the publisher lists, delivers new data products to
  the subscribers of the node and calls monitors when data stays away.

  The \<open>SubscriptionDetails\<close> objects are shared by \<open>subscriptionMap\<close>, \<open>subscriptionSocketMap\<close>
  and the list of sockets to delete, and may outlive their entry in the first map: they live in
  the store \<open>sm_heap\<close> under addresses handed out in order. Sockets are numbers and the null
  pointer is 0. \<open>zmq_socket\<close> is the parameter \<open>zmq_socket\<close>: what its \<open>n\<close>-th call returns; the
  calls so far are those logged in \<open>sm_opened\<close>. The current time is an argument of the handlers
  that read it. Calls to subscribers and monitors and messages to the service directory are
  logged. Subscribers and monitors are numbers (their addresses).
\<close>

record TimeoutMonitor =
  tm_id :: nat
  tm_monitor :: nat
  tm_timeout :: int
  tm_endTime :: u64
  tm_lastReceived :: int

record SubscriptionDetails =
  su_domain :: string
  su_dataProductID :: string
  su_filter :: string
  su_receiveCachedDataProducts :: bool
  su_pollItemMap :: "(string, socket) smap"
  su_socketToUrlMap :: "(socket, string) smap"
  su_subscribers :: "nat list"
  su_monitors :: "TimeoutMonitor list"
  su_updateSocket :: socket

record sm_state =
  subscriptionMap :: "(DomainDataKey, (string, nat) smap) smap"
  subscriptionSocketMap :: "(socket, nat) smap"
  socketVerificationMap :: "(socket, u32) smap"
  lastCachedValueMap :: "(socket, GravityDataProductPB option) smap"
  sm_pollItems :: "socket list"
  sm_componentID :: string
  sm_ipAddress :: string
  sm_serviceDirectoryUrl :: string
  sm_heap :: "(nat, SubscriptionDetails) smap"
  sm_next :: nat
  pollTimeout :: int
  currTimeoutMonitor :: "(nat \<times> nat) option"
  subscribeHWM :: int
  sm_metricsEnabled :: bool
  sm_metricsData :: GravityMetrics
  deleteList :: "(nat \<times> socket) list"
  sm_opened :: "(socket \<times> string \<times> string) list"
  sm_closed :: "socket list"
  sm_delivered :: "(nat \<times> GravityDataProductPB list) list"
  sm_timeouts :: "(nat \<times> string \<times> int \<times> string \<times> string) list"
  sm_stale :: "ServiceDirectoryUnregistrationPB list"

text \<open>\<open>sm_pollItems\<close> holds the sockets from index 2 on; the first two are the manager's own.\<close>

definition sm_init :: "string \<Rightarrow> string \<Rightarrow> sm_state" where
  "sm_init compID ip = \<lparr>subscriptionMap = [], subscriptionSocketMap = [], socketVerificationMap = [],
     lastCachedValueMap = [], sm_pollItems = [], sm_componentID = compID, sm_ipAddress = ip,
     sm_serviceDirectoryUrl = '''', sm_heap = [], sm_next = 0, pollTimeout = -1,
     currTimeoutMonitor = None, subscribeHWM = 1000, sm_metricsEnabled = False,
     sm_metricsData = clear_metrics, deleteList = [], sm_opened = [], sm_closed = [],
     sm_delivered = [], sm_timeouts = [], sm_stale = []\<rparr>"

definition new_subscription :: "string \<Rightarrow> string \<Rightarrow> string \<Rightarrow> SubscriptionDetails" where
  "new_subscription d i f = \<lparr>su_domain = d, su_dataProductID = i, su_filter = f,
     su_receiveCachedDataProducts = False, su_pollItemMap = [], su_socketToUrlMap = [],
     su_subscribers = [], su_monitors = [], su_updateSocket = 0\<rparr>"

definition details :: "nat \<Rightarrow> sm_state \<Rightarrow> SubscriptionDetails" where
  "details a s = smap_at (new_subscription '''' '''' '''') (sm_heap s) a"

definition set_details :: "nat \<Rightarrow> SubscriptionDetails \<Rightarrow> sm_state \<Rightarrow> sm_state" where
  "set_details a x s = s\<lparr>sm_heap := smap_put a x (sm_heap s)\<rparr>"

subsection \<open>Which publishers to connect to\<close>

definition has_url :: "PublisherInfoPB \<Rightarrow> bool" where
  "has_url p = (pi_url p \<noteq> None)"

definition is_relay :: "PublisherInfoPB \<Rightarrow> bool" where
  "is_relay p = field False (pi_isRelay p)"

definition pub_url :: "PublisherInfoPB \<Rightarrow> string" where
  "pub_url p = field '''' (pi_url p)"

definition pub_time :: "PublisherInfoPB \<Rightarrow> u32" where
  "pub_time p = field 0 (pi_registration_time p)"

text \<open>The second loop of \<open>trimPublishers\<close>; \<open>trimmed\<close> is the list built so far.\<close>

fun trim_loop ::
  "string \<Rightarrow> bool \<Rightarrow> bool \<Rightarrow> PublisherInfoPB list \<Rightarrow> PublisherInfoPB list \<Rightarrow> PublisherInfoPB list" where
  "trim_loop ip iAmRelay foundGlobalRelay trimmed [] = trimmed"
| "trim_loop ip iAmRelay foundGlobalRelay trimmed (p # ps) =
     (if \<not> has_url p then trim_loop ip iAmRelay foundGlobalRelay trimmed ps
      else if iAmRelay then
        trim_loop ip iAmRelay foundGlobalRelay (if \<not> is_relay p then trimmed @ [p] else trimmed) ps
      else if is_relay p then
        (if pi_ipAddress p = None then trim_loop ip iAmRelay True [p] ps
         else if field '''' (pi_ipAddress p) = ip then [p]
         else trim_loop ip iAmRelay foundGlobalRelay trimmed ps)
      else trim_loop ip iAmRelay foundGlobalRelay
             (if \<not> foundGlobalRelay then trimmed @ [p] else trimmed) ps)"

definition trimPublishers :: "string \<Rightarrow> string \<Rightarrow> PublisherInfoPB list \<Rightarrow> PublisherInfoPB list" where
  "trimPublishers compID ip fullList =
     trim_loop ip (\<exists>p\<in>set fullList. has_url p \<and> is_relay p \<and> field '''' (pi_componentID p) = compID)
       False [] fullList"

subsection \<open>Sockets\<close>

definition setupSubscription ::
  "(nat \<Rightarrow> socket) \<Rightarrow> string \<Rightarrow> string \<Rightarrow> sm_state \<Rightarrow> sm_state \<times> socket" where
  "setupSubscription zmq_socket url flt s =
     (let sock = zmq_socket (length (sm_opened s))
      in (s\<lparr>sm_pollItems := sm_pollItems s @ [sock],
            sm_opened := sm_opened s @ [(sock, url, flt)]\<rparr>, sock))"

definition removePollItem :: "socket \<Rightarrow> sm_state \<Rightarrow> sm_state" where
  "removePollItem sock s = s\<lparr>sm_pollItems := filter (\<lambda>p. p \<noteq> sock) (sm_pollItems s)\<rparr>"

definition unsubscribeFromPollItem :: "socket \<Rightarrow> sm_state \<Rightarrow> sm_state" where
  "unsubscribeFromPollItem sock s =
     s\<lparr>subscriptionSocketMap := smap_erase sock (subscriptionSocketMap s),
       socketVerificationMap := smap_erase sock (socketVerificationMap s),
       sm_closed := sm_closed s @ [sock]\<rparr>"

text \<open>Connecting the details at address \<open>a\<close> to a publisher.\<close>

definition connect_publisher ::
  "(nat \<Rightarrow> socket) \<Rightarrow> nat \<Rightarrow> string \<Rightarrow> PublisherInfoPB \<Rightarrow> sm_state \<Rightarrow> sm_state" where
  "connect_publisher zmq_socket a flt p s =
     (let (s1, sock) = setupSubscription zmq_socket (pub_url p) flt s;
          x = details a s1;
          s2 = set_details a (x\<lparr>su_pollItemMap := smap_put (pub_url p) sock (su_pollItemMap x),
                 su_socketToUrlMap := smap_put sock (pub_url p) (su_socketToUrlMap x)\<rparr>) s1
      in s2\<lparr>subscriptionSocketMap := smap_put sock a (subscriptionSocketMap s2)\<rparr>)"

definition set_verification :: "socket \<Rightarrow> u32 \<Rightarrow> sm_state \<Rightarrow> sm_state" where
  "set_verification sock t s =
     s\<lparr>socketVerificationMap := smap_put sock t (socketVerificationMap s)\<rparr>"

definition publisher_socket :: "nat \<Rightarrow> string \<Rightarrow> sm_state \<Rightarrow> socket" where
  "publisher_socket a url s = smap_at 0 (su_pollItemMap (details a s)) url"

definition subscribe_publisher ::
  "(nat \<Rightarrow> socket) \<Rightarrow> nat \<Rightarrow> string \<Rightarrow> PublisherInfoPB \<Rightarrow> sm_state \<Rightarrow> sm_state" where
  "subscribe_publisher zmq_socket a flt p s =
     (if has_url p \<and> \<not> smap_has (su_pollItemMap (details a s)) (pub_url p)
      then (let s1 = connect_publisher zmq_socket a flt p s
            in set_verification (publisher_socket a (pub_url p) s1) (pub_time p) s1)
      else s)"

subsection \<open>Subscribing\<close>

record subscribe_request =
  sq_dataProductID :: string
  sq_receiveLastCachedValue :: bool
  sq_publishers :: "PublisherInfoPB list"
  sq_filter :: string
  sq_domain :: string
  sq_publisherUpdateUrl :: string
  sq_subscriber :: nat

definition filter_map :: "DomainDataKey \<Rightarrow> sm_state \<Rightarrow> (string, nat) smap" where
  "filter_map key s = smap_at [] (subscriptionMap s) key"

definition set_subscription :: "DomainDataKey \<Rightarrow> string \<Rightarrow> nat \<Rightarrow> sm_state \<Rightarrow> sm_state" where
  "set_subscription key f a s =
     s\<lparr>subscriptionMap := smap_put key (smap_put f a (filter_map key s)) (subscriptionMap s)\<rparr>"

definition erase_subscription :: "DomainDataKey \<Rightarrow> string \<Rightarrow> sm_state \<Rightarrow> sm_state" where
  "erase_subscription key f s =
     (let m = smap_erase f (filter_map key s)
      in if m = [] then s\<lparr>subscriptionMap := smap_erase key (subscriptionMap s)\<rparr>
         else s\<lparr>subscriptionMap := smap_put key m (subscriptionMap s)\<rparr>)"

definition allocate :: "SubscriptionDetails \<Rightarrow> sm_state \<Rightarrow> sm_state \<times> nat" where
  "allocate x s = ((set_details (sm_next s) x s)\<lparr>sm_next := Suc (sm_next s)\<rparr>, sm_next s)"

text \<open>Finding the details of the subscription or making them, with their update socket.\<close>

definition open_subscription ::
  "(nat \<Rightarrow> socket) \<Rightarrow> subscribe_request \<Rightarrow> sm_state \<Rightarrow> sm_state \<times> nat" where
  "open_subscription zmq_socket rq s =
     (let key = DomainDataKey (sq_domain rq) (sq_dataProductID rq)
      in case map_of (filter_map key s) (sq_filter rq) of
           Some a \<Rightarrow> (s, a)
         | None \<Rightarrow>
             (let (s1, sock) = setupSubscription zmq_socket (sq_publisherUpdateUrl rq)
                                 (sq_dataProductID rq) s;
                  x = (new_subscription (sq_domain rq) (sq_dataProductID rq) (sq_filter rq))
                        \<lparr>su_receiveCachedDataProducts := sq_receiveLastCachedValue rq,
                         su_updateSocket := sock\<rparr>;
                  (s2, a) = allocate x s1
              in (set_subscription key (sq_filter rq) a s2, a)))"

definition restart_monitors :: "u64 \<Rightarrow> nat \<Rightarrow> sm_state \<Rightarrow> sm_state" where
  "restart_monitors currTime a s =
     (let x = details a s
      in if su_subscribers x = [] \<and> su_monitors x \<noteq> []
         then set_details a (x\<lparr>su_monitors := map (\<lambda>m. m\<lparr>tm_endTime :=
                currTime + word_of_int (tm_timeout m)\<rparr>) (su_monitors x)\<rparr>) s
         else s)"

definition deliver :: "nat \<Rightarrow> GravityDataProductPB list \<Rightarrow> sm_state \<Rightarrow> sm_state" where
  "deliver subscriber dps s = s\<lparr>sm_delivered := sm_delivered s @ [(subscriber, dps)]\<rparr>"

definition touch_cached :: "socket \<Rightarrow> sm_state \<Rightarrow> sm_state" where
  "touch_cached sock s = s\<lparr>lastCachedValueMap := smap_touch sock None (lastCachedValueMap s)\<rparr>"

definition last_cached :: "socket \<Rightarrow> sm_state \<Rightarrow> GravityDataProductPB option" where
  "last_cached sock s = smap_at None (lastCachedValueMap s) sock"

text \<open>The last values of all publishers of the subscription, oldest first.\<close>

definition cached_values :: "nat \<Rightarrow> sm_state \<Rightarrow> GravityDataProductPB list" where
  "cached_values a s =
     sort_key getGravityTimestamp
       (concat (map (\<lambda>(url, sock). case last_cached sock s of None \<Rightarrow> [] | Some p \<Rightarrow> [p])
          (su_pollItemMap (details a s))))"

definition add_subscriber :: "nat \<Rightarrow> bool \<Rightarrow> nat \<Rightarrow> sm_state \<Rightarrow> sm_state" where
  "add_subscriber subscriber receiveLastCachedValue a s =
     (let x = details a s
      in if subscriber \<in> set (su_subscribers x) then s
         else (let s1 = set_details a (x\<lparr>su_subscribers := sset_insert subscriber (su_subscribers x)\<rparr>) s
               in if receiveLastCachedValue
                  then (let s2 = fold touch_cached (map snd (su_pollItemMap x)) s1;
                            dps = cached_values a s2
                        in if dps \<noteq> [] then deliver subscriber dps s2 else s2)
                  else s1))"

definition addSubscription ::
  "(nat \<Rightarrow> socket) \<Rightarrow> u64 \<Rightarrow> subscribe_request \<Rightarrow> sm_state \<Rightarrow> sm_state" where
  "addSubscription zmq_socket currTime rq s =
     (let (s1, a) = open_subscription zmq_socket rq s;
          s2 = fold (subscribe_publisher zmq_socket a (sq_filter rq))
                 (trimPublishers (sm_componentID s1) (sm_ipAddress s1) (sq_publishers rq)) s1;
          s3 = restart_monitors currTime a s2
      in add_subscriber (sq_subscriber rq) (sq_receiveLastCachedValue rq) a s3)"

subsection \<open>Unsubscribing\<close>

definition close_updates :: "socket \<Rightarrow> sm_state \<Rightarrow> sm_state" where
  "close_updates sock s =
     (removePollItem sock s)\<lparr>sm_closed := sm_closed s @ [sock]\<rparr>"

definition drop_publisher :: "socket \<Rightarrow> sm_state \<Rightarrow> sm_state" where
  "drop_publisher sock s =
     (let s1 = removePollItem sock (unsubscribeFromPollItem sock s)
      in s1\<lparr>lastCachedValueMap := smap_erase sock (lastCachedValueMap s1)\<rparr>)"

definition removeSubscription :: "string \<Rightarrow> string \<Rightarrow> string \<Rightarrow> nat \<Rightarrow> sm_state \<Rightarrow> sm_state" where
  "removeSubscription dataProductID flt d subscriber s =
     (let key = DomainDataKey d dataProductID;
          s0 = s\<lparr>sm_metricsData := remove_metrics dataProductID (sm_metricsData s)\<rparr>
      in case map_of (filter_map key s0) flt of
           None \<Rightarrow> s0
         | Some a \<Rightarrow>
             (let x = (details a s0)\<lparr>su_subscribers := remove_first (\<lambda>y. y = subscriber)
                        (su_subscribers (details a s0))\<rparr>;
                  s1 = set_details a x s0
              in if su_subscribers x = [] then
                   (let s2 = (if su_monitors x = []
                              then close_updates (su_updateSocket x) (erase_subscription key flt s1)
                              else s1)
                    in fold drop_publisher (map snd (su_pollItemMap x)) s2)
                 else s1))"

subsection \<open>Monitors\<close>

definition setTimeoutMonitor ::
  "u64 \<Rightarrow> string \<Rightarrow> nat \<Rightarrow> int \<Rightarrow> string \<Rightarrow> string \<Rightarrow> sm_state \<Rightarrow> sm_state" where
  "setTimeoutMonitor currTime dataProductID monitor timeout flt d s =
     (let key = DomainDataKey d dataProductID;
          s0 = s\<lparr>subscriptionMap := smap_touch key [] (subscriptionMap s)\<rparr>;
          (s1, a) = (case map_of (filter_map key s0) flt of
                       Some a \<Rightarrow> (s0, a)
                     | None \<Rightarrow>
                         (let (s', a) = allocate (new_subscription d dataProductID flt) s0
                          in (set_subscription key flt a
                                (s'\<lparr>subscriptionMap := smap_put key [] (subscriptionMap s')\<rparr>), a)));
          x = details a s1;
          endTime = currTime + word_of_int timeout
      in if \<exists>m\<in>set (su_monitors x). tm_monitor m = monitor
         then set_details a (x\<lparr>su_monitors := map_first (\<lambda>m. tm_monitor m = monitor)
                (\<lambda>m. m\<lparr>tm_timeout := timeout, tm_endTime := endTime\<rparr>) (su_monitors x)\<rparr>) s1
         else (set_details a (x\<lparr>su_monitors := su_monitors x @
                 [\<lparr>tm_id = sm_next s1, tm_monitor = monitor, tm_timeout = timeout,
                   tm_endTime = endTime, tm_lastReceived = -1\<rparr>]\<rparr>) s1)\<lparr>sm_next := Suc (sm_next s1)\<rparr>)"

definition clearTimeoutMonitor :: "string \<Rightarrow> nat \<Rightarrow> string \<Rightarrow> string \<Rightarrow> sm_state \<Rightarrow> sm_state" where
  "clearTimeoutMonitor dataProductID monitor flt d s =
     (let key = DomainDataKey d dataProductID
      in case map_of (filter_map key s) flt of
           None \<Rightarrow> s
         | Some a \<Rightarrow>
             (let x = details a s;
                  s1 = (case find (\<lambda>m. tm_monitor m = monitor) (su_monitors x) of
                          None \<Rightarrow> s
                        | Some m \<Rightarrow> (if currTimeoutMonitor s = Some (a, tm_id m)
                                    then s\<lparr>currTimeoutMonitor := None, pollTimeout := -1\<rparr> else s));
                  y = x\<lparr>su_monitors := remove_first (\<lambda>m. tm_monitor m = monitor) (su_monitors x)\<rparr>;
                  s2 = set_details a y s1
              in if su_monitors y = [] \<and> su_subscribers y = []
                 then close_updates (su_updateSocket y) (erase_subscription key flt s2)
                 else s2))"

subsection \<open>Timeouts\<close>

definition time_since :: "u64 \<Rightarrow> int \<Rightarrow> int" where
  "time_since currTime lastReceived = sint (ucast (currTime - word_of_int lastReceived) :: u32)"

definition call_monitor :: "SubscriptionDetails \<Rightarrow> TimeoutMonitor \<Rightarrow> int \<Rightarrow> sm_state \<Rightarrow> sm_state" where
  "call_monitor x m timeSinceLast s =
     s\<lparr>sm_timeouts := sm_timeouts s @
         [(tm_monitor m, su_dataProductID x, timeSinceLast, su_filter x, su_domain x)]\<rparr>"

definition extend_monitor :: "nat \<Rightarrow> TimeoutMonitor \<Rightarrow> sm_state \<Rightarrow> sm_state" where
  "extend_monitor a m s =
     (let x = details a s
      in set_details a (x\<lparr>su_monitors := map (\<lambda>m'. if tm_id m' = tm_id m
           then m'\<lparr>tm_endTime := tm_endTime m' + word_of_int (tm_timeout m')\<rparr> else m')
           (su_monitors x)\<rparr>) s)"

text \<open>The body of the innermost loop of \<open>calculateTimeout\<close>; the second component is \<open>minTime\<close>.\<close>

definition check_monitor :: "u64 \<Rightarrow> nat \<Rightarrow> TimeoutMonitor \<Rightarrow> sm_state \<times> int \<Rightarrow> sm_state \<times> int" where
  "check_monitor currTime a m sm =
     (let s = fst sm; minTime = snd sm; x = details a s
      in if su_subscribers x \<noteq> [] \<and> 0 \<le> tm_timeout m then
           (let timeRemaining = sint (tm_endTime m - currTime)
            in if timeRemaining \<le> 0 then
                 (let timeSinceLast = (if 0 < tm_lastReceived m
                                       then time_since currTime (tm_lastReceived m) else -1);
                      s1 = extend_monitor a m (call_monitor x m timeSinceLast s)
                  in (s1, if tm_timeout m < minTime \<or> minTime = -1 then tm_timeout m else minTime))
               else if timeRemaining < minTime \<or> minTime = -1 then
                 (s\<lparr>currTimeoutMonitor := Some (a, tm_id m)\<rparr>, sint (word_of_int timeRemaining :: u32))
               else sm)
         else sm)"

definition calculateTimeout :: "u64 \<Rightarrow> sm_state \<Rightarrow> sm_state" where
  "calculateTimeout currTime s =
     (let (s1, minTime) =
        fold (\<lambda>a sm. fold (check_monitor currTime a) (su_monitors (details a (fst sm))) sm)
          (concat (map (\<lambda>(key, fm). map snd fm) (subscriptionMap s)))
          (s\<lparr>currTimeoutMonitor := None\<rparr>, -1)
      in s1\<lparr>pollTimeout := minTime\<rparr>)"

text \<open>\<open>zmq_poll\<close> returned 0: the time of the nearest monitor is up.\<close>

definition on_poll_timeout :: "u64 \<Rightarrow> sm_state \<Rightarrow> sm_state" where
  "on_poll_timeout currTime s =
     (case currTimeoutMonitor s of
        None \<Rightarrow> s
      | Some (a, k) \<Rightarrow>
          (case find (\<lambda>m. tm_id m = k) (su_monitors (details a s)) of
             None \<Rightarrow> s
           | Some m \<Rightarrow>
               extend_monitor a m (call_monitor (details a s) m
                 (if tm_lastReceived m \<noteq> -1 then time_since currTime (tm_lastReceived m) else -1) s)))"

subsection \<open>Data arrives\<close>

definition notifyServiceDirectoryOfStaleEntry ::
  "string \<Rightarrow> string \<Rightarrow> string \<Rightarrow> u32 \<Rightarrow> sm_state \<Rightarrow> sm_state" where
  "notifyServiceDirectoryOfStaleEntry dataProductId d url regTime s =
     s\<lparr>sm_stale := sm_stale s @ [\<lparr>ur_id = dataProductId, ur_url = url, ur_type = Some DATA,
         ur_domain = Some d, ur_registration_time = Some regTime\<rparr>]\<rparr>"

definition is_new_data :: "GravityDataProductPB option \<Rightarrow> GravityDataProductPB \<Rightarrow> bool" where
  "is_new_data lastCachedValue p =
     (case lastCachedValue of
        None \<Rightarrow> True
      | Some q \<Rightarrow> getGravityTimestamp q < getGravityTimestamp p \<or>
                  (getGravityTimestamp q = getGravityTimestamp p \<and> \<not> gdp_eq q p))"

definition cached_relay :: "GravityDataProductPB option \<Rightarrow> GravityDataProductPB \<Rightarrow> sm_state \<Rightarrow> bool" where
  "cached_relay lastCachedValue p s =
     (lastCachedValue = None \<and> isRelayedDataproduct p \<and>
      (\<exists>e\<in>set (lastCachedValueMap s).
         case snd e of
           None \<Rightarrow> False
         | Some q \<Rightarrow> getGravityTimestamp q = getGravityTimestamp p \<and>
                     field '''' (dp_componentID q) = field '''' (dp_componentID p) \<and> gdp_eq q p))"

text \<open>
  The loop that reads a subscription socket until nothing is left: each message with the time at
  which it was read. The result has the data products to deliver.
\<close>

fun read_data ::
  "nat \<Rightarrow> socket \<Rightarrow> string \<Rightarrow> (GravityDataProductPB \<times> u64) list \<Rightarrow> sm_state \<Rightarrow>
     sm_state \<times> GravityDataProductPB list" where
  "read_data a sock url [] s = (s, [])"
| "read_data a sock url ((p, now) # msgs) s =
     (let regTime = smap_at 0 (socketVerificationMap s) sock;
          x = details a s;
          s0 = s\<lparr>socketVerificationMap := smap_touch sock 0 (socketVerificationMap s)\<rparr>
      in if regTime \<noteq> getRegistrationTime p then
           ((notifyServiceDirectoryOfStaleEntry (su_dataProductID x) (su_domain x) url regTime s0)
              \<lparr>deleteList := deleteList s0 @ [(a, sock)]\<rparr>, [])
         else
           (let s1 = touch_cached sock s0; lastCachedValue = last_cached sock s1
            in if \<not> cached_relay lastCachedValue p s1 \<and> is_new_data lastCachedValue p then
                 (let p1 = p\<lparr>dp_received_timestamp := Some now\<rparr>;
                      s2 = s1\<lparr>lastCachedValueMap := smap_put sock (Some p1) (lastCachedValueMap s1)\<rparr>;
                      (s3, dps) = read_data a sock url msgs s2
                  in (s3, if isCachedDataproduct p1 \<and> \<not> su_receiveCachedDataProducts x
                          then dps else p1 # dps))
               else read_data a sock url msgs s1))"

definition feed_monitors :: "u64 \<Rightarrow> nat \<Rightarrow> sm_state \<Rightarrow> sm_state" where
  "feed_monitors currTime a s =
     (let x = details a s
      in set_details a (x\<lparr>su_monitors := map (\<lambda>m. m\<lparr>tm_lastReceived := sint currTime,
           tm_endTime := currTime + word_of_int (tm_timeout m)\<rparr>) (su_monitors x)\<rparr>) s)"

text \<open>\<open>size\<close> is \<open>getSize\<close>, the serialised size that protobuf computes.\<close>

definition collectMetrics ::
  "(GravityDataProductPB \<Rightarrow> nat) \<Rightarrow> GravityDataProductPB list \<Rightarrow> sm_state \<Rightarrow> sm_state" where
  "collectMetrics sz dps s =
     s\<lparr>sm_metricsData := fold (\<lambda>p m. incrementByteCount (getDataProductID p) (int (sz p))
         (incrementMessageCount (getDataProductID p) 1 m)) dps (sm_metricsData s)\<rparr>"

definition on_data ::
  "(GravityDataProductPB \<Rightarrow> nat) \<Rightarrow> u64 \<Rightarrow> socket \<Rightarrow> (GravityDataProductPB \<times> u64) list \<Rightarrow> sm_state \<Rightarrow> sm_state" where
  "on_data sz currTime sock msgs s =
     (case map_of (subscriptionSocketMap s) sock of
        None \<Rightarrow> s
      | Some a \<Rightarrow>
          (let url = smap_at '''' (su_socketToUrlMap (details a s)) sock;
               (s1, dps) = read_data a sock url msgs s
           in if dps = [] then s1
              else (let s2 = fold (\<lambda>subscriber. deliver subscriber dps) (su_subscribers (details a s1)) s1;
                        s3 = feed_monitors currTime a s2
                    in if sm_metricsEnabled s3 then collectMetrics sz dps s3 else s3)))"

subsection \<open>Publisher lists change\<close>

text \<open>
  The body of the loop over the publishers of an update. The second test reads
  \<open>pollItemMap[url]\<close> also when there is no entry, which inserts one with a null socket and reads
  the registration time of the null socket.
\<close>

definition update_publisher ::
  "(nat \<Rightarrow> socket) \<Rightarrow> nat \<Rightarrow> string \<Rightarrow> PublisherInfoPB \<Rightarrow> sm_state \<Rightarrow> sm_state" where
  "update_publisher zmq_socket a flt p s =
     (let url = pub_url p;
          x = details a s;
          known = smap_has (su_pollItemMap x) url;
          s1 = set_details a (x\<lparr>su_pollItemMap := smap_touch url 0 (su_pollItemMap x)\<rparr>) s;
          old = publisher_socket a url s1;
          s2 = s1\<lparr>socketVerificationMap := smap_touch old 0 (socketVerificationMap s1)\<rparr>;
          moved = (smap_at 0 (socketVerificationMap s2) old \<noteq> pub_time p);
          s3 = (if \<not> known \<or> moved
                then connect_publisher zmq_socket a flt p
                       (if moved then s2\<lparr>deleteList := deleteList s2 @ [(a, old)]\<rparr> else s2)
                else s2)
      in set_verification (publisher_socket a url s3) (pub_time p) s3)"

definition delete_missing :: "PublisherInfoPB list \<Rightarrow> nat \<Rightarrow> sm_state \<Rightarrow> sm_state" where
  "delete_missing trimmed a s =
     s\<lparr>deleteList := deleteList s @
         map (\<lambda>(url, sock). (a, sock))
           (filter (\<lambda>(url, sock). \<forall>p\<in>set trimmed. url \<noteq> pub_url p) (su_pollItemMap (details a s)))\<rparr>"

definition update_subscription ::
  "(nat \<Rightarrow> socket) \<Rightarrow> PublisherInfoPB list \<Rightarrow> string \<times> nat \<Rightarrow> sm_state \<Rightarrow> sm_state" where
  "update_subscription zmq_socket trimmed fa s =
     delete_missing trimmed (snd fa)
       (fold (update_publisher zmq_socket (snd fa) (fst fa)) trimmed s)"

definition on_publisher_update ::
  "(nat \<Rightarrow> socket) \<Rightarrow> string \<Rightarrow> ComponentDataLookupResponsePB \<Rightarrow> sm_state \<Rightarrow> sm_state" where
  "on_publisher_update zmq_socket dataProductID update s =
     (if dataProductID = '''' then s
      else
        (let key = DomainDataKey (field '''' (dl_domain_id update)) dataProductID;
             trimmed = trimPublishers (sm_componentID s) (sm_ipAddress s) (dl_publishers update)
         in fold (update_subscription zmq_socket trimmed) (filter_map key s) s))"

subsection \<open>Closing what is no longer needed\<close>

text \<open>One entry of the list of sockets to delete, with the insertions that \<open>operator[]\<close> makes.\<close>

definition delete_socket :: "nat \<times> socket \<Rightarrow> sm_state \<Rightarrow> sm_state" where
  "delete_socket e s =
     (let a = fst e; sock = snd e; x = details a s;
          url = smap_at '''' (su_socketToUrlMap x) sock;
          m = smap_touch url 0 (su_pollItemMap x);
          y = x\<lparr>su_pollItemMap := (if smap_at 0 m url = sock then smap_erase url m else m),
                su_socketToUrlMap := smap_erase sock (su_socketToUrlMap x)\<rparr>;
          s1 = set_details a y s
      in s1\<lparr>subscriptionSocketMap := smap_erase sock (subscriptionSocketMap s1),
            socketVerificationMap := smap_erase sock (socketVerificationMap s1),
            lastCachedValueMap := smap_erase sock (lastCachedValueMap s1),
            sm_closed := sm_closed s1 @ [sock],
            sm_pollItems := remove_first (\<lambda>p. p = sock) (sm_pollItems s1)\<rparr>)"

definition flush_deletes :: "sm_state \<Rightarrow> sm_state" where
  "flush_deletes s = (fold delete_socket (deleteList s) s)\<lparr>deleteList := []\<rparr>"

subsection \<open>The loop\<close>

datatype sm_event = SMSubscribe u64 subscribe_request
  | SMUnsubscribe string string string nat
  | SMSetHWM int
  | SMSetMonitor u64 string nat int string string
  | SMClearMonitor string nat string string
  | SMServiceDirectoryUrl string
  | SMMetricsEnable u64
  | SMMetricsDisable
  | SMGetMetrics u64 u64
  | SMData u64 socket "(GravityDataProductPB \<times> u64) list"
  | SMPublishers string ComponentDataLookupResponsePB

fun sm_handle ::
  "(nat \<Rightarrow> socket) \<Rightarrow> (GravityDataProductPB \<Rightarrow> nat) \<Rightarrow> sm_event \<Rightarrow> sm_state \<Rightarrow> sm_state" where
  "sm_handle zs sz (SMSubscribe now rq) s = addSubscription zs now rq s"
| "sm_handle zs sz (SMUnsubscribe i f d u) s = removeSubscription i f d u s"
| "sm_handle zs sz (SMSetHWM n) s = s\<lparr>subscribeHWM := n\<rparr>"
| "sm_handle zs sz (SMSetMonitor now i m t f d) s = setTimeoutMonitor now i m t f d s"
| "sm_handle zs sz (SMClearMonitor i m f d) s = clearTimeoutMonitor i m f d s"
| "sm_handle zs sz (SMServiceDirectoryUrl u) s = s\<lparr>sm_serviceDirectoryUrl := u\<rparr>"
| "sm_handle zs sz (SMMetricsEnable now) s =
     s\<lparr>sm_metricsData := reset_metrics now (sm_metricsData s), sm_metricsEnabled := True\<rparr>"
| "sm_handle zs sz SMMetricsDisable s = s\<lparr>sm_metricsEnabled := False\<rparr>"
| "sm_handle zs sz (SMGetMetrics t1 t2) s =
     s\<lparr>sm_metricsData := reset_metrics t2 (done_metrics t1 (sm_metricsData s))\<rparr>"
| "sm_handle zs sz (SMData now sock msgs) s = on_data sz now sock msgs s"
| "sm_handle zs sz (SMPublishers i update) s = on_publisher_update zs i update s"

text \<open>An iteration: a poll timeout, or the events of the readable sockets and the deletions.\<close>

definition sm_iteration ::
  "(nat \<Rightarrow> socket) \<Rightarrow> (GravityDataProductPB \<Rightarrow> nat) \<Rightarrow> u64 \<Rightarrow> sm_event list \<Rightarrow> sm_state \<Rightarrow> sm_state" where
  "sm_iteration zs sz now events s =
     (let s1 = calculateTimeout now s
      in if events = [] then on_poll_timeout now s1
         else flush_deletes (fold (sm_handle zs sz) events s1))"

text \<open>
  The parts of the message that configures the manager: domain, component id and address. Parts before
  the command are skipped; \<open>None\<close> is a manager that still waits.
\<close>

fun sm_configure :: "string list \<Rightarrow> (string \<times> string \<times> string) option" where
  "sm_configure [] = None"
| "sm_configure (command # parts) =
     (if command = ''configure''
      then (case parts of d # compID # ip # _ \<Rightarrow> Some (d, compID, ip) | _ \<Rightarrow> None)
      else sm_configure parts)"

text \<open>The end of the thread: the sockets of all subscriptions are closed, in the order of the maps.\<close>

definition sm_shutdown :: "sm_state \<Rightarrow> sm_state" where
  "sm_shutdown s =
     s\<lparr>sm_closed := sm_closed s @ concat (map (\<lambda>(key, filters). concat (map (\<lambda>(f, a).
           map snd (su_pollItemMap (details a s)) @ [su_updateSocket (details a s)]) filters)) (subscriptionMap s)),
       subscriptionMap := [], subscriptionSocketMap := [], socketVerificationMap := []\<rparr>"

end
