(* ===== verification/Subscription_Correct.thy ===== *)
theory Subscription_Correct
  imports SubscriptionManager
begin

section \<open>Correctness of the subscription manager\<close>

text \<open>
  Which publishers a node connects to, which data reaches its subscribers, and two ways in which
  monitors and subscriptions interfere.
\<close>

subsection \<open>Choosing publishers\<close>

definition local_relay :: "string \<Rightarrow> PublisherInfoPB \<Rightarrow> bool" where
  "local_relay ip p \<longleftrightarrow> is_relay p \<and> pi_ipAddress p = Some ip"

definition global_relay :: "PublisherInfoPB \<Rightarrow> bool" where
  "global_relay p \<longleftrightarrow> is_relay p \<and> pi_ipAddress p = None"

text \<open>What the comments of the source ask for.\<close>

definition spec_trim :: "string \<Rightarrow> string \<Rightarrow> PublisherInfoPB list \<Rightarrow> PublisherInfoPB list" where
  "spec_trim compID ip fullList =
     (let valid = filter has_url fullList
      in if \<exists>p\<in>set valid. is_relay p \<and> field '''' (pi_componentID p) = compID
         then filter (\<lambda>p. \<not> is_relay p) valid
         else case find (local_relay ip) valid of
                Some p \<Rightarrow> [p]
              | None \<Rightarrow>
                  (if \<exists>p\<in>set valid. global_relay p then [last (filter global_relay valid)]
                   else filter (\<lambda>p. \<not> is_relay p) valid))"

lemma trim_loop_relay:
  "trim_loop ip True g trimmed ps = trimmed @ filter (\<lambda>p. \<not> is_relay p) (filter has_url ps)"
  by (induction ps arbitrary: trimmed) auto

lemma trim_loop_local:
  "trim_loop ip False g trimmed ps =
     (case find (local_relay ip) (filter has_url ps) of
        Some p \<Rightarrow> [p]
      | None \<Rightarrow>
          (if \<exists>p\<in>set (filter has_url ps). global_relay p
           then [last (filter global_relay (filter has_url ps))]
           else trimmed @ (if g then [] else filter (\<lambda>p. \<not> is_relay p) (filter has_url ps))))"
proof (induction ps arbitrary: trimmed g)
  case (Cons p ps)
  then show ?case
    by (cases "pi_ipAddress p")
      (auto simp: local_relay_def global_relay_def filter_empty_conv split: option.splits)
qed simp

text \<open>C33. \<open>trimPublishers\<close> chooses the publishers as intended, for every list: a relay component
  connects to all publishers that are not relays; any other component connects to the first relay
  for its own IP address if there is one, else to the last relay for any address if there is one,
  else to all publishers that are not relays; entries without a URL are never chosen.\<close>

theorem trimPublishers_spec: "trimPublishers compID ip fullList = spec_trim compID ip fullList"
proof -
  have "(\<exists>p\<in>set fullList. has_url p \<and> is_relay p \<and> field '''' (pi_componentID p) = compID) \<longleftrightarrow>
      (\<exists>p\<in>set (filter has_url fullList). is_relay p \<and> field '''' (pi_componentID p) = compID)"
    by auto
  moreover have "trim_loop ip b False [] ps =
      (if b then filter (\<lambda>p. \<not> is_relay p) (filter has_url ps)
       else case find (local_relay ip) (filter has_url ps) of
              Some p \<Rightarrow> [p]
            | None \<Rightarrow>
                (if \<exists>p\<in>set (filter has_url ps). global_relay p
                 then [last (filter global_relay (filter has_url ps))]
                 else filter (\<lambda>p. \<not> is_relay p) (filter has_url ps)))" for b ps
    by (cases b) (simp_all only: trim_loop_relay trim_loop_local append_Nil if_True if_False simp_thms)
  ultimately show ?thesis unfolding trimPublishers_def spec_trim_def Let_def by (simp only:)
qed

subsection \<open>Delivering data\<close>

lemma read_data_spec:
  "read_data a sock url msgs s = (s', dps) \<Longrightarrow>
     sorted (map getGravityTimestamp dps) \<and>
     (\<forall>p\<in>set dps. getRegistrationTime p = smap_at 0 (socketVerificationMap s) sock \<and>
        (\<forall>q. last_cached sock s = Some q \<longrightarrow> getGravityTimestamp q \<le> getGravityTimestamp p))"
proof (induction a sock url msgs s arbitrary: s' dps rule: read_data.induct)
  case (2 a sock url p now msgs s)
  let ?reg = "smap_at 0 (socketVerificationMap s) sock"
  let ?s1 = "touch_cached sock (s\<lparr>socketVerificationMap := smap_touch sock 0 (socketVerificationMap s)\<rparr>)"
  let ?p1 = "p\<lparr>dp_received_timestamp := Some now\<rparr>"
  let ?s2 = "?s1\<lparr>lastCachedValueMap := smap_put sock (Some ?p1) (lastCachedValueMap ?s1)\<rparr>"
  have same: "last_cached sock ?s1 = last_cached sock s"
    by (simp add: touch_cached_def last_cached_def)
  have keep: "getGravityTimestamp ?p1 = getGravityTimestamp p" "getRegistrationTime ?p1 = getRegistrationTime p"
    "smap_at 0 (socketVerificationMap ?s2) sock = ?reg" "smap_at 0 (socketVerificationMap ?s1) sock = ?reg"
    by (simp_all add: getGravityTimestamp_def getRegistrationTime_def touch_cached_def)
  show ?case
  proof (cases "?reg \<noteq> getRegistrationTime p")
    case True
    then show ?thesis using "2.prems" by (simp add: Let_def)
  next
    case reg: False
    show ?thesis
    proof (cases "\<not> cached_relay (last_cached sock ?s1) p ?s1 \<and> is_new_data (last_cached sock ?s1) p")
      case False
      then have "read_data a sock url msgs ?s1 = (s', dps)"
        using "2.prems" reg by (simp only: read_data.simps Let_def if_not_P if_False not_not)
      then show ?thesis using "2.IH"(2) [OF refl refl refl] reg False same keep(4) by simp
    next
      case True
      obtain s3 ds where rec: "read_data a sock url msgs ?s2 = (s3, ds)" by force
      have ih: "sorted (map getGravityTimestamp ds) \<and>
          (\<forall>r\<in>set ds. getRegistrationTime r = ?reg \<and> getGravityTimestamp p \<le> getGravityTimestamp r)"
        using "2.IH"(1) [OF refl refl refl _ refl refl True refl refl rec] reg keep
        by (simp add: last_cached_def)
      have old: "getGravityTimestamp q \<le> getGravityTimestamp p" if "last_cached sock s = Some q" for q
        using True that same by (auto simp: is_new_data_def)
      then have "getGravityTimestamp q \<le> getGravityTimestamp r"
        if "last_cached sock s = Some q" "r \<in> set ds" for q r
        using that ih order_trans by blast
      moreover have "dps = ds \<or> dps = ?p1 # ds"
        using "2.prems" reg True rec by (auto simp: Let_def split: if_splits)
      ultimately show ?thesis
        using ih reg keep(1,2) old by auto
    qed
  qed
qed simp

text \<open>C34. The data products that one read of a subscription socket passes on to the subscribers are
  in the order of their timestamps and none is older than the last value seen on that socket; all
  come from the publisher that the service directory registered, by its registration time.\<close>

theorem delivered_data_in_order:
  assumes "read_data a sock url msgs s = (s', dps)"
  shows "sorted (map getGravityTimestamp dps) \<and>
     (\<forall>p\<in>set dps. getRegistrationTime p = smap_at 0 (socketVerificationMap s) sock \<and>
        (\<forall>q. last_cached sock s = Some q \<longrightarrow> getGravityTimestamp q \<le> getGravityTimestamp p))"
  using assms by (rule read_data_spec)

definition stamped :: "u64 \<Rightarrow> GravityDataProductPB" where
  "stamped t = (GravityDataProduct ''P'')\<lparr>dp_timestamp := Some t\<rparr>"

lemma stamped_simps [simp]:
  "getGravityTimestamp (stamped t) = t" "getRegistrationTime (stamped t) = 0"
  "isRelayedDataproduct (stamped t) = False" "isCachedDataproduct (stamped t) = False"
  "getGravityTimestamp (stamped t\<lparr>dp_received_timestamp := r\<rparr>) = t"
  "isCachedDataproduct (stamped t\<lparr>dp_received_timestamp := r\<rparr>) = False"
  by (simp_all add: stamped_def GravityDataProduct_def getGravityTimestamp_def
      getRegistrationTime_def isRelayedDataproduct_def isCachedDataproduct_def)

theorem delivered_data_in_order_witness:
  "\<exists>s'. read_data 0 7 '''' [(stamped 5, 1), (stamped 4, 2), (stamped 6, 3)] (sm_init ''c'' ''ip'') =
       (s', [(stamped 5)\<lparr>dp_received_timestamp := Some 1\<rparr>, (stamped 6)\<lparr>dp_received_timestamp := Some 3\<rparr>]) \<and>
     sorted (map getGravityTimestamp
       [(stamped 5)\<lparr>dp_received_timestamp := Some 1\<rparr>, (stamped 6)\<lparr>dp_received_timestamp := Some 3\<rparr>])"
proof -
  let ?dps = "[(stamped 5)\<lparr>dp_received_timestamp := Some 1\<rparr>, (stamped 6)\<lparr>dp_received_timestamp := Some 3\<rparr>]"
  obtain s' where s': "read_data 0 7 '''' [(stamped 5, 1), (stamped 4, 2), (stamped 6, 3)] (sm_init ''c'' ''ip'') =
      (s', ?dps)"
    by (simp add: Let_def split_def sm_init_def touch_cached_def last_cached_def is_new_data_def
        cached_relay_def smap_touch_def smap_at_def)
  then show ?thesis using delivered_data_in_order [OF s'] by blast
qed

subsection \<open>Monitors and subscriptions\<close>

lemma filter_map_simps:
  "filter_map key (s\<lparr>subscriptionMap := smap_touch k [] (subscriptionMap s)\<rparr>) = filter_map key s"
  "filter_map key (s\<lparr>subscriptionMap := smap_put k m (subscriptionMap s)\<rparr>) =
     (if key = k then m else filter_map key s)"
  "filter_map key (set_details a x s) = filter_map key s"
  "filter_map key (s\<lparr>sm_next := n\<rparr>) = filter_map key s"
  "filter_map key (set_subscription k f a s) =
     (if key = k then smap_put f a (filter_map k s) else filter_map key s)"
  by (simp_all add: filter_map_def set_details_def set_subscription_def)

text \<open>Setting a timeout monitor with a filter text that has no subscription yet forgets every
  other filter text of the same data product and domain: afterwards the key has that one entry
  only, so an existing subscription can no longer be unsubscribed, although its sockets are still
  polled.\<close>

theorem setTimeoutMonitor_drops_filters:
  assumes "map_of (filter_map (DomainDataKey d i) s) f = None"
  shows "let s' = setTimeoutMonitor now i monitor timeout f d s
     in smap_keys (filter_map (DomainDataKey d i) s') = [f] \<and> sm_pollItems s' = sm_pollItems s \<and>
        subscriptionSocketMap s' = subscriptionSocketMap s"
  using assms
  by (simp add: setTimeoutMonitor_def Let_def allocate_def split_def smap_keys_def filter_map_def
      set_details_def set_subscription_def)

theorem setTimeoutMonitor_drops_filters_witness:
  "let s = set_subscription (DomainDataKey ''D'' ''P'') ''f1'' 0 (sm_init ''c'' ''ip'')
   in smap_has (filter_map (DomainDataKey ''D'' ''P'') s) ''f1'' \<and>
      smap_keys (filter_map (DomainDataKey ''D'' ''P'')
        (setTimeoutMonitor 0 ''P'' 9 100 ''f2'' ''D'' s)) = [''f2'']"
proof -
  let ?s = "set_subscription (DomainDataKey ''D'' ''P'') ''f1'' 0 (sm_init ''c'' ''ip'')"
  have fm: "filter_map (DomainDataKey ''D'' ''P'') ?s = [(''f1'', 0)]"
    by (simp add: filter_map_def set_subscription_def sm_init_def smap_at_def)
  then have "smap_keys (filter_map (DomainDataKey ''D'' ''P'')
      (setTimeoutMonitor 0 ''P'' 9 100 ''f2'' ''D'' ?s)) = [''f2'']"
    using setTimeoutMonitor_drops_filters [of "''D''" "''P''" ?s "''f2''" 0 9 100]
    by (simp add: Let_def)
  with fm show ?thesis unfolding Let_def by (simp only:) (simp add: smap_has_def)
qed

lemma details_simps:
  "details a (set_details b x s) = (if a = b then x else details a s)"
  "details a (removePollItem k s) = details a s"
  "details a (unsubscribeFromPollItem k s) = details a s"
  "details a (s\<lparr>lastCachedValueMap := m\<rparr>) = details a s"
  "details a (s\<lparr>sm_metricsData := md\<rparr>) = details a s"
  by (simp_all add: details_def set_details_def removePollItem_def unsubscribeFromPollItem_def)

lemma drop_publishers_frame:
  "details a (fold drop_publisher socks s) = details a s"
  "subscriptionMap (fold drop_publisher socks s) = subscriptionMap s"
  "sm_opened (fold drop_publisher socks s) = sm_opened s"
  "sm_closed (fold drop_publisher socks s) = sm_closed s @ socks"
  "sm_componentID (fold drop_publisher socks s) = sm_componentID s"
  "sm_ipAddress (fold drop_publisher socks s) = sm_ipAddress s"
  by (induction socks arbitrary: s)
    (simp_all add: drop_publisher_def Let_def details_def removePollItem_def unsubscribeFromPollItem_def)

lemma subscribe_known_idle:
  "\<forall>p\<in>set ps. smap_has (su_pollItemMap (details a s)) (pub_url p) \<Longrightarrow>
     fold (subscribe_publisher zs a f) ps s = s"
  by (induction ps) (simp_all add: subscribe_publisher_def)

lemma opened_add_subscriber [simp]: "sm_opened (add_subscriber u r a s) = sm_opened s"
proof -
  have "sm_opened (fold touch_cached ks t) = sm_opened t" for ks t
    by (induction ks arbitrary: t) (simp_all add: touch_cached_def)
  then show ?thesis by (simp add: add_subscriber_def Let_def deliver_def set_details_def)
qed

lemma opened_restart_monitors [simp]: "sm_opened (restart_monitors now a s) = sm_opened s"
  by (simp add: restart_monitors_def Let_def set_details_def)

text \<open>When the last subscriber leaves a subscription that still has a monitor, its publisher
  sockets are closed but stay recorded as connected: subscribing again to the same publishers
  opens no socket, so no data can arrive.\<close>

theorem resubscribe_with_monitor_never_connects:
  assumes "map_of (filter_map (DomainDataKey (sq_domain rq) (sq_dataProductID rq)) s) (sq_filter rq) = Some a"
    and "su_subscribers (details a s) = [u]" and "su_monitors (details a s) \<noteq> []"
    and "\<forall>p\<in>set (trimPublishers (sm_componentID s) (sm_ipAddress s) (sq_publishers rq)).
           smap_has (su_pollItemMap (details a s)) (pub_url p)"
  shows "let s1 = removeSubscription (sq_dataProductID rq) (sq_filter rq) (sq_domain rq) u s
     in sm_closed s1 = sm_closed s @ map snd (su_pollItemMap (details a s)) \<and>
        sm_opened (addSubscription zs now rq s1) = sm_opened s1"
proof -
  let ?s1 = "removeSubscription (sq_dataProductID rq) (sq_filter rq) (sq_domain rq) u s"
  let ?key = "DomainDataKey (sq_domain rq) (sq_dataProductID rq)"
  let ?x = "(details a s)\<lparr>su_subscribers := []\<rparr>"
  let ?t = "set_details a ?x (s\<lparr>sm_metricsData := remove_metrics (sq_dataProductID rq) (sm_metricsData s)\<rparr>)"
  have s1: "?s1 = fold drop_publisher (map snd (su_pollItemMap (details a s))) ?t"
    using assms(1-3) by (simp add: removeSubscription_def Let_def filter_map_def details_simps)
  have f: "filter_map ?key ?s1 = filter_map ?key s"
    unfolding s1 by (simp add: filter_map_def drop_publishers_frame set_details_def)
  have d: "details a ?s1 = ?x" unfolding s1 by (simp add: drop_publishers_frame details_simps)
  have "sm_componentID ?s1 = sm_componentID s" "sm_ipAddress ?s1 = sm_ipAddress s"
    unfolding s1 by (simp_all add: drop_publishers_frame set_details_def)
  then have "fold (subscribe_publisher zs a (sq_filter rq))
      (trimPublishers (sm_componentID ?s1) (sm_ipAddress ?s1) (sq_publishers rq)) ?s1 = ?s1"
    using assms(4) d by (intro subscribe_known_idle) simp
  then have "sm_opened (addSubscription zs now rq ?s1) = sm_opened ?s1"
    using assms(1) f by (simp add: addSubscription_def open_subscription_def Let_def)
  moreover have "sm_closed ?s1 = sm_closed s @ map snd (su_pollItemMap (details a s))"
    unfolding s1 by (simp add: drop_publishers_frame set_details_def)
  ultimately show ?thesis by (simp add: Let_def)
qed

definition monitored :: sm_state where
  "monitored = set_details 0 ((new_subscription ''D'' ''P'' '''')\<lparr>su_subscribers := [5],
      su_monitors := [\<lparr>tm_id = 1, tm_monitor = 9, tm_timeout = 100, tm_endTime = 100, tm_lastReceived = -1\<rparr>],
      su_pollItemMap := [(''tcp://h:1'', 33)], su_socketToUrlMap := [(33, ''tcp://h:1'')]\<rparr>)
    (set_subscription (DomainDataKey ''D'' ''P'') '''' 0 (sm_init ''c'' ''ip''))"

definition resubscription :: subscribe_request where
  "resubscription = \<lparr>sq_dataProductID = ''P'', sq_receiveLastCachedValue = True,
     sq_publishers = [\<lparr>pi_url = Some ''tcp://h:1'', pi_isRelay = None, pi_componentID = None,
       pi_ipAddress = None, pi_registration_time = Some 1\<rparr>],
     sq_filter = '''', sq_domain = ''D'', sq_publisherUpdateUrl = ''tcp://sd:1'', sq_subscriber = 5\<rparr>"

theorem resubscribe_with_monitor_never_connects_witness:
  "let s1 = removeSubscription ''P'' '''' ''D'' 5 monitored
   in sm_closed s1 = [33] \<and> sm_opened (addSubscription Suc 0 resubscription s1) = sm_opened s1"
proof -
  have "filter_map (DomainDataKey ''D'' ''P'') monitored = [('''', 0)]"
    "details 0 monitored = (new_subscription ''D'' ''P'' '''')\<lparr>su_subscribers := [5],
      su_monitors := [\<lparr>tm_id = 1, tm_monitor = 9, tm_timeout = 100, tm_endTime = 100, tm_lastReceived = -1\<rparr>],
      su_pollItemMap := [(''tcp://h:1'', 33)], su_socketToUrlMap := [(33, ''tcp://h:1'')]\<rparr>"
    "sm_closed monitored = []"
    by (simp_all add: monitored_def filter_map_def details_def set_details_def set_subscription_def sm_init_def
        smap_at_def)
  moreover have "trimPublishers c ip (sq_publishers resubscription) = sq_publishers resubscription" for c ip
    by (simp add: trimPublishers_def resubscription_def has_url_def is_relay_def)
  ultimately show ?thesis
    using resubscribe_with_monitor_never_connects [of resubscription monitored 0 5 Suc 0]
    by (simp add: resubscription_def smap_has_def pub_url_def Let_def)
qed

end
