(* ===== verification/ServiceManager.thy ===== *)
theory ServiceManager
  imports Data_Products
begin

section \<open>The service manager (\<open>GravityServiceManager.cpp\<close>)\<close>

text \<open>
  The thread that owns the reply sockets of the services a node provides. A \<open>register\<close> command
  binds a socket for the service, an \<open>unregister\<close> command closes it, and a request that arrives
  on a service's socket is handed to the provider unless it was meant for an earlier registration of
  the service.

  The \<open>ServiceDetails\<close> objects are never changed after their creation, so the two maps hold
  copies. The poll items from index 1 on are \<open>sv_pollItems\<close>. The provider object is a number;
  what its \<open>request\<close> method answers in a turn of the loop, \<open>zmq_socket\<close>, \<open>zmq_bind\<close> and
  the received requests are inputs. Replies to the node, responses to clients, calls of the providers
  and closed sockets are logged. A null pointer read is the result \<open>None\<close>.
\<close>

record ServiceDetails =
  sx_serviceID :: string
  sx_url :: string
  sx_socket :: socket
  sx_server :: nat

record sv_call =
  call_server :: nat
  call_serviceID :: string
  call_request :: GravityDataProductPB

record sv_state =
  serviceMapBySocket :: "(socket, ServiceDetails) smap"
  serviceMapByServiceID :: "(string, ServiceDetails) smap"
  serviceRegistrationTimeMap :: "(string, u32) smap"
  sv_pollItems :: "socket list"
  sv_domain :: string
  sv_componentID :: string
  sv_replies :: "string list"
  sv_responses :: "(socket \<times> GravityDataProductPB) list"
  sv_calls :: "sv_call list"
  sv_closed :: "socket list"

text \<open>The state when the \<open>configure\<close> message with domain and component id has been read.\<close>

definition sv_init :: "string \<Rightarrow> string \<Rightarrow> sv_state" where
  "sv_init d c = \<lparr>serviceMapBySocket = [], serviceMapByServiceID = [], serviceRegistrationTimeMap = [],
     sv_pollItems = [], sv_domain = d, sv_componentID = c, sv_replies = [], sv_responses = [],
     sv_calls = [], sv_closed = []\<rparr>"

definition setComponentId :: "string \<Rightarrow> GravityDataProductPB \<Rightarrow> GravityDataProductPB" where
  "setComponentId c p = p\<lparr>dp_componentID := Some c\<rparr>"

definition setDomain :: "string \<Rightarrow> GravityDataProductPB \<Rightarrow> GravityDataProductPB" where
  "setDomain d p = p\<lparr>dp_domain := Some d\<rparr>"

definition setRegistrationTime :: "u32 \<Rightarrow> GravityDataProductPB \<Rightarrow> GravityDataProductPB" where
  "setRegistrationTime t p = p\<lparr>dp_registration_time := Some t\<rparr>"

subsection \<open>Commands of the node\<close>

record sv_registration =
  sg_serviceID :: string
  sg_transportType :: string
  sg_minPort :: int
  sg_maxPort :: int
  sg_endpoint :: string
  sg_registrationTime :: u32
  sg_server :: nat

definition reply_node :: "string \<Rightarrow> sv_state \<Rightarrow> sv_state" where
  "reply_node r s = s\<lparr>sv_replies := sv_replies s @ [r]\<rparr>"

text \<open>The URL the reply socket was bound to, if the bind succeeded.\<close>

definition bind_service :: "(string \<Rightarrow> int) \<Rightarrow> sv_registration \<Rightarrow> string option" where
  "bind_service zmq_bind r =
     (if sg_transportType r = ''tcp'' then
        (let port = bindFirstAvailablePort zmq_bind (sg_endpoint r) (sg_minPort r) (sg_maxPort r)
         in if port < 0 then None
            else Some (sg_transportType r @ ''://'' @ sg_endpoint r @ '':'' @ show_int port))
      else
        (let url = sg_transportType r @ ''://'' @ sg_endpoint r
         in if zmq_bind url < 0 then None else Some url))"

definition addService :: "(string \<Rightarrow> int) \<Rightarrow> socket \<Rightarrow> sv_registration \<Rightarrow> sv_state \<Rightarrow> sv_state" where
  "addService zmq_bind serverSocket r s =
     (case bind_service zmq_bind r of
        None \<Rightarrow> reply_node '''' (s\<lparr>sv_closed := sv_closed s @ [serverSocket]\<rparr>)
      | Some connectionURL \<Rightarrow>
          (let s1 = reply_node connectionURL s;
               details = \<lparr>sx_serviceID = sg_serviceID r, sx_url = connectionURL,
                          sx_socket = serverSocket, sx_server = sg_server r\<rparr>
           in s1\<lparr>sv_pollItems := sv_pollItems s1 @ [serverSocket],
                 serviceMapBySocket := smap_put serverSocket details (serviceMapBySocket s1),
                 serviceMapByServiceID := smap_put (sg_serviceID r) details (serviceMapByServiceID s1),
                 serviceRegistrationTimeMap :=
                   smap_put (sg_serviceID r) (sg_registrationTime r) (serviceRegistrationTimeMap s1)\<rparr>))"

definition removeService :: "string \<Rightarrow> sv_state \<Rightarrow> sv_state" where
  "removeService serviceID s =
     reply_node ''OK''
       (case map_of (serviceMapByServiceID s) serviceID of
          None \<Rightarrow> s
        | Some details \<Rightarrow>
            (let socket = sx_socket details
             in s\<lparr>serviceMapBySocket := smap_erase socket (serviceMapBySocket s),
                  serviceMapByServiceID := smap_erase serviceID (serviceMapByServiceID s),
                  serviceRegistrationTimeMap := smap_erase serviceID (serviceRegistrationTimeMap s),
                  sv_closed := sv_closed s @ [socket],
                  sv_pollItems := filter (\<lambda>p. p \<noteq> socket) (sv_pollItems s)\<rparr>))"

datatype sv_request_cmd = SV_Register sv_registration "string \<Rightarrow> int" socket
  | SV_Unregister string
  | SV_Unknown string

fun sv_command :: "sv_request_cmd \<Rightarrow> sv_state \<Rightarrow> sv_state" where
  "sv_command (SV_Register r zmq_bind sock) s = addService zmq_bind sock r s"
| "sv_command (SV_Unregister i) s = removeService i s"
| "sv_command (SV_Unknown c) s = s"

subsection \<open>Requests of clients\<close>

text \<open>
  \<open>serviceRegistrationTimeMap[id]\<close> is read twice and inserts a zero for an unknown id (it is read
  the first time only when the request carries a registration time).
\<close>

definition stale_request :: "GravityDataProductPB \<Rightarrow> string \<Rightarrow> sv_state \<Rightarrow> bool" where
  "stale_request dataProduct serviceID s =
     (getRegistrationTime dataProduct \<noteq> 0 \<and>
      getRegistrationTime dataProduct \<noteq> smap_at 0 (serviceRegistrationTimeMap s) serviceID)"

definition stamp_response :: "string \<Rightarrow> GravityDataProductPB \<Rightarrow> sv_state \<Rightarrow> GravityDataProductPB" where
  "stamp_response serviceID response s =
     setRegistrationTime (smap_at 0 (serviceRegistrationTimeMap s) serviceID)
       (setDomain (sv_domain s) (setComponentId (sv_componentID s) response))"

definition answer_request ::
  "(sv_call \<Rightarrow> GravityDataProductPB) \<Rightarrow> GravityDataProductPB \<Rightarrow> socket \<Rightarrow> sv_state \<Rightarrow> sv_state option" where
  "answer_request provider dataProduct sock s =
     (case map_of (serviceMapBySocket s) sock of
        None \<Rightarrow> None
      | Some details \<Rightarrow>
          (let i = sx_serviceID details;
               call = \<lparr>call_server = sx_server details, call_serviceID = i, call_request = dataProduct\<rparr>;
               (response, calls) = (if stale_request dataProduct i s then (GravityDataProduct i, [])
                                    else (provider call, [call]));
               s1 = s\<lparr>serviceRegistrationTimeMap := smap_touch i 0 (serviceRegistrationTimeMap s),
                      sv_calls := sv_calls s @ calls\<rparr>
           in Some (s1\<lparr>sv_responses := sv_responses s1 @ [(sock, stamp_response i response s1)]\<rparr>)))"

record sv_env =
  sve_command :: "sv_request_cmd option"
  sve_request :: "socket \<Rightarrow> GravityDataProductPB option"
  sve_provider :: "sv_call \<Rightarrow> GravityDataProductPB"

text \<open>
  The loop over the poll items. \<open>zmq_poll\<close> ran before the command was handled, so an item that
  the command added has no event: the sockets polled are an argument.
\<close>

fun answer_requests :: "sv_env \<Rightarrow> socket list \<Rightarrow> socket list \<Rightarrow> sv_state \<Rightarrow> sv_state option" where
  "answer_requests env polled [] s = Some s"
| "answer_requests env polled (sock # socks) s =
     (case (if sock \<in> set polled then sve_request env sock else None) of
        None \<Rightarrow> answer_requests env polled socks s
      | Some dataProduct \<Rightarrow>
          (case answer_request (sve_provider env) dataProduct sock s of
             None \<Rightarrow> None
           | Some s1 \<Rightarrow> answer_requests env polled socks s1))"

definition sv_iteration :: "sv_env \<Rightarrow> sv_state \<Rightarrow> sv_state option" where
  "sv_iteration env s =
     (let s1 = (case sve_command env of None \<Rightarrow> s | Some c \<Rightarrow> sv_command c s)
      in answer_requests env (sv_pollItems s) (sv_pollItems s1) s1)"

fun sv_run :: "sv_env list \<Rightarrow> sv_state \<Rightarrow> sv_state option" where
  "sv_run [] s = Some s"
| "sv_run (env # envs) s =
     (case sv_iteration env s of None \<Rightarrow> None | Some s1 \<Rightarrow> sv_run envs s1)"

text \<open>The clean-up after a \<open>kill\<close> command.\<close>

definition sv_shutdown :: "sv_state \<Rightarrow> sv_state" where
  "sv_shutdown s = s\<lparr>sv_closed := sv_closed s @ smap_keys (serviceMapBySocket s),
     serviceMapBySocket := [], serviceMapByServiceID := []\<rparr>"

end
