(* ===== verification/Service_Correct.thy ===== *)
theory Service_Correct
  imports ServiceManager
begin

section \<open>Correctness of the service manager\<close>

text \<open>
  The invariant \<open>sv_wf\<close> ties the poll items and the two maps of the services together, so that a
  readable socket always belongs to a known service. Every request is answered once, in the order of
  the poll items, by the provider of its service or, when it was meant for an earlier registration,
  by an empty data product; the answer carries the registration time of the service.
\<close>

definition sv_wf :: "sv_state \<Rightarrow> bool" where
  "sv_wf s \<longleftrightarrow> distinct (sv_pollItems s) \<and>
     (\<forall>k. k \<in> set (sv_pollItems s) \<longleftrightarrow> map_of (serviceMapBySocket s) k \<noteq> None) \<and>
     (\<forall>k x. map_of (serviceMapBySocket s) k = Some x \<longrightarrow> sx_socket x = k) \<and>
     (\<forall>i x. map_of (serviceMapByServiceID s) i = Some x \<longrightarrow>
        sx_serviceID x = i \<and> map_of (serviceMapBySocket s) (sx_socket x) = Some x \<and>
        map_of (serviceRegistrationTimeMap s) i \<noteq> None)"

definition sv_ok :: "sv_state \<Rightarrow> sv_env \<Rightarrow> bool" where
  "sv_ok s env \<longleftrightarrow> (\<forall>r zmq_bind k. sve_command env = Some (SV_Register r zmq_bind k) \<longrightarrow>
     k \<notin> set (sv_pollItems s))"

lemma sv_wf_init: "sv_wf (sv_init d c)"
  by (simp add: sv_wf_def sv_init_def)

lemma sv_wf_reply [simp]: "sv_wf (reply_node r s) = sv_wf s"
  by (simp add: sv_wf_def reply_node_def)

lemma sv_wf_socket: "sv_wf s \<Longrightarrow> k \<in> set (sv_pollItems s) \<Longrightarrow> \<exists>x. map_of (serviceMapBySocket s) k = Some x"
  by (simp add: sv_wf_def)

lemma sv_wf_addService:
  assumes "sv_wf s" and "k \<notin> set (sv_pollItems s)"
  shows "sv_wf (addService zmq_bind k r s)"
proof -
  have "map_of (serviceMapBySocket s) k = None" using assms by (auto simp: sv_wf_def)
  then have "sx_socket x \<noteq> k" if "map_of (serviceMapByServiceID s) i = Some x" for i x
    using assms(1) that by (auto simp: sv_wf_def)
  with assms show ?thesis
    by (auto simp: sv_wf_def addService_def reply_node_def Let_def split: option.splits)
qed

lemma sv_wf_removeService:
  assumes "sv_wf s"
  shows "sv_wf (removeService i s)"
proof (cases "map_of (serviceMapByServiceID s) i")
  case (Some x)
  have "sx_socket y \<noteq> sx_socket x" if "map_of (serviceMapByServiceID s) j = Some y" "j \<noteq> i" for j y
    using assms Some that unfolding sv_wf_def by (metis option.inject)
  with Some assms show ?thesis
    by (auto simp: sv_wf_def removeService_def reply_node_def Let_def)
qed (use assms in \<open>simp add: removeService_def\<close>)

lemma sv_wf_command:
  "sv_wf s \<Longrightarrow> sv_ok s env \<Longrightarrow> sve_command env = Some c \<Longrightarrow> sv_wf (sv_command c s)"
  by (cases c) (auto simp: sv_ok_def sv_wf_addService sv_wf_removeService)

subsection \<open>Answers\<close>

definition service_of :: "socket \<Rightarrow> sv_state \<Rightarrow> ServiceDetails" where
  "service_of k s = the (map_of (serviceMapBySocket s) k)"

definition call_of :: "socket \<Rightarrow> GravityDataProductPB \<Rightarrow> sv_state \<Rightarrow> sv_call" where
  "call_of k rq s = \<lparr>call_server = sx_server (service_of k s),
     call_serviceID = sx_serviceID (service_of k s), call_request = rq\<rparr>"

text \<open>What the client at socket \<open>k\<close> gets for the request \<open>rq\<close>.\<close>

definition answer :: "(sv_call \<Rightarrow> GravityDataProductPB) \<Rightarrow> socket \<Rightarrow> GravityDataProductPB \<Rightarrow> sv_state \<Rightarrow> GravityDataProductPB" where
  "answer provider k rq s =
     (let i = sx_serviceID (service_of k s)
      in stamp_response i (if stale_request rq i s then GravityDataProduct i
                           else provider (call_of k rq s)) s)"

definition requests_of :: "sv_env \<Rightarrow> socket list \<Rightarrow> socket list \<Rightarrow> (socket \<times> GravityDataProductPB) list" where
  "requests_of env polled socks =
     concat (map (\<lambda>k. case sve_request env k of None \<Rightarrow> [] | Some rq \<Rightarrow> [(k, rq)])
       (filter (\<lambda>k. k \<in> set polled) socks))"

definition same_services :: "sv_state \<Rightarrow> sv_state \<Rightarrow> bool" where
  "same_services s s' \<longleftrightarrow> serviceMapBySocket s' = serviceMapBySocket s \<and>
     serviceMapByServiceID s' = serviceMapByServiceID s \<and> sv_pollItems s' = sv_pollItems s \<and>
     sv_domain s' = sv_domain s \<and> sv_componentID s' = sv_componentID s \<and>
     (\<forall>i. smap_at 0 (serviceRegistrationTimeMap s') i = smap_at 0 (serviceRegistrationTimeMap s) i) \<and>
     (\<forall>i. map_of (serviceRegistrationTimeMap s) i \<noteq> None \<longrightarrow>
          map_of (serviceRegistrationTimeMap s') i \<noteq> None)"

lemma same_services_refl [simp]: "same_services s s"
  by (simp add: same_services_def)

lemma same_services_trans: "same_services s t \<Longrightarrow> same_services t r \<Longrightarrow> same_services s r"
  by (simp add: same_services_def)

lemma same_services_answer:
  "same_services s s' \<Longrightarrow> answer p k rq s' = answer p k rq s \<and> call_of k rq s' = call_of k rq s \<and>
     stale_request rq (sx_serviceID (service_of k s')) s' = stale_request rq (sx_serviceID (service_of k s)) s"
  by (simp add: same_services_def answer_def call_of_def service_of_def stamp_response_def
      stale_request_def Let_def)

lemma same_services_wf: "same_services s s' \<Longrightarrow> sv_wf s \<Longrightarrow> sv_wf s'"
  by (auto simp: same_services_def sv_wf_def)

lemma answer_request_step:
  assumes "map_of (serviceMapBySocket s) k = Some x"
  shows "\<exists>s'. answer_request p rq k s = Some s' \<and> same_services s s' \<and>
     sv_responses s' = sv_responses s @ [(k, answer p k rq s)] \<and>
     sv_calls s' = sv_calls s @ (if stale_request rq (sx_serviceID (service_of k s)) s then []
                                 else [call_of k rq s])"
  using assms
  by (auto simp: answer_request_def same_services_def answer_def call_of_def service_of_def
      stamp_response_def Let_def map_of_smap_touch)

definition served :: "sv_state \<Rightarrow> socket \<times> GravityDataProductPB \<Rightarrow> bool" where
  "served s x \<longleftrightarrow> \<not> stale_request (snd x) (sx_serviceID (service_of (fst x) s)) s"

lemma answer_requests_spec:
  assumes "\<forall>k\<in>set socks. map_of (serviceMapBySocket s) k \<noteq> None"
  shows "\<exists>s'. answer_requests env polled socks s = Some s' \<and> same_services s s' \<and>
     sv_responses s' = sv_responses s @
       map (\<lambda>(k, rq). (k, answer (sve_provider env) k rq s)) (requests_of env polled socks) \<and>
     sv_calls s' = sv_calls s @
       map (\<lambda>(k, rq). call_of k rq s) (filter (served s) (requests_of env polled socks))"
  using assms
proof (induction socks arbitrary: s)
  case (Cons k socks)
  show ?case
  proof (cases "if k \<in> set polled then sve_request env k else None")
    case None
    then show ?thesis using Cons by (auto simp: requests_of_def split: if_splits)
  next
    case (Some rq)
    then have req: "requests_of env polled (k # socks) = (k, rq) # requests_of env polled socks"
      by (auto simp: requests_of_def split: if_splits)
    obtain x where "map_of (serviceMapBySocket s) k = Some x" using Cons.prems by auto
    from answer_request_step [OF this, of "sve_provider env" rq] obtain s1 where
      s1: "answer_request (sve_provider env) rq k s = Some s1" "same_services s s1"
      "sv_responses s1 = sv_responses s @ [(k, answer (sve_provider env) k rq s)]"
      "sv_calls s1 = sv_calls s @ (if served s (k, rq) then [call_of k rq s] else [])"
      by (auto simp: served_def)
    have same: "answer p j r s1 = answer p j r s" "call_of j r s1 = call_of j r s"
      "served s1 = served s" for p j r
      using same_services_answer [OF s1(2)] by (auto simp: served_def)
    have "\<forall>k\<in>set socks. map_of (serviceMapBySocket s1) k \<noteq> None"
      using Cons.prems s1(2) by (simp add: same_services_def)
    from Cons.IH [OF this] show ?thesis
      using Some s1 same_services_trans [OF s1(2)] by (auto simp: req same)
  qed
qed (simp add: requests_of_def)

definition after_command :: "sv_env \<Rightarrow> sv_state \<Rightarrow> sv_state" where
  "after_command env s = (case sve_command env of None \<Rightarrow> s | Some c \<Rightarrow> sv_command c s)"

lemma after_command_wf: "sv_wf s \<Longrightarrow> sv_ok s env \<Longrightarrow> sv_wf (after_command env s)"
  by (auto simp: after_command_def sv_wf_command split: option.splits)

lemma sv_iteration_spec:
  assumes "sv_wf s" and "sv_ok s env"
  shows "\<exists>s'. sv_iteration env s = Some s' \<and> sv_wf s' \<and> same_services (after_command env s) s' \<and>
     sv_responses s' = sv_responses (after_command env s) @
       map (\<lambda>(k, rq). (k, answer (sve_provider env) k rq (after_command env s)))
         (requests_of env (sv_pollItems s) (sv_pollItems (after_command env s))) \<and>
     sv_calls s' = sv_calls (after_command env s) @
       map (\<lambda>(k, rq). call_of k rq (after_command env s))
         (filter (served (after_command env s))
           (requests_of env (sv_pollItems s) (sv_pollItems (after_command env s))))"
proof -
  have "\<forall>k\<in>set (sv_pollItems (after_command env s)).
      map_of (serviceMapBySocket (after_command env s)) k \<noteq> None"
    using sv_wf_socket [OF after_command_wf [OF assms]] by auto
  from answer_requests_spec [OF this, of env "sv_pollItems s"] show ?thesis
    unfolding sv_iteration_def Let_def after_command_def [symmetric]
    using same_services_wf [OF _ after_command_wf [OF assms]] by blast
qed

lemma command_frame [simp]:
  "sv_responses (after_command env s) = sv_responses s" "sv_calls (after_command env s) = sv_calls s"
proof -
  have "sv_responses (sv_command c s) = sv_responses s \<and> sv_calls (sv_command c s) = sv_calls s" for c
    by (cases c) (simp_all add: addService_def removeService_def reply_node_def Let_def split: option.splits)
  then show "sv_responses (after_command env s) = sv_responses s" "sv_calls (after_command env s) = sv_calls s"
    by (simp_all add: after_command_def split: option.splits)
qed

text \<open>C16. In a turn of the service manager's loop every request that is waiting is answered once, in
  the order of the poll items; the provider of a service is called for exactly the requests that
  carry no registration time or the time of the present registration, and every answer, also the
  empty one for a request meant for an earlier registration, carries the service's present
  registration time.\<close>

theorem every_request_answered:
  assumes "sv_wf s" and "sv_ok s env"
  shows "\<exists>s'. sv_iteration env s = Some s' \<and>
     (let s1 = after_command env s; rqs = requests_of env (sv_pollItems s) (sv_pollItems s1)
      in sv_responses s' = sv_responses s @
           map (\<lambda>(k, rq). (k, answer (sve_provider env) k rq s1)) rqs \<and>
         sv_calls s' = sv_calls s @ map (\<lambda>(k, rq). call_of k rq s1) (filter (served s1) rqs) \<and>
         (\<forall>(k, rq)\<in>set rqs. getRegistrationTime (answer (sve_provider env) k rq s1) =
            smap_at 0 (serviceRegistrationTimeMap s1) (sx_serviceID (service_of k s1))))"
proof -
  have "getRegistrationTime (answer p k rq t) =
      smap_at 0 (serviceRegistrationTimeMap t) (sx_serviceID (service_of k t))" for p k rq t
    by (simp add: answer_def stamp_response_def getRegistrationTime_def setRegistrationTime_def Let_def)
  then show ?thesis using sv_iteration_spec [OF assms] by (auto simp: Let_def)
qed

definition echo_registration :: sv_registration where
  "echo_registration = \<lparr>sg_serviceID = ''Echo'', sg_transportType = ''inproc'', sg_minPort = 0,
     sg_maxPort = 0, sg_endpoint = ''echo'', sg_registrationTime = 7, sg_server = 1\<rparr>"

definition echo_state :: sv_state where
  "echo_state = addService (\<lambda>_. 0) 5 echo_registration (sv_init ''D'' ''C'')"

definition echo_env :: "u32 \<Rightarrow> sv_env" where
  "echo_env t = \<lparr>sve_command = None,
     sve_request = (\<lambda>k. Some (setRegistrationTime t (GravityDataProduct ''q''))),
     sve_provider = (\<lambda>c. setData ''answer'' (call_request c))\<rparr>"

lemma echo_state_wf: "sv_wf echo_state"
  unfolding echo_state_def by (intro sv_wf_addService sv_wf_init) (simp add: sv_init_def)

lemmas echo_simps = echo_state_def echo_env_def echo_registration_def addService_def bind_service_def
  reply_node_def sv_init_def requests_of_def served_def stale_request_def service_of_def call_of_def
  getRegistrationTime_def setRegistrationTime_def smap_at_def

theorem every_request_answered_witness:
  "\<exists>s'. sv_iteration (echo_env 8) echo_state = Some s' \<and> length (sv_responses s') = 1 \<and> sv_calls s' = []"
  using every_request_answered [OF echo_state_wf, of "echo_env 8"]
  by (auto simp: Let_def after_command_def sv_ok_def echo_simps)

subsection \<open>Runs\<close>

definition sv_next :: "sv_state \<Rightarrow> sv_env \<Rightarrow> sv_state" where
  "sv_next s env = (case sv_iteration env s of None \<Rightarrow> s | Some s1 \<Rightarrow> s1)"

interpretation sv: keeps_invariant sv_next sv_ok sv_wf
  using sv_iteration_spec by unfold_locales (fastforce simp: sv_next_def)

lemma sv_run_next:
  "sv_wf s \<Longrightarrow> admissible sv_ok sv_next s envs \<Longrightarrow> sv_run envs s = Some (foldl sv_next s envs)"
proof (induction envs arbitrary: s)
  case (Cons env envs)
  then obtain s' where "sv_iteration env s = Some s'" "sv_wf s'"
    using sv_iteration_spec [of s env] by auto
  then show ?case using Cons by (simp add: sv_next_def)
qed simp

text \<open>The service manager never reads a null pointer, and its poll items and its maps of
  services stay consistent, in every run in which \<open>zmq_socket\<close> gives new sockets.\<close>

theorem service_manager_run:
  assumes "admissible sv_ok sv_next (sv_init d c) envs"
  shows "\<exists>s. sv_run envs (sv_init d c) = Some s \<and> sv_wf s"
  using sv_run_next [OF sv_wf_init assms] sv.run_inv [OF sv_wf_init assms] by blast

theorem service_manager_run_witness:
  "\<exists>s. sv_run [(echo_env 0)\<lparr>sve_command := Some (SV_Register echo_registration (\<lambda>_. 0) 5)\<rparr>, echo_env 7]
     (sv_init ''D'' ''C'') = Some s \<and> sv_wf s"
  by (rule service_manager_run) (simp add: sv_ok_def echo_env_def sv_init_def)

end
