(* ===== verification/RequestManager.thy ===== *)
theory RequestManager
  imports Data_Products Protobufs ServiceManager
begin

section \<open>The request manager (\<open>GravityRequestManager.cpp\<close>)\<close>

text \<open>
  The thread that owns the request sockets of a node. A \<open>request\<close> command sends a data product to
  a service and remembers the requestor; the loop delivers responses, follows the placeholders of
  future responses to their sockets, calls \<open>requestTimeout\<close> for requests past their deadline and
  tells the service directory when a response comes from another registration of the service than
  the one that was looked up.

  \<open>requestMap\<close> holds shared pointers to objects that are never changed, so it holds copies, and
  \<open>None\<close> for the null pointer that \<open>operator[]\<close> inserts for an unknown socket. The poll items
  from index 2 on are \<open>rm_pollItems\<close>. The clock, new sockets, \<open>zmq_bind\<close> and received messages
  are inputs; what is sent, delivered to the requestors and closed is logged. Reading a null pointer
  and the search loop that does not advance are the errors of type \<open>rm_error\<close>. Times in
  milliseconds are \<open>int64_t\<close> values computed in doubles from a clock in microseconds; below
  \<open>2^53\<close> the truncated quotient is the integer one.
\<close>

datatype GravityReturnCode = SUCCESS | FAILURE | NO_SERVICE_DIRECTORY | REQUEST_TIMEOUT | DUPLICATE
  | REGISTRATION_CONFLICT | NOT_REGISTERED | NO_SUCH_SERVICE | LINK_ERROR | INTERRUPTED
  | NO_SERVICE_PROVIDER | NO_PORTS_AVAILABLE | INVALID_PARAMETER | NOT_INITIALIZED
  | RESERVED_DATA_PRODUCT_ID

primrec code_value :: "GravityReturnCode \<Rightarrow> int" where
  "code_value SUCCESS = 0"
| "code_value FAILURE = -1"
| "code_value NO_SERVICE_DIRECTORY = -2"
| "code_value REQUEST_TIMEOUT = -3"
| "code_value DUPLICATE = -4"
| "code_value REGISTRATION_CONFLICT = -5"
| "code_value NOT_REGISTERED = -6"
| "code_value NO_SUCH_SERVICE = -7"
| "code_value LINK_ERROR = -8"
| "code_value INTERRUPTED = -9"
| "code_value NO_SERVICE_PROVIDER = -10"
| "code_value NO_PORTS_AVAILABLE = -11"
| "code_value INVALID_PARAMETER = -12"
| "code_value NOT_INITIALIZED = -13"
| "code_value RESERVED_DATA_PRODUCT_ID = -14"

record RequestDetails =
  rd_serviceID :: string
  rd_requestID :: string
  rd_timeoutTimeMilliseconds :: int
  rd_requestor :: nat
  rd_registrationTime :: u32
  rd_url :: string

datatype rm_error = Null_pointer | Loops_forever

datatype rm_reply = Reply_string string | Reply_int int

record rm_state =
  requestMap :: "(socket, RequestDetails option) smap"
  rm_pollItems :: "socket list"
  futureResponseUrlToSocketMap :: "(string, socket) smap"
  rm_serviceDirectoryUrl :: string
  rm_sent :: "(socket \<times> string \<times> GravityDataProductPB) list"
  rm_future_requests :: "(socket \<times> string) list"
  rm_future_sent :: "(socket \<times> GravityDataProductPB) list"
  rm_filled :: "(nat \<times> string \<times> string \<times> GravityDataProductPB) list"
  rm_timeouts :: "(nat \<times> string \<times> string) list"
  rm_notices :: "(string \<times> ServiceDirectoryUnregistrationPB) list"
  rm_replies :: "rm_reply list"
  rm_closed :: "socket list"

definition rm_init :: rm_state where
  "rm_init = \<lparr>requestMap = [], rm_pollItems = [], futureResponseUrlToSocketMap = [],
     rm_serviceDirectoryUrl = '''', rm_sent = [], rm_future_requests = [], rm_future_sent = [],
     rm_filled = [], rm_timeouts = [], rm_notices = [], rm_replies = [], rm_closed = []\<rparr>"

definition millis :: "u64 \<Rightarrow> int" where
  "millis t = int (unat t div 1000)"

subsection \<open>Requests past their deadline\<close>

text \<open>
  The search for the poll item of an expired request: the iterator starts after the two internal
  sockets and is not incremented.
\<close>

partial_function (option) erase_poll_item :: "socket \<Rightarrow> nat \<Rightarrow> socket list \<Rightarrow> socket list option" where
  "erase_poll_item sock k items =
     (if k < length items
      then (if sock = items ! k then Some (take k items @ drop (Suc k) items)
            else erase_poll_item sock k items)
      else Some items)"

definition expire_request :: "socket \<Rightarrow> RequestDetails \<Rightarrow> rm_state \<Rightarrow> rm_error + rm_state" where
  "expire_request sock reqDetails s =
     (let s1 = s\<lparr>rm_timeouts := rm_timeouts s @
                  [(rd_requestor reqDetails, rd_serviceID reqDetails, rd_requestID reqDetails)]\<rparr>
      in case erase_poll_item sock 0 (rm_pollItems s1) of
           None \<Rightarrow> Inl Loops_forever
         | Some items \<Rightarrow>
             Inr (s1\<lparr>rm_pollItems := items, rm_closed := rm_closed s1 @ [sock],
                     requestMap := smap_erase sock (requestMap s1)\<rparr>))"

text \<open>
  The loop over \<open>requestMap\<close> before the poll, with \<open>nextTimeout\<close>; \<open>clock k\<close> is the time read
  when the entry of socket \<open>k\<close> is examined. Only the current entry is erased, so the entries are
  those of the map at the start.
\<close>

fun expire_requests ::
  "(socket \<Rightarrow> u64) \<Rightarrow> (socket, RequestDetails option) smap \<Rightarrow> int \<Rightarrow> rm_state \<Rightarrow> rm_error + int \<times> rm_state" where
  "expire_requests clock [] nextTimeout s = Inr (nextTimeout, s)"
| "expire_requests clock ((k, None) # es) nextTimeout s = Inl Null_pointer"
| "expire_requests clock ((k, Some rd) # es) nextTimeout s =
     (let t = rd_timeoutTimeMilliseconds rd
      in if 0 < t then
           (let currentTime = millis (clock k)
            in if t \<le> currentTime
               then (case expire_request k rd s of
                       Inl e \<Rightarrow> Inl e
                     | Inr s1 \<Rightarrow> expire_requests clock es nextTimeout s1)
               else expire_requests clock es
                      (if nextTimeout < 0 \<or> t < nextTimeout then t - currentTime else nextTimeout) s)
         else expire_requests clock es nextTimeout s)"

subsection \<open>Commands of the node\<close>

record rm_request =
  rr_serviceID :: string
  rr_url :: string
  rr_requestID :: string
  rr_timeout :: int
  rr_regTime :: u32
  rr_dataProduct :: GravityDataProductPB
  rr_requestor :: nat

definition processRequest :: "u64 \<Rightarrow> socket \<Rightarrow> rm_request \<Rightarrow> rm_state \<Rightarrow> rm_state" where
  "processRequest now reqSocket r s =
     (let timeoutTime = (if 0 < rr_timeout r then millis now + rr_timeout r else -1);
          dataProduct = setRegistrationTime (rr_regTime r) (rr_dataProduct r)
      in s\<lparr>rm_sent := rm_sent s @ [(reqSocket, rr_url r, dataProduct)],
           rm_pollItems := rm_pollItems s @ [reqSocket],
           requestMap := smap_put reqSocket
             (Some \<lparr>rd_serviceID = rr_serviceID r, rd_requestID = rr_requestID r,
                    rd_timeoutTimeMilliseconds = timeoutTime, rd_requestor = rr_requestor r,
                    rd_registrationTime = rr_regTime r, rd_url = rr_url r\<rparr>) (requestMap s)\<rparr>)"

definition createFutureResponse ::
  "(string \<Rightarrow> int) \<Rightarrow> socket \<Rightarrow> string \<Rightarrow> int \<Rightarrow> int \<Rightarrow> rm_state \<Rightarrow> rm_state" where
  "createFutureResponse zmq_bind responseSocket ip minPort maxPort s =
     (let port = bindFirstAvailablePort zmq_bind ip minPort maxPort
      in if port < 0
         then s\<lparr>rm_closed := rm_closed s @ [responseSocket], rm_replies := rm_replies s @ [Reply_string '''']\<rparr>
         else (let url = ''tcp://'' @ ip @ '':'' @ show_int port
               in s\<lparr>futureResponseUrlToSocketMap := smap_put url responseSocket (futureResponseUrlToSocketMap s),
                    rm_replies := rm_replies s @ [Reply_string url]\<rparr>))"

text \<open>The outcomes of the poll for the client's request on the future response's socket.\<close>

datatype poll_outcome = Poll_error | Poll_none | Poll_request | Poll_other

definition sendFutureResponse :: "poll_outcome \<Rightarrow> string \<Rightarrow> GravityDataProductPB \<Rightarrow> rm_state \<Rightarrow> rm_state" where
  "sendFutureResponse poll url response s =
     (case map_of (futureResponseUrlToSocketMap s) url of
        None \<Rightarrow> s
      | Some responseSocket \<Rightarrow>
          (let ret = (case poll of Poll_error \<Rightarrow> INTERRUPTED | Poll_none \<Rightarrow> REQUEST_TIMEOUT | _ \<Rightarrow> SUCCESS);
               s1 = (if poll = Poll_request
                     then s\<lparr>rm_future_sent := rm_future_sent s @ [(responseSocket, response)]\<rparr> else s)
           in s1\<lparr>rm_replies := rm_replies s1 @ [Reply_int (code_value ret)],
                 rm_closed := rm_closed s1 @ [responseSocket],
                 futureResponseUrlToSocketMap := smap_erase url (futureResponseUrlToSocketMap s1)\<rparr>))"

datatype rm_cmd = RM_Request rm_request u64 socket | RM_SetDirectoryUrl string | RM_Unknown string

datatype rm_future_cmd = RM_CreateFuture "string \<Rightarrow> int" socket string int int
  | RM_SendFuture poll_outcome string GravityDataProductPB | RM_OtherFuture

fun rm_command :: "rm_cmd \<Rightarrow> rm_state \<Rightarrow> rm_state" where
  "rm_command (RM_Request r now sock) s = processRequest now sock r s"
| "rm_command (RM_SetDirectoryUrl url) s = s\<lparr>rm_serviceDirectoryUrl := url\<rparr>"
| "rm_command (RM_Unknown c) s = s"

fun rm_future_command :: "rm_future_cmd \<Rightarrow> rm_state \<Rightarrow> rm_state" where
  "rm_future_command (RM_CreateFuture zmq_bind sock ip minPort maxPort) s =
     createFutureResponse zmq_bind sock ip minPort maxPort s"
| "rm_future_command (RM_SendFuture poll url response) s = sendFutureResponse poll url response s"
| "rm_future_command RM_OtherFuture s = s"

subsection \<open>Responses\<close>

definition stale_service_notice :: "string \<Rightarrow> string \<Rightarrow> u32 \<Rightarrow> ServiceDirectoryUnregistrationPB" where
  "stale_service_notice serviceId url regTime =
     \<lparr>ur_id = serviceId, ur_url = url, ur_type = Some SERVICE, ur_domain = None,
      ur_registration_time = Some regTime\<rparr>"

definition notifyStaleService :: "string \<Rightarrow> string \<Rightarrow> u32 \<Rightarrow> rm_state \<Rightarrow> rm_state" where
  "notifyStaleService serviceId url regTime s =
     s\<lparr>rm_notices := rm_notices s @
        [(rm_serviceDirectoryUrl s, stale_service_notice serviceId url regTime)]\<rparr>"

definition follow_future :: "socket \<Rightarrow> GravityDataProductPB \<Rightarrow> socket \<Rightarrow> rm_state \<Rightarrow> rm_state" where
  "follow_future newSocket response sock s =
     (let s1 = s\<lparr>rm_future_requests :=
                  rm_future_requests s @ [(newSocket, field '''' (dp_future_socket_url response))],
                requestMap := smap_touch sock None (requestMap s)\<rparr>
      in s1\<lparr>requestMap := smap_put newSocket (smap_at None (requestMap s1) sock) (requestMap s1)\<rparr>)"

definition deliver_response ::
  "GravityDataProductPB \<Rightarrow> RequestDetails \<Rightarrow> rm_state \<Rightarrow> rm_state" where
  "deliver_response response rd s =
     (if getRegistrationTime response \<noteq> rd_registrationTime rd
      then (if 0 < getRegistrationTime response
            then notifyStaleService (rd_serviceID rd) (rd_url rd) (rd_registrationTime rd) s
            else s)
      else s\<lparr>rm_filled := rm_filled s @
              [(rd_requestor rd, rd_serviceID rd, rd_requestID rd, response)]\<rparr>)"

text \<open>The result has the sockets of \<open>newPollItems\<close> as its second component.\<close>

definition on_response ::
  "socket \<Rightarrow> GravityDataProductPB \<Rightarrow> socket \<Rightarrow> rm_state \<Rightarrow> rm_error + rm_state \<times> socket list" where
  "on_response newSocket response sock s =
     (let close = (\<lambda>s. s\<lparr>rm_closed := rm_closed s @ [sock], requestMap := smap_erase sock (requestMap s)\<rparr>)
      in if isFutureResponse response
         then Inr (close (follow_future newSocket response sock s), [newSocket])
         else (case smap_at None (requestMap s) sock of
                 None \<Rightarrow> Inl Null_pointer
               | Some rd \<Rightarrow> Inr (close (deliver_response response rd s), [])))"

record rm_env =
  rme_clock :: "socket \<Rightarrow> u64"
  rme_command :: "rm_cmd option"
  rme_future :: "rm_future_cmd option"
  rme_response :: "socket \<Rightarrow> GravityDataProductPB option"
  rme_new_socket :: "socket \<Rightarrow> socket"

text \<open>
  The loop over the poll items: \<open>kept\<close> are the items before the iterator, \<open>newItems\<close> is
  \<open>newPollItems\<close>, and the items that a command has just added (not in \<open>polled\<close>) have no event.
\<close>

fun read_responses ::
  "rm_env \<Rightarrow> socket list \<Rightarrow> socket list \<Rightarrow> socket list \<Rightarrow> socket list \<Rightarrow> rm_state \<Rightarrow> rm_error + rm_state" where
  "read_responses env polled kept newItems [] s = Inr (s\<lparr>rm_pollItems := kept @ newItems\<rparr>)"
| "read_responses env polled kept newItems (sock # socks) s =
     (case (if sock \<in> set polled then rme_response env sock else None) of
        None \<Rightarrow> read_responses env polled (kept @ [sock]) newItems socks s
      | Some response \<Rightarrow>
          (case on_response (rme_new_socket env sock) response sock s of
             Inl e \<Rightarrow> Inl e
           | Inr (s1, fresh) \<Rightarrow> read_responses env polled kept (newItems @ fresh) socks s1))"

definition rm_commands :: "rm_env \<Rightarrow> rm_state \<Rightarrow> rm_state" where
  "rm_commands env s =
     (let s1 = (case rme_command env of None \<Rightarrow> s | Some c \<Rightarrow> rm_command c s)
      in case rme_future env of None \<Rightarrow> s1 | Some c \<Rightarrow> rm_future_command c s1)"

text \<open>A turn of the loop; the first component of the result is the timeout of its poll.\<close>

definition rm_iteration :: "rm_env \<Rightarrow> rm_state \<Rightarrow> rm_error + int \<times> rm_state" where
  "rm_iteration env s =
     (case expire_requests (rme_clock env) (requestMap s) (-1) s of
        Inl e \<Rightarrow> Inl e
      | Inr (nextTimeout, s1) \<Rightarrow>
          (let s2 = rm_commands env s1
           in case read_responses env (rm_pollItems s1) [] [] (rm_pollItems s2) s2 of
                Inl e \<Rightarrow> Inl e
              | Inr s3 \<Rightarrow> Inr (nextTimeout, s3)))"

fun rm_run :: "rm_env list \<Rightarrow> rm_state \<Rightarrow> rm_error + rm_state" where
  "rm_run [] s = Inr s"
| "rm_run (env # envs) s =
     (case rm_iteration env s of Inl e \<Rightarrow> Inl e | Inr (nextTimeout, s1) \<Rightarrow> rm_run envs s1)"

end
