(* ===== verification/Request_Correct.thy ===== *)
theory Request_Correct
  imports RequestManager "HOL-Library.Multiset"
begin

section \<open>Correctness of the request manager\<close>

text \<open>
  The poll items are the keys of \<open>requestMap\<close> and no entry is null. In every run that does not hang
  each request leads to at most one call of its requestor: a response with the registration time
  that was asked for, or a timeout. The search loop of the expiry hangs as soon as an expired request
  is not the first poll item, and the timeout of the poll is the one of the first pending request,
  not the earliest.
\<close>

subsection \<open>The search for an expired request's poll item\<close>

lemma erase_poll_item_first [simp]:
  "erase_poll_item k 0 [] = Some []" "erase_poll_item k 0 (k # ks) = Some ks"
  by (simp_all add: erase_poll_item.simps)

lemma erase_poll_item_returns:
  assumes "erase_poll_item sock i items = Some r"
  shows "i < length items \<longrightarrow> sock = items ! i"
  using assms
proof (rule erase_poll_item.raw_induct [rotated])
  fix rec sock i items r
  assume ih: "\<And>sock i items r. rec sock i items = Some r \<Longrightarrow> i < length items \<longrightarrow> sock = items ! i"
    and step: "(if i < length items
       then if sock = items ! i then Some (take i items @ drop (Suc i) items) else rec sock i items
       else Some items) = Some r"
  show "i < length items \<longrightarrow> sock = items ! i"
    using step ih by (auto split: if_splits)
qed

lemma erase_poll_item_hangs: "j \<noteq> k \<Longrightarrow> erase_poll_item k 0 (j # ks) = None"
  using erase_poll_item_returns [of k 0 "j # ks"] by (cases "erase_poll_item k 0 (j # ks)") auto

definition expired :: "(socket \<Rightarrow> u64) \<Rightarrow> socket \<Rightarrow> RequestDetails \<Rightarrow> bool" where
  "expired clock k rd \<longleftrightarrow> 0 < rd_timeoutTimeMilliseconds rd \<and>
     rd_timeoutTimeMilliseconds rd \<le> millis (clock k)"

lemma expire_requests_Cons:
  "expire_requests clock ((k, Some rd) # es) nt s =
     (if expired clock k rd
      then (case expire_request k rd s of Inl e \<Rightarrow> Inl e | Inr s1 \<Rightarrow> expire_requests clock es nt s1)
      else expire_requests clock es
             (if 0 < rd_timeoutTimeMilliseconds rd \<and>
                 (nt < 0 \<or> rd_timeoutTimeMilliseconds rd < nt)
              then rd_timeoutTimeMilliseconds rd - millis (clock k) else nt) s)"
  by (simp add: expired_def Let_def)

lemma expire_requests_hang:
  assumes "\<forall>(j, x)\<in>set pre. \<exists>rd. x = Some rd \<and> \<not> expired clock j rd"
    and "expired clock k rd" and "rm_pollItems s = i # items" and "i \<noteq> k"
  shows "expire_requests clock (pre @ (k, Some rd) # post) nt s = Inl Loops_forever"
  using assms
proof (induction pre arbitrary: nt)
  case Nil
  then show ?case
    by (simp add: expire_requests_Cons erase_poll_item_hangs expire_request_def del: expire_requests.simps)
next
  case (Cons e pre)
  then show ?case by (cases e) (auto simp: expire_requests_Cons simp del: expire_requests.simps(3))
qed

text \<open>C31. The request manager hangs when the first expired request in the order of \<open>requestMap\<close> is
  not the first poll item: its thread does not get past the expiry of requests.\<close>

theorem expiry_hangs:
  assumes "requestMap s = pre @ (k, Some rd) # post"
    and "\<forall>(j, x)\<in>set pre. \<exists>rd. x = Some rd \<and> \<not> expired (rme_clock env) j rd"
    and "expired (rme_clock env) k rd" and "rm_pollItems s = i # items" and "i \<noteq> k"
  shows "rm_iteration env s = Inl Loops_forever"
  using expire_requests_hang [OF assms(2-5), of post] by (simp add: rm_iteration_def assms(1))

definition sample_request :: "string \<Rightarrow> int \<Rightarrow> rm_request" where
  "sample_request i t = \<lparr>rr_serviceID = ''S'', rr_url = ''tcp://h:1'', rr_requestID = i, rr_timeout = t,
     rr_regTime = 7, rr_dataProduct = GravityDataProduct ''q'', rr_requestor = 1\<rparr>"

definition two_requests :: rm_state where
  "two_requests = processRequest 1000 6 (sample_request ''b'' 1)
     (processRequest 1000 5 (sample_request ''a'' 9000) rm_init)"

definition quiet_rm_env :: "u64 \<Rightarrow> rm_env" where
  "quiet_rm_env t = \<lparr>rme_clock = (\<lambda>_. t), rme_command = None, rme_future = None,
     rme_response = (\<lambda>_. None), rme_new_socket = (\<lambda>k. k + 100)\<rparr>"

lemmas two_requests_simps = two_requests_def processRequest_def sample_request_def rm_init_def
  quiet_rm_env_def expired_def millis_def

theorem expiry_hangs_witness: "rm_iteration (quiet_rm_env 3000) two_requests = Inl Loops_forever"
  by (rule expiry_hangs [where pre = "take 1 (requestMap two_requests)" and k = 6 and i = 5 and post = "[]"
        and rd = "the (snd (requestMap two_requests ! 1))" and items = "[6]"])
    (simp_all add: two_requests_simps)

definition overdue :: "(socket \<Rightarrow> u64) \<Rightarrow> (socket, RequestDetails option) smap \<Rightarrow> (socket, RequestDetails option) smap" where
  "overdue clock m = filter (\<lambda>(k, x). expired clock k (the x)) m"

definition caller :: "RequestDetails \<Rightarrow> nat \<times> string \<times> string" where
  "caller rd = (rd_requestor rd, rd_serviceID rd, rd_requestID rd)"

text \<open>The state after the requests \<open>late\<close> have expired: \<open>m\<close> are the remaining ones.\<close>

definition after_expiry :: "(socket, RequestDetails option) smap \<Rightarrow> socket list \<Rightarrow>
  (socket, RequestDetails option) smap \<Rightarrow> rm_state \<Rightarrow> rm_state" where
  "after_expiry late items m s =
     s\<lparr>rm_timeouts := rm_timeouts s @ map (\<lambda>x. caller (the (snd x))) late, rm_pollItems := items,
       rm_closed := rm_closed s @ map fst late, requestMap := m\<rparr>"

lemma smap_erase_distinct:
  assumes "distinct (map fst (xs @ (k, v) # ys))"
  shows "smap_erase k (xs @ (k, v) # ys) = xs @ ys"
proof -
  have "filter (\<lambda>p. fst p \<noteq> k) xs = xs" "filter (\<lambda>p. fst p \<noteq> k) ys = ys"
    using assms by (auto simp: filter_id_conv image_iff)
  then show ?thesis by (simp add: smap_erase_def)
qed

lemma expire_first:
  assumes "distinct (map fst (xs @ (k, Some rd) # es))" and "requestMap s = xs @ (k, Some rd) # es"
    and "rm_pollItems s = k # items"
  shows "expire_request k rd s = Inr (after_expiry [(k, Some rd)] items (xs @ es) s)"
  using assms by (simp add: expire_request_def after_expiry_def caller_def Let_def smap_erase_distinct)

lemma expire_requests_returns:
  assumes "distinct (map fst (xs @ es))" and "\<forall>(k, x)\<in>set es. x \<noteq> None" and "requestMap s = xs @ es"
    and "rm_pollItems s = map fst (overdue clock es) @ rest"
  shows "\<exists>nt'. expire_requests clock es nt s = Inr (nt', after_expiry (overdue clock es) rest
     (xs @ filter (\<lambda>(k, x). \<not> expired clock k (the x)) es) s)"
  using assms
proof (induction es arbitrary: xs nt s)
  case (Cons e es)
  then obtain k rd where e: "e = (k, Some rd)" by (cases e) auto
  note step = expire_requests_Cons [of clock k rd es nt s]
  show ?case
  proof (cases "expired clock k rd")
    case True
    let ?items = "map fst (overdue clock es) @ rest"
    let ?s = "after_expiry [(k, Some rd)] ?items (xs @ es) s"
    have "expire_request k rd s = Inr ?s"
      using Cons.prems e True by (intro expire_first) (auto simp: overdue_def)
    then have "expire_requests clock (e # es) nt s = expire_requests clock es nt ?s"
      using step True e by simp
    moreover obtain nt' where "expire_requests clock es nt ?s = Inr (nt', after_expiry (overdue clock es) rest
       (xs @ filter (\<lambda>(k, x). \<not> expired clock k (the x)) es) ?s)"
      using Cons.IH [of xs ?s nt] Cons.prems e by (auto simp: after_expiry_def)
    ultimately show ?thesis using e True by (simp add: after_expiry_def overdue_def)
  next
    case False
    then show ?thesis
      using Cons.IH [of "xs @ [(k, Some rd)]" s] Cons.prems e step by (auto simp: overdue_def)
  qed
qed (simp add: after_expiry_def overdue_def)

text \<open>C32. When the expired requests are the first poll items, in the order of \<open>requestMap\<close>, the
  expiry returns: each requestor's \<open>requestTimeout\<close> is called once, exactly the expired requests are
  forgotten and their sockets closed, and the other requests stay as they were.\<close>

theorem expiry_returns:
  assumes "smap_wf (requestMap s)" and "\<forall>(k, x)\<in>set (requestMap s). x \<noteq> None"
    and "rm_pollItems s = map fst (overdue clock (requestMap s)) @ rest"
  shows "\<exists>nt s'. expire_requests clock (requestMap s) (-1) s = Inr (nt, s') \<and>
     rm_timeouts s' = rm_timeouts s @ map (\<lambda>x. caller (the (snd x))) (overdue clock (requestMap s)) \<and>
     requestMap s' = filter (\<lambda>(k, x). \<not> expired clock k (the x)) (requestMap s) \<and>
     rm_pollItems s' = rest \<and>
     rm_closed s' = rm_closed s @ map fst (overdue clock (requestMap s)) \<and>
     rm_filled s' = rm_filled s \<and> rm_sent s' = rm_sent s"
  using expire_requests_returns [of "[]" "requestMap s" s clock rest "-1"] assms
    smap_wf_distinct [OF assms(1)]
  by (auto simp: after_expiry_def)

theorem expiry_returns_witness:
  "\<exists>nt s'. expire_requests (\<lambda>_. 9002000) (requestMap two_requests) (-1) two_requests = Inr (nt, s') \<and>
     rm_timeouts s' = [(1, ''S'', ''a''), (1, ''S'', ''b'')] \<and> requestMap s' = []"
proof -
  have "smap_wf (requestMap two_requests)" "\<forall>(k, x)\<in>set (requestMap two_requests). x \<noteq> None"
    "rm_pollItems two_requests = map fst (overdue (\<lambda>_. 9002000) (requestMap two_requests)) @ []"
    by (simp_all add: two_requests_simps overdue_def smap_wf_def)
  from expiry_returns [OF this] show ?thesis
    by (auto simp: two_requests_simps overdue_def caller_def)
qed

subsection \<open>The timeout of the poll\<close>

text \<open>The timeout of the poll is the remaining time of the first pending request in the order of
  \<open>requestMap\<close>, because the deadlines of the others are compared with a duration: a request further
  on with an earlier deadline is not waited for (deadlines are further from 1970 than the longest
  remaining time).\<close>

theorem poll_waits_for_first:
  assumes "\<forall>(j, x)\<in>set ((k, Some rd) # es). \<exists>r. x = Some r \<and>
      millis (clock j) < rd_timeoutTimeMilliseconds r"
    and "\<forall>(j, x)\<in>set es. rd_timeoutTimeMilliseconds rd - millis (clock k) \<le>
      rd_timeoutTimeMilliseconds (the x)"
  shows "expire_requests clock ((k, Some rd) # es) (-1) s =
     Inr (rd_timeoutTimeMilliseconds rd - millis (clock k), s)"
proof -
  have idle: "expire_requests clock xs nt s = Inr (nt, s)"
    if "0 \<le> nt" "\<forall>(j, x)\<in>set xs. \<exists>r. x = Some r \<and> millis (clock j) < rd_timeoutTimeMilliseconds r \<and>
      nt \<le> rd_timeoutTimeMilliseconds r" for xs nt
    using that
  proof (induction xs)
    case (Cons e xs)
    then show ?case by (cases e) (auto simp: Let_def)
  qed simp
  have "0 < rd_timeoutTimeMilliseconds rd"
    using assms(1) by (simp add: millis_def)
  then show ?thesis
    using idle [of "rd_timeoutTimeMilliseconds rd - millis (clock k)" es] assms
    by (fastforce simp: Let_def)
qed

theorem poll_waits_for_first_witness:
  "expire_requests (\<lambda>_. 1000000) (requestMap (processRequest 1000000 6 (sample_request ''b'' 1)
     (processRequest 1000000 5 (sample_request ''a'' 900) rm_init))) (-1) rm_init = Inr (900, rm_init)"
  using poll_waits_for_first [of 5 "\<lparr>rd_serviceID = ''S'', rd_requestID = ''a'',
      rd_timeoutTimeMilliseconds = 1900, rd_requestor = 1, rd_registrationTime = 7, rd_url = ''tcp://h:1''\<rparr>"
      "[(6, Some \<lparr>rd_serviceID = ''S'', rd_requestID = ''b'', rd_timeoutTimeMilliseconds = 1001,
         rd_requestor = 1, rd_registrationTime = 7, rd_url = ''tcp://h:1''\<rparr>)]" "\<lambda>_. 1000000" rm_init]
  by (simp add: two_requests_simps)

subsection \<open>The invariant\<close>

definition rm_wf :: "rm_state \<Rightarrow> bool" where
  "rm_wf s \<longleftrightarrow> smap_wf (requestMap s) \<and> distinct (rm_pollItems s) \<and>
     (\<forall>k. k \<in> set (rm_pollItems s) \<longleftrightarrow> map_of (requestMap s) k \<noteq> None) \<and>
     (\<forall>k. map_of (requestMap s) k \<noteq> Some None)"

text \<open>New sockets are new, and different from each other.\<close>

definition command_socket :: "rm_env \<Rightarrow> socket set" where
  "command_socket env = (case rme_command env of Some (RM_Request r now k) \<Rightarrow> {k} | _ \<Rightarrow> {})"

definition rm_ok :: "rm_state \<Rightarrow> rm_env \<Rightarrow> bool" where
  "rm_ok s env \<longleftrightarrow> inj_on (rme_new_socket env) (set (rm_pollItems s)) \<and>
     command_socket env \<inter> set (rm_pollItems s) = {} \<and>
     rme_new_socket env ` set (rm_pollItems s) \<inter> (set (rm_pollItems s) \<union> command_socket env) = {}"

lemma rm_wf_init: "rm_wf rm_init"
  by (simp add: rm_wf_def rm_init_def)

lemma rm_wf_entry: "rm_wf s \<Longrightarrow> k \<in> set (rm_pollItems s) \<Longrightarrow> \<exists>rd. map_of (requestMap s) k = Some (Some rd)"
  unfolding rm_wf_def by (metis not_None_eq)

text \<open>
  A request is followed through its life by its ticket: who asked, for what, and the registration
  time of the service it was sent to.
\<close>

type_synonym ticket = "(nat \<times> string \<times> string) \<times> u32"

definition ticket :: "RequestDetails \<Rightarrow> ticket" where
  "ticket rd = (caller rd, rd_registrationTime rd)"

definition pending :: "rm_state \<Rightarrow> ticket multiset" where
  "pending s = mset (map (\<lambda>(k, x). ticket (the x)) (requestMap s))"

definition delivered :: "rm_state \<Rightarrow> ticket multiset" where
  "delivered s = mset (map (\<lambda>(r, i, q, p). ((r, i, q), getRegistrationTime p)) (rm_filled s))"

text \<open>All that is known of the requests \<open>R\<close> made so far: delivered, timed out (\<open>E\<close>) or pending.\<close>

definition accounted :: "ticket multiset \<Rightarrow> rm_state \<Rightarrow> bool" where
  "accounted R s \<longleftrightarrow> (\<exists>E. delivered s + E + pending s \<subseteq># R \<and> image_mset fst E = mset (rm_timeouts s))"

lemma mset_smap_put: "map_of m k = None \<Longrightarrow> mset (smap_put k v m) = add_mset (k, v) (mset m)"
  by (induction m) (auto split: if_splits)

lemma mset_smap_erase:
  assumes "smap_wf m" and "map_of m k = Some v"
  shows "mset m = add_mset (k, v) (mset (smap_erase k m))"
proof -
  obtain xs ys where m: "m = xs @ (k, v) # ys"
    using map_of_SomeD [OF assms(2)] by (auto simp: in_set_conv_decomp)
  then have "smap_erase k m = xs @ ys"
    using smap_wf_distinct [OF assms(1)] by (simp only: smap_erase_distinct)
  then show ?thesis using m by simp
qed

lemma pending_put:
  "map_of (requestMap s) k = None \<Longrightarrow>
     pending (s\<lparr>requestMap := smap_put k (Some rd) (requestMap s)\<rparr>) = add_mset (ticket rd) (pending s)"
  by (simp add: pending_def mset_smap_put)

lemma pending_erase:
  "smap_wf (requestMap s) \<Longrightarrow> map_of (requestMap s) k = Some (Some rd) \<Longrightarrow>
     pending s = add_mset (ticket rd) (pending (s\<lparr>requestMap := smap_erase k (requestMap s)\<rparr>))"
  using mset_smap_erase [of "requestMap s" k "Some rd"] by (simp add: pending_def)

subsection \<open>Steps keep the invariant and the account\<close>

definition good :: "ticket multiset \<Rightarrow> rm_state \<Rightarrow> bool" where
  "good R s \<longleftrightarrow> rm_wf s \<and> accounted R s"

lemma goodD: "good R s \<Longrightarrow> smap_wf (requestMap s)" "good R s \<Longrightarrow> rm_wf s"
  by (simp_all add: good_def rm_wf_def)

lemma accounted_expired:
  assumes "accounted R s" and "smap_wf (requestMap s)" and "map_of (requestMap s) k = Some (Some rd)"
    and "requestMap s' = smap_erase k (requestMap s)" and "rm_filled s' = rm_filled s"
    and "rm_timeouts s' = rm_timeouts s @ [caller rd]"
  shows "accounted R s'"
proof -
  obtain E where E: "delivered s + E + pending s \<subseteq># R" "image_mset fst E = mset (rm_timeouts s)"
    using assms(1) by (auto simp: accounted_def)
  have "pending s = add_mset (ticket rd) (pending s')"
    using pending_erase [OF assms(2,3)] assms(4) by (simp add: pending_def)
  moreover have "delivered s' = delivered s" using assms(5) by (simp add: delivered_def)
  ultimately have "delivered s' + add_mset (ticket rd) E + pending s' \<subseteq># R" using E(1) by simp
  moreover have "image_mset fst (add_mset (ticket rd) E) = mset (rm_timeouts s')"
    using E(2) assms(6) by (simp add: ticket_def)
  ultimately show ?thesis unfolding accounted_def by blast
qed

lemma accounted_answered:
  assumes "accounted R s" and "smap_wf (requestMap s)" and "map_of (requestMap s) k = Some (Some rd)"
    and "requestMap s' = smap_erase k (requestMap s)" and "rm_timeouts s' = rm_timeouts s"
    and "delivered s' \<subseteq># add_mset (ticket rd) (delivered s)"
  shows "accounted R s'"
proof -
  obtain E where E: "delivered s + E + pending s \<subseteq># R" "image_mset fst E = mset (rm_timeouts s)"
    using assms(1) by (auto simp: accounted_def)
  have "pending s = add_mset (ticket rd) (pending s')"
    using pending_erase [OF assms(2,3)] assms(4) by (simp add: pending_def)
  then have all: "delivered s + E + pending s = add_mset (ticket rd) (delivered s) + E + pending s'" by simp
  have "delivered s' + E + pending s' \<subseteq># add_mset (ticket rd) (delivered s) + E + pending s'"
    using assms(6) by (intro subset_mset.add_mono) simp_all
  then have "delivered s' + E + pending s' \<subseteq># R"
    using E(1) unfolding all by (rule subset_mset.order_trans)
  then show ?thesis using E(2) assms(5) by (auto simp: accounted_def)
qed

lemma expire_request_good:
  assumes "good R s" and "map_of (requestMap s) k = Some (Some rd)" and "expire_request k rd s = Inr s'"
  shows "good R s'" and "requestMap s' = smap_erase k (requestMap s)"
    and "set (rm_pollItems s') \<subseteq> set (rm_pollItems s)"
proof -
  obtain items where items: "erase_poll_item k 0 (rm_pollItems s) = Some items"
    using assms(3) by (auto simp: expire_request_def Let_def split: option.splits)
  have "k \<in> set (rm_pollItems s)" using assms(1,2) by (simp add: good_def rm_wf_def)
  then have first: "rm_pollItems s = k # items"
    using erase_poll_item_returns [OF items] items by (cases "rm_pollItems s") auto
  show erased: "requestMap s' = smap_erase k (requestMap s)"
    and "set (rm_pollItems s') \<subseteq> set (rm_pollItems s)"
    using assms(3) first by (auto simp: expire_request_def Let_def)
  have "rm_filled s' = rm_filled s" "rm_timeouts s' = rm_timeouts s @ [caller rd]" "rm_pollItems s' = items"
    using assms(3) first by (auto simp: expire_request_def Let_def caller_def)
  moreover have "rm_wf s'"
    using assms(1) first \<open>rm_pollItems s' = items\<close> by (auto simp: good_def rm_wf_def erased)
  ultimately show "good R s'"
    using accounted_expired [OF _ goodD(1) [OF assms(1)] assms(2) erased] assms(1) by (simp add: good_def)
qed

lemma expire_requests_good:
  assumes "good R s" and "\<forall>(k, x)\<in>set es. map_of (requestMap s) k = Some x" and "distinct (map fst es)"
  shows "case expire_requests clock es nt s of Inl e \<Rightarrow> e = Loops_forever
     | Inr (nt', s') \<Rightarrow> good R s' \<and> set (rm_pollItems s') \<subseteq> set (rm_pollItems s)"
  using assms
proof (induction es arbitrary: nt s)
  case (Cons e es)
  obtain k x where kx: "e = (k, x)" "map_of (requestMap s) k = Some x" using Cons.prems(2) by (cases e) auto
  moreover have "map_of (requestMap s) k \<noteq> Some None" using Cons.prems(1) by (simp add: good_def rm_wf_def)
  ultimately obtain rd where e: "e = (k, Some rd)" "map_of (requestMap s) k = Some (Some rd)"
    by (cases x) auto
  show ?case
  proof (cases "expired clock k rd")
    case True
    show ?thesis
    proof (cases "expire_request k rd s")
      case (Inl err)
      then show ?thesis using e True
        by (auto simp: expire_requests_Cons expire_request_def Let_def simp del: expire_requests.simps(3)
            split: option.splits)
    next
      case (Inr s')
      note step = expire_request_good [OF Cons.prems(1) e(2) Inr]
      have "\<forall>(j, x)\<in>set es. map_of (requestMap s') j = Some x"
        using Cons.prems(2,3) e step(2) by (force simp: image_iff)
      from Cons.IH [OF step(1) this] Cons.prems(3) show ?thesis
        using e True Inr step(3)
        by (fastforce simp: expire_requests_Cons simp del: expire_requests.simps(3) split: sum.splits prod.splits)
    qed
  next
    case False
    then show ?thesis
      using Cons e by (simp add: expire_requests_Cons del: expire_requests.simps(3))
  qed
qed simp

definition requested :: "rm_env \<Rightarrow> ticket multiset" where
  "requested env = (case rme_command env of
     Some (RM_Request r now k) \<Rightarrow> {#((rr_requestor r, rr_serviceID r, rr_requestID r), rr_regTime r)#}
   | _ \<Rightarrow> {#})"

lemma good_frame:
  "good R s \<Longrightarrow> requestMap s' = requestMap s \<Longrightarrow> rm_pollItems s' = rm_pollItems s \<Longrightarrow>
     rm_filled s' = rm_filled s \<Longrightarrow> rm_timeouts s' = rm_timeouts s \<Longrightarrow> good R s'"
  by (simp add: good_def rm_wf_def accounted_def delivered_def pending_def)

lemma good_processRequest:
  assumes "good R s" and "k \<notin> set (rm_pollItems s)"
  shows "good (add_mset ((rr_requestor r, rr_serviceID r, rr_requestID r), rr_regTime r) R)
     (processRequest now k r s)"
proof -
  have fresh: "map_of (requestMap s) k = None" using assms by (simp add: good_def rm_wf_def)
  let ?s = "processRequest now k r s"
  have "pending ?s = add_mset ((rr_requestor r, rr_serviceID r, rr_requestID r), rr_regTime r) (pending s)"
    using fresh by (simp add: pending_def processRequest_def mset_smap_put ticket_def caller_def)
  moreover have "delivered ?s = delivered s" "rm_timeouts ?s = rm_timeouts s"
    by (simp_all add: delivered_def processRequest_def)
  ultimately have "accounted (add_mset ((rr_requestor r, rr_serviceID r, rr_requestID r), rr_regTime r) R) ?s"
    using assms(1) by (auto simp: good_def accounted_def add.assoc)
  moreover have "rm_wf ?s" using assms by (auto simp: good_def rm_wf_def processRequest_def)
  ultimately show ?thesis by (simp add: good_def)
qed

lemma rm_commands_good:
  assumes "good R s" and "command_socket env \<inter> set (rm_pollItems s) = {}"
  shows "good (R + requested env) (rm_commands env s)"
    and "set (rm_pollItems (rm_commands env s)) = set (rm_pollItems s) \<union> command_socket env"
proof -
  let ?s = "case rme_command env of None \<Rightarrow> s | Some c \<Rightarrow> rm_command c s"
  have s: "good (R + requested env) ?s \<and> set (rm_pollItems ?s) = set (rm_pollItems s) \<union> command_socket env"
  proof (cases "rme_command env")
    case (Some c)
    then show ?thesis using assms good_processRequest [OF assms(1)]
      by (cases c)
        (auto simp: requested_def command_socket_def processRequest_def intro: good_frame)
  qed (use assms in \<open>simp add: requested_def command_socket_def\<close>)
  have "requestMap (rm_future_command c t) = requestMap t \<and> rm_pollItems (rm_future_command c t) = rm_pollItems t \<and>
      rm_filled (rm_future_command c t) = rm_filled t \<and> rm_timeouts (rm_future_command c t) = rm_timeouts t" for c t
    by (cases c)
      (simp_all add: createFutureResponse_def sendFutureResponse_def Let_def split: option.splits)
  then show "good (R + requested env) (rm_commands env s)"
    and "set (rm_pollItems (rm_commands env s)) = set (rm_pollItems s) \<union> command_socket env"
    using s by (auto simp: rm_commands_def Let_def intro: good_frame split: option.splits)
qed

subsection \<open>Responses\<close>

lemma good_drop:
  assumes "good R (s\<lparr>rm_pollItems := xs @ k # ys\<rparr>)" and "map_of (requestMap s) k = Some (Some rd)"
    and "requestMap s' = smap_erase k (requestMap s)" and "rm_timeouts s' = rm_timeouts s"
    and "delivered s' \<subseteq># add_mset (ticket rd) (delivered s)"
  shows "good R (s'\<lparr>rm_pollItems := xs @ ys\<rparr>)"
proof -
  let ?s = "s\<lparr>rm_pollItems := xs @ k # ys\<rparr>" and ?s' = "s'\<lparr>rm_pollItems := xs @ ys\<rparr>"
  have same: "delivered ?s = delivered s" "delivered ?s' = delivered s'" by (simp_all add: delivered_def)
  have "accounted R ?s'"
  proof (rule accounted_answered [of R ?s k rd])
    show "accounted R ?s" using assms(1) by (simp add: good_def)
    show "smap_wf (requestMap ?s)" using goodD(1) [OF assms(1)] .
    show "delivered ?s' \<subseteq># add_mset (ticket rd) (delivered ?s)" unfolding same by (rule assms(5))
  qed (use assms(2-4) in simp_all)
  moreover have "rm_wf ?s'" using assms(1,3) by (auto simp: good_def rm_wf_def)
  ultimately show ?thesis by (simp add: good_def)
qed

lemma delivered_deliver_response:
  "delivered (deliver_response p rd s) \<subseteq># add_mset (ticket rd) (delivered s)"
  by (auto simp: deliver_response_def notifyStaleService_def delivered_def ticket_def caller_def)

lemma deliver_response_frame:
  "requestMap (deliver_response p rd s) = requestMap s"
  "rm_timeouts (deliver_response p rd s) = rm_timeouts s"
  by (simp_all add: deliver_response_def notifyStaleService_def)

lemma good_move:
  assumes "good R (s\<lparr>rm_pollItems := xs @ k # ys\<rparr>)" and "map_of (requestMap s) k = Some (Some rd)"
    and "n \<notin> set (xs @ k # ys)"
    and "requestMap s' = smap_erase k (smap_put n (Some rd) (requestMap s))"
    and "rm_timeouts s' = rm_timeouts s" and "rm_filled s' = rm_filled s"
    and "set zs = insert n (set (xs @ ys))" and "distinct zs"
  shows "good R (s'\<lparr>rm_pollItems := zs\<rparr>)"
proof -
  let ?s = "s\<lparr>rm_pollItems := xs @ k # ys\<rparr>" and ?s' = "s'\<lparr>rm_pollItems := zs\<rparr>"
  have wf: "rm_wf ?s" using assms(1) by (simp add: good_def)
  have "n \<in> set (rm_pollItems ?s) \<longleftrightarrow> map_of (requestMap ?s) n \<noteq> None" using wf unfolding rm_wf_def by blast
  then have fresh: "map_of (requestMap s) n = None" "n \<noteq> k" using assms(3) by simp_all
  have put: "mset (smap_put n (Some rd) (requestMap s)) = add_mset (n, Some rd) (mset (requestMap s))"
    using fresh(1) by (rule mset_smap_put)
  have "mset (smap_put n (Some rd) (requestMap s)) = add_mset (k, Some rd) (mset (requestMap s'))"
    unfolding assms(4) using wf assms(2) fresh by (intro mset_smap_erase) (auto simp: rm_wf_def)
  then have "image_mset (\<lambda>(k, x). ticket (the x)) (add_mset (n, Some rd) (mset (requestMap s))) =
      image_mset (\<lambda>(k, x). ticket (the x)) (add_mset (k, Some rd) (mset (requestMap s')))"
    using put by simp
  then have "pending ?s' = pending ?s" by (simp add: pending_def)
  then have "accounted R ?s'"
    using assms(1,5,6) by (simp add: good_def accounted_def delivered_def)
  moreover have "rm_wf ?s'" using wf assms(4,7,8) fresh by (auto simp: rm_wf_def)
  ultimately show ?thesis by (simp add: good_def)
qed

lemma on_response_good:
  assumes good: "good R (s\<lparr>rm_pollItems := kept @ new @ k # socks\<rparr>)"
    and n: "n \<notin> set (kept @ new @ k # socks)"
  shows "\<exists>s1 fresh. on_response n p k s = Inr (s1, fresh) \<and> set fresh \<subseteq> {n} \<and>
     good R (s1\<lparr>rm_pollItems := kept @ (new @ fresh) @ socks\<rparr>)"
proof -
  obtain rd where rd: "map_of (requestMap s) k = Some (Some rd)"
    using rm_wf_entry [OF goodD(2) [OF good], of k] by auto
  have list: "good R (s\<lparr>rm_pollItems := (kept @ new) @ k # socks\<rparr>)" using good by simp
  show ?thesis
  proof (cases "isFutureResponse p")
    case True
    have "distinct (kept @ new @ k # socks)" using good by (simp add: good_def rm_wf_def)
    then show ?thesis
      using True n rd good_move [OF list rd, of n, where zs = "kept @ (new @ [n]) @ socks"]
      by (auto simp: on_response_def follow_future_def Let_def smap_touch_id smap_at_def)
  next
    case False
    then show ?thesis
      using rd good_drop [OF list rd, of "deliver_response p rd s\<lparr>rm_closed := c, requestMap := m\<rparr>" for c m]
        delivered_deliver_response [of p rd s]
      by (auto simp: on_response_def smap_at_def deliver_response_frame delivered_def)
  qed
qed

lemma disjoint_singleton: "n \<notin> A \<Longrightarrow> B \<subseteq> {n} \<Longrightarrow> A \<inter> B = {}"
  by blast

lemma read_responses_good:
  assumes "good R (s\<lparr>rm_pollItems := kept @ new @ socks\<rparr>)"
    and "inj_on (rme_new_socket env) (set socks \<inter> set polled)"
    and "rme_new_socket env ` (set socks \<inter> set polled) \<inter> set (kept @ new @ socks) = {}"
  shows "\<exists>s'. read_responses env polled kept new socks s = Inr s' \<and> good R s'"
  using assms
proof (induction socks arbitrary: kept new s)
  case (Cons k socks)
  show ?case
  proof (cases "if k \<in> set polled then rme_response env k else None")
    case None
    have "good R (s\<lparr>rm_pollItems := (kept @ [k]) @ new @ socks\<rparr>)"
      using Cons.prems(1) by (auto simp: good_def rm_wf_def accounted_def delivered_def pending_def)
    moreover have "inj_on (rme_new_socket env) (set socks \<inter> set polled)"
      using Cons.prems(2) by (rule inj_on_subset) auto
    moreover have "rme_new_socket env ` (set socks \<inter> set polled) \<inter> set ((kept @ [k]) @ new @ socks) = {}"
      using Cons.prems(3) by auto
    ultimately show ?thesis using Cons.IH None by simp
  next
    case (Some p)
    then have k: "k \<in> set polled" by (auto split: if_splits)
    let ?n = "rme_new_socket env k"
    have "?n \<notin> set (kept @ new @ k # socks)" using Cons.prems(3) k by auto
    from on_response_good [OF Cons.prems(1) this, of p] obtain s1 fresh where
      s1: "on_response ?n p k s = Inr (s1, fresh)" "set fresh \<subseteq> {?n}"
      "good R (s1\<lparr>rm_pollItems := kept @ (new @ fresh) @ socks\<rparr>)" by blast
    have "?n \<notin> rme_new_socket env ` (set socks \<inter> set polled)"
      using Cons.prems(1,2) k by (auto simp: inj_on_def good_def rm_wf_def)
    then have "rme_new_socket env ` (set socks \<inter> set polled) \<inter> set (kept @ (new @ fresh) @ socks) = {}"
    proof -
      have "rme_new_socket env ` (set socks \<inter> set polled) \<inter> set fresh = {}"
        using \<open>?n \<notin> rme_new_socket env ` (set socks \<inter> set polled)\<close> s1(2) by (rule disjoint_singleton)
      moreover have "rme_new_socket env ` (set socks \<inter> set polled) \<inter> set (kept @ new @ socks) = {}"
        using Cons.prems(3) by auto
      ultimately show ?thesis unfolding set_append by blast
    qed
    moreover have "inj_on (rme_new_socket env) (set socks \<inter> set polled)"
      using Cons.prems(2) by (auto simp: inj_on_def)
    ultimately show ?thesis using Cons.IH [OF s1(3)] Some s1(1) by simp
  qed
qed simp

subsection \<open>Runs\<close>

lemma expire_map_good:
  assumes "good R s"
  shows "case expire_requests clock (requestMap s) nt s of Inl e \<Rightarrow> e = Loops_forever
     | Inr (nt', s') \<Rightarrow> good R s' \<and> set (rm_pollItems s') \<subseteq> set (rm_pollItems s)"
proof (rule expire_requests_good [OF assms])
  show "\<forall>(k, x)\<in>set (requestMap s). map_of (requestMap s) k = Some x"
    using smap.entries_look [OF goodD(1) [OF assms]] by blast
  show "distinct (map fst (requestMap s))" using goodD(1) [OF assms] by (rule smap_wf_distinct)
qed

lemma rm_iteration_good:
  assumes "good R s" and "rm_ok s env"
  shows "case rm_iteration env s of Inl e \<Rightarrow> e = Loops_forever
     | Inr (nt, s') \<Rightarrow> good (R + requested env) s'"
proof (cases "expire_requests (rme_clock env) (requestMap s) (-1) s")
  case (Inl e)
  then show ?thesis using expire_map_good [OF assms(1), of "rme_clock env" "-1"] by (simp add: rm_iteration_def)
next
  case (Inr r)
  obtain nt s1 where r: "r = (nt, s1)" by (cases r)
  have s1: "good R s1" "set (rm_pollItems s1) \<subseteq> set (rm_pollItems s)"
    using expire_map_good [OF assms(1), of "rme_clock env" "-1"] Inr r by simp_all
  let ?s = "rm_commands env s1"
  have ok: "command_socket env \<inter> set (rm_pollItems s1) = {}"
    "inj_on (rme_new_socket env) (set (rm_pollItems s1))"
    "rme_new_socket env ` set (rm_pollItems s1) \<inter> (set (rm_pollItems s) \<union> command_socket env) = {}"
    using assms(2) s1(2) by (auto simp: rm_ok_def intro: inj_on_subset)
  note cmd = rm_commands_good [OF s1(1) ok(1)]
  have polled: "set (rm_pollItems ?s) \<inter> set (rm_pollItems s1) = set (rm_pollItems s1)" using cmd(2) by auto
  have "\<exists>s'. read_responses env (rm_pollItems s1) [] [] (rm_pollItems ?s) ?s = Inr s' \<and>
      good (R + requested env) s'"
    using cmd ok s1(2) by (intro read_responses_good) (auto simp: polled)
  then show ?thesis using Inr r by (auto simp: rm_iteration_def)
qed

fun requests_made :: "rm_env list \<Rightarrow> ticket multiset" where
  "requests_made [] = {#}"
| "requests_made (env # envs) = requested env + requests_made envs"

definition rm_next :: "rm_state \<Rightarrow> rm_env \<Rightarrow> rm_state" where
  "rm_next s env = (case rm_iteration env s of Inl e \<Rightarrow> s | Inr (nt, s1) \<Rightarrow> s1)"

lemma rm_run_good:
  assumes "good R s" and "admissible rm_ok rm_next s envs"
  shows "case rm_run envs s of Inl e \<Rightarrow> e = Loops_forever | Inr s' \<Rightarrow> good (R + requests_made envs) s'"
  using assms
proof (induction envs arbitrary: R s)
  case (Cons env envs)
  then have ok: "rm_ok s env" by simp
  note step = rm_iteration_good [OF Cons.prems(1) ok]
  show ?case
  proof (cases "rm_iteration env s")
    case (Inr r)
    obtain nt s1 where r: "r = (nt, s1)" by (cases r)
    then have "rm_next s env = s1" using Inr by (simp add: rm_next_def)
    then have "admissible rm_ok rm_next s1 envs" "good (R + requested env) s1"
      using Cons.prems(2) step Inr r by auto
    from Cons.IH [OF this(2,1)] show ?thesis
      using Inr r by (simp add: add.assoc split: sum.splits)
  qed (use step in simp)
qed simp

text \<open>C15. In a run in which new sockets are new, the request manager never reads a null pointer, and
  every request leads to at most one call of its requestor: the responses delivered, each with the
  registration time its request was made with, the requests that timed out and those still pending
  together are among the requests made, with multiplicity. So no request is answered twice, or
  answered and timed out.\<close>

theorem requests_answered_at_most_once:
  assumes "admissible rm_ok rm_next rm_init envs"
  shows "rm_run envs rm_init \<noteq> Inl Null_pointer \<and>
     (\<forall>s. rm_run envs rm_init = Inr s \<longrightarrow>
        (\<exists>E. delivered s + E + pending s \<subseteq># requests_made envs \<and>
             image_mset fst E = mset (rm_timeouts s)))"
proof -
  have "good {#} rm_init" using rm_wf_init
    by (simp add: good_def accounted_def delivered_def pending_def rm_init_def)
  from rm_run_good [OF this assms] show ?thesis
    by (auto simp: good_def accounted_def split: sum.splits)
qed

theorem requests_answered_at_most_once_witness:
  "admissible rm_ok rm_next rm_init
     [(quiet_rm_env 1000)\<lparr>rme_command := Some (RM_Request (sample_request ''a'' 9) 1000 5)\<rparr>,
      (quiet_rm_env 2000)\<lparr>rme_response := (\<lambda>_. Some (setRegistrationTime 7 (GravityDataProduct ''r'')))\<rparr>] \<and>
   (\<exists>s. rm_run [(quiet_rm_env 1000)\<lparr>rme_command := Some (RM_Request (sample_request ''a'' 9) 1000 5)\<rparr>,
      (quiet_rm_env 2000)\<lparr>rme_response := (\<lambda>_. Some (setRegistrationTime 7 (GravityDataProduct ''r'')))\<rparr>]
     rm_init = Inr s \<and> length (rm_filled s) = 1 \<and>
     delivered s \<subseteq># {#((1, ''S'', ''a''), 7)#})"
    (is "admissible _ _ _ ?envs \<and> ?run")
proof
  let ?s = "rm_next rm_init (hd ?envs)"
  show adm: "admissible rm_ok rm_next rm_init ?envs"
    by (simp add: rm_ok_def rm_next_def rm_iteration_def rm_commands_def command_socket_def
        two_requests_simps Let_def)
  have run: "\<exists>s. rm_run ?envs rm_init = Inr s \<and> length (rm_filled s) = 1 \<and> rm_timeouts s = []"
    by (simp add: rm_iteration_def rm_commands_def two_requests_simps Let_def on_response_def
        isFutureResponse_def setRegistrationTime_def getRegistrationTime_def GravityDataProduct_def
        deliver_response_def smap_at_def smap_erase_def)
  then obtain s where s: "rm_run ?envs rm_init = Inr s" "length (rm_filled s) = 1" "rm_timeouts s = []"
    by blast
  then obtain E where "delivered s + E + pending s \<subseteq># requests_made ?envs"
    using requests_answered_at_most_once [OF adm] by blast
  moreover have "requests_made ?envs = {#((1, ''S'', ''a''), 7)#}"
    by (simp add: requested_def two_requests_simps)
  ultimately have "delivered s + (E + pending s) \<subseteq># {#((1, ''S'', ''a''), 7)#}" by (simp add: add.assoc)
  then have "delivered s \<subseteq># {#((1, ''S'', ''a''), 7)#}"
    by (rule subset_mset.order_trans [rotated]) simp
  then show ?run using s by blast
qed

end
