(* ===== verification/GravityNode.thy ===== *)
theory GravityNode
  imports ServiceDirectory Utility PublishManager SubscriptionManager RequestManager
begin

section \<open>The node: data products (\<open>GravityNode.cpp\<close>)\<close>

text \<open>
  The object an application uses. Its operations talk to the manager threads of the process and to
  the service directory. The record \<open>gn_state\<close> has the members of the class, \<open>gn_world\<close> what an
  operation can change: the node, the publish, service and request managers (which it calls over
  request-reply sockets and waits for), the service directory, and what the network does to the
  exchanges with it, one outcome per attempt. Messages to the publish, subscription and request
  managers over one-way sockets are appended to queues of the node; the managers take them later.

  An operation returns a value and the new world. A null pointer read in a manager thread ends the
  process (\<open>Crashed\<close>); a lock that is never released, or a reply that is never sent, blocks the
  caller forever (\<open>Blocked\<close>). The locks of the publish and subscription managers are released on
  every path, so they are not in the state; the two that are not are. Encoding and decoding of the
  requests is protobuf's: an exchange passes the decoded messages, and an answer that does not
  decode is the outcome \<open>Net_garbled\<close>. Signals (\<open>s_interrupted\<close>) are not modelled. What the
  operating system tells the node in a call (the time, a new socket, the result of a bind, the
  address of an interface) is the record \<open>node_env\<close>.
\<close>

subsection \<open>State\<close>

datatype gn_fail = Crashed | Blocked

record NodeSubscription =
  ns_domain :: string
  ns_dataProductID :: string
  ns_filter :: string
  ns_receiveLastCachedValue :: bool
  ns_subscriber :: nat

datatype sub_command = Sub_subscribe subscribe_request
  | Sub_unsubscribe string string string nat
  | Sub_set_hwm int
  | Sub_set_monitor string nat int string string
  | Sub_clear_monitor string nat string string
  | Sub_set_url string

datatype req_command = Req_request rm_request | Req_set_url string

record publish_message =
  pb_dataProductID :: string
  pb_timestamp :: u64
  pb_filterText :: string
  pb_dataProduct :: GravityDataProductPB

record gn_state =
  initialized :: bool
  componentID :: string
  myDomain :: string
  sdn_transport :: string
  sdn_ipAddress :: string
  sdn_port :: "16 word"
  serviceDirectory_ReservedDataProductIDs :: "string list"
  gravityNode_ReservedDataProductIDs :: "string list"
  publishMap :: "(string, string) smap"
  gn_serviceMap :: "(string, string) smap"
  urlInstanceMap :: "(string, u64) smap"
  dataRegistrationTimeMap :: "(string, u32) smap"
  subscriptionList :: "NodeSubscription list"
  gn_parser :: "config option"
  settingsPubEnabled :: bool
  publishedSettings :: "(string, string) smap"
  metricsEnabled :: bool
  heartbeatStarted :: bool
  listenerEnabled :: bool
  defaultCacheLastSentDataprodut :: bool
  defaultReceiveLastSentDataproduct :: bool
  serviceManager_held :: bool
  requestManagerRep_held :: bool
  to_publisher :: "publish_message list"
  to_subscriber :: "sub_command list"
  to_requester :: "req_command list"

datatype net_outcome = Net_ok | Net_lost | Net_late | Net_interrupted | Net_error | Net_garbled
  | Net_no_provider

record gn_world =
  gw_node :: gn_state
  gw_pm :: pm_state
  gw_sv :: sv_state
  gw_rm :: rm_state
  gw_dir :: sd_state
  gw_net :: "net_outcome list"

record node_env =
  ne_now :: u64
  ne_socket :: socket
  ne_zmq_bind :: "string \<Rightarrow> int"
  ne_os_ip :: string
  ne_param_bytes :: "string \<Rightarrow> string \<Rightarrow> bool \<Rightarrow> string"

definition METRICS_DATA_DPID :: string where "METRICS_DATA_DPID = ''GravityMetricsData''"
definition GRAVITY_SETTINGS_DPID :: string where "GRAVITY_SETTINGS_DPID = ''GRAVITY_SETTINGS''"
definition GRAVITY_LOGGER_DPID :: string where "GRAVITY_LOGGER_DPID = ''GRAVITY_LOGGER''"

definition set_node :: "(gn_state \<Rightarrow> gn_state) \<Rightarrow> gn_world \<Rightarrow> gn_world" where
  "set_node f w = w\<lparr>gw_node := f (gw_node w)\<rparr>"

text \<open>Running one call after the other.\<close>

definition then_do :: "'e + 'a \<times> 'w \<Rightarrow> ('a \<Rightarrow> 'w \<Rightarrow> 'e + 'b \<times> 'w) \<Rightarrow> 'e + 'b \<times> 'w" where
  "then_do m f = (case m of Inl e \<Rightarrow> Inl e | Inr (x, w) \<Rightarrow> f x w)"

lemma then_do_simps [simp]: "then_do (Inl e) f = Inl e" "then_do (Inr (x, w)) f = f x w"
  by (simp_all add: then_do_def)

lemma then_do_Inr: "then_do m f = Inr r \<longleftrightarrow> (\<exists>x w. m = Inr (x, w) \<and> f x w = Inr r)"
  by (cases m) (auto simp: then_do_def)

subsection \<open>Constructors\<close>

definition blank_node :: "bool \<Rightarrow> bool \<Rightarrow> bool \<Rightarrow> gn_state" where
  "blank_node listener cache receive =
     \<lparr>initialized = False, componentID = '''', myDomain = '''', sdn_transport = ''tcp'',
      sdn_ipAddress = '''', sdn_port = 5555, serviceDirectory_ReservedDataProductIDs = [],
      gravityNode_ReservedDataProductIDs = [], publishMap = [], gn_serviceMap = [],
      urlInstanceMap = [], dataRegistrationTimeMap = [], subscriptionList = [], gn_parser = None,
      settingsPubEnabled = False, publishedSettings = [], metricsEnabled = False,
      heartbeatStarted = False, listenerEnabled = listener, defaultCacheLastSentDataprodut = cache,
      defaultReceiveLastSentDataproduct = receive, serviceManager_held = False,
      requestManagerRep_held = False, to_publisher = [], to_subscriber = [], to_requester = []\<rparr>"

definition GravityNode_default :: gn_state where
  "GravityNode_default = (blank_node False True True)
     \<lparr>serviceDirectory_ReservedDataProductIDs := fold sset_insert
        [REGISTERED_PUBLISHERS_DPID, DOMAIN_DETAILS_DPID, DOMAIN_UPDATE_DPID, DIRECTORY_SERVICE_DPID] [],
      gravityNode_ReservedDataProductIDs := fold sset_insert
        [METRICS_DATA_DPID, GRAVITY_SETTINGS_DPID, GRAVITY_LOGGER_DPID] []\<rparr>"

text \<open>
  The constructor with a component id: the node when it calls \<open>init\<close>, and the argument of that
  call. The three flags it does not initialise are arguments.
\<close>

definition GravityNode_with_id :: "bool \<Rightarrow> bool \<Rightarrow> bool \<Rightarrow> string \<Rightarrow> gn_state \<times> string" where
  "GravityNode_with_id listener cache receive componentId = (blank_node listener cache receive, '''')"

subsection \<open>Exchanges with a service provider\<close>

definition NETWORK_RETRIES :: nat where "NETWORK_RETRIES = 3"

text \<open>
  One attempt: \<open>serve\<close> is the provider at the URL, \<open>p\<close> its state. A late answer was made, but
  after the poll had given up.
\<close>

definition sendRequestToServiceProvider ::
  "('q \<Rightarrow> 'p \<Rightarrow> 'p \<times> 'r) \<Rightarrow> 'q \<Rightarrow> net_outcome \<Rightarrow> 'p \<Rightarrow> GravityReturnCode \<times> 'r option \<times> 'p" where
  "sendRequestToServiceProvider serve rq outcome p =
     (case outcome of
        Net_ok \<Rightarrow> (let (p1, r) = serve rq p in (SUCCESS, Some r, p1))
      | Net_lost \<Rightarrow> (REQUEST_TIMEOUT, None, p)
      | Net_late \<Rightarrow> (REQUEST_TIMEOUT, None, fst (serve rq p))
      | Net_interrupted \<Rightarrow> (INTERRUPTED, None, p)
      | Net_error \<Rightarrow> (FAILURE, None, p)
      | Net_garbled \<Rightarrow> (LINK_ERROR, None, fst (serve rq p))
      | Net_no_provider \<Rightarrow> (NO_SERVICE_PROVIDER, None, p))"

fun next_outcome :: "net_outcome list \<Rightarrow> net_outcome" where
  "next_outcome [] = Net_lost"
| "next_outcome (x # xs) = x"

fun send_loop ::
  "('q \<Rightarrow> 'p \<Rightarrow> 'p \<times> 'r) \<Rightarrow> 'q \<Rightarrow> nat \<Rightarrow> GravityReturnCode \<Rightarrow> 'r option \<Rightarrow> net_outcome list \<Rightarrow> 'p \<Rightarrow>
     GravityReturnCode \<times> 'r option \<times> net_outcome list \<times> 'p" where
  "send_loop serve rq 0 ret resp net p = (ret, resp, net, p)"
| "send_loop serve rq (Suc retriesLeft) ret resp net p =
     (if ret \<noteq> FAILURE \<and> ret \<noteq> SUCCESS
      then (let (ret1, resp1, p1) = sendRequestToServiceProvider serve rq (next_outcome net) p
            in send_loop serve rq retriesLeft ret1 resp1 (tl net) p1)
      else (ret, resp, net, p))"

definition sendRequestsToServiceProvider ::
  "('q \<Rightarrow> 'p \<Rightarrow> 'p \<times> 'r) \<Rightarrow> 'q \<Rightarrow> nat \<Rightarrow> net_outcome list \<Rightarrow> 'p \<Rightarrow>
     GravityReturnCode \<times> 'r option \<times> net_outcome list \<times> 'p" where
  "sendRequestsToServiceProvider serve rq retries net p =
     send_loop serve rq retries NOT_INITIALIZED None net p"

definition sendRequestToServiceDirectory ::
  "sd_request \<Rightarrow> gn_world \<Rightarrow> GravityReturnCode \<times> sd_response option \<times> gn_world" where
  "sendRequestToServiceDirectory rq w =
     (let (ret, resp, net, d) =
        sendRequestsToServiceProvider serve_request rq NETWORK_RETRIES (gw_net w) (gw_dir w)
      in (ret, resp, w\<lparr>gw_net := net, gw_dir := d\<rparr>))"

subsection \<open>Publishing\<close>

definition publish_product ::
  "u64 \<Rightarrow> u64 \<Rightarrow> GravityDataProductPB \<Rightarrow> gn_state \<Rightarrow> GravityDataProductPB" where
  "publish_product now timestamp p n =
     (let q = (if isRelayedDataproduct p then p
               else setDomain (myDomain n) (setComponentId (componentID n)
                 (p\<lparr>dp_timestamp := Some (if timestamp = 0 then now else timestamp)\<rparr>)))
      in setRegistrationTime (smap_at 0 (dataRegistrationTimeMap n) (getDataProductID p)) q)"

definition node_publish ::
  "u64 \<Rightarrow> GravityDataProductPB \<Rightarrow> string \<Rightarrow> u64 \<Rightarrow> gn_state \<Rightarrow> gn_state \<times> GravityReturnCode" where
  "node_publish now p filterText timestamp n =
     (if \<not> initialized n then (n, NOT_INITIALIZED)
      else (let i = getDataProductID p;
                q = publish_product now timestamp p n;
                n1 = n\<lparr>dataRegistrationTimeMap := smap_touch i 0 (dataRegistrationTimeMap n)\<rparr>
            in (n1\<lparr>to_publisher := to_publisher n1 @ [\<lparr>pb_dataProductID = i,
                     pb_timestamp = getGravityTimestamp q, pb_filterText = filterText,
                     pb_dataProduct = q\<rparr>]\<rparr>, SUCCESS)))"

text \<open>The publish manager takes a message; \<open>serialize\<close> is protobuf's.\<close>

definition take_publication ::
  "(GravityDataProductPB \<Rightarrow> string) \<Rightarrow> publish_message \<Rightarrow> pm_state \<Rightarrow> (pm_state \<times> pm_reply) option" where
  "take_publication serialize m s =
     pm_handle (\<lambda>b. b) (PPublish (pb_dataProductID m) (pb_timestamp m) (pb_filterText m)
       (serialize (pb_dataProduct m))) s"

subsection \<open>Parameters\<close>

definition getIP :: "string \<Rightarrow> gn_state \<Rightarrow> string" where
  "getIP os_ip n =
     (if \<not> initialized n then ''''
      else if sdn_ipAddress n \<noteq> '''' \<and> sdn_ipAddress n \<noteq> ''localhost'' then os_ip
      else ''127.0.0.1'')"

text \<open>
  \<open>ne_param_bytes\<close> is the serialised \<open>GravityConfigParamPB\<close> with key, value and default flag. The
  member \<open>settingsGDP\<close> is reused in the source, but every field that was set before is set again.
\<close>

definition getStringParam :: "node_env \<Rightarrow> string \<Rightarrow> string \<Rightarrow> gn_state \<Rightarrow> string \<times> gn_state" where
  "getStringParam env key default_value n =
     (let (v, is_default) = (case gn_parser n of
            None \<Rightarrow> (default_value, True)
          | Some m \<Rightarrow> (if hasKey key m then (getString key default_value m, False)
                       else (default_value, True)))
      in if settingsPubEnabled n \<and> initialized n \<and> map_of (publishedSettings n) key \<noteq> Some v
         then (let gdp = setData_message (ne_param_bytes env key v is_default) ''gravity.GravityConfigParamPB''
                           (GravityDataProduct GRAVITY_SETTINGS_DPID);
                   n1 = fst (node_publish (ne_now env) gdp (componentID n) 0 n)
               in (v, n1\<lparr>publishedSettings := smap_put key v (publishedSettings n1)\<rparr>))
         else (v, n))"

definition getIntParam :: "node_env \<Rightarrow> string \<Rightarrow> int \<Rightarrow> gn_state \<Rightarrow> int \<times> gn_state" where
  "getIntParam env key default_value n =
     (let (v, n1) = getStringParam env key (show_int default_value) n
      in (StringToInt v default_value, n1))"

definition getBoolParam :: "node_env \<Rightarrow> string \<Rightarrow> bool \<Rightarrow> gn_state \<Rightarrow> bool \<times> gn_state" where
  "getBoolParam env key default_value n =
     (let (v, n1) = getStringParam env key (if default_value then ''true'' else ''false'') n;
          val = StringToLowerCase v
      in (val = ''true'' \<or> val = ''t'' \<or> val = ''yes'' \<or> val = ''y'', n1))"

definition MIN_PORT :: int where "MIN_PORT = 24000"
definition MAX_PORT :: int where "MAX_PORT = 24999"

definition port_range :: "node_env \<Rightarrow> gn_state \<Rightarrow> int \<times> int \<times> gn_state" where
  "port_range env n =
     (let (minPort, n1) = getIntParam env ''MinPort'' MIN_PORT n;
          (maxPort, n2) = getIntParam env ''MaxPort'' MAX_PORT n1
      in (minPort, maxPort, n2))"

subsection \<open>Registering data products\<close>

datatype GravityTransportType = TCP | INPROC | PGM | EPGM | IPC

fun transport_endpoint :: "GravityTransportType \<Rightarrow> string \<Rightarrow> string \<Rightarrow> string \<times> string" where
  "transport_endpoint TCP ip i = (''tcp'', ip)"
| "transport_endpoint IPC ip i = (''ipc'', ''/tmp/'' @ i)"
| "transport_endpoint INPROC ip i = (''inproc'', i)"
| "transport_endpoint PGM ip i = (''pgm'', i)"
| "transport_endpoint EPGM ip i = (''epgm'', i)"

definition reserved_id :: "bool \<Rightarrow> string \<Rightarrow> gn_state \<Rightarrow> bool" where
  "reserved_id allowReservedIDs i n =
     ((componentID n \<noteq> ''ServiceDirectory'' \<and> i \<in> set (serviceDirectory_ReservedDataProductIDs n)) \<or>
      (\<not> allowReservedIDs \<and> i \<in> set (gravityNode_ReservedDataProductIDs n)))"

text \<open>A request to the publish manager over its request-reply socket.\<close>

definition pm_call :: "pm_event \<Rightarrow> gn_world \<Rightarrow> gn_fail + pm_reply \<times> gn_world" where
  "pm_call e w =
     (case pm_handle (\<lambda>b. b) e (gw_pm w) of
        None \<Rightarrow> Inl Crashed
      | Some (s, r) \<Rightarrow> (if r = NoReply then Inl Blocked else Inr (r, w\<lparr>gw_pm := s\<rparr>)))"

fun reply_text :: "pm_reply \<Rightarrow> string" where
  "reply_text (ReplyString t) = t"
| "reply_text _ = ''''"

fun registration_code :: "sd_response option \<Rightarrow> GravityReturnCode" where
  "registration_code (Some (RespDirectory r)) =
     (case field SD_SUCCESS (sr_returnCode r) of
        SD_SUCCESS \<Rightarrow> SUCCESS
      | SD_REGISTRATION_CONFLICT \<Rightarrow> REGISTRATION_CONFLICT
      | SD_DUPLICATE_REGISTRATION \<Rightarrow> DUPLICATE
      | SD_NOT_REGISTERED \<Rightarrow> LINK_ERROR)"
| "registration_code _ = LINK_ERROR"

definition data_registration ::
  "string \<Rightarrow> string \<Rightarrow> u64 \<Rightarrow> bool \<Rightarrow> string option \<Rightarrow> gn_state \<Rightarrow> ServiceDirectoryRegistrationPB" where
  "data_registration i url timestamp isRelay ip n =
     \<lparr>rg_id = Some i, rg_url = Some url, rg_type = Some DATA, rg_component_id = Some (componentID n),
      rg_domain = None, rg_timestamp = Some timestamp, rg_is_relay = Some isRelay, rg_ip_address = ip\<rparr>"

text \<open>Telling the directory, with the result that \<open>registerDataProductInternal\<close> goes on with.\<close>

definition announce_registration ::
  "ServiceDirectoryRegistrationPB \<Rightarrow> gn_world \<Rightarrow> GravityReturnCode \<times> gn_world" where
  "announce_registration reg w =
     (let (ret, resp, w1) = sendRequestToServiceDirectory (RegistrationRequest reg) w
      in (if ret = SUCCESS then registration_code resp else ret, w1))"

definition note_publisher :: "string \<Rightarrow> string \<Rightarrow> u64 \<Rightarrow> gn_state \<Rightarrow> gn_state" where
  "note_publisher i url timestamp n =
     n\<lparr>publishMap := smap_put i url (publishMap n),
       urlInstanceMap := smap_put url timestamp (urlInstanceMap n),
       dataRegistrationTimeMap := smap_put i (secs timestamp) (dataRegistrationTimeMap n)\<rparr>"

definition finish_registration ::
  "string \<Rightarrow> string \<Rightarrow> u64 \<Rightarrow> GravityReturnCode \<Rightarrow> gn_world \<Rightarrow> gn_fail + GravityReturnCode \<times> gn_world" where
  "finish_registration i url timestamp ret w =
     (if ret \<noteq> SUCCESS then then_do (pm_call (PUnregister i) w) (\<lambda>r w1. Inr (ret, w1))
      else Inr (ret, set_node (note_publisher i url timestamp) w))"

definition register_with_directory ::
  "node_env \<Rightarrow> string \<Rightarrow> string \<Rightarrow> bool \<Rightarrow> bool \<Rightarrow> gn_world \<Rightarrow> GravityReturnCode \<times> gn_world" where
  "register_with_directory env i connectionURL isRelay localOnly w =
     (let n = gw_node w
      in if connectionURL = '''' then (NO_PORTS_AVAILABLE, w)
         else if sdn_ipAddress n = '''' then (NO_SERVICE_DIRECTORY, w)
         else announce_registration (data_registration i connectionURL (ne_now env) isRelay
                (if localOnly then Some (getIP (ne_os_ip env) n) else None) n) w)"

definition pm_registration_of ::
  "node_env \<Rightarrow> string \<Rightarrow> GravityTransportType \<Rightarrow> bool \<Rightarrow> gn_state \<Rightarrow> pm_registration \<times> gn_state" where
  "pm_registration_of env i transport cacheLastValue n =
     (let (transportStr, endpoint) = transport_endpoint transport (getIP (ne_os_ip env) n) i;
          (minPort, maxPort, n1) = (if transport = TCP then port_range env n else (0, 0, n))
      in (\<lparr>pr_dataProductID = i, pr_cacheLastValue = cacheLastValue, pr_transportType = transportStr,
           pr_minPort = minPort, pr_maxPort = maxPort, pr_endpoint = endpoint\<rparr>, n1))"

definition registerDataProductInternal ::
  "node_env \<Rightarrow> string \<Rightarrow> GravityTransportType \<Rightarrow> bool \<Rightarrow> bool \<Rightarrow> bool \<Rightarrow> bool \<Rightarrow> gn_world \<Rightarrow>
     gn_fail + GravityReturnCode \<times> gn_world" where
  "registerDataProductInternal env i transport cacheLastValue isRelay localOnly allowReservedIDs w =
     (let n = gw_node w
      in if \<not> initialized n then Inr (NOT_INITIALIZED, w)
         else if reserved_id allowReservedIDs i n then Inr (RESERVED_DATA_PRODUCT_ID, w)
         else if smap_has (publishMap n) i then Inr (SUCCESS, w)
         else (let (r, n1) = pm_registration_of env i transport cacheLastValue n;
                   w1 = w\<lparr>gw_node := n1\<rparr>
               in then_do (pm_call (PRegister r (ne_zmq_bind env) (Some (ne_socket env))) w1) (\<lambda>reply w2.
                    (let connectionURL = reply_text reply;
                         (ret, w3) = register_with_directory env i connectionURL isRelay localOnly w2
                     in finish_registration i connectionURL (ne_now env) ret w3))))"

definition node_registerDataProduct ::
  "node_env \<Rightarrow> string \<Rightarrow> GravityTransportType \<Rightarrow> bool \<Rightarrow> gn_world \<Rightarrow> gn_fail + GravityReturnCode \<times> gn_world" where
  "node_registerDataProduct env i transport cacheLastValue w =
     registerDataProductInternal env i transport cacheLastValue False False False w"

fun unregistration_code :: "sd_response option \<Rightarrow> GravityReturnCode" where
  "unregistration_code (Some (RespDirectory r)) =
     (if field SD_SUCCESS (sr_returnCode r) \<in> {SD_SUCCESS, SD_NOT_REGISTERED} then SUCCESS else FAILURE)"
| "unregistration_code _ = LINK_ERROR"

definition announce_unregistration ::
  "ServiceDirectoryUnregistrationPB \<Rightarrow> gn_world \<Rightarrow> GravityReturnCode \<times> gn_world" where
  "announce_unregistration ur w =
     (let (ret, resp, w1) = sendRequestToServiceDirectory (UnregistrationRequest ur) w
      in (if ret = SUCCESS then unregistration_code resp else ret, w1))"

definition forget_publisher :: "string \<Rightarrow> gn_state \<Rightarrow> gn_state" where
  "forget_publisher i n =
     n\<lparr>publishMap := smap_erase i (publishMap n),
       urlInstanceMap := smap_erase (smap_at '''' (publishMap n) i) (urlInstanceMap n),
       dataRegistrationTimeMap := smap_erase i (dataRegistrationTimeMap n)\<rparr>"

definition node_unregisterDataProduct :: "string \<Rightarrow> gn_world \<Rightarrow> gn_fail + GravityReturnCode \<times> gn_world" where
  "node_unregisterDataProduct i w =
     (let n = gw_node w
      in if \<not> initialized n then Inr (NOT_INITIALIZED, w)
         else if \<not> smap_has (publishMap n) i then Inr (REGISTRATION_CONFLICT, w)
         else then_do (pm_call (PUnregister i) w) (\<lambda>reply w1.
                (let url = smap_at '''' (publishMap n) i;
                     regTime = smap_at 0 (dataRegistrationTimeMap n) i;
                     w2 = set_node (forget_publisher i) w1
                 in if sdn_ipAddress n = '''' then Inr (SUCCESS, w2)
                    else Inr (announce_unregistration
                           \<lparr>ur_id = i, ur_url = url, ur_type = Some DATA, ur_domain = None,
                            ur_registration_time = Some regTime\<rparr> w2))))"

definition node_subscribersExist :: "string \<Rightarrow> gn_world \<Rightarrow> gn_fail + (GravityReturnCode \<times> bool) \<times> gn_world" where
  "node_subscribersExist i w =
     (if \<not> initialized (gw_node w) then Inr ((NOT_INITIALIZED, True), w)
      else then_do (pm_call (PSubscribersExist i) w) (\<lambda>reply w1.
             (let result = reply_text reply
              in Inr (if result = ''Y'' then (SUCCESS, True)
                      else if result = ''N'' then (SUCCESS, False)
                      else if take 20 result = ''Unknown data product'' then (NOT_REGISTERED, True)
                      else (FAILURE, True), w1))))"

subsection \<open>Subscribing\<close>

definition ServiceDirectoryDataProductLookup ::
  "string \<Rightarrow> string \<Rightarrow> gn_world \<Rightarrow> GravityReturnCode \<times> PublisherInfoPB list \<times> gn_world" where
  "ServiceDirectoryDataProductLookup i d w =
     (let (ret, resp, w1) = sendRequestToServiceDirectory (ComponentLookupRequest
            \<lparr>lk_lookupID = i, lk_type = Some DATA, lk_domain_id = Some d\<rparr>) w
      in if ret \<noteq> SUCCESS then (NO_SERVICE_DIRECTORY, [], w1)
         else (case resp of
                 Some (RespDataLookup r) \<Rightarrow> (SUCCESS, dl_publishers r, w1)
               | _ \<Rightarrow> (LINK_ERROR, [], w1)))"

text \<open>
  The loop that waits for the directory's publisher of updates: \<open>tries\<close> rounds at most, until the
  list is not empty.
\<close>

fun find_update_publisher ::
  "nat \<Rightarrow> gn_world \<Rightarrow> (GravityReturnCode + PublisherInfoPB list) \<times> gn_world" where
  "find_update_publisher 0 w = (Inr [], w)"
| "find_update_publisher (Suc tries) w =
     (let (ret, infos, w1) =
        ServiceDirectoryDataProductLookup REGISTERED_PUBLISHERS_DPID (myDomain (gw_node w)) w
      in if ret \<noteq> SUCCESS then (Inl ret, w1)
         else if infos \<noteq> [] then (Inr infos, w1)
         else find_update_publisher tries w1)"

definition send_subscription :: "subscribe_request \<Rightarrow> gn_state \<Rightarrow> gn_state" where
  "send_subscription rq n =
     n\<lparr>to_subscriber := to_subscriber n @ [Sub_subscribe rq],
       subscriptionList := subscriptionList n @ [\<lparr>ns_domain = sq_domain rq,
         ns_dataProductID = sq_dataProductID rq, ns_filter = sq_filter rq,
         ns_receiveLastCachedValue = sq_receiveLastCachedValue rq, ns_subscriber = sq_subscriber rq\<rparr>]\<rparr>"

definition subscribeInternal ::
  "string \<Rightarrow> nat \<Rightarrow> string \<Rightarrow> string \<Rightarrow> bool \<Rightarrow> gn_world \<Rightarrow> GravityReturnCode \<times> gn_world" where
  "subscribeInternal i subscriber flt domain receiveLastCachedValue w =
     (if \<not> initialized (gw_node w) then (NOT_INITIALIZED, w)
      else (let d = (if domain = '''' then myDomain (gw_node w) else domain);
                (ret, infos, w1) = ServiceDirectoryDataProductLookup i d w
            in if ret \<noteq> SUCCESS then (ret, w1)
               else (case find_update_publisher 5 w1 of
                       (Inl ret, w2) \<Rightarrow> (ret, w2)
                     | (Inr updates, w2) \<Rightarrow>
                         (case updates of
                            [] \<Rightarrow> (NO_SERVICE_DIRECTORY, w2)
                          | u # us \<Rightarrow>
                              (case pi_url u of
                                 None \<Rightarrow> (NO_SERVICE_DIRECTORY, w2)
                               | Some url \<Rightarrow>
                                   (SUCCESS, set_node (send_subscription
                                      \<lparr>sq_dataProductID = i, sq_receiveLastCachedValue = receiveLastCachedValue,
                                       sq_publishers = infos, sq_filter = flt, sq_domain = d,
                                       sq_publisherUpdateUrl = url, sq_subscriber = subscriber\<rparr>) w2))))))"

text \<open>The overloads of \<open>subscribe\<close> without a domain, or without the last argument.\<close>

definition node_subscribe :: "string \<Rightarrow> nat \<Rightarrow> string \<Rightarrow> string \<Rightarrow> gn_world \<Rightarrow> GravityReturnCode \<times> gn_world" where
  "node_subscribe i subscriber flt domain w =
     subscribeInternal i subscriber flt domain (defaultReceiveLastSentDataproduct (gw_node w)) w"

definition unsubscribeInternal ::
  "string \<Rightarrow> nat \<Rightarrow> string \<Rightarrow> string \<Rightarrow> gn_state \<Rightarrow> GravityReturnCode \<times> gn_state" where
  "unsubscribeInternal i subscriber flt domain n =
     (if \<not> initialized n then (NOT_INITIALIZED, n)
      else (let d = (if domain = '''' then myDomain n else domain)
            in (SUCCESS,
                n\<lparr>to_subscriber := to_subscriber n @ [Sub_unsubscribe i flt d subscriber],
                  subscriptionList := filter (\<lambda>x. \<not> (ns_dataProductID x = i \<and> ns_domain x = d \<and>
                    ns_filter x = flt \<and> ns_subscriber x = subscriber)) (subscriptionList n)\<rparr>)))"

definition setSubscriptionTimeoutMonitor ::
  "string \<Rightarrow> nat \<Rightarrow> int \<Rightarrow> string \<Rightarrow> string \<Rightarrow> gn_state \<Rightarrow> GravityReturnCode \<times> gn_state" where
  "setSubscriptionTimeoutMonitor i monitor milliSecondTimeout flt domain n =
     (if \<not> initialized n then (NOT_INITIALIZED, n)
      else (let d = (if domain = '''' then myDomain n else domain)
            in if milliSecondTimeout \<le> 0 then (INVALID_PARAMETER, n)
               else (SUCCESS, n\<lparr>to_subscriber := to_subscriber n @
                       [Sub_set_monitor i monitor milliSecondTimeout flt d]\<rparr>)))"

definition clearSubscriptionTimeoutMonitor ::
  "string \<Rightarrow> nat \<Rightarrow> string \<Rightarrow> string \<Rightarrow> gn_state \<Rightarrow> GravityReturnCode \<times> gn_state" where
  "clearSubscriptionTimeoutMonitor i monitor flt domain n =
     (if \<not> initialized n then (NOT_INITIALIZED, n)
      else (SUCCESS, n\<lparr>to_subscriber := to_subscriber n @ [Sub_clear_monitor i monitor flt domain]\<rparr>))"

text \<open>What the subscription manager makes of a message it takes at time \<open>now\<close>.\<close>

fun sm_event_of :: "u64 \<Rightarrow> sub_command \<Rightarrow> sm_event" where
  "sm_event_of now (Sub_subscribe rq) = SMSubscribe now rq"
| "sm_event_of now (Sub_unsubscribe i f d u) = SMUnsubscribe i f d u"
| "sm_event_of now (Sub_set_hwm n) = SMSetHWM n"
| "sm_event_of now (Sub_set_monitor i m t f d) = SMSetMonitor now i m t f d"
| "sm_event_of now (Sub_clear_monitor i m f d) = SMClearMonitor i m f d"
| "sm_event_of now (Sub_set_url u) = SMServiceDirectoryUrl u"

subsection \<open>Relays\<close>

definition registerRelay ::
  "node_env \<Rightarrow> string \<Rightarrow> nat \<Rightarrow> bool \<Rightarrow> GravityTransportType \<Rightarrow> bool \<Rightarrow> gn_world \<Rightarrow>
     gn_fail + GravityReturnCode \<times> gn_world" where
  "registerRelay env i subscriber localOnly transport cacheLastValue w =
     (if \<not> initialized (gw_node w) then Inr (NOT_INITIALIZED, w)
      else then_do (registerDataProductInternal env i transport cacheLastValue True localOnly False w)
             (\<lambda>ret w1. if ret \<noteq> SUCCESS then Inr (ret, w1)
                       else Inr (subscribeInternal i subscriber '''' '''' False w1)))"

definition unregisterRelay :: "string \<Rightarrow> nat \<Rightarrow> gn_world \<Rightarrow> gn_fail + GravityReturnCode \<times> gn_world" where
  "unregisterRelay i subscriber w =
     (if \<not> initialized (gw_node w) then Inr (NOT_INITIALIZED, w)
      else then_do (node_unregisterDataProduct i w)
             (\<lambda>ret w1. (let (ret1, n1) = unsubscribeInternal i subscriber '''' '''' (gw_node w1);
                            w2 = w1\<lparr>gw_node := n1\<rparr>
                        in Inr (if ret \<noteq> SUCCESS then ret else ret1, w2))))"

end
