(* ===== verification/Node_Directory.thy ===== *)
theory Node_Directory
  imports GravityNode Directory_Spec
begin

section \<open>The node as a client of the service directory\<close>

text \<open>
  A node sends a request up to three times, and a request whose answer was lost is served more than
  once. The locale \<open>repeatable_request\<close> is the contract that makes this harmless: serving the request
  keeps a condition \<open>J\<close> of the provider. Its lemmas say what a caller knows after the retries. It is
  interpreted for registrations and lookups served by the directory.
\<close>

locale repeatable_request =
  fixes serve :: "'q \<Rightarrow> 'p \<Rightarrow> 'p \<times> 'r" and rq :: 'q and J :: "'p \<Rightarrow> bool"
  assumes serve_keeps: "J p \<Longrightarrow> J (fst (serve rq p))"
begin

lemma send_one:
  assumes "J p" and "sendRequestToServiceProvider serve rq x p = (ret, resp, p')"
  shows "J p'" and "ret = SUCCESS \<Longrightarrow> \<exists>p0 r. J p0 \<and> serve rq p0 = (p', r) \<and> resp = Some r"
  using assms serve_keeps [OF assms(1)]
  by (auto simp: sendRequestToServiceProvider_def split: net_outcome.splits prod.splits)

lemma send_tries:
  assumes "J p" and "ret = SUCCESS \<Longrightarrow> \<exists>p0 r. J p0 \<and> serve rq p0 = (p, r) \<and> resp = Some r"
    and "send_loop serve rq k ret resp net p = (ret', resp', net', p')"
  shows "J p' \<and> (ret' = SUCCESS \<longrightarrow> (\<exists>p0 r. J p0 \<and> serve rq p0 = (p', r) \<and> resp' = Some r))"
  using assms
proof (induction k arbitrary: ret resp net p)
  case (Suc k)
  show ?case
  proof (cases "ret \<noteq> FAILURE \<and> ret \<noteq> SUCCESS")
    case True
    obtain ret1 resp1 p1 where one: "sendRequestToServiceProvider serve rq (next_outcome net) p = (ret1, resp1, p1)"
      by (cases "sendRequestToServiceProvider serve rq (next_outcome net) p")
    then have "send_loop serve rq k ret1 resp1 (tl net) p1 = (ret', resp', net', p')"
      using Suc.prems(3) True by simp
    then show ?thesis
      using Suc.IH [of p1 ret1 resp1 "tl net"] send_one [OF Suc.prems(1) one] by blast
  qed (use Suc.prems in auto)
qed auto

lemma send_many:
  assumes "J p" and "sendRequestsToServiceProvider serve rq k net p = (ret, resp, net', p')"
  shows "J p'" and "ret = SUCCESS \<Longrightarrow> \<exists>p0 r. J p0 \<and> serve rq p0 = (p', r) \<and> resp = Some r"
  using send_tries [OF assms(1) _ assms(2) [unfolded sendRequestsToServiceProvider_def]] by auto

end

lemma send_loop_uses:
  "send_loop serve rq k ret resp net p = (ret', resp', net', p') \<Longrightarrow> \<exists>j\<le>k. net' = drop j net"
proof (induction k arbitrary: ret resp net p)
  case (Suc k)
  show ?case
  proof (cases "ret \<noteq> FAILURE \<and> ret \<noteq> SUCCESS")
    case True
    then obtain ret1 resp1 p1 where "send_loop serve rq k ret1 resp1 (tl net) p1 = (ret', resp', net', p')"
      using Suc.prems by (auto split: prod.splits)
    then obtain j where "j \<le> k" "net' = drop j (tl net)" using Suc.IH by blast
    then show ?thesis by (intro exI [of _ "Suc j"]) (simp add: drop_Suc)
  qed (use Suc.prems in \<open>auto intro: exI [of _ 0]\<close>)
qed simp

subsection \<open>What a served request leaves in the directory\<close>

lemma flush_pending_frame [simp]:
  "sd_domain (flush_pending s) = sd_domain s" "products (flush_pending s) e i = products s e i"
  "sMap (flush_pending s) e = sMap s e" "instance_of u (flush_pending s) = instance_of u s"
proof -
  have one: "sd_domain (fold flush_one is s) = sd_domain s \<and> products (fold flush_one is s) e i = products s e i \<and>
      sMap (fold flush_one is s) e = sMap s e \<and> instance_of u (fold flush_one is s) = instance_of u s" for "is"
    by (induction "is" arbitrary: s) (simp_all add: flush_one_def split_def Let_def)
  have two: "sd_domain (t\<lparr>registerUpdatesToSend := [], registeredPublishersProcessed := True\<rparr>) = sd_domain t \<and>
      products (t\<lparr>registerUpdatesToSend := [], registeredPublishersProcessed := True\<rparr>) e i = products t e i \<and>
      sMap (t\<lparr>registerUpdatesToSend := [], registeredPublishersProcessed := True\<rparr>) e = sMap t e \<and>
      instance_of u (t\<lparr>registerUpdatesToSend := [], registeredPublishersProcessed := True\<rparr>) = instance_of u t" for t
    by (simp add: sd_defs)
  show "sd_domain (flush_pending s) = sd_domain s" "products (flush_pending s) e i = products s e i"
    "sMap (flush_pending s) e = sMap s e" "instance_of u (flush_pending s) = instance_of u s"
    using one two by (simp_all add: flush_pending_def)
qed

lemma listed_flush [simp]: "listed (flush_pending s) = listed s"
  by (auto simp: listed_iff)

lemma fst_serve_request: "fst (serve_request rq s) = flush_pending (fst (handle_request rq s))"
  and snd_serve_request: "snd (serve_request rq s) = snd (handle_request rq s)"
  by (simp_all add: serve_request_def split_def Let_def)

text \<open>The directory of domain \<open>D\<close>, whose timestamp for the URL is not newer than the registration.\<close>

definition registrable :: "ServiceDirectoryRegistrationPB \<Rightarrow> string \<Rightarrow> sd_state \<Rightarrow> bool" where
  "registrable reg D d \<longleftrightarrow> sd_wf d \<and> sd_domain d = D \<and>
     instance_of (field '''' (rg_url reg)) d \<le> field 0 (rg_timestamp reg)"

lemma registrable_register:
  assumes "registrable reg D d"
  shows "registrable reg D (fst (handleRegister reg d))"
proof (cases "registration_accepted reg d")
  case True
  then show ?thesis
    using assms instance_register_data_le [of d "field '''' (rg_url reg)" reg "registration_domain reg d"]
    by (auto simp: registrable_def fst_handleRegister)
qed (use assms in \<open>simp add: registrable_def fst_handleRegister\<close>)

interpretation registration: repeatable_request serve_request "RegistrationRequest reg" "registrable reg D" for reg D
proof
  fix d
  assume "registrable reg D d"
  from registrable_register [OF this] show "registrable reg D (fst (serve_request (RegistrationRequest reg) d))"
    by (simp add: fst_serve_request registrable_def split_def Let_def)
qed

lemma served_registration:
  assumes "registrable reg D d" and "serve_request (RegistrationRequest reg) d = (d', r)"
    and "rg_timestamp reg = Some t" and "rg_domain reg = None"
  shows "registration_code (Some r) = SUCCESS"
    and "field DATA (rg_type reg) = DATA \<Longrightarrow> (D, field '''' (rg_id reg), field '''' (rg_url reg), secs t) \<in> listed d'"
    and "field DATA (rg_type reg) = SERVICE \<Longrightarrow>
           map_of (sMap d' D) (field '''' (rg_id reg)) = Some (field '''' (rg_url reg)) \<and>
           instance_of (field '''' (rg_url reg)) d' = t"
proof -
  have d': "d' = flush_pending (fst (handleRegister reg d))"
    using fst_serve_request [of "RegistrationRequest reg" d] assms(2) by (simp add: split_def Let_def)
  have "r = RespDirectory (snd (handleRegister reg d))"
    using snd_serve_request [of "RegistrationRequest reg" d] assms(2) by (simp add: split_def Let_def)
  then show "registration_code (Some r) = SUCCESS" by (simp add: handleRegister_def Let_def)
  have acc: "registration_accepted reg d"
    using assms(1,3) by (simp add: registration_accepted_iff registrable_def)
  have D: "registration_domain reg d = D" "sd_wf d" using assms(1,4) by (simp_all add: registration_domain_def registrable_def)
  show "(D, field '''' (rg_id reg), field '''' (rg_url reg), secs t) \<in> listed d'"
    if "field DATA (rg_type reg) = DATA"
    using acc D that assms(3) by (simp add: d' fst_handleRegister listed_register_data spec_register_def)
  show "map_of (sMap d' D) (field '''' (rg_id reg)) = Some (field '''' (rg_url reg)) \<and>
      instance_of (field '''' (rg_url reg)) d' = t" if "field DATA (rg_type reg) = SERVICE"
    using acc D that assms(3) by (simp add: d' fst_handleRegister)
qed

subsection \<open>Lookups\<close>

definition same_directory :: "sd_state \<Rightarrow> sd_state \<Rightarrow> bool" where
  "same_directory s d \<longleftrightarrow> sd_domain d = sd_domain s \<and> (\<forall>e i. products d e i = products s e i) \<and>
     (\<forall>e. sMap d e = sMap s e) \<and> (\<forall>u. instance_of u d = instance_of u s)"

lemma same_directory_refl [simp]: "same_directory s s"
  by (simp add: same_directory_def)

lemma same_directory_trans: "same_directory s d \<Longrightarrow> same_directory d e \<Longrightarrow> same_directory s e"
  by (simp add: same_directory_def)

lemma same_directory_listed: "same_directory s d \<Longrightarrow> listed d = listed s"
  by (auto simp: same_directory_def listed_iff)

lemma same_directory_lookup: "same_directory s (fst (handleLookup lk s))"
  by (simp add: same_directory_def handleLookup_def Let_def split_def)

interpretation lookup: repeatable_request serve_request "ComponentLookupRequest lk" "same_directory s" for lk s
proof
  fix d
  assume "same_directory s d"
  moreover have "same_directory d (fst (serve_request (ComponentLookupRequest lk) d))"
    using same_directory_lookup [of d lk] by (simp add: fst_serve_request same_directory_def)
  ultimately show "same_directory s (fst (serve_request (ComponentLookupRequest lk) d))"
    by (rule same_directory_trans)
qed

lemma served_data_lookup:
  assumes "same_directory s d" and "serve_request (ComponentLookupRequest lk) d = (d', r)"
    and "field DATA (lk_type lk) = DATA"
  shows "r = RespDataLookup \<lparr>dl_lookupID = Some (lk_lookupID lk),
    dl_publishers = products s (lookup_domain lk s) (lk_lookupID lk), dl_domain_id = Some (lookup_domain lk s)\<rparr>"
proof -
  have "r = snd (handleLookup lk d)" using snd_serve_request [of "ComponentLookupRequest lk" d] assms(2) by simp
  moreover have "lookup_domain lk d = lookup_domain lk s"
    using assms(1) by (simp add: lookup_domain_def same_directory_def split: option.split)
  ultimately show ?thesis
    using assms(1,3) by (simp add: snd_handleLookup_data same_directory_def)
qed

lemma served_service_lookup:
  assumes "same_directory s d" and "serve_request (ComponentLookupRequest lk) d = (d', r)"
    and "field DATA (lk_type lk) = SERVICE" and "map_of (sMap s (lookup_domain lk s)) (lk_lookupID lk) = Some u"
  shows "r = RespServiceLookup \<lparr>sl_lookupID = lk_lookupID lk, sl_url = u,
    sl_domain_id = Some (lookup_domain lk s), sl_registration_time = Some (secs (instance_of u s))\<rparr>"
proof -
  have "r = snd (handleLookup lk d)" using snd_serve_request [of "ComponentLookupRequest lk" d] assms(2) by simp
  moreover have dom: "lookup_domain lk d = lookup_domain lk s"
    using assms(1) by (simp add: lookup_domain_def same_directory_def split: option.split)
  moreover have look: "map_of (sMap d (lookup_domain lk s)) (lk_lookupID lk) = Some u"
    using assms(1,4) by (simp add: same_directory_def)
  moreover have "smap_has (serviceMap d) (lookup_domain lk s)"
    using look by (auto simp: smap_has_def sMap_def smap_at_def field_def split: option.splits)
  ultimately show ?thesis
    using assms(1,3) by (simp add: handleLookup_def Let_def smap_has_def smap_at_def same_directory_def)
qed

end
