(* ===== verification/Node_Services.thy ===== *)
theory Node_Services
  imports GravityNode
begin

section \<open>The node: services and futures (\<open>GravityNode.cpp\<close>)\<close>

text \<open>
  Registering and looking up services, requests, future responses, the heartbeat and the reaction to
  a restarted service directory. The locks of the service manager's socket and of the request
  manager's reply socket are in the state, because two operations return without releasing them.
\<close>

subsection \<open>Registering services\<close>

text \<open>A command to the service manager over its request-reply socket.\<close>

definition sv_call_manager :: "sv_request_cmd \<Rightarrow> gn_world \<Rightarrow> string \<times> gn_world" where
  "sv_call_manager c w =
     (let s = sv_command c (gw_sv w) in (last (sv_replies s), w\<lparr>gw_sv := s\<rparr>))"

definition service_registration :: "string \<Rightarrow> string \<Rightarrow> u64 \<Rightarrow> string \<Rightarrow> ServiceDirectoryRegistrationPB" where
  "service_registration i url timestamp compID =
     \<lparr>rg_id = Some i, rg_url = Some url, rg_type = Some SERVICE, rg_component_id = Some compID,
      rg_domain = None, rg_timestamp = Some timestamp, rg_is_relay = None, rg_ip_address = None\<rparr>"

definition sv_registration_of ::
  "node_env \<Rightarrow> string \<Rightarrow> GravityTransportType \<Rightarrow> nat \<Rightarrow> gn_state \<Rightarrow> sv_registration \<times> gn_state" where
  "sv_registration_of env i transport server n =
     (let (transportStr, endpoint) = transport_endpoint transport (getIP (ne_os_ip env) n) i;
          (minPort, maxPort, n1) = (if transport = TCP then port_range env n else (0, 0, n))
      in (\<lparr>sg_serviceID = i, sg_transportType = transportStr, sg_minPort = minPort, sg_maxPort = maxPort,
           sg_endpoint = endpoint, sg_registrationTime = secs (ne_now env), sg_server = server\<rparr>, n1))"

definition note_service :: "string \<Rightarrow> string \<Rightarrow> u64 \<Rightarrow> gn_state \<Rightarrow> gn_state" where
  "note_service i url timestamp n =
     n\<lparr>gn_serviceMap := smap_put i url (gn_serviceMap n),
       urlInstanceMap := smap_put url timestamp (urlInstanceMap n)\<rparr>"

definition registerService ::
  "node_env \<Rightarrow> string \<Rightarrow> GravityTransportType \<Rightarrow> nat \<Rightarrow> gn_world \<Rightarrow> gn_fail + GravityReturnCode \<times> gn_world" where
  "registerService env i transport server w =
     (let n = gw_node w
      in if \<not> initialized n then Inr (NOT_INITIALIZED, w)
         else if serviceManager_held n then Inl Blocked
         else if smap_has (gn_serviceMap n) i then Inr (SUCCESS, w)
         else (let (r, n1) = sv_registration_of env i transport server n;
                   (connectionURL, w1) = sv_call_manager (SV_Register r (ne_zmq_bind env) (ne_socket env))
                     (w\<lparr>gw_node := n1\<rparr>);
                   (ret, w2) = (if sdn_ipAddress n1 \<noteq> ''''
                     then announce_registration (service_registration i connectionURL (ne_now env) (componentID n1)) w1
                     else (SUCCESS, w1))
               in if ret \<noteq> SUCCESS then Inr (ret, snd (sv_call_manager (SV_Unregister i) w2))
                  else Inr (ret, set_node (note_service i connectionURL (ne_now env)) w2)))"

definition unregisterService :: "string \<Rightarrow> gn_world \<Rightarrow> gn_fail + GravityReturnCode \<times> gn_world" where
  "unregisterService i w =
     (let n = gw_node w
      in if \<not> initialized n then Inr (NOT_INITIALIZED, w)
         else if serviceManager_held n then Inl Blocked
         else if \<not> smap_has (gn_serviceMap n) i then Inr (REGISTRATION_CONFLICT, w)
         else (let url = smap_at '''' (gn_serviceMap n) i;
                   (status, w1) = sv_call_manager (SV_Unregister i) w
               in if \<not> smap_has (urlInstanceMap n) url
                  then Inr (REGISTRATION_CONFLICT, set_node (\<lambda>n. n\<lparr>serviceManager_held := True\<rparr>) w1)
                  else (let w2 = set_node (\<lambda>n. n\<lparr>gn_serviceMap := smap_erase i (gn_serviceMap n)\<rparr>) w1;
                            (ret, w3) = (if sdn_ipAddress n \<noteq> ''''
                              then announce_unregistration
                                \<lparr>ur_id = i, ur_url = url, ur_type = Some SERVICE, ur_domain = None,
                                 ur_registration_time = Some (secs (smap_at 0 (urlInstanceMap n) url))\<rparr> w2
                              else (SUCCESS, w2))
                        in Inr (ret, set_node (\<lambda>n. n\<lparr>urlInstanceMap := smap_erase url (urlInstanceMap n)\<rparr>) w3))))"

subsection \<open>Requests\<close>

definition ServiceDirectoryServiceLookup ::
  "string \<Rightarrow> string \<Rightarrow> gn_world \<Rightarrow> (GravityReturnCode + string \<times> u32) \<times> gn_world" where
  "ServiceDirectoryServiceLookup i d w =
     (let (ret, resp, w1) = sendRequestToServiceDirectory (ComponentLookupRequest
            \<lparr>lk_lookupID = i, lk_type = Some SERVICE, lk_domain_id = Some d\<rparr>) w
      in (if ret \<noteq> SUCCESS then Inl NO_SERVICE_DIRECTORY
          else (case resp of
                  Some (RespServiceLookup r) \<Rightarrow>
                    (if sl_url r \<noteq> '''' then Inr (sl_url r, field 0 (sl_registration_time r))
                     else Inl NO_SUCH_SERVICE)
                | _ \<Rightarrow> Inl LINK_ERROR), w1))"

definition request_url ::
  "string \<Rightarrow> string \<Rightarrow> GravityDataProductPB \<Rightarrow> nat \<Rightarrow> u32 \<Rightarrow> string \<Rightarrow> int \<Rightarrow> gn_state \<Rightarrow> GravityReturnCode \<times> gn_state" where
  "request_url connectionURL serviceID dataProduct requestor regTime requestID timeout_milliseconds n =
     (if \<not> initialized n then (NOT_INITIALIZED, n)
      else (SUCCESS, n\<lparr>to_requester := to_requester n @ [Req_request
              \<lparr>rr_serviceID = serviceID, rr_url = connectionURL, rr_requestID = requestID,
               rr_timeout = timeout_milliseconds, rr_regTime = regTime,
               rr_dataProduct = setDomain (myDomain n) (setComponentId (componentID n) dataProduct),
               rr_requestor = requestor\<rparr>]\<rparr>))"

definition request_async ::
  "string \<Rightarrow> GravityDataProductPB \<Rightarrow> nat \<Rightarrow> string \<Rightarrow> int \<Rightarrow> string \<Rightarrow> gn_world \<Rightarrow> GravityReturnCode \<times> gn_world" where
  "request_async serviceID dataProduct requestor requestID timeout_milliseconds domain w =
     (if \<not> initialized (gw_node w) then (NOT_INITIALIZED, w)
      else (case ServiceDirectoryServiceLookup serviceID domain w of
              (Inl ret, w1) \<Rightarrow> (ret, w1)
            | (Inr (url, regTime), w1) \<Rightarrow>
                (let (ret, n1) = request_url url serviceID dataProduct requestor regTime requestID
                       timeout_milliseconds (gw_node w1)
                 in (ret, w1\<lparr>gw_node := n1\<rparr>))))"

text \<open>
  The synchronous request. \<open>ask url\<close> is the provider that listens at a URL, \<open>p\<close> the state of the
  providers; \<open>timeoutFor\<close> is the time left for the second exchange.
\<close>

definition time_left :: "int \<Rightarrow> u64 \<Rightarrow> u64 \<Rightarrow> int" where
  "time_left timeout t1 t2 =
     (if 0 < timeout
      then (let t = timeout - int (unat (t2 - t1) div 1000) in if t \<le> 0 then 1 else t)
      else timeout)"

definition request_sync ::
  "(string \<Rightarrow> GravityDataProductPB \<Rightarrow> 'p \<Rightarrow> 'p \<times> GravityDataProductPB) \<Rightarrow> net_outcome \<Rightarrow> net_outcome \<Rightarrow>
     string \<Rightarrow> GravityDataProductPB \<Rightarrow> string \<Rightarrow> 'p \<Rightarrow> gn_world \<Rightarrow> GravityDataProductPB option \<times> 'p \<times> gn_world" where
  "request_sync ask first second serviceID dataProduct domain p w =
     (if \<not> initialized (gw_node w) then (None, p, w)
      else (let rq = setDomain (myDomain (gw_node w)) (setComponentId (componentID (gw_node w)) dataProduct)
            in case ServiceDirectoryServiceLookup serviceID domain w of
                 (Inl ret, w1) \<Rightarrow> (None, p, w1)
               | (Inr (url, regTime), w1) \<Rightarrow>
                   (case sendRequestToServiceProvider (ask url) rq first p of
                      (ret, resp, p1) \<Rightarrow>
                        (case (if ret = SUCCESS then resp else None) of
                           None \<Rightarrow> (None, p1, w1)
                         | Some r \<Rightarrow>
                             (if getRegistrationTime r \<noteq> regTime then (None, p1, w1)
                              else if isFutureResponse r
                              then (case sendRequestToServiceProvider
                                           (ask (field '''' (dp_future_socket_url r))) rq second p1 of
                                      (ret, resp, p2) \<Rightarrow> (if ret = SUCCESS then resp else None, p2, w1))
                              else (Some r, p1, w1))))))"

subsection \<open>Future responses\<close>

definition FutureResponse :: "string \<Rightarrow> GravityDataProductPB" where
  "FutureResponse url = (GravityDataProduct ''FutureResponse'')
     \<lparr>dp_future_response := Some True, dp_future_socket_url := Some url\<rparr>"

definition node_createFutureResponse ::
  "node_env \<Rightarrow> gn_world \<Rightarrow> gn_fail + GravityDataProductPB option \<times> gn_world" where
  "node_createFutureResponse env w =
     (let n = gw_node w
      in if \<not> initialized n then Inr (None, w)
         else if requestManagerRep_held n then Inl Blocked
         else (let (minPort, maxPort, n1) = port_range env n;
                   s = rm_future_command (RM_CreateFuture (ne_zmq_bind env) (ne_socket env)
                         (getIP (ne_os_ip env) n) minPort maxPort) (gw_rm w);
                   w1 = w\<lparr>gw_node := n1, gw_rm := s\<rparr>
               in case last (rm_replies s) of
                    Reply_string url \<Rightarrow>
                      (if url = ''''
                       then Inr (None, set_node (\<lambda>n. n\<lparr>requestManagerRep_held := True\<rparr>) w1)
                       else Inr (Some (FutureResponse url), w1))
                  | Reply_int i \<Rightarrow> Inl Blocked))"

text \<open>
  \<open>parse\<close> stands for decoding the response stored in the future response's data; the answer of the
  request manager is the newest reply, and the caller waits forever if it sends none.
\<close>

definition node_sendFutureResponse ::
  "(string \<Rightarrow> GravityDataProductPB) \<Rightarrow> poll_outcome \<Rightarrow> GravityDataProductPB \<Rightarrow> gn_world \<Rightarrow> gn_fail + int \<times> gn_world" where
  "node_sendFutureResponse parse poll futureResponse w =
     (let n = gw_node w
      in if \<not> initialized n then Inr (code_value NOT_INITIALIZED, w)
         else if requestManagerRep_held n then Inl Blocked
         else (let response = setDomain (myDomain n) (setComponentId (componentID n)
                     (parse (field '''' (dp_data futureResponse))));
                   s = rm_future_command (RM_SendFuture poll (field '''' (dp_future_socket_url futureResponse))
                         response) (gw_rm w)
               in if length (rm_replies s) = length (rm_replies (gw_rm w)) then Inl Blocked
                  else (case last (rm_replies s) of
                          Reply_int ret \<Rightarrow> Inr (ret, w\<lparr>gw_rm := s\<rparr>)
                        | Reply_string t \<Rightarrow> Inl Blocked)))"

end
