(* ===== verification/Node_Control.thy ===== *)
theory Node_Control
  imports Node_Services
begin

section \<open>The node: directory location, restarts and heartbeat (\<open>GravityNode.cpp\<close>)\<close>

text \<open>
  Taking the service directory's URL apart, waiting for its broadcast, registering everything again
  when it has restarted, starting and stopping the heartbeat, and the names of the return codes.
  \<open>resolve\<close> is the name lookup of \<open>toDottedQuad\<close>; a \<open>std::out_of_range\<close> from \<open>substr\<close> is the
  result \<open>None\<close>.
\<close>

subsection \<open>The location of the service directory\<close>

text \<open>\<open>find_first_of cs pos s\<close>: the first index from \<open>pos\<close> on with a character of \<open>cs\<close>.\<close>

definition find_first_of :: "string \<Rightarrow> nat \<Rightarrow> string \<Rightarrow> nat option" where
  "find_first_of cs pos s =
     (let k = length (takeWhile (\<lambda>c. c \<notin> set cs) (drop pos s))
      in if pos + k < length s then Some (pos + k) else None)"

text \<open>\<open>s.substr(pos, pos1 - pos)\<close>, where \<open>npos\<close> as \<open>pos1\<close> means the rest.\<close>

definition substr_to :: "nat \<Rightarrow> nat option \<Rightarrow> string \<Rightarrow> string option" where
  "substr_to pos pos1 s =
     (if length s < pos then None
      else Some (case pos1 of None \<Rightarrow> drop pos s | Some q \<Rightarrow> take (q - pos) (drop pos s)))"

record directory_location =
  loc_transport :: string
  loc_ipAddress :: string
  loc_port :: "16 word"

definition parse_directory_url :: "(string \<Rightarrow> string) \<Rightarrow> string \<Rightarrow> directory_location option" where
  "parse_directory_url resolve url =
     (let (transport, pos) = (case find_first_of ''://'' 0 url of
            Some p \<Rightarrow> (take p url, p + 3)
          | None \<Rightarrow> (''tcp'', 0));
          pos1 = find_first_of '':'' pos url
      in case substr_to pos pos1 url of
           None \<Rightarrow> None
         | Some ip0 \<Rightarrow>
             (let ip1 = (if ip0 = '''' \<or> ip0 = ''*'' then ''localhost'' else ip0);
                  ip2 = (if ip1 \<noteq> ''localhost'' \<and> ip1 \<noteq> ''0.0.0.0'' then resolve ip1 else ip1);
                  portText = (case pos1 of None \<Rightarrow> url | Some q \<Rightarrow> drop (q + 1) url)
              in Some \<lparr>loc_transport = transport, loc_ipAddress = ip2,
                       loc_port = word_of_int (StringToInt portText 5555)\<rparr>))"

definition updateServiceDirectoryUrl :: "(string \<Rightarrow> string) \<Rightarrow> string \<Rightarrow> gn_state \<Rightarrow> gn_state option" where
  "updateServiceDirectoryUrl resolve url n =
     (case parse_directory_url resolve url of
        None \<Rightarrow> None
      | Some l \<Rightarrow> Some (n\<lparr>sdn_transport := loc_transport l, sdn_ipAddress := loc_ipAddress l,
                           sdn_port := loc_port l,
                           to_subscriber := to_subscriber n @ [Sub_set_url url],
                           to_requester := to_requester n @ [Req_set_url url]\<rparr>))"

text \<open>The URL that \<open>sendRequestToServiceDirectory\<close> puts together.\<close>

definition directory_url :: "gn_state \<Rightarrow> string" where
  "directory_url n = sdn_transport n @ ''://'' @ sdn_ipAddress n @ '':'' @ show_int (uint (sdn_port n))"

text \<open>
  Waiting for the broadcast: a round of 100 ms polls the socket and reads one frame, or three when
  the first one is \<open>connect\<close>. A round is \<open>None\<close> when the poll fails, and otherwise the frames that
  have arrived since the round before; no round left means that nothing arrives any more.
\<close>

fun next_round :: "string list option list \<Rightarrow> string list option" where
  "next_round [] = Some []"
| "next_round (r # rs) = r"

fun domain_url_loop :: "nat \<Rightarrow> string list \<Rightarrow> string list option list \<Rightarrow> string" where
  "domain_url_loop 0 frames rounds = []"
| "domain_url_loop (Suc n) frames rounds =
     (case next_round rounds of
        None \<Rightarrow> []
      | Some arrived \<Rightarrow>
          (case frames @ arrived of
             [] \<Rightarrow> domain_url_loop n [] (tl rounds)
           | command # rest \<Rightarrow>
               (if command = ''connect'' then (case rest of d # url # _ \<Rightarrow> url | _ \<Rightarrow> [])
                else domain_url_loop n rest (tl rounds))))"

text \<open>\<open>waitTime < timeout * 1000\<close> with steps of 100 leaves ten rounds per second.\<close>

definition getDomainUrl :: "int \<Rightarrow> string list option list \<Rightarrow> string" where
  "getDomainUrl timeout rounds = domain_url_loop (nat (timeout * 10)) [] rounds"

subsection \<open>Registering again\<close>

text \<open>One registration with its retries: the exchange, then up to \<open>numTries\<close> more.\<close>

fun reregister_tries :: "nat \<Rightarrow> ServiceDirectoryRegistrationPB \<Rightarrow> gn_world \<Rightarrow> GravityReturnCode \<times> gn_world" where
  "reregister_tries numTries reg w =
     (let (ret, resp, w1) = sendRequestToServiceDirectory (RegistrationRequest reg) w
      in if ret = SUCCESS then (ret, w1)
         else (case numTries of 0 \<Rightarrow> (ret, w1) | Suc k \<Rightarrow> reregister_tries k reg w1))"

definition reregistration :: "RegistrationType \<Rightarrow> string \<Rightarrow> gn_state \<Rightarrow> string \<times> string \<Rightarrow> ServiceDirectoryRegistrationPB" where
  "reregistration ty compID n iu =
     \<lparr>rg_id = Some (fst iu), rg_url = Some (snd iu), rg_type = Some ty, rg_component_id = Some compID,
      rg_domain = None, rg_timestamp = Some (smap_at 0 (urlInstanceMap n) (snd iu)), rg_is_relay = None,
      rg_ip_address = None\<rparr>"

text \<open>Reading \<open>urlInstanceMap[url]\<close> of an unknown URL inserts a zero.\<close>

definition reregister_one ::
  "RegistrationType \<Rightarrow> string \<Rightarrow> string \<times> string \<Rightarrow> GravityReturnCode \<times> gn_world \<Rightarrow> GravityReturnCode \<times> gn_world" where
  "reregister_one ty compID iu rw =
     (let n = gw_node (snd rw);
          w0 = set_node (\<lambda>n. n\<lparr>urlInstanceMap := smap_touch (snd iu) 0 (urlInstanceMap n)\<rparr>) (snd rw);
          (ret, w1) = reregister_tries 3 (reregistration ty compID n iu) w0
      in (if ret = SUCCESS then fst rw else ret, w1))"

fun resubscribe_tries :: "nat \<Rightarrow> NodeSubscription \<Rightarrow> gn_world \<Rightarrow> gn_world" where
  "resubscribe_tries numTries x w =
     (let (ret, w1) = subscribeInternal (ns_dataProductID x) (ns_subscriber x) (ns_filter x) (ns_domain x) True w
      in if ret = SUCCESS then w1
         else (case numTries of 0 \<Rightarrow> w1 | Suc k \<Rightarrow> resubscribe_tries k x w1))"

definition ServiceDirectoryReregister ::
  "(string \<Rightarrow> string) \<Rightarrow> string \<Rightarrow> string \<Rightarrow> gn_world \<Rightarrow> gn_fail + GravityReturnCode \<times> gn_world" where
  "ServiceDirectoryReregister resolve compID url w =
     (case updateServiceDirectoryUrl resolve url (gw_node w) of
        None \<Rightarrow> Inl Crashed
      | Some n1 \<Rightarrow>
          (let (ret1, w1) = fold (reregister_one DATA compID) (publishMap n1) (SUCCESS, w\<lparr>gw_node := n1\<rparr>)
           in if serviceManager_held n1 then Inl Blocked
              else (let (ret2, w2) = fold (reregister_one SERVICE compID) (gn_serviceMap (gw_node w1)) (ret1, w1);
                        w3 = fold (resubscribe_tries 3) (subscriptionList (gw_node w2)) w2
                    in Inr (ret2, w3))))"

text \<open>A broadcast in the listener thread of the node; \<open>lastStart\<close> is the last start time seen.\<close>

definition on_domain_broadcast ::
  "(string \<Rightarrow> string) \<Rightarrow> string \<Rightarrow> string \<Rightarrow> ServiceDirectoryBroadcastPB \<Rightarrow> int \<times> string list list \<times> gn_world \<Rightarrow>
     gn_fail + int \<times> string list list \<times> gn_world" where
  "on_domain_broadcast resolve domain compID pb st =
     (case st of (lastStart, sent, w) \<Rightarrow>
        (if domain \<noteq> bc_domain pb then Inr st
         else (let sent1 = sent @ [[''connect'', domain, bc_url pb]]
               in if lastStart < bc_starttime pb
                  then (if lastStart \<noteq> 0
                        then (case ServiceDirectoryReregister resolve compID (bc_url pb) w of
                                Inl e \<Rightarrow> Inl e
                              | Inr (ret, w1) \<Rightarrow> Inr (bc_starttime pb, sent1, w1))
                        else Inr (bc_starttime pb, sent1, w))
                  else Inr (lastStart, sent1, w))))"

subsection \<open>Heartbeat\<close>

definition heartbeat_name :: "string \<Rightarrow> string" where
  "heartbeat_name compID = compID @ ''_GravityHeartbeat''"

record HBParams =
  hp_interval_in_microseconds :: int
  hp_componentID :: string
  hp_minPort :: int
  hp_maxPort :: int
  hp_endpoint :: string
  hp_registrationTime :: u32

definition startHeartbeat ::
  "node_env \<Rightarrow> int \<Rightarrow> gn_world \<Rightarrow> gn_fail + (GravityReturnCode \<times> HBParams option) \<times> gn_world" where
  "startHeartbeat env interval w =
     (let n = gw_node w
      in if \<not> initialized n then Inr ((NOT_INITIALIZED, None), w)
         else if interval < 0 then Inr ((FAILURE, None), w)
         else if heartbeatStarted n then Inr ((FAILURE, None), w)
         else then_do (registerDataProductInternal env (heartbeat_name (componentID n)) TCP False False False True w)
                (\<lambda>ret w1. (let name = heartbeat_name (componentID n);
                               (minPort, maxPort, n1) = port_range env (gw_node w1);
                               n2 = n1\<lparr>dataRegistrationTimeMap := smap_touch name 0 (dataRegistrationTimeMap n1),
                                       heartbeatStarted := True\<rparr>
                           in Inr ((SUCCESS, Some \<lparr>hp_interval_in_microseconds = interval,
                                hp_componentID = name, hp_minPort = minPort, hp_maxPort = maxPort,
                                hp_endpoint = getIP (ne_os_ip env) n1,
                                hp_registrationTime = smap_at 0 (dataRegistrationTimeMap n1) name\<rparr>),
                                w1\<lparr>gw_node := n2\<rparr>))))"

definition stopHeartbeat :: "gn_world \<Rightarrow> gn_fail + GravityReturnCode \<times> gn_world" where
  "stopHeartbeat w =
     (let n = gw_node w
      in if \<not> initialized n then Inr (NOT_INITIALIZED, w)
         else if heartbeatStarted n
         then node_unregisterDataProduct (heartbeat_name (componentID n))
                (set_node (\<lambda>n. n\<lparr>heartbeatStarted := False\<rparr>) w)
         else Inr (SUCCESS, w))"

subsection \<open>Names of return codes\<close>

fun code_name :: "GravityReturnCode \<Rightarrow> string option" where
  "code_name SUCCESS = Some ''SUCCESS''"
| "code_name FAILURE = Some ''FAILURE''"
| "code_name NO_SERVICE_DIRECTORY = Some ''NO_SERVICE_DIRECTORY''"
| "code_name REQUEST_TIMEOUT = Some ''REQUEST_TIMEOUT''"
| "code_name DUPLICATE = Some ''DUPLICATE''"
| "code_name REGISTRATION_CONFLICT = Some ''REGISTRATION_CONFLICT''"
| "code_name NOT_REGISTERED = Some ''NOT_REGISTERED''"
| "code_name NO_SUCH_SERVICE = Some ''NO_SUCH_SERVICE''"
| "code_name LINK_ERROR = Some ''LINK_ERROR''"
| "code_name INTERRUPTED = Some ''INTERRUPTED''"
| "code_name NO_SERVICE_PROVIDER = Some ''NO_SERVICE_PROVIDER''"
| "code_name NO_PORTS_AVAILABLE = Some ''NO_PORTS_AVAILABLE''"
| "code_name INVALID_PARAMETER = Some ''INVALID_PARAMETER''"
| "code_name NOT_INITIALIZED = Some ''NOT_INITIALIZED''"
| "code_name RESERVED_DATA_PRODUCT_ID = None"

definition getCodeString :: "GravityReturnCode \<Rightarrow> string" where
  "getCodeString code = (case code_name code of None \<Rightarrow> show_int (code_value code) | Some s \<Rightarrow> s)"

end
