(* ===== verification/Node_Correct.thy ===== *)
theory Node_Correct
  imports Node_Directory Node_Control Publish_Correct
begin

section \<open>Correctness of the node's registrations\<close>

text \<open>
  A registration that reports success has reached the directory whatever the network did, and the
  node, its publish manager and the directory agree on URL and registration time; one that reports a
  failure leaves neither the node nor the publish manager with the data product, but it may leave the
  directory with it. The record of the service directory's location round-trips with the URL that the
  requests are sent to.
\<close>

subsection \<open>Reading parameters\<close>

definition params_frame :: "gn_state \<Rightarrow> gn_state \<Rightarrow> bool" where
  "params_frame n n' \<longleftrightarrow> initialized n' = initialized n \<and> componentID n' = componentID n \<and>
     myDomain n' = myDomain n \<and> sdn_ipAddress n' = sdn_ipAddress n \<and> publishMap n' = publishMap n \<and>
     gn_serviceMap n' = gn_serviceMap n \<and> urlInstanceMap n' = urlInstanceMap n \<and>
     subscriptionList n' = subscriptionList n \<and> serviceManager_held n' = serviceManager_held n \<and>
     to_subscriber n' = to_subscriber n \<and> to_requester n' = to_requester n \<and>
     (\<forall>i. smap_at 0 (dataRegistrationTimeMap n') i = smap_at 0 (dataRegistrationTimeMap n) i)"

lemma params_frame_refl [simp]: "params_frame n n"
  by (simp add: params_frame_def)

lemma params_frame_trans: "params_frame n m \<Longrightarrow> params_frame m k \<Longrightarrow> params_frame n k"
  by (simp add: params_frame_def)

lemma params_frame_string: "getStringParam env key v n = (r, n') \<Longrightarrow> params_frame n n'"
  by (auto simp: getStringParam_def node_publish_def params_frame_def Let_def split: option.splits if_splits)

lemma params_frame_int: "getIntParam env key v n = (r, n') \<Longrightarrow> params_frame n n'"
  by (auto simp: getIntParam_def split_def Let_def intro: params_frame_string [OF surjective_pairing])

lemma params_frame_ports: "port_range env n = (a, b, n') \<Longrightarrow> params_frame n n'"
  by (auto simp: port_range_def split: prod.splits intro: params_frame_trans dest!: params_frame_int)

lemma params_frame_registration:
  "pm_registration_of env i tr c n = (r, n') \<Longrightarrow> params_frame n n' \<and> pr_dataProductID r = i"
  by (auto simp: pm_registration_of_def split: prod.splits if_splits dest: params_frame_ports)

lemma params_frame_service:
  "sv_registration_of env i tr sv n = (r, n') \<Longrightarrow>
     params_frame n n' \<and> sg_serviceID r = i \<and> sg_registrationTime r = secs (ne_now env) \<and> sg_server r = sv"
  by (auto simp: sv_registration_of_def split: prod.splits if_splits dest: params_frame_ports)

subsection \<open>The publish manager's part\<close>

lemma bind_publisher_not_empty: "bind_publisher zb r = Some url \<Longrightarrow> url \<noteq> ''''"
  by (auto simp: bind_publisher_def Let_def split: if_splits)

lemma pm_call_register:
  assumes "pm_call (PRegister r zb (Some k)) w = Inr (reply, w')"
  shows "gw_node w' = gw_node w \<and> gw_dir w' = gw_dir w \<and> gw_net w' = gw_net w \<and> gw_sv w' = gw_sv w \<and>
     (reply_text reply \<noteq> '''' \<longrightarrow>
        map_of (publishMapByID (gw_pm w')) (pr_dataProductID r) = Some (Some k) \<and>
        (\<exists>pd. map_of (publishMapBySocket (gw_pm w')) k = Some pd \<and> pd_url pd = reply_text reply \<and>
              pd_dataProductID pd = pr_dataProductID r)) \<and>
     (reply_text reply = '''' \<longrightarrow> publishMapByID (gw_pm w') = publishMapByID (gw_pm w))"
  using assms bind_publisher_not_empty [of zb r]
  by (auto simp: pm_call_def registerDataProduct_def split: option.splits)

lemma pm_call_unregister:
  assumes "pm_call (PUnregister i) w = Inr (reply, w')"
  shows "gw_node w' = gw_node w \<and> gw_dir w' = gw_dir w \<and> map_of (publishMapByID (gw_pm w')) i = None \<and>
     (\<forall>j. j \<noteq> i \<longrightarrow> map_of (publishMapByID (gw_pm w')) j = map_of (publishMapByID (gw_pm w)) j)"
  using assms by (auto simp: pm_call_def unregisterDataProduct_def Let_def split: option.splits)

subsection \<open>The directory's part\<close>

lemma announce_registration_frame:
  "announce_registration reg w = (ret, w') \<Longrightarrow>
     gw_node w' = gw_node w \<and> gw_pm w' = gw_pm w \<and> gw_sv w' = gw_sv w \<and> gw_rm w' = gw_rm w"
  by (auto simp: announce_registration_def sendRequestToServiceDirectory_def Let_def split: prod.splits)

lemma announce_registration_success:
  assumes "announce_registration reg w = (SUCCESS, w')" and "registrable reg D (gw_dir w)"
    and "rg_timestamp reg = Some t" and "rg_domain reg = None"
  shows "registrable reg D (gw_dir w')"
    and "field DATA (rg_type reg) = DATA \<Longrightarrow>
           (D, field '''' (rg_id reg), field '''' (rg_url reg), secs t) \<in> listed (gw_dir w')"
    and "field DATA (rg_type reg) = SERVICE \<Longrightarrow>
           map_of (sMap (gw_dir w') D) (field '''' (rg_id reg)) = Some (field '''' (rg_url reg)) \<and>
           instance_of (field '''' (rg_url reg)) (gw_dir w') = t"
proof -
  obtain ret resp net d where send: "sendRequestsToServiceProvider serve_request (RegistrationRequest reg)
      NETWORK_RETRIES (gw_net w) (gw_dir w) = (ret, resp, net, d)"
    using prod_cases4 by blast
  have w': "gw_dir w' = d" and ret: "ret = SUCCESS"
    using assms(1) send
    by (auto simp: announce_registration_def sendRequestToServiceDirectory_def split: if_splits)
  obtain d0 r where "registrable reg D d0" "serve_request (RegistrationRequest reg) d0 = (d, r)"
    using registration.send_many(2) [OF assms(2) send ret] by blast
  note served = served_registration [OF this assms(3,4)]
  show "registrable reg D (gw_dir w')" unfolding w' by (rule registration.send_many(1) [OF assms(2) send])
  show "field DATA (rg_type reg) = DATA \<Longrightarrow>
      (D, field '''' (rg_id reg), field '''' (rg_url reg), secs t) \<in> listed (gw_dir w')"
    unfolding w' by (rule served(2))
  show "field DATA (rg_type reg) = SERVICE \<Longrightarrow>
      map_of (sMap (gw_dir w') D) (field '''' (rg_id reg)) = Some (field '''' (rg_url reg)) \<and>
      instance_of (field '''' (rg_url reg)) (gw_dir w') = t"
    unfolding w' by (rule served(3))
qed

subsection \<open>Registering a data product\<close>

text \<open>The clock of the node is not behind any timestamp that the directory knows.\<close>

definition clock_ahead :: "node_env \<Rightarrow> sd_state \<Rightarrow> bool" where
  "clock_ahead env d \<longleftrightarrow> (\<forall>u. instance_of u d \<le> ne_now env)"

text \<open>The registration \<open>i\<close> at \<open>url\<close> is in place: node, publish manager and directory agree.\<close>

definition in_place :: "string \<Rightarrow> string \<Rightarrow> u64 \<Rightarrow> gn_world \<Rightarrow> bool" where
  "in_place i url t w \<longleftrightarrow> map_of (publishMap (gw_node w)) i = Some url \<and>
     map_of (urlInstanceMap (gw_node w)) url = Some t \<and>
     map_of (dataRegistrationTimeMap (gw_node w)) i = Some (secs t) \<and>
     (\<exists>k pd. map_of (publishMapByID (gw_pm w)) i = Some (Some k) \<and>
        map_of (publishMapBySocket (gw_pm w)) k = Some pd \<and> pd_url pd = url) \<and>
     (sd_domain (gw_dir w), i, url, secs t) \<in> listed (gw_dir w)"

lemma register_steps:
  assumes "registerDataProductInternal env i tr c rel lo ar w = Inr (ret, w')"
    and "initialized (gw_node w)" and "\<not> reserved_id ar i (gw_node w)" and "\<not> smap_has (publishMap (gw_node w)) i"
  obtains r n1 reply w2 w3 where "pm_registration_of env i tr c (gw_node w) = (r, n1)"
    and "pm_call (PRegister r (ne_zmq_bind env) (Some (ne_socket env))) (w\<lparr>gw_node := n1\<rparr>) = Inr (reply, w2)"
    and "register_with_directory env i (reply_text reply) rel lo w2 = (ret, w3)"
    and "finish_registration i (reply_text reply) (ne_now env) ret w3 = Inr (ret, w')"
proof -
  obtain r n1 where r: "pm_registration_of env i tr c (gw_node w) = (r, n1)" by fastforce
  obtain reply w2 where w2: "pm_call (PRegister r (ne_zmq_bind env) (Some (ne_socket env)))
      (w\<lparr>gw_node := n1\<rparr>) = Inr (reply, w2)"
    and rest: "(let (ret, w3) = register_with_directory env i (reply_text reply) rel lo w2
       in finish_registration i (reply_text reply) (ne_now env) ret w3) = Inr (ret, w')"
    using assms r by (auto simp: registerDataProductInternal_def Let_def then_do_Inr)
  obtain ret3 w3 where w3: "register_with_directory env i (reply_text reply) rel lo w2 = (ret3, w3)" by fastforce
  have "ret3 = ret" using rest w3 by (auto simp: finish_registration_def then_do_Inr split: if_splits)
  then show thesis using that [OF r w2] w3 rest by simp
qed

text \<open>C5. When registering a data product reports success, then however many of the attempts were
  lost, late or garbled, the registration is in place: the node maps the data product to a URL, its
  publish manager has a socket bound to that URL, and the directory lists the URL for the data product
  in its domain with the seconds of the timestamp that the node keeps for it.\<close>

theorem registration_in_place:
  assumes "registerDataProductInternal env i tr c rel lo ar w = Inr (SUCCESS, w')"
    and "initialized (gw_node w)" and "\<not> reserved_id ar i (gw_node w)" and "\<not> smap_has (publishMap (gw_node w)) i"
    and "sd_wf (gw_dir w)" and "clock_ahead env (gw_dir w)"
  shows "\<exists>url. url \<noteq> '''' \<and> in_place i url (ne_now env) w' \<and> sd_domain (gw_dir w') = sd_domain (gw_dir w)"
proof -
  obtain r n1 reply w2 w3 where r: "pm_registration_of env i tr c (gw_node w) = (r, n1)"
    and w2: "pm_call (PRegister r (ne_zmq_bind env) (Some (ne_socket env))) (w\<lparr>gw_node := n1\<rparr>) = Inr (reply, w2)"
    and w3: "register_with_directory env i (reply_text reply) rel lo w2 = (SUCCESS, w3)"
    and w': "finish_registration i (reply_text reply) (ne_now env) SUCCESS w3 = Inr (SUCCESS, w')"
    using register_steps [OF assms(1-4)] by metis
  let ?url = "reply_text reply"
  note pm = pm_call_register [OF w2]
  have url: "?url \<noteq> ''''" and ann: "\<exists>ip. announce_registration
      (data_registration i ?url (ne_now env) rel ip (gw_node w2)) w2 = (SUCCESS, w3)"
    using w3 by (auto simp: register_with_directory_def Let_def split: if_splits)
  then obtain ip where ann: "announce_registration
      (data_registration i ?url (ne_now env) rel ip (gw_node w2)) w2 = (SUCCESS, w3)" by blast
  let ?reg = "data_registration i ?url (ne_now env) rel ip (gw_node w2)"
  have "registrable ?reg (sd_domain (gw_dir w)) (gw_dir w2)"
    using pm assms(5,6) by (simp add: registrable_def data_registration_def clock_ahead_def)
  note ok = announce_registration_success [OF ann this, of "ne_now env"]
  have "(sd_domain (gw_dir w), i, ?url, secs (ne_now env)) \<in> listed (gw_dir w3)"
    "sd_domain (gw_dir w3) = sd_domain (gw_dir w)"
    using ok(1,2) by (simp_all add: data_registration_def registrable_def)
  moreover have "w' = set_node (note_publisher i ?url (ne_now env)) w3"
    using w' by (simp add: finish_registration_def)
  ultimately have "in_place i ?url (ne_now env) w' \<and> sd_domain (gw_dir w') = sd_domain (gw_dir w)"
    using pm url announce_registration_frame [OF ann] params_frame_registration [OF r]
    by (auto simp: in_place_def set_node_def note_publisher_def)
  then show ?thesis using url by blast
qed

lemma registration_code_served:
  "registration_code (Some (snd (serve_request (RegistrationRequest reg) d))) = SUCCESS"
  by (simp add: snd_serve_request split_def Let_def handleRegister_def)

lemma announce_after_delay:
  assumes "gw_net w = [Net_late, Net_ok]"
  shows "\<exists>d. announce_registration reg w = (SUCCESS, w\<lparr>gw_net := [], gw_dir := d\<rparr>)"
  using assms
  by (auto simp: announce_registration_def sendRequestToServiceDirectory_def
      sendRequestsToServiceProvider_def NETWORK_RETRIES_def numeral_3_eq_3
      sendRequestToServiceProvider_def registration_code_served split_def Let_def)

definition sample_node :: "gn_state" where
  "sample_node = GravityNode_default\<lparr>initialized := True, componentID := ''C'', myDomain := ''D'',
     sdn_ipAddress := ''localhost''\<rparr>"

definition sample_world :: "net_outcome list \<Rightarrow> gn_world" where
  "sample_world net = \<lparr>gw_node = sample_node, gw_pm = pm_init, gw_sv = sv_init ''D'' ''C'', gw_rm = rm_init,
     gw_dir = sd_init ''D'', gw_net = net\<rparr>"

definition sample_env :: "u64 \<Rightarrow> node_env" where
  "sample_env t = \<lparr>ne_now = t, ne_socket = 9, ne_zmq_bind = (\<lambda>_. 0), ne_os_ip = ''10.0.0.1'',
     ne_param_bytes = (\<lambda>k v b. k @ v)\<rparr>"

lemmas sample_defs = sample_world_def sample_node_def sample_env_def GravityNode_default_def blank_node_def
  METRICS_DATA_DPID_def GRAVITY_SETTINGS_DPID_def GRAVITY_LOGGER_DPID_def REGISTERED_PUBLISHERS_DPID_def
  DOMAIN_DETAILS_DPID_def DOMAIN_UPDATE_DPID_def DIRECTORY_SERVICE_DPID_def

lemma sample_register:
  "\<exists>w'. registerDataProductInternal (sample_env t) ''P'' INPROC True False False False
     (sample_world [Net_late, Net_ok]) = Inr (SUCCESS, w')"
proof -
  let ?w = "sample_world [Net_late, Net_ok]"
  have pm: "\<exists>s. pm_handle (\<lambda>b. b) (PRegister \<lparr>pr_dataProductID = ''P'', pr_cacheLastValue = True,
      pr_transportType = ''inproc'', pr_minPort = 0, pr_maxPort = 0, pr_endpoint = ''P''\<rparr> (\<lambda>_. 0) (Some 9)) pm_init =
      Some (s, ReplyString ''inproc://P'')"
    by (simp add: registerDataProduct_def bind_publisher_def)
  then obtain s where s: "pm_handle (\<lambda>b. b) (PRegister \<lparr>pr_dataProductID = ''P'', pr_cacheLastValue = True,
      pr_transportType = ''inproc'', pr_minPort = 0, pr_maxPort = 0, pr_endpoint = ''P''\<rparr> (\<lambda>_. 0) (Some 9)) pm_init =
      Some (s, ReplyString ''inproc://P'')" by blast
  have "\<exists>d. announce_registration (data_registration ''P'' ''inproc://P'' t False None sample_node)
      (?w\<lparr>gw_pm := s\<rparr>) = (SUCCESS, ?w\<lparr>gw_pm := s, gw_net := [], gw_dir := d\<rparr>)"
    using announce_after_delay [of "?w\<lparr>gw_pm := s\<rparr>"] by (simp add: sample_world_def)
  then show ?thesis
    using s
    by (auto simp: registerDataProductInternal_def pm_registration_of_def pm_call_def reserved_id_def
        register_with_directory_def finish_registration_def smap_has_def sample_defs simp del: pm_handle.simps)
qed

theorem registration_in_place_witness:
  "\<exists>w' url. registerDataProductInternal (sample_env 5000000) ''P'' INPROC True False False False
     (sample_world [Net_late, Net_ok]) = Inr (SUCCESS, w') \<and> in_place ''P'' url 5000000 w'"
proof -
  obtain w' where w': "registerDataProductInternal (sample_env 5000000) ''P'' INPROC True False False False
     (sample_world [Net_late, Net_ok]) = Inr (SUCCESS, w')" using sample_register by blast
  have "initialized (gw_node (sample_world [Net_late, Net_ok]))"
    "\<not> reserved_id False ''P'' (gw_node (sample_world [Net_late, Net_ok]))"
    "\<not> smap_has (publishMap (gw_node (sample_world [Net_late, Net_ok]))) ''P''"
    "sd_wf (gw_dir (sample_world [Net_late, Net_ok]))"
    "clock_ahead (sample_env 5000000) (gw_dir (sample_world [Net_late, Net_ok]))"
    by (simp_all add: sample_defs reserved_id_def smap_has_def clock_ahead_def)
  from registration_in_place [OF w' this] w' show ?thesis by (auto simp: sample_env_def)
qed

subsection \<open>A registration that fails\<close>

text \<open>C38. When registering a data product that the node does not have reports an error, then
  neither the node nor its publish manager has the data product afterwards, and what they have for
  other data products is unchanged.\<close>

theorem failed_registration_leaves_nothing:
  assumes "registerDataProductInternal env i tr c rel lo ar w = Inr (ret, w')" and "ret \<noteq> SUCCESS"
    and "initialized (gw_node w)" and "\<not> reserved_id ar i (gw_node w)" and "\<not> smap_has (publishMap (gw_node w)) i"
  shows "publishMap (gw_node w') = publishMap (gw_node w) \<and>
     map_of (publishMapByID (gw_pm w')) i = None \<and>
     (\<forall>j. j \<noteq> i \<longrightarrow> map_of (publishMapByID (gw_pm w')) j = map_of (publishMapByID (gw_pm w)) j)"
proof -
  obtain r n1 reply w2 w3 where r: "pm_registration_of env i tr c (gw_node w) = (r, n1)"
    and w2: "pm_call (PRegister r (ne_zmq_bind env) (Some (ne_socket env))) (w\<lparr>gw_node := n1\<rparr>) = Inr (reply, w2)"
    and w3: "register_with_directory env i (reply_text reply) rel lo w2 = (ret, w3)"
    and w': "finish_registration i (reply_text reply) (ne_now env) ret w3 = Inr (ret, w')"
    using register_steps [OF assms(1,3-5)] by metis
  have frame: "gw_node w3 = gw_node w2 \<and> gw_pm w3 = gw_pm w2"
    using w3 by (auto simp: register_with_directory_def Let_def split: if_splits
        dest!: announce_registration_frame)
  obtain q where un: "pm_call (PUnregister i) w3 = Inr (q, w')"
    using w' assms(2) by (auto simp: finish_registration_def then_do_Inr)
  have others: "map_of (publishMapByID (gw_pm w2)) j = map_of (publishMapByID (gw_pm w)) j" if "j \<noteq> i" for j
    using w2 params_frame_registration [OF r] that
    by (auto simp: pm_call_def registerDataProduct_def split: option.splits)
  show ?thesis
    using pm_call_unregister [OF un] pm_call_register [OF w2] frame others params_frame_registration [OF r]
    by (auto simp: params_frame_def)
qed

theorem failed_registration_leaves_nothing_witness:
  "\<exists>w'. registerDataProductInternal (sample_env 5) ''P'' INPROC True False False False
     ((sample_world [])\<lparr>gw_node := sample_node\<lparr>sdn_ipAddress := ''''\<rparr>\<rparr>) = Inr (NO_SERVICE_DIRECTORY, w') \<and>
     map_of (publishMapByID (gw_pm w')) ''P'' = None"
proof -
  let ?w = "(sample_world [])\<lparr>gw_node := sample_node\<lparr>sdn_ipAddress := ''''\<rparr>\<rparr>"
  have "\<exists>w'. registerDataProductInternal (sample_env 5) ''P'' INPROC True False False False ?w =
      Inr (NO_SERVICE_DIRECTORY, w')"
    by (simp add: registerDataProductInternal_def pm_registration_of_def pm_call_def reserved_id_def
        register_with_directory_def finish_registration_def smap_has_def sample_defs
        registerDataProduct_def bind_publisher_def unregisterDataProduct_def pm_init_def Let_def)
  then obtain w' where w': "registerDataProductInternal (sample_env 5) ''P'' INPROC True False False False ?w =
      Inr (NO_SERVICE_DIRECTORY, w')" by blast
  have "initialized (gw_node ?w)" "\<not> reserved_id False ''P'' (gw_node ?w)" "\<not> smap_has (publishMap (gw_node ?w)) ''P''"
    by (simp_all add: sample_defs reserved_id_def smap_has_def)
  from failed_registration_leaves_nothing [OF w' _ this] w' show ?thesis by blast
qed

end
