(* ===== verification/Service_Flow.thy ===== *)
theory Service_Flow
  imports Node_Correct
begin

section \<open>From a request to its response\<close>

text \<open>
  The way of a service request: the service is registered at one node, another node looks it up and
  hands a request to its request manager, the service manager of the first node answers it, and the
  request manager hands the response to the requestor.
\<close>

subsection \<open>Registering a service\<close>

definition service_in_place :: "string \<Rightarrow> string \<Rightarrow> u64 \<Rightarrow> nat \<Rightarrow> socket \<Rightarrow> gn_world \<Rightarrow> bool" where
  "service_in_place i url t server k w \<longleftrightarrow> map_of (gn_serviceMap (gw_node w)) i = Some url \<and>
     map_of (urlInstanceMap (gw_node w)) url = Some t \<and>
     map_of (serviceMapBySocket (gw_sv w)) k =
       Some \<lparr>sx_serviceID = i, sx_url = url, sx_socket = k, sx_server = server\<rparr> \<and>
     map_of (serviceRegistrationTimeMap (gw_sv w)) i = Some (secs t) \<and>
     map_of (sMap (gw_dir w) (sd_domain (gw_dir w))) i = Some url \<and> instance_of url (gw_dir w) = t"

lemma registerService_steps:
  assumes "registerService env i tr server w = Inr (SUCCESS, w')" and "initialized (gw_node w)"
    and "sdn_ipAddress (gw_node w) \<noteq> ''''" and "\<not> smap_has (gn_serviceMap (gw_node w)) i"
  obtains r n1 s w2 where "sv_registration_of env i tr server (gw_node w) = (r, n1)"
    and "s = addService (ne_zmq_bind env) (ne_socket env) r (gw_sv w)"
    and "announce_registration (service_registration i (last (sv_replies s)) (ne_now env) (componentID n1))
           (w\<lparr>gw_node := n1, gw_sv := s\<rparr>) = (SUCCESS, w2)"
    and "w' = set_node (note_service i (last (sv_replies s)) (ne_now env)) w2"
proof -
  obtain r n1 where r: "sv_registration_of env i tr server (gw_node w) = (r, n1)" by fastforce
  let ?s = "addService (ne_zmq_bind env) (ne_socket env) r (gw_sv w)"
  obtain ret w2 where w2: "announce_registration (service_registration i (last (sv_replies ?s)) (ne_now env)
      (componentID n1)) (w\<lparr>gw_node := n1, gw_sv := ?s\<rparr>) = (ret, w2)" by fastforce
  have "sdn_ipAddress n1 \<noteq> ''''" using params_frame_service [OF r] assms(3) by (simp add: params_frame_def)
  then have "ret = SUCCESS \<and> w' = set_node (note_service i (last (sv_replies ?s)) (ne_now env)) w2"
    using assms(1,2,4) r w2
    by (auto simp: registerService_def sv_call_manager_def Let_def split: if_splits prod.splits)
  then show thesis using that [OF r refl] w2 by simp
qed

lemma bind_service_not_empty: "bind_service zb r = Some url \<Longrightarrow> url \<noteq> ''''"
  by (auto simp: bind_service_def Let_def split: if_splits)

text \<open>When registering a service reports success and a port could be bound, the service is in
  place however many attempts to reach the directory failed before.\<close>

lemma service_registration_in_place:
  assumes "registerService env i tr server w = Inr (SUCCESS, w')" and "initialized (gw_node w)"
    and "sdn_ipAddress (gw_node w) \<noteq> ''''" and "\<not> smap_has (gn_serviceMap (gw_node w)) i"
    and "sd_wf (gw_dir w)" and "clock_ahead env (gw_dir w)"
    and "bind_service (ne_zmq_bind env) (fst (sv_registration_of env i tr server (gw_node w))) \<noteq> None"
  shows "\<exists>url. url \<noteq> '''' \<and> service_in_place i url (ne_now env) server (ne_socket env) w' \<and>
     sd_domain (gw_dir w') = sd_domain (gw_dir w)"
proof -
  obtain r n1 s w2 where r: "sv_registration_of env i tr server (gw_node w) = (r, n1)"
    and s: "s = addService (ne_zmq_bind env) (ne_socket env) r (gw_sv w)"
    and ann: "announce_registration (service_registration i (last (sv_replies s)) (ne_now env) (componentID n1))
           (w\<lparr>gw_node := n1, gw_sv := s\<rparr>) = (SUCCESS, w2)"
    and w': "w' = set_node (note_service i (last (sv_replies s)) (ne_now env)) w2"
    using registerService_steps [OF assms(1-4)] by metis
  note frame = params_frame_service [OF r]
  obtain url where url: "bind_service (ne_zmq_bind env) r = Some url" using assms(7) r by auto
  have reply: "last (sv_replies s) = url" using s url by (simp add: addService_def reply_node_def Let_def)
  let ?reg = "service_registration i url (ne_now env) (componentID n1)"
  have "registrable ?reg (sd_domain (gw_dir w)) (gw_dir w)"
    using assms(5,6) by (simp add: registrable_def service_registration_def clock_ahead_def)
  then have "registrable ?reg (sd_domain (gw_dir w)) (gw_dir w2)"
    "map_of (sMap (gw_dir w2) (sd_domain (gw_dir w))) i = Some url" "instance_of url (gw_dir w2) = ne_now env"
    using announce_registration_success [OF ann [unfolded reply], of "sd_domain (gw_dir w)" "ne_now env"]
    by (simp_all add: service_registration_def)
  moreover have "gw_sv w2 = s" using announce_registration_frame [OF ann] by simp
  ultimately show ?thesis
    using s url reply frame bind_service_not_empty [OF url] w'
    by (auto simp: service_in_place_def registrable_def set_node_def note_service_def addService_def
        reply_node_def Let_def)
qed

lemma announce_answered:
  assumes "gw_net w = Net_ok # net"
  shows "\<exists>d. announce_registration reg w = (SUCCESS, w\<lparr>gw_net := net, gw_dir := d\<rparr>)"
  using assms
  by (auto simp: announce_registration_def sendRequestToServiceDirectory_def
      sendRequestsToServiceProvider_def NETWORK_RETRIES_def numeral_3_eq_3
      sendRequestToServiceProvider_def registration_code_served split_def Let_def)

lemma registerService_answered:
  assumes "gw_net w = Net_ok # net" and "initialized (gw_node w)" and "sdn_ipAddress (gw_node w) \<noteq> []"
    and "\<not> smap_has (gn_serviceMap (gw_node w)) i" and "\<not> serviceManager_held (gw_node w)"
  shows "\<exists>w'. registerService env i tr server w = Inr (SUCCESS, w')"
proof -
  obtain r n1 where r: "sv_registration_of env i tr server (gw_node w) = (r, n1)" by fastforce
  let ?s = "addService (ne_zmq_bind env) (ne_socket env) r (gw_sv w)"
  have "sdn_ipAddress n1 \<noteq> []" using params_frame_service [OF r] assms(3) by (simp add: params_frame_def)
  then show ?thesis
    using assms(2,4,5) r announce_answered [of "w\<lparr>gw_node := n1, gw_sv := ?s\<rparr>" net
        "service_registration i (last (sv_replies ?s)) (ne_now env) (componentID n1)"] assms(1)
    by (auto simp: registerService_def sv_call_manager_def Let_def)
qed

definition sample_service :: gn_world where
  "sample_service = (case registerService (sample_env 5000000) ''S'' INPROC 3 (sample_world [Net_ok]) of
     Inr (ret, w) \<Rightarrow> w | Inl e \<Rightarrow> sample_world [])"

lemma sample_service_registered:
  "registerService (sample_env 5000000) ''S'' INPROC 3 (sample_world [Net_ok]) = Inr (SUCCESS, sample_service)"
proof -
  have "\<exists>w'. registerService (sample_env 5000000) ''S'' INPROC 3 (sample_world [Net_ok]) = Inr (SUCCESS, w')"
    by (rule registerService_answered) (simp_all add: sample_defs smap_has_def)
  then show ?thesis by (auto simp: sample_service_def)
qed

text \<open>When no port can be bound for a service, its registration still reports success: the node
  and the directory then have the empty URL for it, while the service manager has no socket for it.\<close>

theorem unbound_service_reported_registered:
  assumes "gw_net w = Net_ok # net" and "initialized (gw_node w)" and "sdn_ipAddress (gw_node w) \<noteq> []"
    and "\<not> smap_has (gn_serviceMap (gw_node w)) i" and "\<not> serviceManager_held (gw_node w)"
    and "sd_wf (gw_dir w)" and "clock_ahead env (gw_dir w)"
    and "bind_service (ne_zmq_bind env) (fst (sv_registration_of env i tr server (gw_node w))) = None"
  shows "\<exists>w'. registerService env i tr server w = Inr (SUCCESS, w') \<and>
     map_of (gn_serviceMap (gw_node w')) i = Some [] \<and>
     map_of (sMap (gw_dir w') (sd_domain (gw_dir w))) i = Some [] \<and>
     serviceMapBySocket (gw_sv w') = serviceMapBySocket (gw_sv w)"
proof -
  obtain w' where w': "registerService env i tr server w = Inr (SUCCESS, w')"
    using registerService_answered [OF assms(1-5)] by blast
  obtain r n1 s w2 where r: "sv_registration_of env i tr server (gw_node w) = (r, n1)"
    and s: "s = addService (ne_zmq_bind env) (ne_socket env) r (gw_sv w)"
    and ann: "announce_registration (service_registration i (last (sv_replies s)) (ne_now env) (componentID n1))
           (w\<lparr>gw_node := n1, gw_sv := s\<rparr>) = (SUCCESS, w2)"
    and set: "w' = set_node (note_service i (last (sv_replies s)) (ne_now env)) w2"
    using registerService_steps [OF w' assms(2-4)] by metis
  have reply: "last (sv_replies s) = []" "serviceMapBySocket s = serviceMapBySocket (gw_sv w)"
    using s r assms(8) by (simp_all add: addService_def reply_node_def)
  have "registrable (service_registration i [] (ne_now env) (componentID n1)) (sd_domain (gw_dir w)) (gw_dir w)"
    using assms(6,7) by (simp add: registrable_def service_registration_def clock_ahead_def)
  then have "map_of (sMap (gw_dir w2) (sd_domain (gw_dir w))) i = Some []"
    using announce_registration_success(3) [OF ann [unfolded reply(1)], of "sd_domain (gw_dir w)" "ne_now env"]
    by (simp add: service_registration_def)
  then show ?thesis
    using w' set reply announce_registration_frame [OF ann] by (auto simp: set_node_def note_service_def)
qed

theorem unbound_service_reported_registered_witness:
  "\<exists>w'. registerService ((sample_env 7)\<lparr>ne_zmq_bind := \<lambda>_. -1\<rparr>) ''S'' INPROC 3 (sample_world [Net_ok]) =
      Inr (SUCCESS, w') \<and> map_of (gn_serviceMap (gw_node w')) ''S'' = Some []"
proof -
  have "gw_net (sample_world [Net_ok]) = Net_ok # []" "initialized (gw_node (sample_world [Net_ok]))"
    "sdn_ipAddress (gw_node (sample_world [Net_ok])) \<noteq> []"
    "\<not> smap_has (gn_serviceMap (gw_node (sample_world [Net_ok]))) ''S''"
    "\<not> serviceManager_held (gw_node (sample_world [Net_ok]))" "sd_wf (gw_dir (sample_world [Net_ok]))"
    "clock_ahead ((sample_env 7)\<lparr>ne_zmq_bind := \<lambda>_. -1\<rparr>) (gw_dir (sample_world [Net_ok]))"
    "bind_service (ne_zmq_bind ((sample_env 7)\<lparr>ne_zmq_bind := \<lambda>_. -1\<rparr>)) (fst (sv_registration_of
       ((sample_env 7)\<lparr>ne_zmq_bind := \<lambda>_. -1\<rparr>) ''S'' INPROC 3 (gw_node (sample_world [Net_ok])))) = None"
    by (simp_all add: sample_defs smap_has_def clock_ahead_def sv_registration_of_def bind_service_def)
  from unbound_service_reported_registered [OF this] show ?thesis by blast
qed

subsection \<open>Looking it up\<close>

lemma service_lookup:
  assumes "ServiceDirectoryServiceLookup i d w = (res, w1)"
  shows "same_directory (gw_dir w) (gw_dir w1) \<and> gw_node w1 = gw_node w"
    and "map_of (sMap (gw_dir w) (if d = '''' then sd_domain (gw_dir w) else d)) i = Some u \<Longrightarrow>
      res = Inr (url, t) \<Longrightarrow> url = u \<and> t = secs (instance_of u (gw_dir w))"
proof -
  let ?lk = "\<lparr>lk_lookupID = i, lk_type = Some SERVICE, lk_domain_id = Some d\<rparr>"
  obtain r resp net e where send: "sendRequestsToServiceProvider serve_request (ComponentLookupRequest ?lk)
      NETWORK_RETRIES (gw_net w) (gw_dir w) = (r, resp, net, e)" using prod_cases4 by blast
  note sent = lookup.send_many [OF same_directory_refl send]
  have w1: "w1 = w\<lparr>gw_net := net, gw_dir := e\<rparr>"
    using assms send by (auto simp: ServiceDirectoryServiceLookup_def sendRequestToServiceDirectory_def Let_def)
  then show "same_directory (gw_dir w) (gw_dir w1) \<and> gw_node w1 = gw_node w" using sent(1) by simp
  assume u: "map_of (sMap (gw_dir w) (if d = '''' then sd_domain (gw_dir w) else d)) i = Some u"
    and res: "res = Inr (url, t)"
  have r: "r = SUCCESS"
    using assms send res
    by (auto simp: ServiceDirectoryServiceLookup_def sendRequestToServiceDirectory_def split: if_splits)
  obtain p0 x where served: "same_directory (gw_dir w) p0" "serve_request (ComponentLookupRequest ?lk) p0 = (e, x)"
    "resp = Some x" using sent(2) [OF r] by blast
  have "map_of (sMap (gw_dir w) (lookup_domain ?lk (gw_dir w))) i = Some u"
    using u by (simp add: lookup_domain_def)
  then have "x = RespServiceLookup \<lparr>sl_lookupID = i, sl_url = u, sl_domain_id = Some (lookup_domain ?lk (gw_dir w)),
      sl_registration_time = Some (secs (instance_of u (gw_dir w)))\<rparr>"
    using served_service_lookup [OF served(1,2)] by simp
  then show "url = u \<and> t = secs (instance_of u (gw_dir w))"
    using assms send r res served(3)
    by (auto simp: ServiceDirectoryServiceLookup_def sendRequestToServiceDirectory_def split: if_splits)
qed

lemma request_success:
  assumes "request_async i q u rid timeout '''' w = (SUCCESS, w3)"
    and "map_of (sMap (gw_dir w) (sd_domain (gw_dir w))) i = Some url"
  shows "to_requester (gw_node w3) = to_requester (gw_node w) @ [Req_request
     \<lparr>rr_serviceID = i, rr_url = url, rr_requestID = rid, rr_timeout = timeout,
      rr_regTime = secs (instance_of url (gw_dir w)),
      rr_dataProduct = setDomain (myDomain (gw_node w)) (setComponentId (componentID (gw_node w)) q),
      rr_requestor = u\<rparr>]"
proof -
  obtain res w1 where look: "ServiceDirectoryServiceLookup i '''' w = (res, w1)" by fastforce
  have "res \<noteq> Inl SUCCESS"
    using look
    by (auto simp: ServiceDirectoryServiceLookup_def split: prod.splits if_splits option.splits sd_response.splits)
  then obtain v t where res: "res = Inr (v, t)"
    using assms(1) look by (cases res) (auto simp: request_async_def split: if_splits)
  then have "v = url \<and> t = secs (instance_of url (gw_dir w))"
    using service_lookup(2) [OF look] assms(2) by simp
  then show ?thesis
    using assms(1) look res service_lookup(1) [OF look]
    by (auto simp: request_async_def request_url_def split: if_splits)
qed

subsection \<open>The whole way\<close>

lemma request_answered_by_service:
  assumes "service_in_place i url t server k w1" and "gw_dir w2 = gw_dir w1"
    and "request_async i q u rid timeout '''' w2 = (SUCCESS, w3)"
    and "\<forall>c. \<not> isFutureResponse (provider c)"
  shows "\<exists>rr m sv' resp rm'. last (to_requester (gw_node w3)) = Req_request rr \<and>
     map_of (gn_serviceMap (gw_node w1)) i = Some url \<and>
     last (rm_sent (processRequest now sock rr rm)) = (sock, url, m) \<and>
     answer_request provider m k (gw_sv w1) = Some sv' \<and>
     sv_calls sv' = sv_calls (gw_sv w1) @ [\<lparr>call_server = server, call_serviceID = i, call_request = m\<rparr>] \<and>
     sv_responses sv' = sv_responses (gw_sv w1) @ [(k, resp)] \<and>
     on_response fresh resp sock (processRequest now sock rr rm) = Inr (rm', []) \<and>
     rm_filled rm' = rm_filled rm @ [(u, i, rid, resp)] \<and> rm_notices rm' = rm_notices rm"
proof -
  let ?d = "setDomain (myDomain (gw_node w2)) (setComponentId (componentID (gw_node w2)) q)"
  let ?rr = "\<lparr>rr_serviceID = i, rr_url = url, rr_requestID = rid, rr_timeout = timeout, rr_regTime = secs t,
      rr_dataProduct = ?d, rr_requestor = u\<rparr>"
  let ?m = "setRegistrationTime (secs t) ?d"
  let ?call = "\<lparr>call_server = server, call_serviceID = i, call_request = ?m\<rparr>"
  let ?resp = "stamp_response i (provider ?call) (gw_sv w1)"
  have rr: "last (to_requester (gw_node w3)) = Req_request ?rr"
    using request_success [OF assms(3)] assms(1,2) by (simp add: service_in_place_def)
  have time: "smap_at 0 (serviceRegistrationTimeMap (gw_sv w1)) i = secs t"
    using assms(1) by (simp add: service_in_place_def smap_at_def)
  have fresh: "\<not> stale_request ?m i (gw_sv w1)"
    using time by (simp add: stale_request_def setRegistrationTime_def getRegistrationTime_def)
  have resp: "getRegistrationTime ?resp = secs t" "\<not> isFutureResponse ?resp"
    using time assms(4) [rule_format, of ?call]
    by (simp_all add: stamp_response_def setRegistrationTime_def getRegistrationTime_def isFutureResponse_def
        setDomain_def setComponentId_def)
  have "\<exists>sv'. answer_request provider ?m k (gw_sv w1) = Some sv' \<and>
      sv_calls sv' = sv_calls (gw_sv w1) @ [?call] \<and> sv_responses sv' = sv_responses (gw_sv w1) @ [(k, ?resp)]"
    using assms(1) fresh
    by (simp add: answer_request_def service_in_place_def Let_def stamp_response_def)
  moreover have "\<exists>rm'. on_response fresh ?resp sock (processRequest now sock ?rr rm) = Inr (rm', []) \<and>
      rm_filled rm' = rm_filled rm @ [(u, i, rid, ?resp)] \<and> rm_notices rm' = rm_notices rm"
    using resp by (simp add: on_response_def processRequest_def deliver_response_def Let_def)
  moreover have "last (rm_sent (processRequest now sock ?rr rm)) = (sock, url, ?m)"
    by (simp add: processRequest_def Let_def)
  moreover have "map_of (gn_serviceMap (gw_node w1)) i = Some url" using assms(1) by (simp add: service_in_place_def)
  ultimately show ?thesis using rr by blast
qed

lemma request_answered:
  assumes "gw_net w = Net_ok # net" and "initialized (gw_node w)"
    and "map_of (sMap (gw_dir w) (sd_domain (gw_dir w))) i = Some url" and "url \<noteq> []"
  shows "\<exists>w3. request_async i q u rid timeout [] w = (SUCCESS, w3)"
proof -
  let ?lk = "\<lparr>lk_lookupID = i, lk_type = Some SERVICE, lk_domain_id = Some []\<rparr>"
  obtain e x where serve: "serve_request (ComponentLookupRequest ?lk) (gw_dir w) = (e, x)" by fastforce
  have "x = RespServiceLookup \<lparr>sl_lookupID = i, sl_url = url, sl_domain_id = Some (lookup_domain ?lk (gw_dir w)),
      sl_registration_time = Some (secs (instance_of url (gw_dir w)))\<rparr>"
    using served_service_lookup [OF same_directory_refl serve] assms(3) by (simp add: lookup_domain_def)
  then show ?thesis
    using assms(1,2,4) serve
    by (simp add: request_async_def ServiceDirectoryServiceLookup_def sendRequestToServiceDirectory_def
        sendRequestsToServiceProvider_def NETWORK_RETRIES_def numeral_3_eq_3
        sendRequestToServiceProvider_def request_url_def)
qed

text \<open>C7. A request reaches the service and its response the requestor. Let the registration of a
  service, with a port that could be bound, have reported success at one node. When another node's
  request for it reports success, then what its request manager sends to the service's URL is
  accepted by the service manager of the first node (not refused as stale), which calls the provider
  exactly once, and the response that it sends back, unless it announces a future response, is
  handed to the requestor that made the request, once, under its request id.\<close>

theorem request_reaches_service:
  assumes "registerService env i tr server w = Inr (SUCCESS, w1)" and "initialized (gw_node w)"
    and "sdn_ipAddress (gw_node w) \<noteq> []" and "\<not> smap_has (gn_serviceMap (gw_node w)) i"
    and "sd_wf (gw_dir w)" and "clock_ahead env (gw_dir w)"
    and "bind_service (ne_zmq_bind env) (fst (sv_registration_of env i tr server (gw_node w))) \<noteq> None"
    and "gw_dir w2 = gw_dir w1" and "request_async i q u rid timeout [] w2 = (SUCCESS, w3)"
    and "\<forall>c. \<not> isFutureResponse (provider c)"
  shows "\<exists>rr url m sv' resp rm'. last (to_requester (gw_node w3)) = Req_request rr \<and>
     map_of (gn_serviceMap (gw_node w1)) i = Some url \<and>
     last (rm_sent (processRequest now sock rr rm)) = (sock, url, m) \<and>
     answer_request provider m (ne_socket env) (gw_sv w1) = Some sv' \<and>
     sv_calls sv' = sv_calls (gw_sv w1) @ [\<lparr>call_server = server, call_serviceID = i, call_request = m\<rparr>] \<and>
     sv_responses sv' = sv_responses (gw_sv w1) @ [(ne_socket env, resp)] \<and>
     on_response fresh resp sock (processRequest now sock rr rm) = Inr (rm', []) \<and>
     rm_filled rm' = rm_filled rm @ [(u, i, rid, resp)] \<and> rm_notices rm' = rm_notices rm"
  using service_registration_in_place [OF assms(1-7)] request_answered_by_service [OF _ assms(8-10)]
  by blast

definition plain_provider :: "sv_call \<Rightarrow> GravityDataProductPB" where
  "plain_provider c = GravityDataProduct (call_serviceID c)"

theorem request_reaches_service_witness:
  "\<exists>w2 w3 rr sv' resp rm'. request_async ''S'' (GravityDataProduct ''Q'') 8 ''r1'' 500 [] w2 = (SUCCESS, w3) \<and>
     last (to_requester (gw_node w3)) = Req_request rr \<and>
     sv_responses (sv' :: sv_state) = sv_responses (gw_sv sample_service) @ [(9, resp)] \<and>
     on_response 0 resp 12 (processRequest 5 12 rr rm_init) = Inr (rm', []) \<and>
     rm_filled rm' = [(8, ''S'', ''r1'', resp)]"
proof -
  have hyps: "initialized (gw_node (sample_world [Net_ok]))" "sdn_ipAddress (gw_node (sample_world [Net_ok])) \<noteq> []"
    "\<not> smap_has (gn_serviceMap (gw_node (sample_world [Net_ok]))) ''S''" "sd_wf (gw_dir (sample_world [Net_ok]))"
    "clock_ahead (sample_env 5000000) (gw_dir (sample_world [Net_ok]))"
    "bind_service (ne_zmq_bind (sample_env 5000000))
       (fst (sv_registration_of (sample_env 5000000) ''S'' INPROC 3 (gw_node (sample_world [Net_ok])))) \<noteq> None"
    by (simp_all add: sample_defs smap_has_def clock_ahead_def sv_registration_of_def bind_service_def)
  note reg = sample_service_registered hyps
  let ?w2 = "(sample_world [Net_ok])\<lparr>gw_dir := gw_dir sample_service\<rparr>"
  obtain w3 where w3: "request_async ''S'' (GravityDataProduct ''Q'') 8 ''r1'' 500 [] ?w2 = (SUCCESS, w3)"
    using service_registration_in_place [OF reg] request_answered [of ?w2 "[]" "''S''"]
    by (fastforce simp: service_in_place_def sample_world_def sample_node_def)
  have plain: "\<forall>c. \<not> isFutureResponse (plain_provider c)"
    by (simp add: plain_provider_def isFutureResponse_def GravityDataProduct_def)
  have facts: "rm_filled rm_init @ xs = xs" "ne_socket (sample_env t) = 9" for t xs
    by (simp_all add: rm_init_def sample_env_def)
  have dir: "gw_dir ?w2 = gw_dir sample_service" by simp
  have "\<exists>rr sv' resp rm'. last (to_requester (gw_node w3)) = Req_request rr \<and>
      sv_responses (sv' :: sv_state) = sv_responses (gw_sv sample_service) @ [(9, resp)] \<and>
      on_response 0 resp 12 (processRequest 5 12 rr rm_init) = Inr (rm', []) \<and>
      rm_filled rm' = [(8, ''S'', ''r1'', resp)]"
    using request_reaches_service [OF reg dir w3 plain, of 5 12 rm_init 0, unfolded facts] by blast
  with w3 show ?thesis by blast
qed

end
