(* ===== verification/Subscription_Delivery.thy ===== *)
theory Subscription_Delivery
  imports Subscription_Correct
begin

section \<open>From a subscription to the delivery of data\<close>

text \<open>
  A new subscription opens one socket for each publisher that is chosen, remembers the publisher's
  registration time for it, and data that arrives there with this registration time reaches the
  subscriber. \<open>zmq_socket\<close> hands out handles that are not in use (\<open>unused_sockets\<close>).
\<close>

definition unused_sockets :: "(nat \<Rightarrow> socket) \<Rightarrow> sm_state \<Rightarrow> bool" where
  "unused_sockets zs s \<longleftrightarrow> inj zs \<and> (\<forall>k\<ge>length (sm_opened s).
     map_of (subscriptionSocketMap s) (zs k) = None \<and> map_of (lastCachedValueMap s) (zs k) = None)"

text \<open>The details at \<open>a\<close> are connected to publisher \<open>p\<close> and nothing has been received from it.\<close>

definition connected_to :: "nat \<Rightarrow> string \<Rightarrow> PublisherInfoPB \<Rightarrow> socket \<Rightarrow> sm_state \<Rightarrow> bool" where
  "connected_to a flt p sock s \<longleftrightarrow> (sock, pub_url p, flt) \<in> set (sm_opened s) \<and>
     map_of (su_pollItemMap (details a s)) (pub_url p) = Some sock \<and>
     map_of (su_socketToUrlMap (details a s)) sock = Some (pub_url p) \<and>
     map_of (subscriptionSocketMap s) sock = Some a \<and>
     map_of (socketVerificationMap s) sock = Some (pub_time p) \<and>
     map_of (lastCachedValueMap s) sock = None"

lemma subscribe_publisher_new:
  assumes "has_url p" and "map_of (su_pollItemMap (details a s)) (pub_url p) = None"
  shows "subscribe_publisher zs a flt p s =
    (let sock = zs (length (sm_opened s)); x = details a s
     in s\<lparr>sm_pollItems := sm_pollItems s @ [sock], sm_opened := sm_opened s @ [(sock, pub_url p, flt)],
          sm_heap := smap_put a (x\<lparr>su_pollItemMap := smap_put (pub_url p) sock (su_pollItemMap x),
             su_socketToUrlMap := smap_put sock (pub_url p) (su_socketToUrlMap x)\<rparr>) (sm_heap s),
          subscriptionSocketMap := smap_put sock a (subscriptionSocketMap s),
          socketVerificationMap := smap_put sock (pub_time p) (socketVerificationMap s)\<rparr>)"
  using assms
  by (simp add: subscribe_publisher_def connect_publisher_def setupSubscription_def set_details_def
      details_def set_verification_def publisher_socket_def smap_has_def Let_def)

lemma subscribe_publisher_connects:
  assumes "has_url p" and "map_of (su_pollItemMap (details a s)) (pub_url p) = None" and "unused_sockets zs s"
  shows "connected_to a flt p (zs (length (sm_opened s))) (subscribe_publisher zs a flt p s)"
    and "unused_sockets zs (subscribe_publisher zs a flt p s)"
  using assms
  by (auto simp: subscribe_publisher_new Let_def connected_to_def unused_sockets_def details_def inj_eq)

lemma subscribe_publisher_keeps:
  assumes "connected_to a flt q sock s" and "unused_sockets zs s" and "has_url p"
    and "pub_url q \<noteq> pub_url p" and "map_of (su_pollItemMap (details a s)) (pub_url p) = None"
  shows "connected_to a flt q sock (subscribe_publisher zs a flt p s)"
proof -
  have "sock \<noteq> zs (length (sm_opened s))" using assms(1,2) by (auto simp: connected_to_def unused_sockets_def)
  then show ?thesis
    using assms by (simp add: subscribe_publisher_new Let_def connected_to_def details_def)
qed

lemma subscribe_publishers:
  assumes "unused_sockets zs s" and "\<forall>p\<in>set ps. has_url p" and "distinct (map pub_url (qs @ ps))"
    and "\<forall>u. map_of (su_pollItemMap (details a s)) u \<noteq> None \<longrightarrow> u \<in> pub_url ` set qs"
    and "\<forall>q\<in>set qs. \<exists>sock. connected_to a flt q sock s"
  shows "unused_sockets zs (fold (subscribe_publisher zs a flt) ps s) \<and>
     (\<forall>q\<in>set (qs @ ps). \<exists>sock. connected_to a flt q sock (fold (subscribe_publisher zs a flt) ps s))"
  using assms
proof (induction ps arbitrary: s qs)
  case (Cons p ps)
  let ?s = "subscribe_publisher zs a flt p s"
  have p: "has_url p" "map_of (su_pollItemMap (details a s)) (pub_url p) = None"
    using Cons.prems(2,3,4) by auto
  note new = subscribe_publisher_connects [OF p Cons.prems(1)]
  have "\<exists>sock. connected_to a flt q sock ?s" if "q \<in> set (qs @ [p])" for q
  proof (cases "q \<in> set qs")
    case True
    then obtain sock where "connected_to a flt q sock s" using Cons.prems(5) by blast
    moreover have "pub_url q \<noteq> pub_url p" using imageI [OF True, of pub_url] Cons.prems(3) by auto
    ultimately show ?thesis using subscribe_publisher_keeps [OF _ Cons.prems(1) p(1)] p(2) by blast
  qed (use that new in auto)
  moreover have "\<forall>u. map_of (su_pollItemMap (details a ?s)) u \<noteq> None \<longrightarrow> u \<in> pub_url ` set (qs @ [p])"
    using Cons.prems(4) p by (auto simp: subscribe_publisher_new Let_def details_def)
  ultimately show ?case using Cons.IH [of ?s "qs @ [p]"] Cons.prems(2,3) new by simp
qed auto

text \<open>Adding the subscriber and restarting monitors leaves the connections alone.\<close>

definition flow_frame :: "sm_state \<Rightarrow> sm_state \<Rightarrow> bool" where
  "flow_frame s t \<longleftrightarrow> sm_opened t = sm_opened s \<and> subscriptionSocketMap t = subscriptionSocketMap s \<and>
     socketVerificationMap t = socketVerificationMap s \<and> lastCachedValueMap t = lastCachedValueMap s \<and>
     (\<forall>b. su_pollItemMap (details b t) = su_pollItemMap (details b s) \<and>
          su_socketToUrlMap (details b t) = su_socketToUrlMap (details b s) \<and>
          su_receiveCachedDataProducts (details b t) = su_receiveCachedDataProducts (details b s))"

lemma flow_frame_connected: "flow_frame s t \<Longrightarrow> connected_to a flt p sock t = connected_to a flt p sock s"
  by (auto simp: connected_to_def flow_frame_def)

lemma flow_frame_restart: "flow_frame s (restart_monitors now a s)"
  by (simp add: restart_monitors_def flow_frame_def Let_def details_simps) (simp add: set_details_def)

lemma touch_cached_frame:
  "sm_opened (fold touch_cached ks s) = sm_opened s"
  "subscriptionSocketMap (fold touch_cached ks s) = subscriptionSocketMap s"
  "socketVerificationMap (fold touch_cached ks s) = socketVerificationMap s"
  "details b (fold touch_cached ks s) = details b s"
  "last_cached sock (fold touch_cached ks s) = last_cached sock s"
  by (induction ks arbitrary: s) (simp_all add: touch_cached_def details_def last_cached_def)

text \<open>The state in which data from \<open>p\<close> is awaited, with the entry that the search for a cached value leaves.\<close>

definition awaits :: "nat \<Rightarrow> string \<Rightarrow> PublisherInfoPB \<Rightarrow> nat \<Rightarrow> socket \<Rightarrow> sm_state \<Rightarrow> bool" where
  "awaits a flt p u sock s \<longleftrightarrow> (sock, pub_url p, flt) \<in> set (sm_opened s) \<and>
     map_of (su_socketToUrlMap (details a s)) sock = Some (pub_url p) \<and>
     map_of (subscriptionSocketMap s) sock = Some a \<and>
     map_of (socketVerificationMap s) sock = Some (pub_time p) \<and>
     last_cached sock s = None \<and> u \<in> set (su_subscribers (details a s))"

lemma connected_awaits:
  assumes "connected_to a flt p sock s"
  shows "awaits a flt p u sock (add_subscriber u r a s)"
proof -
  have "last_cached sock s = None" using assms by (simp add: connected_to_def last_cached_def smap_at_def)
  moreover have "last_cached sock (deliver v d t) = last_cached sock t"
    "last_cached sock (set_details b x t) = last_cached sock t"
    "details b (deliver v d t) = details b t" for v d t b x
    by (simp_all add: last_cached_def deliver_def set_details_def details_def)
  ultimately show ?thesis
    using assms
    by (simp add: awaits_def connected_to_def add_subscriber_def Let_def touch_cached_frame details_simps)
      (auto simp: deliver_def touch_cached_frame set_details_def)
qed

text \<open>Data from the awaited publisher reaches the subscriber.\<close>

lemma deliver_all:
  "sm_delivered (fold (\<lambda>u. deliver u dps) us s) = sm_delivered s @ map (\<lambda>u. (u, dps)) us"
  by (induction us arbitrary: s) (simp_all add: deliver_def)

lemma details_frame:
  "details a (s\<lparr>socketVerificationMap := v\<rparr>) = details a s" "details a (touch_cached k s) = details a s"
  "details a (s\<lparr>lastCachedValueMap := c\<rparr>) = details a s" "details a (deliver u d s) = details a s"
  by (simp_all add: details_def touch_cached_def deliver_def)

lemma awaited_data_delivered:
  assumes "awaits a flt p u sock s" and "getRegistrationTime q = pub_time p"
    and "\<not> isRelayedDataproduct q" and "\<not> isCachedDataproduct q"
  shows "(u, [q\<lparr>dp_received_timestamp := Some t\<rparr>]) \<in> set (sm_delivered (on_data sz now sock [(q, t)] s))"
proof -
  have cached: "\<not> isCachedDataproduct (q\<lparr>dp_received_timestamp := Some t\<rparr>)"
    using assms(4) by (simp add: isCachedDataproduct_def)
  have last: "last_cached sock (touch_cached sock (s\<lparr>socketVerificationMap := v\<rparr>)) = None" for v
    using assms(1) by (simp add: awaits_def last_cached_def touch_cached_def)
  obtain s1 where read: "read_data a sock (pub_url p) [(q, t)] s = (s1, [q\<lparr>dp_received_timestamp := Some t\<rparr>])"
    and frame: "details a s1 = details a s"
    using assms cached last
    by (auto simp: awaits_def Let_def smap_at_def field_def cached_relay_def is_new_data_def details_frame)
  have "smap_at '''' (su_socketToUrlMap (details a s)) sock = pub_url p"
    using assms(1) by (simp add: awaits_def smap_at_def)
  moreover have "sm_delivered (feed_monitors now b r) = sm_delivered r"
    "sm_delivered (collectMetrics sz d r) = sm_delivered r" for b r d
    by (simp_all add: feed_monitors_def collectMetrics_def set_details_def Let_def)
  ultimately show ?thesis
    using assms(1) read frame
    by (auto simp: on_data_def awaits_def Let_def deliver_all)
qed

text \<open>What \<open>trimPublishers\<close> chooses comes from the list.\<close>

lemma trim_has_url: "p \<in> set (spec_trim c ip ps) \<Longrightarrow> has_url p"
proof -
  let ?valid = "filter has_url ps"
  have "has_url q" if "find (local_relay ip) ?valid = Some q" for q
    using that nth_mem [of _ ?valid] by (auto simp: find_Some_iff)
  moreover have "has_url (last (filter global_relay ?valid))" if "\<exists>q\<in>set ?valid. global_relay q"
    using that last_in_set [of "filter global_relay ?valid"] by (auto simp: filter_empty_conv)
  ultimately show "p \<in> set (spec_trim c ip ps) \<Longrightarrow> has_url p"
    unfolding spec_trim_def Let_def by (auto split: option.splits if_splits)
qed

lemma trim_distinct: "distinct (map f ps) \<Longrightarrow> distinct (map f (spec_trim c ip ps))"
  by (auto simp: spec_trim_def Let_def distinct_map_filter split: option.splits)

text \<open>A subscription to a data product and filter text that the node does not have yet opens a
  socket for every publisher that is chosen, and the first data product that arrives on it with the
  registration time the directory gave for that publisher is delivered to the subscriber.\<close>

lemma new_subscription_delivers:
  assumes "map_of (filter_map (DomainDataKey (sq_domain rq) (sq_dataProductID rq)) s) (sq_filter rq) = None"
    and "unused_sockets zs s"
    and "p \<in> set (trimPublishers (sm_componentID s) (sm_ipAddress s) (sq_publishers rq))"
    and "distinct (map pub_url (sq_publishers rq))"
  shows "\<exists>sock. let s1 = addSubscription zs now rq s
     in (sock, pub_url p, sq_filter rq) \<in> set (sm_opened s1) \<and>
        (\<forall>q t now'. getRegistrationTime q = pub_time p \<and> \<not> isRelayedDataproduct q \<and> \<not> isCachedDataproduct q \<longrightarrow>
           (sq_subscriber rq, [q\<lparr>dp_received_timestamp := Some t\<rparr>]) \<in>
             set (sm_delivered (on_data sz now' sock [(q, t)] s1)))"
proof -
  let ?ps = "trimPublishers (sm_componentID s) (sm_ipAddress s) (sq_publishers rq)"
  obtain s1 where s1: "open_subscription zs rq s = (s1, sm_next s)"
    and frame: "sm_componentID s1 = sm_componentID s" "sm_ipAddress s1 = sm_ipAddress s"
      "su_pollItemMap (details (sm_next s) s1) = []" "unused_sockets zs s1"
    using assms(1,2)
    by (auto simp: open_subscription_def Let_def setupSubscription_def allocate_def set_subscription_def
        set_details_def details_def new_subscription_def unused_sockets_def)
  have ps: "\<forall>p\<in>set ?ps. has_url p" "distinct (map pub_url ?ps)"
    using assms(4) by (simp_all add: trimPublishers_spec trim_has_url trim_distinct)
  let ?s2 = "fold (subscribe_publisher zs (sm_next s) (sq_filter rq)) ?ps s1"
  obtain sock where "connected_to (sm_next s) (sq_filter rq) p sock ?s2"
    using subscribe_publishers [OF frame(4) ps(1), of "[]" "sm_next s" "sq_filter rq"] ps(2) frame(3) assms(3)
    by auto
  then have "connected_to (sm_next s) (sq_filter rq) p sock (restart_monitors now (sm_next s) ?s2)"
    by (simp add: flow_frame_connected [OF flow_frame_restart])
  from connected_awaits [OF this] have "awaits (sm_next s) (sq_filter rq) p (sq_subscriber rq) sock (addSubscription zs now rq s)"
    using s1 frame by (simp add: addSubscription_def Let_def)
  then show ?thesis
    using awaited_data_delivered by (intro exI [of _ sock]) (auto simp: Let_def awaits_def)
qed

end
