(* ===== verification/Node_Flow.thy ===== *)
theory Node_Flow
  imports Node_Correct Subscription_Delivery
begin

section \<open>From a publisher to a subscriber\<close>

text \<open>
  The way of a data product through the system: registration at one node, lookup and subscription
  at another, publication, and delivery by the subscription manager. The lemmas say what a node
  learns from a lookup.
\<close>

subsection \<open>Lookups of data products\<close>

lemma data_lookup:
  assumes "ServiceDirectoryDataProductLookup i d w = (ret, infos, w1)"
  shows "same_directory (gw_dir w) (gw_dir w1) \<and> gw_node w1 = gw_node w"
    and "ret = SUCCESS \<Longrightarrow>
      infos = products (gw_dir w) (if d = '''' then sd_domain (gw_dir w) else d) i"
proof -
  let ?lk = "\<lparr>lk_lookupID = i, lk_type = Some DATA, lk_domain_id = Some d\<rparr>"
  obtain r resp net e where send: "sendRequestsToServiceProvider serve_request (ComponentLookupRequest ?lk)
      NETWORK_RETRIES (gw_net w) (gw_dir w) = (r, resp, net, e)" using prod_cases4 by blast
  note sent = lookup.send_many [OF same_directory_refl send]
  have w1: "w1 = w\<lparr>gw_net := net, gw_dir := e\<rparr>"
    using assms send
    by (auto simp: ServiceDirectoryDataProductLookup_def sendRequestToServiceDirectory_def Let_def
        split: if_splits option.splits sd_response.splits)
  then show "same_directory (gw_dir w) (gw_dir w1) \<and> gw_node w1 = gw_node w" using sent(1) by simp
  show "infos = products (gw_dir w) (if d = '''' then sd_domain (gw_dir w) else d) i" if "ret = SUCCESS"
  proof -
    have r: "r = SUCCESS"
      using assms send that
      by (auto simp: ServiceDirectoryDataProductLookup_def sendRequestToServiceDirectory_def split: if_splits)
    obtain p0 x where "same_directory (gw_dir w) p0" "serve_request (ComponentLookupRequest ?lk) p0 = (e, x)"
      "resp = Some x" using sent(2) [OF r] by blast
    moreover from this served_data_lookup [OF this(1,2)]
    have "x = RespDataLookup \<lparr>dl_lookupID = Some i,
        dl_publishers = products (gw_dir w) (lookup_domain ?lk (gw_dir w)) i,
        dl_domain_id = Some (lookup_domain ?lk (gw_dir w))\<rparr>" by simp
    ultimately show ?thesis
      using assms send r
      by (simp add: ServiceDirectoryDataProductLookup_def sendRequestToServiceDirectory_def lookup_domain_def)
  qed
qed

lemma find_update_publisher_frame:
  "find_update_publisher k w = (res, w1) \<Longrightarrow>
     same_directory (gw_dir w) (gw_dir w1) \<and> gw_node w1 = gw_node w \<and> res \<noteq> Inl SUCCESS"
proof (induction k arbitrary: w)
  case (Suc k)
  obtain ret infos w2 where look: "ServiceDirectoryDataProductLookup REGISTERED_PUBLISHERS_DPID
      (myDomain (gw_node w)) w = (ret, infos, w2)" using prod_cases3 by blast
  show ?case
  proof (cases "ret \<noteq> SUCCESS \<or> infos \<noteq> []")
    case True
    then have "w1 = w2 \<and> res \<noteq> Inl SUCCESS" using Suc.prems look by (auto split: if_splits)
    then show ?thesis using data_lookup(1) [OF look] by simp
  next
    case False
    then have "find_update_publisher k w2 = (res, w1)" using Suc.prems look by simp
    from Suc.IH [OF this] show ?thesis
      using data_lookup(1) [OF look] same_directory_trans by metis
  qed
qed auto

lemma subscribe_success:
  assumes "subscribeInternal i u flt d r w = (SUCCESS, w3)"
  obtains rq where "to_subscriber (gw_node w3) = to_subscriber (gw_node w) @ [Sub_subscribe rq]"
    and "sq_dataProductID rq = i" and "sq_filter rq = flt" and "sq_subscriber rq = u"
    and "sq_receiveLastCachedValue rq = r"
    and "sq_domain rq = (if d = '''' then myDomain (gw_node w) else d)"
    and "sq_publishers rq = products (gw_dir w)
           (if sq_domain rq = '''' then sd_domain (gw_dir w) else sq_domain rq) i"
    and "same_directory (gw_dir w) (gw_dir w3)"
proof -
  let ?d = "if d = '''' then myDomain (gw_node w) else d"
  obtain ret infos w1 where look: "ServiceDirectoryDataProductLookup i ?d w = (ret, infos, w1)"
    using prod_cases3 by blast
  have ret: "ret = SUCCESS" using assms look by (auto simp: subscribeInternal_def Let_def split: if_splits)
  obtain upd w2 where find: "find_update_publisher 5 w1 = (upd, w2)" by fastforce
  obtain url where w3: "w3 = set_node (send_subscription \<lparr>sq_dataProductID = i,
      sq_receiveLastCachedValue = r, sq_publishers = infos, sq_filter = flt, sq_domain = ?d,
      sq_publisherUpdateUrl = url, sq_subscriber = u\<rparr>) w2"
    using assms look ret find find_update_publisher_frame [OF find]
    by (auto simp: subscribeInternal_def Let_def split: if_splits sum.splits list.splits option.splits)
  show thesis
  proof (rule that)
    show "sq_publishers \<lparr>sq_dataProductID = i,
      sq_receiveLastCachedValue = r, sq_publishers = infos, sq_filter = flt, sq_domain = ?d,
      sq_publisherUpdateUrl = url, sq_subscriber = u\<rparr> = products (gw_dir w)
        (if sq_domain \<lparr>sq_dataProductID = i, sq_receiveLastCachedValue = r, sq_publishers = infos,
            sq_filter = flt, sq_domain = ?d, sq_publisherUpdateUrl = url, sq_subscriber = u\<rparr> = ''''
         then sd_domain (gw_dir w)
         else sq_domain \<lparr>sq_dataProductID = i, sq_receiveLastCachedValue = r, sq_publishers = infos,
            sq_filter = flt, sq_domain = ?d, sq_publisherUpdateUrl = url, sq_subscriber = u\<rparr>) i"
      using data_lookup(2) [OF look ret] by simp
    show "same_directory (gw_dir w) (gw_dir w3)"
      using data_lookup(1) [OF look] find_update_publisher_frame [OF find] same_directory_trans
      by (auto simp: w3 set_node_def)
  qed (use data_lookup(1) [OF look] find_update_publisher_frame [OF find]
        in \<open>simp_all add: w3 set_node_def send_subscription_def\<close>)
qed

text \<open>Lookups and subscriptions succeed when the directory answers.\<close>

lemma data_lookup_answered:
  assumes "gw_net w = Net_ok # net"
  shows "\<exists>e. ServiceDirectoryDataProductLookup i d w =
     (SUCCESS, products (gw_dir w) (if d = [] then sd_domain (gw_dir w) else d) i, w\<lparr>gw_net := net, gw_dir := e\<rparr>)"
proof -
  let ?lk = "\<lparr>lk_lookupID = i, lk_type = Some DATA, lk_domain_id = Some d\<rparr>"
  obtain e x where serve: "serve_request (ComponentLookupRequest ?lk) (gw_dir w) = (e, x)" by fastforce
  have "x = RespDataLookup \<lparr>dl_lookupID = Some i,
      dl_publishers = products (gw_dir w) (lookup_domain ?lk (gw_dir w)) i,
      dl_domain_id = Some (lookup_domain ?lk (gw_dir w))\<rparr>"
    using served_data_lookup [OF same_directory_refl serve] by simp
  then show ?thesis
    using assms serve
    by (auto simp: ServiceDirectoryDataProductLookup_def sendRequestToServiceDirectory_def
        sendRequestsToServiceProvider_def NETWORK_RETRIES_def numeral_3_eq_3
        sendRequestToServiceProvider_def lookup_domain_def)
qed

lemma subscribe_answered:
  assumes "gw_net w = [Net_ok, Net_ok]" and "initialized (gw_node w)" and "myDomain (gw_node w) \<noteq> []"
    and "products (gw_dir w) (myDomain (gw_node w)) REGISTERED_PUBLISHERS_DPID = v # vs" and "has_url v"
  shows "\<exists>w3. subscribeInternal i u flt [] r w = (SUCCESS, w3)"
proof -
  obtain w1 where look: "ServiceDirectoryDataProductLookup i (myDomain (gw_node w)) w =
      (SUCCESS, products (gw_dir w) (myDomain (gw_node w)) i, w1)" "gw_net w1 = [Net_ok]" "gw_node w1 = gw_node w"
    using data_lookup_answered [OF assms(1), of i "myDomain (gw_node w)"] assms(3) by auto
  have "products (gw_dir w1) = products (gw_dir w)"
    using data_lookup(1) [OF look(1)] by (intro ext) (simp add: same_directory_def)
  then obtain w2 where "find_update_publisher 5 w1 = (Inr (v # vs), w2)"
    using data_lookup_answered [OF look(2), of REGISTERED_PUBLISHERS_DPID "myDomain (gw_node w)"]
      look(3) assms(3,4) by (auto simp: numeral_eq_Suc)
  then show ?thesis
    using look assms(2,5) by (auto simp: subscribeInternal_def has_url_def Let_def)
qed

subsection \<open>Publications\<close>

lemma published_message:
  assumes "node_publish now q f ts n = (n', SUCCESS)"
  shows "\<exists>m. to_publisher n' = to_publisher n @ [m] \<and> pb_dataProductID m = getDataProductID q \<and>
     pb_filterText m = f \<and>
     getRegistrationTime (pb_dataProduct m) = smap_at 0 (dataRegistrationTimeMap n) (getDataProductID q) \<and>
     isRelayedDataproduct (pb_dataProduct m) = isRelayedDataproduct q \<and>
     isCachedDataproduct (pb_dataProduct m) = isCachedDataproduct q"
  using assms
  by (auto simp: node_publish_def publish_product_def Let_def setRegistrationTime_def setComponentId_def
      setDomain_def getRegistrationTime_def isRelayedDataproduct_def isCachedDataproduct_def split: if_splits)

lemma publication_sent:
  assumes "in_place i url t w" and "pb_dataProductID m = i"
  shows "\<exists>s k pd. take_publication ser m (gw_pm w) = Some (s, NoReply) \<and>
     pm_sent s = pm_sent (gw_pm w) @ [(k, pb_filterText m, ser (pb_dataProduct m))] \<and>
     map_of (publishMapBySocket (gw_pm w)) k = Some pd \<and> pd_url pd = url"
  using assms
  by (auto simp: in_place_def take_publication_def publish_def Let_def smap_touch_def smap_at_def
      update_details_def send_published_def count_metrics_def)

lemma pub_url_url_of: "pub_url = url_of"
  by (rule ext) (simp add: pub_url_def url_of_def)

subsection \<open>The whole way\<close>

text \<open>C6. A data product travels from its publisher to a subscriber at another node. Let the
  registration of the product be in place at one node. When another node's subscription to it
  reports success, its request makes the subscription manager open a socket to the publisher's URL;
  what the first node publishes is sent by its publish manager on the socket bound to that URL; and
  when it arrives, it carries the registration time that the subscriber's side expects and is
  delivered to the subscriber. (No relay is registered for the product, and the subscription is new.)\<close>

theorem publication_reaches_subscriber:
  assumes "in_place i url t w1" and "url \<noteq> ''''" and "sd_wf (gw_dir w1)"
    and "gw_dir w2 = gw_dir w1" and "subscribeInternal i u flt '''' r w2 = (SUCCESS, w3)"
    and "myDomain (gw_node w2) = sd_domain (gw_dir w1)"
    and "\<forall>p\<in>set (products (gw_dir w1) (sd_domain (gw_dir w1)) i). \<not> is_relay p"
    and "map_of (filter_map (DomainDataKey (sd_domain (gw_dir w1)) i) s) flt = None" and "unused_sockets zs s"
    and "node_publish now q f ts (gw_node w1) = (n', SUCCESS)" and "getDataProductID q = i"
    and "\<not> isRelayedDataproduct q" and "\<not> isCachedDataproduct q"
  shows "\<exists>rq m pm' k pd sock. last (to_subscriber (gw_node w3)) = Sub_subscribe rq \<and>
     last (to_publisher n') = m \<and>
     take_publication ser m (gw_pm w1) = Some (pm', NoReply) \<and>
     last (pm_sent pm') = (k, f, ser (pb_dataProduct m)) \<and>
     map_of (publishMapBySocket (gw_pm w1)) k = Some pd \<and> pd_url pd = url \<and>
     (let s1 = sm_handle zs sz (sm_event_of now1 (Sub_subscribe rq)) s
      in (sock, url, flt) \<in> set (sm_opened s1) \<and>
         (u, [(pb_dataProduct m)\<lparr>dp_received_timestamp := Some now2\<rparr>]) \<in>
           set (sm_delivered (sm_handle zs sz (SMData now3 sock [(pb_dataProduct m, now2)]) s1)))"
proof -
  obtain rq where rq: "to_subscriber (gw_node w3) = to_subscriber (gw_node w2) @ [Sub_subscribe rq]"
      "sq_dataProductID rq = i" "sq_filter rq = flt" "sq_subscriber rq = u"
      "sq_domain rq = sd_domain (gw_dir w1)"
      "sq_publishers rq = products (gw_dir w1) (sd_domain (gw_dir w1)) i"
    by (rule subscribe_success [OF assms(5)]) (simp add: assms(4,6))
  obtain p where p: "p \<in> set (sq_publishers rq)" "pub_url p = url" "pub_time p = secs t"
    using assms(1) rq(6)
    by (auto simp: in_place_def listed_def pub_url_def pub_time_def url_of_def info_time_def)
  have "\<forall>p\<in>set (sq_publishers rq). \<not> is_relay p" using assms(7) rq(6) by simp
  moreover have "has_url p" using p(2) assms(2) by (auto simp: pub_url_def has_url_def field_def split: option.splits)
  ultimately have chosen: "p \<in> set (trimPublishers (sm_componentID s) (sm_ipAddress s) (sq_publishers rq))"
    using p(1) by (auto simp: trimPublishers_spec spec_trim_def Let_def local_relay_def global_relay_def
        find_None_iff split: option.splits dest!: find_SomeD)
  have dist: "distinct (map pub_url (sq_publishers rq))"
    using assms(3) rq(6) by (simp add: sd_wfD pub_url_url_of)
  obtain m where m: "to_publisher n' = to_publisher (gw_node w1) @ [m]" "pb_dataProductID m = i"
      "pb_filterText m = f" "getRegistrationTime (pb_dataProduct m) = pub_time p"
      "\<not> isRelayedDataproduct (pb_dataProduct m)" "\<not> isCachedDataproduct (pb_dataProduct m)"
    using published_message [OF assms(10)] assms(1,11-13) p(3) by (auto simp: in_place_def smap_at_def)
  obtain pm' k pd where sent: "take_publication ser m (gw_pm w1) = Some (pm', NoReply)"
      "pm_sent pm' = pm_sent (gw_pm w1) @ [(k, f, ser (pb_dataProduct m))]"
      "map_of (publishMapBySocket (gw_pm w1)) k = Some pd" "pd_url pd = url"
    using publication_sent [OF assms(1) m(2), of ser] m(3) by metis
  obtain sock where "(sock, url, flt) \<in> set (sm_opened (addSubscription zs now1 rq s))"
      "(u, [(pb_dataProduct m)\<lparr>dp_received_timestamp := Some now2\<rparr>]) \<in>
        set (sm_delivered (on_data sz now3 sock [(pb_dataProduct m, now2)] (addSubscription zs now1 rq s)))"
    using new_subscription_delivers [OF _ assms(9) chosen dist, of now1 sz] assms(8) rq p m
    by (auto simp: Let_def)
  then show ?thesis using rq(1) m(1) sent by (simp add: Let_def) blast
qed

definition sample_info :: "string \<Rightarrow> u32 \<Rightarrow> PublisherInfoPB" where
  "sample_info url t = \<lparr>pi_url = Some url, pi_isRelay = None, pi_componentID = Some ''C'', pi_ipAddress = None,
     pi_registration_time = Some t\<rparr>"

definition sample_directory :: sd_state where
  "sample_directory = set_products ''D'' ''P'' [sample_info ''inproc://P'' 5]
     (set_products ''D'' REGISTERED_PUBLISHERS_DPID [sample_info ''tcp://sd:1'' 1] (sd_init ''D''))"

lemma sample_directory_simps [simp]:
  "sd_wf sample_directory" "sd_domain sample_directory = ''D''"
  "products sample_directory ''D'' ''P'' = [sample_info ''inproc://P'' 5]"
  "products sample_directory ''D'' REGISTERED_PUBLISHERS_DPID = [sample_info ''tcp://sd:1'' 1]"
  by (simp_all add: sample_directory_def REGISTERED_PUBLISHERS_DPID_def)

definition sample_publisher :: gn_world where
  "sample_publisher = (sample_world [])\<lparr>gw_node := note_publisher ''P'' ''inproc://P'' 5000000 sample_node,
     gw_pm := fst (registerDataProduct (\<lambda>_. 0) (Some 9) \<lparr>pr_dataProductID = ''P'', pr_cacheLastValue = True,
       pr_transportType = ''inproc'', pr_minPort = 0, pr_maxPort = 0, pr_endpoint = ''P''\<rparr> pm_init),
     gw_dir := sample_directory\<rparr>"

lemma sample_publisher_in_place: "in_place ''P'' ''inproc://P'' 5000000 sample_publisher"
proof -
  have "secs 5000000 = (5 :: u32)" by (simp add: secs_def)
  then show ?thesis
    by (simp add: in_place_def sample_publisher_def sample_world_def note_publisher_def listed_iff
        publishes_def sample_info_def url_of_def info_time_def registerDataProduct_def bind_publisher_def)
qed

theorem publication_reaches_subscriber_witness:
  "\<exists>w3 n' rq sock m. subscribeInternal ''P'' 4 '''' '''' True
       ((sample_world [Net_ok, Net_ok])\<lparr>gw_dir := sample_directory\<rparr>) = (SUCCESS, w3) \<and>
     node_publish 77 (GravityDataProduct ''P'') '''' 0 (gw_node sample_publisher) = (n', SUCCESS) \<and>
     last (to_subscriber (gw_node w3)) = Sub_subscribe rq \<and> last (to_publisher n') = m \<and>
     (4, [(pb_dataProduct m)\<lparr>dp_received_timestamp := Some 90\<rparr>]) \<in>
       set (sm_delivered (sm_handle Suc (\<lambda>p. 0) (SMData 90 sock [(pb_dataProduct m, 90)])
         (sm_handle Suc (\<lambda>p. 0) (sm_event_of 80 (Sub_subscribe rq)) (sm_init ''c'' ''ip''))))"
proof -
  let ?w2 = "(sample_world [Net_ok, Net_ok])\<lparr>gw_dir := sample_directory\<rparr>"
  obtain w3 where w3: "subscribeInternal ''P'' 4 '''' '''' True ?w2 = (SUCCESS, w3)"
    using subscribe_answered [of ?w2 "sample_info ''tcp://sd:1'' 1" "[]" "''P''" 4 "[]" True]
    by (auto simp: sample_world_def sample_node_def has_url_def sample_info_def)
  obtain n' where n': "node_publish 77 (GravityDataProduct ''P'') '''' 0 (gw_node sample_publisher) = (n', SUCCESS)"
    by (simp add: node_publish_def sample_publisher_def note_publisher_def sample_node_def Let_def)
  have "gw_dir sample_publisher = sample_directory" by (simp add: sample_publisher_def)
  moreover have "unused_sockets Suc (sm_init ''c'' ''ip'')" by (simp add: unused_sockets_def sm_init_def)
  moreover have "filter_map k (sm_init ''c'' ''ip'') = []" for k by (simp add: filter_map_def sm_init_def)
  moreover have "\<not> is_relay (sample_info ''inproc://P'' 5)" by (simp add: is_relay_def sample_info_def)
  moreover have "getDataProductID (GravityDataProduct ''P'') = ''P''"
    "\<not> isRelayedDataproduct (GravityDataProduct ''P'')" "\<not> isCachedDataproduct (GravityDataProduct ''P'')"
    by (simp_all add: getDataProductID_def GravityDataProduct_def isRelayedDataproduct_def isCachedDataproduct_def)
  moreover have "myDomain (gw_node ?w2) = ''D''" by (simp add: sample_world_def sample_node_def)
  ultimately have "\<exists>rq m sock. last (to_subscriber (gw_node w3)) = Sub_subscribe rq \<and> last (to_publisher n') = m \<and>
     (4, [(pb_dataProduct m)\<lparr>dp_received_timestamp := Some 90\<rparr>]) \<in>
       set (sm_delivered (sm_handle Suc (\<lambda>p. 0) (SMData 90 sock [(pb_dataProduct m, 90)])
         (sm_handle Suc (\<lambda>p. 0) (sm_event_of 80 (Sub_subscribe rq)) (sm_init ''c'' ''ip''))))"
    using publication_reaches_subscriber [OF sample_publisher_in_place _ _ _ w3, of "sm_init ''c'' ''ip''" Suc 77
        "GravityDataProduct ''P''" "''''" 0 n' "\<lambda>p. ''''" "\<lambda>p. 0" 80 90 90] n'
    by (auto simp: Let_def)
  with w3 n' show ?thesis by blast
qed

end
