(* ===== verification/Node_Restart.thy ===== *)
theory Node_Restart
  imports Node_Flow
begin

section \<open>Recovery from a restarted service directory\<close>

text \<open>
  When the node hears that the directory has a new start time it registers its data products and
  services again, each with up to twelve attempts. The contract \<open>repeatable_request\<close> is interpreted
  a third time, with a condition that also keeps what has been registered before.
\<close>

lemma instance_register_service_other:
  "sd_wf s \<Longrightarrow> v \<noteq> field '''' (rg_url reg) \<Longrightarrow> instance_of v (register_service reg d s) = instance_of v s"
  by (simp add: register_service_def Let_def instance_purgeObsoletePublishers sd_wfD)

lemma instance_register_data_other:
  "sd_wf s \<Longrightarrow> v \<noteq> field '''' (rg_url reg) \<Longrightarrow> instance_of v (register_data reg d s) = instance_of v s"
  by (simp add: register_data_def Let_def instance_purgeObsoletePublishers)

text \<open>
  \<open>pubs\<close> and \<open>servs\<close> (pairs of id and URL) are registered in the directory of domain \<open>D\<close>, with the
  timestamps \<open>ts\<close>, and no timestamp of the directory is newer than that.
\<close>

definition recovered ::
  "(string \<Rightarrow> u64) \<Rightarrow> string \<Rightarrow> (string \<times> string) set \<Rightarrow> (string \<times> string) set \<Rightarrow> sd_state \<Rightarrow> bool" where
  "recovered ts D pubs servs d \<longleftrightarrow> sd_wf d \<and> sd_domain d = D \<and> (\<forall>v. instance_of v d \<le> ts v) \<and>
     (\<forall>(j, v)\<in>pubs. (D, j, v, secs (ts v)) \<in> listed d) \<and>
     (\<forall>(j, v)\<in>servs. map_of (sMap d D) j = Some v \<and> instance_of v d = ts v)"

text \<open>A registration that does not touch them.\<close>

definition independent ::
  "(string \<Rightarrow> u64) \<Rightarrow> (string \<times> string) set \<Rightarrow> (string \<times> string) set \<Rightarrow> ServiceDirectoryRegistrationPB \<Rightarrow> bool" where
  "independent ts pubs servs reg \<longleftrightarrow> rg_timestamp reg = Some (ts (field '''' (rg_url reg))) \<and> rg_domain reg = None \<and>
     (\<forall>(j, v)\<in>pubs \<union> servs. v \<noteq> field '''' (rg_url reg)) \<and> (\<forall>(j, v)\<in>servs. j \<noteq> field '''' (rg_id reg))"

lemma recovered_register:
  assumes "recovered ts D pubs servs d" and "independent ts pubs servs reg"
  shows "recovered ts D pubs servs (fst (handleRegister reg d))"
proof (cases "registration_accepted reg d")
  case True
  let ?d = "fst (handleRegister reg d)" and ?u = "field '''' (rg_url reg)"
  have wf: "sd_wf d" and dom: "registration_domain reg d = D" "sd_domain d = D"
    using assms by (simp_all add: recovered_def independent_def registration_domain_def)
  have "instance_of v ?d \<le> ts v" for v
  proof (cases "v = ?u")
    case True
    then show ?thesis
      using assms(2) instance_register_data_le [OF wf, of v reg D] instance_register_service_le [OF wf, of v reg D]
      by (auto simp: fst_handleRegister dom independent_def recovered_def split: if_splits)
        (use assms(1) in \<open>auto simp: recovered_def\<close>)
  next
    case False
    then show ?thesis
      using assms(1) wf
      by (simp add: fst_handleRegister recovered_def instance_register_data_other instance_register_service_other)
  qed
  moreover have "(D, j, v, secs (ts v)) \<in> listed ?d" if "(j, v) \<in> pubs" for j v
  proof -
    have "v \<noteq> ?u" "(D, j, v, secs (ts v)) \<in> listed d"
      using that assms by (auto simp: independent_def recovered_def)
    then show ?thesis
      by (simp add: fst_handleRegister True wf listed_register_data listed_register_service spec_register_def
          spec_purge_def)
  qed
  moreover have "map_of (sMap ?d D) j = Some v \<and> instance_of v ?d = ts v" if "(j, v) \<in> servs" for j v
  proof -
    have "v \<noteq> ?u" "j \<noteq> field '''' (rg_id reg)" "map_of (sMap d D) j = Some v" "instance_of v d = ts v"
      using that assms by (auto simp: independent_def recovered_def)
    then show ?thesis
      using wf dom by (simp add: fst_handleRegister instance_register_data_other instance_register_service_other)
  qed
  ultimately show ?thesis using wf dom by (auto simp: recovered_def fst_handleRegister)
qed (use assms(1) in \<open>simp add: fst_handleRegister\<close>)

interpretation restart: repeatable_request serve_request "RegistrationRequest reg"
  "\<lambda>d. recovered ts D pubs servs d \<and> independent ts pubs servs reg" for reg ts D pubs servs
proof
  fix d
  assume "recovered ts D pubs servs d \<and> independent ts pubs servs reg"
  moreover from this recovered_register have "recovered ts D pubs servs (fst (handleRegister reg d))" by blast
  ultimately show "recovered ts D pubs servs (fst (serve_request (RegistrationRequest reg) d)) \<and>
      independent ts pubs servs reg"
    by (simp add: fst_serve_request recovered_def split_def Let_def)
qed

text \<open>The registration itself is there after a success.\<close>

lemma recovered_served:
  assumes "recovered ts D pubs servs d" and "independent ts pubs servs reg"
    and "serve_request (RegistrationRequest reg) d = (d', r)"
  shows "field DATA (rg_type reg) = DATA \<Longrightarrow>
      recovered ts D (insert (field '''' (rg_id reg), field '''' (rg_url reg)) pubs) servs d'"
    and "field DATA (rg_type reg) = SERVICE \<Longrightarrow>
      recovered ts D pubs (insert (field '''' (rg_id reg), field '''' (rg_url reg)) servs) d'"
proof -
  have reg: "registrable reg D d" "rg_timestamp reg = Some (ts (field '''' (rg_url reg)))" "rg_domain reg = None"
    using assms(1,2) by (simp_all add: registrable_def recovered_def independent_def)
  note served = served_registration [OF reg(1) assms(3) reg(2,3)]
  have "recovered ts D pubs servs d'"
    using restart.serve_keeps [of ts D pubs servs d reg] assms by simp
  then show "field DATA (rg_type reg) = DATA \<Longrightarrow>
      recovered ts D (insert (field '''' (rg_id reg), field '''' (rg_url reg)) pubs) servs d'"
    and "field DATA (rg_type reg) = SERVICE \<Longrightarrow>
      recovered ts D pubs (insert (field '''' (rg_id reg), field '''' (rg_url reg)) servs) d'"
    using served(2,3) by (auto simp: recovered_def)
qed

subsection \<open>Retries\<close>

lemma reregister_tries:
  assumes "reregister_tries k reg w = (ret, w')" and "recovered ts D pubs servs (gw_dir w)"
    and "independent ts pubs servs reg"
  shows "gw_node w' = gw_node w \<and> recovered ts D pubs servs (gw_dir w') \<and>
     (ret = SUCCESS \<longrightarrow> (\<exists>d r. recovered ts D pubs servs d \<and>
        serve_request (RegistrationRequest reg) d = (gw_dir w', r)))"
  using assms(1,2)
proof (induction k arbitrary: w)
  case (0 w)
  obtain r resp net e where send: "sendRequestsToServiceProvider serve_request (RegistrationRequest reg)
      NETWORK_RETRIES (gw_net w) (gw_dir w) = (r, resp, net, e)" using prod_cases4 by blast
  note sent = restart.send_many [OF _ send, of ts D pubs servs]
  have "ret = r \<and> w' = w\<lparr>gw_net := net, gw_dir := e\<rparr>"
    using 0 send by (simp add: sendRequestToServiceDirectory_def split: if_splits)
  then show ?case using sent 0(2) assms(3) by auto
next
  case (Suc k w)
  obtain r resp net e where send: "sendRequestsToServiceProvider serve_request (RegistrationRequest reg)
      NETWORK_RETRIES (gw_net w) (gw_dir w) = (r, resp, net, e)" using prod_cases4 by blast
  note sent = restart.send_many [OF _ send, of ts D pubs servs]
  show ?case
  proof (cases "r = SUCCESS")
    case True
    then have "ret = SUCCESS \<and> w' = w\<lparr>gw_net := net, gw_dir := e\<rparr>"
      using Suc.prems(1) send by (simp add: sendRequestToServiceDirectory_def)
    then show ?thesis using sent Suc.prems(2) assms(3) True by auto
  next
    case False
    then have "reregister_tries k reg (w\<lparr>gw_net := net, gw_dir := e\<rparr>) = (ret, w')"
      using Suc.prems(1) send by (subst (asm) reregister_tries.simps) (simp add: sendRequestToServiceDirectory_def)
    then show ?thesis using Suc.IH [of "w\<lparr>gw_net := net, gw_dir := e\<rparr>"] sent(1) Suc.prems(2) assms(3) by simp
  qed
qed

subsection \<open>All registrations of the node\<close>

text \<open>What registering again leaves of the node.\<close>

definition node_kept :: "gn_state \<Rightarrow> gn_state \<Rightarrow> bool" where
  "node_kept n n' \<longleftrightarrow> publishMap n' = publishMap n \<and> gn_serviceMap n' = gn_serviceMap n \<and>
     subscriptionList n' = subscriptionList n \<and> serviceManager_held n' = serviceManager_held n \<and>
     (\<forall>u. smap_at 0 (urlInstanceMap n') u = smap_at 0 (urlInstanceMap n) u)"

lemma node_kept_refl [simp]: "node_kept n n"
  by (simp add: node_kept_def)

lemma node_kept_trans: "node_kept n m \<Longrightarrow> node_kept m k \<Longrightarrow> node_kept n k"
  by (simp add: node_kept_def)

definition add_entry ::
  "RegistrationType \<Rightarrow> string \<times> string \<Rightarrow> (string \<times> string) set \<times> (string \<times> string) set \<Rightarrow>
     (string \<times> string) set \<times> (string \<times> string) set" where
  "add_entry ty iu ps = (if ty = DATA then (insert iu (fst ps), snd ps) else (fst ps, insert iu (snd ps)))"

definition apart :: "string \<times> string \<Rightarrow> (string \<times> string) set \<times> (string \<times> string) set \<Rightarrow> bool" where
  "apart iu ps \<longleftrightarrow> (\<forall>(j, v)\<in>fst ps \<union> snd ps. v \<noteq> snd iu) \<and> (\<forall>(j, v)\<in>snd ps. j \<noteq> fst iu)"

lemma reregister_one:
  assumes "reregister_one ty c iu (ret0, w) = (SUCCESS, w')" and "recovered ts D (fst ps) (snd ps) (gw_dir w)"
    and "apart iu ps" and "\<forall>u. ts u = smap_at 0 (urlInstanceMap (gw_node w)) u"
  shows "ret0 = SUCCESS" and "node_kept (gw_node w) (gw_node w')"
    and "recovered ts D (fst (add_entry ty iu ps)) (snd (add_entry ty iu ps)) (gw_dir w')"
proof -
  let ?reg = "reregistration ty c (gw_node w) iu"
  let ?w0 = "set_node (\<lambda>n. n\<lparr>urlInstanceMap := smap_touch (snd iu) 0 (urlInstanceMap n)\<rparr>) w"
  obtain ret w1 where tries: "reregister_tries 3 ?reg ?w0 = (ret, w1)" by fastforce
  have ret: "ret = SUCCESS" "ret0 = SUCCESS" "w' = w1"
    using assms(1) tries by (auto simp: reregister_one_def Let_def split: if_splits)
  then show "ret0 = SUCCESS" by simp
  have ind: "independent ts (fst ps) (snd ps) ?reg"
    using assms(3,4) by (auto simp: independent_def reregistration_def apart_def)
  have "recovered ts D (fst ps) (snd ps) (gw_dir ?w0)" using assms(2) by (simp add: set_node_def)
  note got = reregister_tries [OF tries this ind]
  then show "node_kept (gw_node w) (gw_node w')" using ret by (simp add: node_kept_def set_node_def)
  obtain d r where "recovered ts D (fst ps) (snd ps) d" "serve_request (RegistrationRequest ?reg) d = (gw_dir w', r)"
    using got ret by blast
  from recovered_served [OF this(1) ind this(2)]
  show "recovered ts D (fst (add_entry ty iu ps)) (snd (add_entry ty iu ps)) (gw_dir w')"
    by (cases ty) (simp_all add: add_entry_def reregistration_def)
qed

lemma reregister_success: "fold (reregister_one ty c) es (ret0, w) = (SUCCESS, w') \<Longrightarrow> ret0 = SUCCESS"
proof (induction es arbitrary: ret0 w)
  case (Cons x xs)
  obtain r2 w2 where x: "reregister_one ty c x (ret0, w) = (r2, w2)" by fastforce
  then have "r2 = SUCCESS" using Cons by simp
  then show ?case using x by (auto simp: reregister_one_def Let_def split: prod.splits if_splits)
qed simp

lemma reregister_all:
  assumes "fold (reregister_one ty c) es (ret0, w) = (SUCCESS, w')" and "recovered ts D (fst ps) (snd ps) (gw_dir w)"
    and "\<forall>iu\<in>set es. apart iu ps" and "distinct (map snd es)" and "distinct (map fst es)"
    and "\<forall>u. ts u = smap_at 0 (urlInstanceMap (gw_node w)) u"
  shows "ret0 = SUCCESS \<and> node_kept (gw_node w) (gw_node w') \<and>
     recovered ts D (fst (fold (add_entry ty) es ps)) (snd (fold (add_entry ty) es ps)) (gw_dir w')"
  using assms
proof (induction es arbitrary: ret0 w ps)
  case (Cons iu es)
  obtain ret w1 where one: "reregister_one ty c iu (ret0, w) = (ret, w1)" by fastforce
  then have rest: "fold (reregister_one ty c) es (ret, w1) = (SUCCESS, w')" using Cons.prems(1) by simp
  have "ret = SUCCESS" using reregister_success [OF rest] .
  note head = reregister_one [OF one [unfolded this] Cons.prems(2) _ Cons.prems(6)]
  have apart: "apart iu ps" "\<forall>x\<in>set es. apart x (add_entry ty iu ps)"
    using Cons.prems(3-5) by (auto simp: apart_def add_entry_def image_iff split: if_splits)
  have "\<forall>u. ts u = smap_at 0 (urlInstanceMap (gw_node w1)) u"
    using head(2) [OF apart(1)] Cons.prems(6) by (simp add: node_kept_def)
  from Cons.IH [OF rest head(3) [OF apart(1)] apart(2) _ _ this] Cons.prems(4,5) head(1,2) [OF apart(1)]
  show ?case by (auto intro: node_kept_trans)
qed auto

lemma fold_add_entry:
  "fold (add_entry DATA) es ps = (set es \<union> fst ps, snd ps)"
  "fold (add_entry SERVICE) es ps = (fst ps, set es \<union> snd ps)"
  by (induction es arbitrary: ps) (simp_all add: add_entry_def)

subsection \<open>Subscriptions\<close>

lemma subscribe_keeps_directory:
  assumes "subscribeInternal i u f d r w = (ret, w')"
  shows "same_directory (gw_dir w) (gw_dir w')"
proof -
  let ?d = "if d = [] then myDomain (gw_node w) else d"
  obtain r1 infos w1 where look: "ServiceDirectoryDataProductLookup i ?d w = (r1, infos, w1)"
    using prod_cases3 by blast
  obtain res w2 where find: "find_update_publisher 5 w1 = (res, w2)" by fastforce
  have "gw_dir w' \<in> {gw_dir w, gw_dir w1, gw_dir w2}"
    using assms look find
    by (auto simp: subscribeInternal_def Let_def set_node_def split: if_splits sum.splits list.splits option.splits)
  moreover have "same_directory (gw_dir w) (gw_dir w1)" "same_directory (gw_dir w) (gw_dir w2)"
    using data_lookup(1) [OF look] find_update_publisher_frame [OF find] same_directory_trans by blast+
  ultimately show ?thesis by auto
qed

lemma resubscribe_keeps_directory: "same_directory (gw_dir w) (gw_dir (resubscribe_tries k x w))"
proof (induction k arbitrary: w)
  case 0
  then show ?case using subscribe_keeps_directory by (auto split: prod.split)
next
  case (Suc k)
  then show ?case
    using subscribe_keeps_directory same_directory_trans
    by (subst resubscribe_tries.simps) (fastforce split: prod.split)
qed

lemma resubscribe_all_keeps_directory: "same_directory (gw_dir w) (gw_dir (fold (resubscribe_tries k) xs w))"
  by (induction xs arbitrary: w)
    (auto intro: same_directory_trans resubscribe_keeps_directory simp del: resubscribe_tries.simps)

lemma recovered_same_directory:
  assumes "recovered ts D pubs servs d" and "same_directory d e"
  shows "(\<forall>(j, v)\<in>pubs. (D, j, v, secs (ts v)) \<in> listed e) \<and>
     (\<forall>(j, v)\<in>servs. map_of (sMap e D) j = Some v \<and> instance_of v e = ts v)"
  using assms same_directory_listed [OF assms(2)] by (auto simp: recovered_def same_directory_def)


definition restarting :: gn_world where
  "restarting = (sample_world [Net_late, Net_ok])
     \<lparr>gw_node := note_publisher ''P'' ''inproc://P'' 5000000 sample_node\<rparr>"

lemma send_after_delay:
  assumes "gw_net w = [Net_late, Net_ok]"
  shows "\<exists>resp d. sendRequestToServiceDirectory rq w = (SUCCESS, resp, w\<lparr>gw_net := [], gw_dir := d\<rparr>)"
  using assms
  by (auto simp: sendRequestToServiceDirectory_def sendRequestsToServiceProvider_def NETWORK_RETRIES_def
      numeral_3_eq_3 sendRequestToServiceProvider_def split_def Let_def)

lemma restarting_succeeds:
  "\<exists>w'. ServiceDirectoryReregister (\<lambda>h. h) ''C'' ''tcp://localhost:5555'' restarting = Inr (SUCCESS, w')"
proof -
  let ?n = "note_publisher ''P'' ''inproc://P'' 5000000 sample_node"
  have "parse_directory_url (\<lambda>h. h) ''tcp://localhost:5555'' \<noteq> None"
    by (simp add: parse_directory_url_def find_first_of_def substr_to_def Let_def)
  then obtain n1 where n1: "updateServiceDirectoryUrl (\<lambda>h. h) ''tcp://localhost:5555'' ?n = Some n1"
    and maps: "publishMap n1 = [(''P'', ''inproc://P'')]" "gn_serviceMap n1 = []" "subscriptionList n1 = []"
      "\<not> serviceManager_held n1"
    by (auto simp: updateServiceDirectoryUrl_def note_publisher_def sample_node_def GravityNode_default_def
        blank_node_def)
  let ?m = "n1\<lparr>urlInstanceMap := smap_touch ''inproc://P'' 0 (urlInstanceMap n1)\<rparr>"
  obtain resp d where "sendRequestToServiceDirectory
      (RegistrationRequest (reregistration DATA ''C'' n1 (''P'', ''inproc://P'')))
      (restarting\<lparr>gw_node := ?m\<rparr>) = (SUCCESS, resp, restarting\<lparr>gw_node := ?m, gw_net := [], gw_dir := d\<rparr>)"
    using send_after_delay [of "restarting\<lparr>gw_node := ?m\<rparr>"
        "RegistrationRequest (reregistration DATA ''C'' n1 (''P'', ''inproc://P''))"]
    by (auto simp: restarting_def sample_world_def)
  then have "reregister_one DATA ''C'' (''P'', ''inproc://P'') (SUCCESS, restarting\<lparr>gw_node := n1\<rparr>) =
      (SUCCESS, restarting\<lparr>gw_node := ?m, gw_net := [], gw_dir := d\<rparr>)"
    by (simp add: reregister_one_def set_node_def)
  then show ?thesis
    using n1 maps by (simp add: ServiceDirectoryReregister_def restarting_def)
qed


end
