(* ===== verification/Node_Limits.thy ===== *)
theory Node_Limits
  imports Node_Restart
begin

section \<open>Attempts, addresses and timeouts of the node\<close>

text \<open>
  How often a request is sent, which port an address names, and what a registration leaves behind
  that the directory carried out but whose answer came too late.
\<close>

subsection \<open>Numbers as text\<close>

lemma digit_char:
  assumes "n < (10 :: nat)"
  shows "isdigit_c (char_of (48 + n))" and "digit_value (char_of (48 + n)) = int n"
proof -
  have "n \<in> {0, 1, 2, 3, 4, 5, 6, 7, 8, 9}" using assms by auto
  then show "isdigit_c (char_of (48 + n))" and "digit_value (char_of (48 + n)) = int n"
    by (auto simp: isdigit_c_def digit_value_def less_eq_char_def)
qed

declare show_nat.simps [simp del]

lemma show_nat_digits: "c \<in> set (show_nat n) \<Longrightarrow> isdigit_c c"
proof (induction n rule: show_nat.induct)
  case (1 n)
  show ?case
  proof (cases "n < 10")
    case True
    with 1(2) have "c = char_of (48 + n)" by (subst (asm) show_nat.simps) simp
    with digit_char(1) [OF True] show ?thesis by simp
  next
    case False
    with 1(2) have "c \<in> set (show_nat (n div 10)) \<or> c = char_of (48 + n mod 10)"
      by (subst (asm) show_nat.simps) auto
    with 1(1) [OF False] digit_char(1) [of "n mod 10"] show ?thesis by auto
  qed
qed

lemma digits_value_show_nat: "digits_value (show_nat n) = int n"
proof (induction n rule: show_nat.induct)
  case (1 n)
  show ?case
  proof (cases "n < 10")
    case True
    then show ?thesis using digit_char(2) [of n] by (subst show_nat.simps) (simp add: digits_value_def)
  next
    case False
    have "digits_value (show_nat n) = 10 * digits_value (show_nat (n div 10)) + digit_value (char_of (48 + n mod 10))"
      using False by (subst show_nat.simps) (simp add: digits_value_def)
    moreover have "10 * int (n div 10) + int (n mod 10) = int n" by (simp add: zdiv_int zmod_int)
    ultimately show ?thesis using 1 [OF False] digit_char(2) [of "n mod 10"] by simp
  qed
qed

lemma show_nat_not_empty: "show_nat n \<noteq> []"
  by (subst show_nat.simps) simp

lemma digit_not_special:
  "isdigit_c c \<Longrightarrow> \<not> isspace_c c \<and> c \<noteq> CHR ''-'' \<and> c \<noteq> CHR ''+'' \<and> c \<noteq> CHR '':'' \<and> c \<noteq> CHR ''/''"
  by (auto simp: isdigit_c_def isspace_c_def less_eq_char_def)

lemma read_int_show_int:
  assumes "- (2 ^ 31) \<le> v" and "v < 2 ^ 31"
  shows "read_int (show_int v) = Some v"
proof -
  obtain c cs where cs: "show_nat (nat \<bar>v\<bar>) = c # cs" using show_nat_not_empty by (meson neq_Nil_conv)
  have digits: "\<forall>x\<in>set (c # cs). isdigit_c x" using show_nat_digits cs by metis
  then have "takeWhile isdigit_c (c # cs) = c # cs" by (simp only: takeWhile_eq_all_conv)
  moreover have "digits_value (c # cs) = \<bar>v\<bar>" using digits_value_show_nat [of "nat \<bar>v\<bar>"] cs by simp
  moreover have "\<not> isspace_c c" "c \<noteq> CHR ''-''" "c \<noteq> CHR ''+''" "\<not> isspace_c (CHR ''-'')"
    using digits digit_not_special [of c] by (simp_all add: isspace_c_def)
  ultimately show ?thesis
    using assms cs by (auto simp: read_int_def show_int_def Let_def)
qed

lemma StringToInt_show_int: "- (2 ^ 31) \<le> v \<Longrightarrow> v < 2 ^ 31 \<Longrightarrow> StringToInt (show_int v) d = v"
  by (simp add: StringToInt_def read_int_show_int)

subsection \<open>The address of the service directory\<close>

lemma find_first_of_append:
  assumes "\<forall>c\<in>set as. c \<notin> set cs" and "b \<in> set cs"
  shows "find_first_of cs (length xs) (xs @ as @ b # bs) = Some (length xs + length as)"
proof -
  have "takeWhile (\<lambda>c. c \<notin> set cs) (as @ b # bs) = as" using assms by (simp add: takeWhile_append2)
  then show ?thesis by (simp add: find_first_of_def)
qed

lemma parse_directory_url_parts:
  assumes "CHR '':'' \<notin> set tr" and "CHR ''/'' \<notin> set tr" and "CHR '':'' \<notin> set h"
    and "h \<noteq> ''''" and "h \<noteq> ''*''" and "resolve h = h" and "- (2 ^ 31) \<le> p" and "p < 2 ^ 31"
  shows "parse_directory_url resolve (tr @ ''://'' @ h @ '':'' @ show_int p) =
     Some \<lparr>loc_transport = tr, loc_ipAddress = h, loc_port = word_of_int p\<rparr>"
proof -
  let ?url = "tr @ ''://'' @ h @ '':'' @ show_int p"
  have first: "find_first_of ''://'' 0 ?url = Some (length tr)"
    using find_first_of_append [of tr "''://''" "CHR '':''" "[]" "''//'' @ h @ '':'' @ show_int p"] assms(1,2) by auto
  have "\<forall>c\<in>set h. c \<notin> set '':''" using assms(3) by auto
  from find_first_of_append [OF this, of "CHR '':''" "tr @ ''://''" "show_int p"]
  have second: "find_first_of '':'' (length tr + 3) ?url = Some (length tr + 3 + length h)"
    by (simp add: numeral_3_eq_3)
  have sub: "substr_to (length tr + 3) (Some (length tr + 3 + length h)) ?url = Some h"
    by (simp add: substr_to_def)
  have port: "drop (length tr + 3 + length h + 1) ?url = show_int p" by (simp add: numeral_eq_Suc)
  show ?thesis
    using assms(4-6) StringToInt_show_int [OF assms(7,8)]
    by (simp add: parse_directory_url_def first second sub port del: append_Cons append_assoc)
qed

text \<open>After a node has been given a directory address made of a transport, a host (a dotted
  address, or a name that resolves to itself) and a port, its requests go to that transport and host
  and to the port modulo 65536, and the subscription and request managers are told the address as it
  was given: an address with a port below 65536 is reproduced exactly.\<close>

theorem directory_address:
  assumes "CHR '':'' \<notin> set tr" and "CHR ''/'' \<notin> set tr" and "CHR '':'' \<notin> set h"
    and "h \<noteq> ''''" and "h \<noteq> ''*''" and "resolve h = h" and "- (2 ^ 31) \<le> p" and "p < 2 ^ 31"
  shows "\<exists>n'. updateServiceDirectoryUrl resolve (tr @ ''://'' @ h @ '':'' @ show_int p) n = Some n' \<and>
     directory_url n' = tr @ ''://'' @ h @ '':'' @ show_int (p mod 65536) \<and>
     to_subscriber n' = to_subscriber n @ [Sub_set_url (tr @ ''://'' @ h @ '':'' @ show_int p)] \<and>
     to_requester n' = to_requester n @ [Req_set_url (tr @ ''://'' @ h @ '':'' @ show_int p)]"
proof -
  have "uint (word_of_int p :: 16 word) = p mod 65536" by (simp add: uint_word_of_int)
  then show ?thesis
    using parse_directory_url_parts [of tr h resolve p] assms
    by (simp add: updateServiceDirectoryUrl_def directory_url_def)
qed

theorem directory_address_witness:
  "\<exists>n'. updateServiceDirectoryUrl (\<lambda>h. h) (''tcp'' @ ''://'' @ ''10.0.0.2'' @ '':'' @ show_int 70000)
       GravityNode_default = Some n' \<and> directory_url n' = ''tcp'' @ ''://'' @ ''10.0.0.2'' @ '':'' @ show_int 4464"
  using directory_address [of "''tcp''" "''10.0.0.2''" "\<lambda>h. h" 70000 GravityNode_default] by auto

subsection \<open>Attempts\<close>

text \<open>C30. A request to the directory is sent at most three times; the directory has carried it out
  \<open>m\<close> times, at least once if the request reports success and never more often than it was sent.\<close>

theorem attempts_bounded:
  assumes "sendRequestToServiceDirectory rq w = (ret, resp, w1)"
  shows "\<exists>j m. m \<le> j \<and> j \<le> 3 \<and> gw_net w1 = drop j (gw_net w) \<and>
     gw_dir w1 = ((\<lambda>d. fst (serve_request rq d)) ^^ m) (gw_dir w) \<and> (ret = SUCCESS \<longrightarrow> 0 < m)"
proof -
  have loop: "\<exists>j m. m \<le> j \<and> j \<le> k \<and> net' = drop j net \<and> p' = ((\<lambda>d. fst (serve rq d)) ^^ m) p \<and>
      (ret' = SUCCESS \<and> ret0 \<noteq> SUCCESS \<longrightarrow> 0 < m)"
    if "send_loop serve rq k ret0 resp0 net p = (ret', resp', net', p')"
    for serve :: "sd_request \<Rightarrow> sd_state \<Rightarrow> sd_state \<times> sd_response" and k ret0 resp0 net p ret' resp' net' p'
    using that
  proof (induction k arbitrary: ret0 resp0 net p)
    case (Suc k)
    show ?case
    proof (cases "ret0 \<noteq> FAILURE \<and> ret0 \<noteq> SUCCESS")
      case True
      let ?f = "\<lambda>d. fst (serve rq d)"
      obtain ret1 resp1 p1 where one: "sendRequestToServiceProvider serve rq (next_outcome net) p = (ret1, resp1, p1)"
        by (cases "sendRequestToServiceProvider serve rq (next_outcome net) p")
      then have "send_loop serve rq k ret1 resp1 (tl net) p1 = (ret', resp', net', p')" using Suc.prems True by simp
      then obtain j m where jm: "m \<le> j" "j \<le> k" "net' = drop j (tl net)" "p' = (?f ^^ m) p1"
        "ret' = SUCCESS \<and> ret1 \<noteq> SUCCESS \<longrightarrow> 0 < m" using Suc.IH by blast
      consider (served) "p1 = ?f p" | (unserved) "p1 = p" "ret1 \<noteq> SUCCESS"
        using one by (auto simp: sendRequestToServiceProvider_def split: net_outcome.splits prod.splits)
      then show ?thesis
      proof cases
        case served
        then have "Suc m \<le> Suc j \<and> Suc j \<le> Suc k \<and> net' = drop (Suc j) net \<and> p' = (?f ^^ Suc m) p"
          using jm by (simp add: drop_Suc funpow_Suc_right del: funpow.simps)
        then show ?thesis by blast
      next
        case unserved
        then have "m \<le> Suc j \<and> Suc j \<le> Suc k \<and> net' = drop (Suc j) net \<and> p' = (?f ^^ m) p \<and>
            (ret' = SUCCESS \<longrightarrow> 0 < m)" using jm by (simp add: drop_Suc)
        then show ?thesis by blast
      qed
    qed (use Suc.prems in \<open>auto intro: exI [of _ 0]\<close>)
  qed auto
  obtain net' p' where "send_loop serve_request rq 3 NOT_INITIALIZED None (gw_net w) (gw_dir w) = (ret, resp, net', p')"
    "w1 = w\<lparr>gw_net := net', gw_dir := p'\<rparr>"
    using assms
    by (auto simp: sendRequestToServiceDirectory_def sendRequestsToServiceProvider_def NETWORK_RETRIES_def
        split: prod.splits)
  with loop [of serve_request 3 NOT_INITIALIZED None "gw_net w" "gw_dir w"] show ?thesis by fastforce
qed

theorem attempts_bounded_witness:
  "\<exists>resp w1 j m. sendRequestToServiceDirectory (RegistrationRequest (sample_reg ''P'' ''tcp://h:1'' 3)) (sample_world [Net_late, Net_ok]) =
     (SUCCESS, resp, w1) \<and> m \<le> j \<and> j \<le> 3 \<and> 0 < m \<and> gw_net w1 = drop j [Net_late, Net_ok]"
proof -
  obtain resp d where send: "sendRequestToServiceDirectory (RegistrationRequest (sample_reg ''P'' ''tcp://h:1'' 3)) (sample_world [Net_late, Net_ok]) =
      (SUCCESS, resp, (sample_world [Net_late, Net_ok])\<lparr>gw_net := [], gw_dir := d\<rparr>)"
    using send_after_delay [of "sample_world [Net_late, Net_ok]" "RegistrationRequest (sample_reg ''P'' ''tcp://h:1'' 3)"]
    by (auto simp: sample_world_def)
  then show ?thesis using attempts_bounded [OF send] by (fastforce simp: sample_world_def)
qed

subsection \<open>A registration whose answers are all late\<close>

lemma announce_too_late:
  assumes "gw_net w = [Net_late, Net_late, Net_late]" and "registrable reg D (gw_dir w)"
    and "rg_timestamp reg = Some t" and "rg_domain reg = None" and "field DATA (rg_type reg) = DATA"
  shows "\<exists>d. announce_registration reg w = (REQUEST_TIMEOUT, w\<lparr>gw_net := [], gw_dir := d\<rparr>) \<and>
     (D, field '''' (rg_id reg), field '''' (rg_url reg), secs t) \<in> listed d \<and> sd_domain d = D"
proof -
  let ?f = "\<lambda>d. fst (serve_request (RegistrationRequest reg) d)"
  have "announce_registration reg w = (REQUEST_TIMEOUT, w\<lparr>gw_net := [], gw_dir := ?f (?f (?f (gw_dir w)))\<rparr>)"
    using assms(1)
    by (simp add: announce_registration_def sendRequestToServiceDirectory_def
        sendRequestsToServiceProvider_def NETWORK_RETRIES_def numeral_3_eq_3 sendRequestToServiceProvider_def)
  moreover have "registrable reg D (?f (?f (gw_dir w)))" "registrable reg D (?f (?f (?f (gw_dir w))))"
    using registration.serve_keeps assms(2) by blast+
  ultimately show ?thesis
    using served_registration(2) [OF _ surjective_pairing assms(3,4)] assms(5)
    by (auto simp: registrable_def)
qed

text \<open>When all three answers of the directory are late, registering a data product reports
  a timeout and the node and its publish manager drop the data product, but the directory has listed
  it and goes on listing it: subscribers are sent to a URL at which nobody publishes.\<close>

theorem timed_out_registration_stays_listed:
  assumes "initialized (gw_node w)" and "\<not> reserved_id ar i (gw_node w)"
    and "\<not> smap_has (publishMap (gw_node w)) i" and "sdn_ipAddress (gw_node w) \<noteq> ''''"
    and "sd_wf (gw_dir w)" and "clock_ahead env (gw_dir w)" and "gw_net w = [Net_late, Net_late, Net_late]"
    and "bind_publisher (ne_zmq_bind env) (fst (pm_registration_of env i tr c (gw_node w))) = Some url"
  shows "\<exists>w'. registerDataProductInternal env i tr c rel lo ar w = Inr (REQUEST_TIMEOUT, w') \<and>
     publishMap (gw_node w') = publishMap (gw_node w) \<and> map_of (publishMapByID (gw_pm w')) i = None \<and>
     (sd_domain (gw_dir w'), i, url, secs (ne_now env)) \<in> listed (gw_dir w')"
proof -
  obtain r n1 where r: "pm_registration_of env i tr c (gw_node w) = (r, n1)" by fastforce
  note frame = params_frame_registration [OF r, unfolded params_frame_def]
  have bind: "bind_publisher (ne_zmq_bind env) r = Some url" using assms(8) r by simp
  obtain s where s: "registerDataProduct (ne_zmq_bind env) (Some (ne_socket env)) r (gw_pm w) = (s, ReplyString url)"
    and sid: "map_of (publishMapByID s) i = Some (Some (ne_socket env))"
    using bind frame by (simp add: registerDataProduct_def)
  let ?w2 = "w\<lparr>gw_node := n1, gw_pm := s\<rparr>"
  let ?reg = "data_registration i url (ne_now env) rel (if lo then Some (getIP (ne_os_ip env) n1) else None) n1"
  have "registrable ?reg (sd_domain (gw_dir w)) (gw_dir ?w2)"
    using assms(5,6) by (simp add: registrable_def data_registration_def clock_ahead_def)
  then obtain d where ann: "announce_registration ?reg ?w2 = (REQUEST_TIMEOUT, ?w2\<lparr>gw_net := [], gw_dir := d\<rparr>)"
    and listed: "(sd_domain (gw_dir w), i, url, secs (ne_now env)) \<in> listed d"
    and dom: "sd_domain d = sd_domain (gw_dir w)"
    using announce_too_late [of ?w2 ?reg "sd_domain (gw_dir w)" "ne_now env"] assms(7)
    by (auto simp: data_registration_def)
  obtain s' where un: "unregisterDataProduct i s = Some (s', ReplyString '''')"
    and gone: "map_of (publishMapByID s') i = None"
    using sid by (simp add: unregisterDataProduct_def Let_def)
  have "registerDataProductInternal env i tr c rel lo ar w =
      Inr (REQUEST_TIMEOUT, ?w2\<lparr>gw_net := [], gw_dir := d, gw_pm := s'\<rparr>)"
    using assms(1-4) r s un frame ann bind_publisher_not_empty [OF bind]
    by (simp add: registerDataProductInternal_def pm_call_def register_with_directory_def finish_registration_def)
  then show ?thesis using frame gone listed dom by auto
qed

theorem timed_out_registration_stays_listed_witness:
  "\<exists>w'. registerDataProductInternal (sample_env 5000000) ''P'' INPROC True False False False
       (sample_world [Net_late, Net_late, Net_late]) = Inr (REQUEST_TIMEOUT, w') \<and>
     (sd_domain (gw_dir w'), ''P'', ''inproc://P'', secs 5000000) \<in> listed (gw_dir w')"
proof -
  let ?w = "sample_world [Net_late, Net_late, Net_late]"
  have "initialized (gw_node ?w)" "\<not> reserved_id False ''P'' (gw_node ?w)" "\<not> smap_has (publishMap (gw_node ?w)) ''P''"
    "sdn_ipAddress (gw_node ?w) \<noteq> ''''" "sd_wf (gw_dir ?w)" "clock_ahead (sample_env 5000000) (gw_dir ?w)"
    "gw_net ?w = [Net_late, Net_late, Net_late]"
    "bind_publisher (ne_zmq_bind (sample_env 5000000))
       (fst (pm_registration_of (sample_env 5000000) ''P'' INPROC True (gw_node ?w))) = Some ''inproc://P''"
    by (simp_all add: sample_defs reserved_id_def smap_has_def clock_ahead_def pm_registration_of_def
        bind_publisher_def)
  from timed_out_registration_stays_listed [OF this, of False False] show ?thesis
    by (auto simp: sample_env_def)
qed

end
