(* ===== verification/Heartbeat.thy ===== *)
theory Heartbeat
  imports Node_Control
begin

section \<open>Heartbeats (\<open>GravityHeartbeat.cpp\<close>)\<close>

text \<open>
  A component that sends heartbeats has a thread that publishes a small data product at a fixed
  interval. A component that watches others has a thread that keeps, in a priority queue, the time at
  which the next heartbeat of each is due, and calls the listener when the time has come:
  \<open>ReceivedHeartbeat\<close> if the product has arrived since the last time, \<open>MissedHeartbeat\<close> if not.

  The queue holds pointers to elements that are changed only while they are not in it, apart from a
  field that is not compared, so it is a list of elements here. Which of several elements with the
  smallest deadline is at the top is up to the library: the step relation allows each. The clock is
  read several times in a turn; the readings are arguments. A listener may change the interval, which
  it gets by reference: \<open>answer\<close> is the value it leaves.
\<close>

subsection \<open>The publishing thread\<close>

text \<open>The data is the text \<open>Good\<close> with its terminating zero.\<close>

definition heartbeat_product :: "u64 \<Rightarrow> HBParams \<Rightarrow> GravityDataProductPB" where
  "heartbeat_product now params =
     setRegistrationTime (hp_registrationTime params)
       ((setData (''Good'' @ [CHR 0x00]) (GravityDataProduct (hp_componentID params)))\<lparr>dp_timestamp := Some now\<rparr>)"

definition heartbeat_message :: "u64 \<Rightarrow> HBParams \<Rightarrow> publish_message" where
  "heartbeat_message now params =
     \<lparr>pb_dataProductID = getDataProductID (heartbeat_product now params),
      pb_timestamp = getGravityTimestamp (heartbeat_product now params), pb_filterText = '''',
      pb_dataProduct = heartbeat_product now params\<rparr>"

text \<open>The seconds and nanoseconds that the thread sleeps.\<close>

definition heartbeat_sleep :: "int \<Rightarrow> int \<times> int" where
  "heartbeat_sleep interval = (interval div 1000000, interval mod 1000000 * 1000)"

text \<open>The loop: one message per reading of the clock for which the flag is still set.\<close>

fun heartbeat_loop :: "HBParams \<Rightarrow> (bool \<times> u64) list \<Rightarrow> publish_message list" where
  "heartbeat_loop params [] = []"
| "heartbeat_loop params ((running, now) # rounds) =
     (if running then heartbeat_message now params # heartbeat_loop params rounds else [])"

subsection \<open>The listening thread\<close>

record ExpectedMessageQueueElement =
  em_expectedTime :: u64
  em_lastHeartbeatTime :: u64
  em_timetowait :: u64
  em_dataproductID :: string

datatype hb_call = MissedHeartbeat nat string u64 u64 | ReceivedHeartbeat nat string u64

record hb_state =
  messageTimes :: "ExpectedMessageQueueElement list"
  hb_listener :: "(string, nat) smap"
  filledHeartbeats :: "string list"
  hb_calls :: "hb_call list"
  hb_acks :: nat

definition hb_init :: hb_state where
  "hb_init = \<lparr>messageTimes = [], hb_listener = [], filledHeartbeats = [], hb_calls = [], hb_acks = 0\<rparr>"

definition subscriptionFilled :: "GravityDataProductPB list \<Rightarrow> hb_state \<Rightarrow> hb_state" where
  "subscriptionFilled dataProducts s =
     s\<lparr>filledHeartbeats := fold (\<lambda>p. sset_insert (getDataProductID p)) dataProducts (filledHeartbeats s)\<rparr>"

text \<open>\<open>s.rfind(pat)\<close> and \<open>s.substr(0, s.rfind(pat))\<close>, which is \<open>s\<close> when there is no occurrence.\<close>

definition rfind :: "string \<Rightarrow> string \<Rightarrow> nat option" where
  "rfind pat s = find (\<lambda>k. take (length pat) (drop k s) = pat) (rev [0..<Suc (length s)])"

definition component_of :: "string \<Rightarrow> string" where
  "component_of dataproductID =
     (case rfind ''_GravityHeartbeat'' dataproductID of None \<Rightarrow> dataproductID | Some k \<Rightarrow> take k dataproductID)"

text \<open>The element \<open>e\<close> at the top is due; \<open>t1\<close> and \<open>t2\<close> are the readings of the clock after the test.\<close>

definition heartbeat_call :: "bool \<Rightarrow> ExpectedMessageQueueElement \<Rightarrow> u64 \<Rightarrow> nat \<Rightarrow> hb_call" where
  "heartbeat_call gotHeartbeat e t1 l =
     (let c = component_of (em_dataproductID e)
      in if gotHeartbeat then ReceivedHeartbeat l c (em_timetowait e)
         else MissedHeartbeat l c (if em_lastHeartbeatTime e = 0 then -1 else t1 - em_lastHeartbeatTime e)
                (em_timetowait e))"

definition process_due ::
  "(hb_call \<Rightarrow> u64) \<Rightarrow> u64 \<Rightarrow> u64 \<Rightarrow> ExpectedMessageQueueElement \<Rightarrow> hb_state \<Rightarrow> hb_state" where
  "process_due answer t1 t2 e s =
     (let i = em_dataproductID e;
          gotHeartbeat = (i \<in> set (filledHeartbeats s));
          s1 = s\<lparr>filledHeartbeats := filter (\<lambda>x. x \<noteq> i) (filledHeartbeats s)\<rparr>;
          (e1, s2) = (case map_of (hb_listener s1) i of
             None \<Rightarrow> (e, s1)
           | Some l \<Rightarrow>
               (let call = heartbeat_call gotHeartbeat e t1 l
                in (e\<lparr>em_timetowait := answer call,
                      em_lastHeartbeatTime := (if gotHeartbeat then t1 else em_lastHeartbeatTime e)\<rparr>,
                    s1\<lparr>hb_calls := hb_calls s1 @ [call]\<rparr>)))
      in s2\<lparr>messageTimes := remove1 e (messageTimes s2) @ [e1\<lparr>em_expectedTime := t2 + em_timetowait e1\<rparr>]\<rparr>)"

definition acknowledge :: "hb_state \<Rightarrow> hb_state" where
  "acknowledge s = s\<lparr>hb_acks := Suc (hb_acks s)\<rparr>"

definition register_listener :: "u64 \<Rightarrow> string \<Rightarrow> nat \<Rightarrow> u64 \<Rightarrow> hb_state \<Rightarrow> hb_state" where
  "register_listener now i l maxtime s =
     acknowledge (s\<lparr>hb_listener := smap_put i l (hb_listener s),
       messageTimes := messageTimes s @ [\<lparr>em_expectedTime = now + maxtime, em_lastHeartbeatTime = 0,
         em_timetowait = maxtime, em_dataproductID = i\<rparr>]\<rparr>)"

definition unregister_listener :: "string \<Rightarrow> hb_state \<Rightarrow> hb_state" where
  "unregister_listener i s =
     acknowledge (s\<lparr>hb_listener := smap_erase i (hb_listener s),
       messageTimes := filter (\<lambda>e. em_dataproductID e \<noteq> i) (messageTimes s)\<rparr>)"

definition at_top :: "ExpectedMessageQueueElement \<Rightarrow> hb_state \<Rightarrow> bool" where
  "at_top e s \<longleftrightarrow> e \<in> set (messageTimes s) \<and> (\<forall>x\<in>set (messageTimes s). em_expectedTime e \<le> em_expectedTime x)"

datatype hb_event = HB_filled "GravityDataProductPB list" | HB_due ExpectedMessageQueueElement u64 u64 u64
  | HB_waiting | HB_register u64 string nat u64 | HB_unregister string

inductive hb_step :: "(hb_call \<Rightarrow> u64) \<Rightarrow> hb_state \<Rightarrow> hb_event \<Rightarrow> hb_state \<Rightarrow> bool" for answer where
  filled: "hb_step answer s (HB_filled ps) (subscriptionFilled ps s)"
| due: "at_top e s \<Longrightarrow> em_expectedTime e \<le> t0 \<Longrightarrow>
    hb_step answer s (HB_due e t0 t1 t2) (process_due answer t1 t2 e s)"
| waiting: "at_top e s \<Longrightarrow> t0 < em_expectedTime e \<Longrightarrow> hb_step answer s HB_waiting s"
| register: "hb_step answer s (HB_register now i l maxtime) (register_listener now i l maxtime s)"
| unregister: "hb_step answer s (HB_unregister i) (unregister_listener i s)"

inductive hb_reach :: "(hb_call \<Rightarrow> u64) \<Rightarrow> hb_event list \<Rightarrow> hb_state \<Rightarrow> bool" for answer where
  start: "hb_reach answer [] hb_init"
| more: "hb_reach answer es s \<Longrightarrow> hb_step answer s e s' \<Longrightarrow> hb_reach answer (es @ [e]) s'"

inductive_cases hb_stepE: "hb_step answer s e s'"
inductive_simps hb_step_due: "hb_step answer s (HB_due e t0 t1 t2) s'"

subsection \<open>The node's commands\<close>

text \<open>
  Both functions have a static object \<open>hbSub\<close> of their own, so that they are different subscribers.
  \<open>hb_thread\<close> is whether the socket to the listening thread exists.
\<close>

definition hbSub_register :: nat where "hbSub_register = 1000001"
definition hbSub_unregister :: nat where "hbSub_unregister = 1000002"

record hb_world =
  hw_world :: gn_world
  hw_heartbeat :: hb_state
  hb_thread :: bool

definition registerHeartbeatListener ::
  "u64 \<Rightarrow> string \<Rightarrow> u64 \<Rightarrow> nat \<Rightarrow> string \<Rightarrow> hb_world \<Rightarrow> GravityReturnCode \<times> hb_world" where
  "registerHeartbeatListener now compID timebetweenMessages l domain h =
     (if \<not> initialized (gw_node (hw_world h)) then (NOT_INITIALIZED, h)
      else (let name = heartbeat_name compID;
                (ret, w1) = node_subscribe name hbSub_register '''' domain (hw_world h);
                h1 = h\<lparr>hw_world := w1, hb_thread := True\<rparr>
            in if ret = SUCCESS
               then (ret, h1\<lparr>hw_heartbeat := register_listener now name l timebetweenMessages (hw_heartbeat h1)\<rparr>)
               else (ret, h1)))"

definition unregisterHeartbeatListener :: "string \<Rightarrow> string \<Rightarrow> hb_world \<Rightarrow> GravityReturnCode \<times> hb_world" where
  "unregisterHeartbeatListener compID domain h =
     (if \<not> initialized (gw_node (hw_world h)) then (NOT_INITIALIZED, h)
      else (let name = heartbeat_name compID;
                (ret, n1) = unsubscribeInternal name hbSub_unregister '''' '''' (gw_node (hw_world h));
                h1 = h\<lparr>hw_world := (hw_world h)\<lparr>gw_node := n1\<rparr>\<rparr>
            in (SUCCESS, if hb_thread h1 then h1\<lparr>hw_heartbeat := unregister_listener name (hw_heartbeat h1)\<rparr> else h1)))"

end
