(* ===== verification/Heartbeat_Correct.thy ===== *)
theory Heartbeat_Correct
  imports Heartbeat Node_Flow
begin

section \<open>Correctness of the heartbeats\<close>

text \<open>
  Invariants of the listening thread by rule induction over its runs: queue and listeners belong
  together, so that every deadline leads to exactly one call, and no heartbeat is reported as
  received that did not arrive. Names of heartbeat products can be turned back into component ids.
\<close>

subsection \<open>Names\<close>

lemma find_rev_upt:
  assumes "k < n" and "P k" and "\<forall>j. k < j \<and> j < n \<longrightarrow> \<not> P j"
  shows "find P (rev [0..<n]) = Some k"
  using assms
proof (induction n)
  case (Suc n)
  then show ?case by (cases "k = n") auto
qed simp

lemma rfind_suffix: "rfind pat (c @ pat) = Some (length c)"
proof -
  have "take (length pat) (drop j (c @ pat)) \<noteq> pat" if "length c < j" "j < Suc (length (c @ pat))" for j
  proof
    assume "take (length pat) (drop j (c @ pat)) = pat"
    from arg_cong [OF this, of length] show False using that by simp
  qed
  then show ?thesis unfolding rfind_def by (intro find_rev_upt) auto
qed

lemma component_of_heartbeat_name [simp]: "component_of (heartbeat_name c) = c"
  unfolding component_of_def heartbeat_name_def rfind_suffix by simp

subsection \<open>Queue and listeners\<close>

definition queued :: "hb_state \<Rightarrow> string set" where
  "queued s = em_dataproductID ` set (messageTimes s)"

definition hb_inv :: "hb_state \<Rightarrow> bool" where
  "hb_inv s \<longleftrightarrow> (\<forall>i. smap_has (hb_listener s) i \<longleftrightarrow> i \<in> queued s) \<and> sorted_wrt (<) (filledHeartbeats s)"

lemma insert_remove1: "e \<in> set xs \<Longrightarrow> insert (f e) (f ` set (remove1 e xs)) = f ` set xs"
  by (induction xs) auto

lemma process_due_simps:
  "hb_listener (process_due answer t1 t2 e s) = hb_listener s"
  "filledHeartbeats (process_due answer t1 t2 e s) = filter (\<lambda>x. x \<noteq> em_dataproductID e) (filledHeartbeats s)"
  "e \<in> set (messageTimes s) \<Longrightarrow> queued (process_due answer t1 t2 e s) = queued s"
proof -
  show "hb_listener (process_due answer t1 t2 e s) = hb_listener s"
    "filledHeartbeats (process_due answer t1 t2 e s) = filter (\<lambda>x. x \<noteq> em_dataproductID e) (filledHeartbeats s)"
    by (simp_all add: process_due_def Let_def split: option.split)
  assume e: "e \<in> set (messageTimes s)"
  show "queued (process_due answer t1 t2 e s) = queued s"
    unfolding queued_def process_due_def Let_def
    by (simp add: insert_remove1 [OF e] split: option.split)
qed

lemma hb_inv_init: "hb_inv hb_init"
  by (simp add: hb_inv_def hb_init_def queued_def smap_has_def)

lemma sorted_fold_insert:
  "sorted_wrt (<) xs \<Longrightarrow> sorted_wrt (<) (fold (\<lambda>p. sset_insert (f p)) ps (xs :: string list))"
  by (induction ps arbitrary: xs) simp_all

lemma set_fold_insert: "set (fold (\<lambda>p. sset_insert (f p)) ps xs) = f ` set ps \<union> set xs"
  by (induction ps arbitrary: xs) auto

lemma hb_inv_step: "hb_step answer s e s' \<Longrightarrow> hb_inv s \<Longrightarrow> hb_inv s'"
proof (induction rule: hb_step.induct)
  case (filled s ps)
  then show ?case by (simp add: hb_inv_def subscriptionFilled_def queued_def sorted_fold_insert)
next
  case (due e s t0 t1 t2)
  then show ?case by (simp add: hb_inv_def at_top_def process_due_simps sorted_wrt_filter)
next
  case (register s now i l maxtime)
  then show ?case by (auto simp: hb_inv_def register_listener_def acknowledge_def queued_def smap_has_def)
next
  case (unregister s i)
  then show ?case by (auto simp: hb_inv_def unregister_listener_def acknowledge_def queued_def smap_has_def)
qed simp

lemma hb_inv_reach: "hb_reach answer es s \<Longrightarrow> hb_inv s"
  by (induction rule: hb_reach.induct) (auto intro: hb_inv_init hb_inv_step)

text \<open>C19. In every run of the listening thread, a deadline that has come leads to exactly one call
  of the listener registered for it: \<open>ReceivedHeartbeat\<close> if the heartbeat has arrived since the last
  deadline, and \<open>MissedHeartbeat\<close> otherwise, with the time since the last one received or -1 if none
  was; the next deadline is the interval that the listener leaves after the current time, and no other
  deadline changes.\<close>

theorem deadline_calls_listener:
  assumes "hb_reach answer es s" and "hb_step answer s (HB_due e t0 t1 t2) s'"
  shows "\<exists>l e'. map_of (hb_listener s) (em_dataproductID e) = Some l \<and>
     (let got = (em_dataproductID e \<in> set (filledHeartbeats s));
          call = (if got then ReceivedHeartbeat l (component_of (em_dataproductID e)) (em_timetowait e)
                  else MissedHeartbeat l (component_of (em_dataproductID e))
                    (if em_lastHeartbeatTime e = 0 then -1 else t1 - em_lastHeartbeatTime e) (em_timetowait e))
      in hb_calls s' = hb_calls s @ [call] \<and> em_timetowait e' = answer call \<and>
         em_expectedTime e' = t2 + answer call \<and> em_dataproductID e' = em_dataproductID e \<and>
         em_lastHeartbeatTime e' = (if got then t1 else em_lastHeartbeatTime e)) \<and>
     messageTimes s' = remove1 e (messageTimes s) @ [e'] \<and>
     set (filledHeartbeats s') = set (filledHeartbeats s) - {em_dataproductID e}"
proof -
  have e: "e \<in> set (messageTimes s)" and s': "s' = process_due answer t1 t2 e s"
    using assms(2) by (auto simp: hb_step_due at_top_def)
  then obtain l where l: "map_of (hb_listener s) (em_dataproductID e) = Some l"
    using hb_inv_reach [OF assms(1)] by (auto simp: hb_inv_def queued_def smap_has_def)
  let ?call = "heartbeat_call (em_dataproductID e \<in> set (filledHeartbeats s)) e t1 l"
  let ?e = "e\<lparr>em_timetowait := answer ?call, em_lastHeartbeatTime :=
      (if em_dataproductID e \<in> set (filledHeartbeats s) then t1 else em_lastHeartbeatTime e),
      em_expectedTime := t2 + answer ?call\<rparr>"
  have "hb_calls s' = hb_calls s @ [?call]" "messageTimes s' = remove1 e (messageTimes s) @ [?e]"
    "set (filledHeartbeats s') = set (filledHeartbeats s) - {em_dataproductID e}"
    using l unfolding s' by (auto simp: process_due_def Let_def)
  then show ?thesis using l by (intro exI [of _ l] exI [of _ ?e]) (simp add: Let_def heartbeat_call_def)
qed

subsection \<open>Heartbeats received and reported\<close>

definition fills :: "string \<Rightarrow> hb_event \<Rightarrow> nat" where
  "fills i e = (case e of HB_filled ps \<Rightarrow> (if i \<in> getDataProductID ` set ps then 1 else 0) | _ \<Rightarrow> 0)"

definition reports :: "string \<Rightarrow> hb_call \<Rightarrow> nat" where
  "reports c call = (case call of ReceivedHeartbeat l d t \<Rightarrow> (if d = c then 1 else 0) | _ \<Rightarrow> 0)"

definition pending :: "string \<Rightarrow> hb_state \<Rightarrow> nat" where
  "pending i s = (if i \<in> set (filledHeartbeats s) then 1 else 0)"

definition heartbeat_ids :: "hb_event \<Rightarrow> bool" where
  "heartbeat_ids e = (case e of HB_register now i l t \<Rightarrow> (\<exists>c. i = heartbeat_name c) | _ \<Rightarrow> True)"

lemma reported_step:
  assumes "hb_step answer s e s'" and "\<forall>i\<in>queued s. \<exists>d. i = heartbeat_name d"
  shows "sum_list (map (reports c) (hb_calls s')) + pending (heartbeat_name c) s' \<le>
     sum_list (map (reports c) (hb_calls s)) + pending (heartbeat_name c) s + fills (heartbeat_name c) e"
  using assms
proof (induction rule: hb_step.induct)
  case (filled s ps)
  then show ?case by (auto simp: subscriptionFilled_def pending_def fills_def set_fold_insert)
next
  case (due e s t0 t1 t2)
  obtain d where d: "em_dataproductID e = heartbeat_name d"
    using due by (auto simp: at_top_def queued_def)
  show ?case
    using d
    by (auto simp: process_due_def Let_def pending_def fills_def reports_def heartbeat_call_def
        split: option.splits)
qed (auto simp: register_listener_def unregister_listener_def acknowledge_def pending_def fills_def)

lemma queued_names_step:
  assumes "hb_step answer s e s'" and "\<forall>i\<in>queued s. \<exists>d. i = heartbeat_name d" and "heartbeat_ids e"
  shows "\<forall>i\<in>queued s'. \<exists>d. i = heartbeat_name d"
  using assms
proof (induction rule: hb_step.induct)
  case (due e s t0 t1 t2)
  then show ?case by (simp add: at_top_def process_due_simps)
qed (auto simp: queued_def subscriptionFilled_def register_listener_def unregister_listener_def
    acknowledge_def heartbeat_ids_def)

lemma reported_run:
  assumes "hb_reach answer es s" and "\<forall>e\<in>set es. heartbeat_ids e"
  shows "(\<forall>i\<in>queued s. \<exists>d. i = heartbeat_name d) \<and>
     sum_list (map (reports c) (hb_calls s)) + pending (heartbeat_name c) s \<le>
       sum_list (map (fills (heartbeat_name c)) es)"
  using assms
proof (induction rule: hb_reach.induct)
  case start
  then show ?case by (simp add: queued_def hb_init_def pending_def)
next
  case (more es s e s')
  then show ?case using reported_step [of answer s e s' c] queued_names_step [of answer s e s'] by auto
qed

text \<open>C20. The listening thread never reports a heartbeat that did not arrive: in every run in which
  listeners are registered for heartbeat products, the calls of \<open>ReceivedHeartbeat\<close> for a component
  are at most as many as the deliveries that contained its heartbeat.\<close>

theorem received_heartbeats_arrived:
  assumes "hb_reach answer es s" and "\<forall>e\<in>set es. heartbeat_ids e"
  shows "sum_list (map (reports c) (hb_calls s)) \<le> sum_list (map (fills (heartbeat_name c)) es)"
  using reported_run [OF assms, of c] by simp

definition sample_beat :: GravityDataProductPB where
  "sample_beat = GravityDataProduct (heartbeat_name ''A'')"

definition beat_element :: "u64 \<Rightarrow> ExpectedMessageQueueElement" where
  "beat_element t = \<lparr>em_expectedTime = t, em_lastHeartbeatTime = 0, em_timetowait = 10,
     em_dataproductID = heartbeat_name ''A''\<rparr>"

definition one_beat :: "hb_event list" where
  "one_beat = [HB_register 0 (heartbeat_name ''A'') 7 10, HB_filled [sample_beat], HB_due (beat_element 10) 12 13 14]"

lemma one_beat_run:
  "\<exists>s. hb_reach (\<lambda>call. 10) one_beat s \<and> hb_calls s = [ReceivedHeartbeat 7 ''A'' 10]"
proof -
  let ?a = "\<lambda>call. 10" and ?n = "heartbeat_name ''A''"
  let ?s1 = "register_listener 0 ?n 7 10 hb_init"
  let ?s2 = "subscriptionFilled [sample_beat] ?s1"
  let ?s3 = "process_due ?a 13 14 (beat_element 10) ?s2"
  have n: "getDataProductID sample_beat = ?n"
    by (simp add: sample_beat_def getDataProductID_def GravityDataProduct_def)
  have q: "messageTimes ?s2 = [beat_element 10]" "filledHeartbeats ?s2 = [?n]" "hb_listener ?s2 = [(?n, 7)]"
    "hb_calls ?s2 = []"
    by (simp_all add: subscriptionFilled_def register_listener_def acknowledge_def hb_init_def beat_element_def n)
  have "hb_reach ?a ([] @ [HB_register 0 ?n 7 10]) ?s1" by (rule hb_reach.more [OF hb_reach.start hb_step.register])
  then have "hb_reach ?a (([] @ [HB_register 0 ?n 7 10]) @ [HB_filled [sample_beat]]) ?s2"
    by (rule hb_reach.more [OF _ hb_step.filled])
  moreover have "hb_step ?a ?s2 (HB_due (beat_element 10) 12 13 14) ?s3"
    by (rule hb_step.due) (simp_all add: at_top_def q beat_element_def)
  ultimately have "hb_reach ?a one_beat ?s3"
    unfolding one_beat_def using hb_reach.more by fastforce
  moreover have "hb_calls ?s3 = [ReceivedHeartbeat 7 ''A'' 10]"
    by (simp add: process_due_def Let_def q) (simp add: beat_element_def heartbeat_call_def)
  ultimately show ?thesis by blast
qed

theorem received_heartbeats_arrived_witness:
  "\<exists>s. hb_reach (\<lambda>call. 10) one_beat s \<and> sum_list (map (reports ''A'') (hb_calls s)) = 1 \<and>
     1 \<le> sum_list (map (fills (heartbeat_name ''A'')) one_beat)"
proof -
  obtain s where s: "hb_reach (\<lambda>call. 10) one_beat s" "hb_calls s = [ReceivedHeartbeat 7 ''A'' 10]"
    using one_beat_run by blast
  have "\<forall>e\<in>set one_beat. heartbeat_ids e" by (auto simp: one_beat_def heartbeat_ids_def)
  from received_heartbeats_arrived [OF s(1) this, of "''A''"] s show ?thesis by (auto simp: reports_def)
qed

theorem deadline_calls_listener_witness:
  "\<exists>s s'. hb_step (\<lambda>call. 10) s (HB_due (beat_element 10) 12 13 14) s' \<and> length (hb_calls s') = Suc (length (hb_calls s))"
proof -
  let ?s = "register_listener 0 (heartbeat_name ''A'') 7 10 hb_init"
  have reach: "hb_reach (\<lambda>call. 10) ([] @ [HB_register 0 (heartbeat_name ''A'') 7 10]) ?s"
    by (rule hb_reach.more [OF hb_reach.start hb_step.register])
  have q: "messageTimes ?s = [beat_element 10]"
    by (simp add: register_listener_def acknowledge_def hb_init_def beat_element_def)
  have step: "hb_step (\<lambda>call. 10) ?s (HB_due (beat_element 10) 12 13 14)
      (process_due (\<lambda>call. 10) 13 14 (beat_element 10) ?s)"
    by (rule hb_step.due) (simp_all add: at_top_def q beat_element_def)
  have "length (hb_calls (process_due (\<lambda>call. 10) 13 14 (beat_element 10) ?s)) = Suc (length (hb_calls ?s))"
    using deadline_calls_listener [OF reach step] unfolding Let_def
    by (elim exE conjE) (simp only: length_append list.size add_Suc_right add_0_right)
  with step show ?thesis by blast
qed

subsection \<open>Listeners of the node\<close>

lemma subscribed_is_listed:
  assumes "subscribeInternal i u f d r w = (SUCCESS, w')"
  shows "\<exists>x\<in>set (subscriptionList (gw_node w')). ns_dataProductID x = i \<and> ns_subscriber x = u \<and> ns_filter x = f"
proof -
  obtain r1 infos w1 where look: "ServiceDirectoryDataProductLookup i
      (if d = [] then myDomain (gw_node w) else d) w = (r1, infos, w1)" using prod_cases3 by blast
  obtain res w2 where find: "find_update_publisher 5 w1 = (res, w2)" by fastforce
  show ?thesis
    using assms look find find_update_publisher_frame [OF find]
    by (auto simp: subscribeInternal_def Let_def set_node_def send_subscription_def
        split: if_splits sum.splits list.splits option.splits)
qed

text \<open>Unregistering a heartbeat listener does not undo its registration: the listening thread
  forgets the listener and its deadline, but the subscription to the heartbeats stays, because the two
  operations subscribe and unsubscribe with different subscriber objects.\<close>

theorem unregistered_listener_stays_subscribed:
  assumes "registerHeartbeatListener now c t l d h = (SUCCESS, h1)"
    and "unregisterHeartbeatListener c d h1 = (ret, h2)"
  shows "ret = SUCCESS \<and> \<not> smap_has (hb_listener (hw_heartbeat h2)) (heartbeat_name c) \<and>
     heartbeat_name c \<notin> queued (hw_heartbeat h2) \<and>
     (\<exists>x\<in>set (subscriptionList (gw_node (hw_world h2))).
        ns_dataProductID x = heartbeat_name c \<and> ns_subscriber x = hbSub_register)"
proof -
  let ?name = "heartbeat_name c"
  obtain w1 where sub: "node_subscribe ?name hbSub_register [] d (hw_world h) = (SUCCESS, w1)"
    and h1: "h1 = h\<lparr>hw_world := w1, hb_thread := True,
        hw_heartbeat := register_listener now ?name l t (hw_heartbeat h)\<rparr>"
    using assms(1) by (auto simp: registerHeartbeatListener_def Let_def split: if_splits prod.splits)
  obtain x where x: "x \<in> set (subscriptionList (gw_node w1))" "ns_dataProductID x = ?name"
    "ns_subscriber x = hbSub_register"
    using subscribed_is_listed sub unfolding node_subscribe_def by blast
  have "hbSub_register \<noteq> hbSub_unregister" by (simp add: hbSub_register_def hbSub_unregister_def)
  moreover have "initialized (gw_node w1)"
    using sub data_lookup(1) find_update_publisher_frame
    by (fastforce simp: node_subscribe_def subscribeInternal_def Let_def set_node_def send_subscription_def
        split: if_splits prod.splits sum.splits list.splits option.splits)
  ultimately have "ret = SUCCESS" "x \<in> set (subscriptionList (gw_node (hw_world h2)))"
    "hw_heartbeat h2 = unregister_listener ?name (hw_heartbeat h1)"
    using assms(2) x
    by (auto simp: unregisterHeartbeatListener_def unsubscribeInternal_def h1 Let_def)
  then show ?thesis
    using x by (auto simp: unregister_listener_def acknowledge_def queued_def smap_has_def)
qed

definition watching :: hb_world where
  "watching = \<lparr>hw_world = (sample_world [Net_ok, Net_ok])\<lparr>gw_dir := sample_directory\<rparr>,
     hw_heartbeat = hb_init, hb_thread = False\<rparr>"

theorem unregistered_listener_stays_subscribed_witness:
  "\<exists>h1 ret h2. registerHeartbeatListener 0 ''A'' 10 7 [] watching = (SUCCESS, h1) \<and>
     unregisterHeartbeatListener ''A'' [] h1 = (ret, h2) \<and>
     (\<exists>x\<in>set (subscriptionList (gw_node (hw_world h2))). ns_subscriber x = hbSub_register)"
proof -
  obtain w3 where w3: "subscribeInternal (heartbeat_name ''A'') hbSub_register [] [] True (hw_world watching) = (SUCCESS, w3)"
    using subscribe_answered [of "hw_world watching" "sample_info ''tcp://sd:1'' 1" "[]" "heartbeat_name ''A''"
        hbSub_register "[]" True]
    by (auto simp: watching_def sample_world_def sample_node_def has_url_def sample_info_def)
  have flags: "initialized (gw_node (hw_world watching))" "defaultReceiveLastSentDataproduct (gw_node (hw_world watching))"
    by (simp_all add: watching_def sample_world_def sample_node_def GravityNode_default_def blank_node_def)
  then obtain h1 where h1: "registerHeartbeatListener 0 ''A'' 10 7 [] watching = (SUCCESS, h1)"
    using w3 by (simp add: registerHeartbeatListener_def node_subscribe_def)
  obtain ret h2 where h2: "unregisterHeartbeatListener ''A'' [] h1 = (ret, h2)" by fastforce
  from unregistered_listener_stays_subscribed [OF h1 h2] h1 h2 show ?thesis by blast
qed

end
