(* ===== verification/Archive.thy ===== *)
theory Archive
  imports Node_Services
begin

unbundle bit_operations_syntax

section \<open>Archiving and playback (\<open>FileArchiver.cpp\<close>, \<open>FileReader.cpp\<close>, \<open>FileReplay.cpp\<close>)\<close>

text \<open>
  The archiver writes the data products it subscribes to into a file: an \<open>int\<close> 1 that shows the
  byte order of the host, then for each product its size as an \<open>int\<close> and its protobuf encoding.
  The replay component reads the file back with two threads (one fills a queue, the other takes
  products from it, and reads itself when the queue is empty) and publishes the products again at
  the pace of their time stamps.

  A file is the list of its bytes. The byte order of the hosts is a parameter, as are protobuf's
  \<open>serialize\<close> and \<open>parse\<close>. Writes to the archive succeed (a full disk is not modelled), and the
  memory for a product can be allocated.
\<close>

subsection \<open>Lists of names in the configuration\<close>

text \<open>\<open>getline(iss, tok, ',')\<close> until it fails: no token after a comma at the end.\<close>

function getline_tokens :: "string \<Rightarrow> string list" where
  "getline_tokens s =
     (if s = [] then []
      else takeWhile (\<lambda>c. c \<noteq> CHR '','') s #
           getline_tokens (tl (dropWhile (\<lambda>c. c \<noteq> CHR '','') s)))"
  by pat_completeness auto

lemma tl_dropWhile_shorter: "s \<noteq> [] \<Longrightarrow> length (tl (dropWhile P s)) < length s"
  using length_dropWhile_le [of P s] by (cases s) auto

termination getline_tokens
  by (relation "measure length") (simp_all add: tl_dropWhile_shorter del: length_tl)

declare getline_tokens.simps [simp del]

definition split_names :: "string \<Rightarrow> string list" where
  "split_names s = map (\<lambda>tok. trim tok '' '') (getline_tokens s)"

subsection \<open>Integers in a file\<close>

datatype byte_order = Little_endian | Big_endian

definition int_bytes :: "byte_order \<Rightarrow> int \<Rightarrow> frame" where
  "int_bytes order i =
     (case order of Little_endian \<Rightarrow> sendIntMessage i | Big_endian \<Rightarrow> rev (sendIntMessage i))"

definition int_of_bytes :: "byte_order \<Rightarrow> frame \<Rightarrow> u32" where
  "int_of_bytes order fr =
     join_bytes (case order of Little_endian \<Rightarrow> fr | Big_endian \<Rightarrow> rev fr)"

text \<open>The shifts to the right are those of a signed \<open>int\<close>: they copy the sign bit.\<close>

definition endian_swap :: "u32 \<Rightarrow> u32" where
  "endian_swap i =
     signed_drop_bit 24 i OR (push_bit 8 i AND 0x00FF0000) OR (signed_drop_bit 8 i AND 0x0000FF00) OR
     push_bit 24 i"

subsection \<open>The archiver\<close>

record fa_state =
  archiveFile :: frame
  suspend :: bool

text \<open>
  The constructor after \<open>init\<close>: the file starts with 1, the control service is registered and the
  products of the list are subscribed to (\<open>me\<close> is the archiver as subscriber and as service
  provider). The return codes are ignored.
\<close>

definition FileArchiver ::
  "byte_order \<Rightarrow> node_env \<Rightarrow> nat \<Rightarrow> gn_world \<Rightarrow> gn_fail + fa_state \<times> gn_world" where
  "FileArchiver order env me w =
     (let (filename, n1) = getStringParam env ''ArchiveFilename'' ''archive.bin'' (gw_node w);
          (dpList, n2) = getStringParam env ''DataProductList'' '''' n1;
          (susp, n3) = getBoolParam env ''StartSuspended'' False n2
      in then_do (registerService env ''FileArchiverControlRequest'' TCP me (w\<lparr>gw_node := n3\<rparr>)) (\<lambda>ret w1.
           Inr (\<lparr>archiveFile = int_bytes order 1, suspend = susp\<rparr>,
                fold (\<lambda>i w. snd (node_subscribe i me '''' '''' w)) (split_names dpList) w1)))"

definition archive_product :: "byte_order \<Rightarrow> (GravityDataProductPB \<Rightarrow> string) \<Rightarrow> GravityDataProductPB \<Rightarrow> frame" where
  "archive_product order serialize p =
     (let bytes = serialize p in int_bytes order (int (length bytes)) @ sendStringMessage bytes)"

definition archiver_subscriptionFilled ::
  "byte_order \<Rightarrow> (GravityDataProductPB \<Rightarrow> string) \<Rightarrow> GravityDataProductPB list \<Rightarrow> fa_state \<Rightarrow> fa_state" where
  "archiver_subscriptionFilled order serialize ps s =
     (if suspend s then s
      else fold (\<lambda>p s. s\<lparr>archiveFile := archiveFile s @ archive_product order serialize p\<rparr>) ps s)"

text \<open>
  \<open>request\<close>: the flag of the decoded control message, if it decodes (the default of an unset field
  is false). The result is the status of the response.
\<close>

definition archiver_request :: "string \<Rightarrow> bool option \<Rightarrow> fa_state \<Rightarrow> bool \<times> fa_state" where
  "archiver_request serviceID control s =
     (if serviceID = ''FileArchiverControlRequest''
      then (case control of None \<Rightarrow> (False, s) | Some b \<Rightarrow> (True, s\<lparr>suspend := b\<rparr>))
      else (False, s))"

datatype fa_event = Fa_filled "GravityDataProductPB list" | Fa_request string "bool option"

fun fa_step :: "byte_order \<Rightarrow> (GravityDataProductPB \<Rightarrow> string) \<Rightarrow> fa_event \<Rightarrow> fa_state \<Rightarrow> fa_state" where
  "fa_step order serialize (Fa_filled ps) s = archiver_subscriptionFilled order serialize ps s"
| "fa_step order serialize (Fa_request i c) s = snd (archiver_request i c s)"

subsection \<open>The reader\<close>

text \<open>
  The stream: the bytes not read yet and whether it is still good. A read that meets the end of the
  file takes what is left and makes the stream bad.
\<close>

record fr_state =
  fr_bytes :: frame
  fr_good :: bool
  swapEndian :: bool
  fr_dpList :: "string list"
  fr_dataProducts :: "GravityDataProductPB list"

text \<open>
  \<open>init\<close>: \<open>file\<close> is \<open>None\<close> when it cannot be opened. The integer is not initialised before the
  read: \<open>junk\<close> is what it holds when the read fails.
\<close>

definition FileReader_init ::
  "byte_order \<Rightarrow> u32 \<Rightarrow> frame option \<Rightarrow> string \<Rightarrow> fr_state" where
  "FileReader_init order junk file dataProductList =
     (let bytes = (case file of None \<Rightarrow> [] | Some b \<Rightarrow> b);
          good = (4 \<le> length bytes);
          i = (if good then int_of_bytes order (take 4 bytes) else junk)
      in \<lparr>fr_bytes = drop 4 bytes, fr_good = good, swapEndian = (i \<noteq> 1),
          fr_dpList = split_names dataProductList, fr_dataProducts = []\<rparr>)"

definition wanted :: "string list \<Rightarrow> GravityDataProductPB \<Rightarrow> bool" where
  "wanted dps p = (dps = [] \<or> getDataProductID p \<in> set dps)"

text \<open>
  The loop of \<open>readNextDataProduct\<close> over the bytes of a good stream: the product it adds to the
  queue, or none with a bad stream. A negative size makes the constructor of the buffer throw
  (\<open>None\<close>): neither thread catches it, and the process ends.
\<close>

function read_loop ::
  "(string \<Rightarrow> GravityDataProductPB) \<Rightarrow> byte_order \<Rightarrow> bool \<Rightarrow> string list \<Rightarrow> frame \<Rightarrow>
     (GravityDataProductPB option \<times> frame) option" where
  "read_loop parse order swap dps bytes =
     (if length bytes < 4 then Some (None, [])
      else (let raw = int_of_bytes order (take 4 bytes);
                size = (if swap then endian_swap raw else raw);
                rest = drop 4 bytes
            in if sint size < 0 then None
               else if length rest < unat size then Some (None, [])
               else (let gdp = parse (readStringMessage (take (unat size) rest))
                     in if \<not> wanted dps gdp then read_loop parse order swap dps (drop (unat size) rest)
                        else Some (Some gdp, drop (unat size) rest))))"
  by pat_completeness auto

termination read_loop
  by (relation "measure (\<lambda>(_, _, _, _, bytes). length bytes)") auto

declare read_loop.simps [simp del]

definition readNextDataProduct ::
  "(string \<Rightarrow> GravityDataProductPB) \<Rightarrow> byte_order \<Rightarrow> fr_state \<Rightarrow> (nat \<times> fr_state) option" where
  "readNextDataProduct parse order s =
     (if \<not> fr_good s then Some (length (fr_dataProducts s), s)
      else (case read_loop parse order (swapEndian s) (fr_dpList s) (fr_bytes s) of
              None \<Rightarrow> None
            | Some (None, rest) \<Rightarrow>
                Some (length (fr_dataProducts s), s\<lparr>fr_bytes := rest, fr_good := False\<rparr>)
            | Some (Some gdp, rest) \<Rightarrow>
                Some (length (fr_dataProducts s) + 1,
                      s\<lparr>fr_bytes := rest, fr_dataProducts := fr_dataProducts s @ [gdp]\<rparr>)))"

text \<open>
  The two threads. Each step is one section under the mutex: \<open>R_read\<close>, \<open>R_check\<close> and the
  repetition of the check after a sleep in \<open>processArchive\<close>; \<open>hasData\<close>, the read and the pop of
  \<open>getNextDataProduct\<close>, whose results are collected in \<open>pb_popped\<close>. \<open>M_done\<close> is the null pointer
  that ends the replay.
\<close>

datatype reader_pc = R_read | R_check | R_done
datatype replay_pc = M_has | M_read | M_pop | M_done
datatype playback_thread = Reader | Replayer

record playback =
  pb_file :: fr_state
  pb_reader :: reader_pc
  pb_replay :: replay_pc
  pb_popped :: "GravityDataProductPB list"

definition playback_start :: "fr_state \<Rightarrow> playback" where
  "playback_start s = \<lparr>pb_file = s, pb_reader = R_read, pb_replay = M_has, pb_popped = []\<rparr>"

definition reader_step ::
  "(string \<Rightarrow> GravityDataProductPB) \<Rightarrow> byte_order \<Rightarrow> playback \<Rightarrow> playback option" where
  "reader_step parse order s =
     (case pb_reader s of
        R_read \<Rightarrow>
          (case readNextDataProduct parse order (pb_file s) of
             None \<Rightarrow> None
           | Some (sz, f) \<Rightarrow> Some (s\<lparr>pb_file := f, pb_reader := (if sz \<noteq> 0 then R_check else R_done)\<rparr>))
      | R_check \<Rightarrow>
          Some (if fr_good (pb_file s) \<and> 100 < length (fr_dataProducts (pb_file s)) then s
                else s\<lparr>pb_reader := R_read\<rparr>)
      | R_done \<Rightarrow> Some s)"

definition popGravityDataProduct :: "fr_state \<Rightarrow> (GravityDataProductPB \<times> fr_state) option" where
  "popGravityDataProduct s =
     (case fr_dataProducts s of [] \<Rightarrow> None | p # ps \<Rightarrow> Some (p, s\<lparr>fr_dataProducts := ps\<rparr>))"

definition hasData :: "fr_state \<Rightarrow> bool" where
  "hasData s = (fr_dataProducts s \<noteq> [])"

definition replay_step ::
  "(string \<Rightarrow> GravityDataProductPB) \<Rightarrow> byte_order \<Rightarrow> playback \<Rightarrow> playback option" where
  "replay_step parse order s =
     (case pb_replay s of
        M_has \<Rightarrow> Some (s\<lparr>pb_replay := (if hasData (pb_file s) then M_pop else M_read)\<rparr>)
      | M_read \<Rightarrow>
          (case readNextDataProduct parse order (pb_file s) of
             None \<Rightarrow> None
           | Some (sz, f) \<Rightarrow> Some (s\<lparr>pb_file := f, pb_replay := (if sz \<noteq> 0 then M_pop else M_done)\<rparr>))
      | M_pop \<Rightarrow>
          (case popGravityDataProduct (pb_file s) of
             None \<Rightarrow> None
           | Some (p, f) \<Rightarrow> Some (s\<lparr>pb_file := f, pb_replay := M_has, pb_popped := pb_popped s @ [p]\<rparr>))
      | M_done \<Rightarrow> Some s)"

fun playback_step ::
  "(string \<Rightarrow> GravityDataProductPB) \<Rightarrow> byte_order \<Rightarrow> playback_thread \<Rightarrow> playback \<Rightarrow> playback option" where
  "playback_step parse order Reader s = reader_step parse order s"
| "playback_step parse order Replayer s = replay_step parse order s"

definition playback_run ::
  "(string \<Rightarrow> GravityDataProductPB) \<Rightarrow> byte_order \<Rightarrow> playback_thread list \<Rightarrow> playback \<Rightarrow> playback option" where
  "playback_run parse order = run_threads (playback_step parse order)"

subsection \<open>The replay\<close>

record replay_state =
  replay_datatypes :: "string list"
  firstPublishTime :: u64
  firstDataTime :: u64

definition replay_init :: replay_state where
  "replay_init = \<lparr>replay_datatypes = [], firstPublishTime = 0, firstDataTime = 0\<rparr>"

definition replay_timestamp :: "GravityDataProductPB \<Rightarrow> u64" where
  "replay_timestamp p =
     (if getReceivedTimestamp p = 0 then getGravityTimestamp p else getReceivedTimestamp p)"

text \<open>
  How long \<open>processArchive\<close> waits before it publishes: the argument of \<open>usleep\<close>, a 32-bit number
  of microseconds (\<open>now\<close> is the reading of the clock).
\<close>

definition replay_wait :: "u64 \<Rightarrow> u64 \<Rightarrow> replay_state \<Rightarrow> u32 \<times> replay_state" where
  "replay_wait now timestamp r =
     (if firstPublishTime r = 0 then (0, r\<lparr>firstPublishTime := now, firstDataTime := timestamp\<rparr>)
      else (let timeToWait = (if timestamp > firstDataTime r then timestamp - firstDataTime r else 0);
                elapsedTime = now - firstPublishTime r
            in (if elapsedTime < timeToWait then ucast (timeToWait - elapsedTime) else 0, r)))"

text \<open>
  One round of the loop; \<open>env\<close> is what the system tells the node in the registration, \<open>now\<close> and
  \<open>published\<close> are the clock before the wait and when the product is published. The result has the
  time waited.
\<close>

definition replay_product ::
  "node_env \<Rightarrow> u64 \<Rightarrow> u64 \<Rightarrow> GravityDataProductPB \<Rightarrow> replay_state \<Rightarrow> gn_world \<Rightarrow>
     gn_fail + (u32 \<times> replay_state) \<times> gn_world" where
  "replay_product env now published p r w =
     (let i = getDataProductID p;
          (wait, r1) = replay_wait now (replay_timestamp p) (r\<lparr>replay_datatypes := sset_insert i (replay_datatypes r)\<rparr>)
      in then_do (if i \<in> set (replay_datatypes r) then Inr (SUCCESS, w)
                  else node_registerDataProduct env i TCP (defaultCacheLastSentDataprodut (gw_node w)) w)
           (\<lambda>ret w1. Inr ((wait, r1), w1\<lparr>gw_node := fst (node_publish published p '''' 0 (gw_node w1))\<rparr>)))"

fun replay_products ::
  "(node_env \<times> u64 \<times> u64) list \<Rightarrow> GravityDataProductPB list \<Rightarrow> replay_state \<Rightarrow> gn_world \<Rightarrow>
     gn_fail + (u32 list \<times> replay_state) \<times> gn_world" where
  "replay_products ((env, now, published) # es) (p # ps) r w =
     then_do (replay_product env now published p r w) (\<lambda>(wait, r1) w1.
       then_do (replay_products es ps r1 w1) (\<lambda>(waits, r2) w2. Inr ((wait # waits, r2), w2)))"
| "replay_products _ _ r w = Inr (([], r), w)"

end
