(* ===== verification/Node_Types.thy ===== *)
theory Node_Types
  imports Node_Correct
begin

section \<open>The data of the node under all operations on data products\<close>

text \<open>
  The maps of the node are ordered maps, every data product of \<open>publishMap\<close> has a registration time
  and a URL that a socket of the publish manager is bound to. Every sequence of calls of an
  application (registering, unregistering and publishing data products, reading parameters,
  subscribing), interleaved with the publish manager taking the queued publications, keeps this and
  neither ends the process nor blocks, provided that new sockets are new and that no id is registered
  or unregistered for which the publish manager has the null entry of an unknown id.
\<close>

subsection \<open>Calls of an application\<close>

datatype node_op = Op_register node_env string GravityTransportType bool
  | Op_unregister string
  | Op_publish u64 GravityDataProductPB string u64
  | Op_param node_env string string
  | Op_subscribe string nat string string
  | Op_unsubscribe string nat string string
  | Op_take

fun node_op_run :: "(GravityDataProductPB \<Rightarrow> string) \<Rightarrow> gn_world \<Rightarrow> node_op \<Rightarrow> gn_fail + gn_world" where
  "node_op_run ser w (Op_register env i tr c) = map_sum id snd (node_registerDataProduct env i tr c w)"
| "node_op_run ser w (Op_unregister i) = map_sum id snd (node_unregisterDataProduct i w)"
| "node_op_run ser w (Op_publish now p f t) = Inr (set_node (\<lambda>n. fst (node_publish now p f t n)) w)"
| "node_op_run ser w (Op_param env k v) = Inr (set_node (\<lambda>n. snd (getStringParam env k v n)) w)"
| "node_op_run ser w (Op_subscribe i u f d) = Inr (snd (node_subscribe i u f d w))"
| "node_op_run ser w (Op_unsubscribe i u f d) = Inr (set_node (\<lambda>n. snd (unsubscribeInternal i u f d n)) w)"
| "node_op_run ser w Op_take =
     (case to_publisher (gw_node w) of
        [] \<Rightarrow> Inr w
      | m # ms \<Rightarrow>
          (case take_publication ser m (gw_pm w) of
             None \<Rightarrow> Inl Crashed
           | Some (s, r) \<Rightarrow> Inr (w\<lparr>gw_pm := s, gw_node := (gw_node w)\<lparr>to_publisher := ms\<rparr>\<rparr>)))"

fun node_ops :: "(GravityDataProductPB \<Rightarrow> string) \<Rightarrow> node_op list \<Rightarrow> gn_world \<Rightarrow> gn_fail + gn_world" where
  "node_ops ser [] w = Inr w"
| "node_ops ser (e # es) w =
     (case node_op_run ser w e of Inl x \<Rightarrow> Inl x | Inr w1 \<Rightarrow> node_ops ser es w1)"

fun node_op_ok :: "gn_world \<Rightarrow> node_op \<Rightarrow> bool" where
  "node_op_ok w (Op_register env i tr c) =
     (ne_socket env \<notin> set (pm_pollItems (gw_pm w)) \<and> map_of (publishMapByID (gw_pm w)) i \<noteq> Some None)"
| "node_op_ok w (Op_unregister i) = (map_of (publishMapByID (gw_pm w)) i \<noteq> Some None)"
| "node_op_ok w _ = True"

definition node_next :: "(GravityDataProductPB \<Rightarrow> string) \<Rightarrow> gn_world \<Rightarrow> node_op \<Rightarrow> gn_world" where
  "node_next ser w e = (case node_op_run ser w e of Inl x \<Rightarrow> w | Inr w1 \<Rightarrow> w1)"

subsection \<open>The invariant\<close>

definition typed_maps :: "gn_state \<Rightarrow> bool" where
  "typed_maps n \<longleftrightarrow> smap_wf (publishMap n) \<and> smap_wf (urlInstanceMap n) \<and>
     smap_wf (dataRegistrationTimeMap n) \<and> smap_wf (publishedSettings n) \<and>
     (\<forall>i. map_of (publishMap n) i \<noteq> None \<longrightarrow> map_of (dataRegistrationTimeMap n) i \<noteq> None)"

definition hosts :: "pm_state \<Rightarrow> string \<Rightarrow> string \<Rightarrow> bool" where
  "hosts s i url \<longleftrightarrow> (\<exists>k pd. map_of (publishMapByID s) i = Some (Some k) \<and>
     map_of (publishMapBySocket s) k = Some pd \<and> pd_url pd = url)"

definition node_typed :: "gn_world \<Rightarrow> bool" where
  "node_typed w \<longleftrightarrow> typed_maps (gw_node w) \<and> pm_wf (gw_pm w) \<and>
     (\<forall>i url. map_of (publishMap (gw_node w)) i = Some url \<longrightarrow> hosts (gw_pm w) i url)"

subsection \<open>Parameters and publications\<close>

lemma typed_publish: "typed_maps n \<Longrightarrow> typed_maps (fst (node_publish now p f t n))"
  by (auto simp: node_publish_def typed_maps_def Let_def map_of_smap_touch)

lemma node_publish_frame [simp]: "publishMap (fst (node_publish now p f t n)) = publishMap n"
  by (simp add: node_publish_def Let_def)

lemma typed_getStringParam: "typed_maps n \<Longrightarrow> getStringParam env k v n = (r, n') \<Longrightarrow> typed_maps n'"
  using typed_publish [of n "ne_now env"]
  by (auto simp: getStringParam_def typed_maps_def Let_def split: option.splits if_splits)

lemma typed_getIntParam: "typed_maps n \<Longrightarrow> getIntParam env k v n = (r, n') \<Longrightarrow> typed_maps n'"
  by (auto simp: getIntParam_def split_def Let_def intro: typed_getStringParam [OF _ surjective_pairing])

lemma typed_registration:
  "typed_maps n \<Longrightarrow> pm_registration_of env i tr c n = (r, n') \<Longrightarrow> typed_maps n'"
  by (auto simp: pm_registration_of_def port_range_def split: prod.splits if_splits dest: typed_getIntParam)

subsection \<open>What the publish manager keeps\<close>

lemma hosts_register:
  assumes "hosts s j url" and "k \<notin> set (pm_pollItems s)" and "pm_wf s" and "j \<noteq> pr_dataProductID r"
  shows "hosts (fst (registerDataProduct zb (Some k) r s)) j url"
proof -
  obtain k' pd where "map_of (publishMapByID s) j = Some (Some k')" "map_of (publishMapBySocket s) k' = Some pd"
      "pd_url pd = url" using assms(1) by (auto simp: hosts_def)
  moreover from this have "k' \<noteq> k" using assms(2,3) by (auto simp: pm_wf_def)
  ultimately show ?thesis using assms(4) by (auto simp: hosts_def registerDataProduct_def split: option.splits)
qed

lemma hosts_unregister:
  assumes "hosts s j url" and "pm_wf s" and "j \<noteq> i" and "unregisterDataProduct i s = Some (s', r)"
  shows "hosts s' j url"
proof -
  obtain k pd where k: "map_of (publishMapByID s) j = Some (Some k)" "map_of (publishMapBySocket s) k = Some pd"
      "pd_url pd = url" using assms(1) by (auto simp: hosts_def)
  have "k \<noteq> k'" if "map_of (publishMapByID s) i = Some (Some k')" for k'
    using pm_wf_id_inj [OF assms(2) k(1)] that assms(3) by auto
  with k assms(3,4) show ?thesis
    by (auto simp: hosts_def unregisterDataProduct_def Let_def split: option.splits)
qed

lemma hosts_publish: "hosts s j url \<Longrightarrow> publish i t f b s = Some s' \<Longrightarrow> hosts s' j url"
  by (auto simp: hosts_def publish_def update_details_def Let_def map_of_smap_touch smap_at_def
      send_published_def count_metrics_def cache_value_def split: option.splits if_splits)

subsection \<open>Registering and unregistering\<close>

lemma announce_unregistration_frame:
  "announce_unregistration ur w = (ret, w') \<Longrightarrow> gw_node w' = gw_node w \<and> gw_pm w' = gw_pm w"
  by (auto simp: announce_unregistration_def sendRequestToServiceDirectory_def Let_def split: prod.splits)

lemma register_with_directory_frame:
  "register_with_directory env i url rel lo w = (ret, w') \<Longrightarrow> gw_node w' = gw_node w \<and> gw_pm w' = gw_pm w \<and>
     (ret = SUCCESS \<longrightarrow> url \<noteq> '''')"
  by (auto simp: register_with_directory_def Let_def split: if_splits dest!: announce_registration_frame)

lemma pm_call_unregister_typed:
  assumes "pm_wf (gw_pm w)" and "map_of (publishMapByID (gw_pm w)) i \<noteq> Some None"
  shows "\<exists>r w'. pm_call (PUnregister i) w = Inr (r, w') \<and> gw_node w' = gw_node w \<and> pm_wf (gw_pm w') \<and>
     (\<forall>j url. j \<noteq> i \<longrightarrow> hosts (gw_pm w) j url \<longrightarrow> hosts (gw_pm w') j url)"
proof -
  obtain s' r where s': "unregisterDataProduct i (gw_pm w) = Some (s', r)" "pm_wf s'"
    using pm_wf_unregister [OF assms] by blast
  moreover from s'(1) have "r \<noteq> NoReply"
    by (auto simp: unregisterDataProduct_def Let_def split: option.splits)
  ultimately show ?thesis using hosts_unregister [OF _ assms(1) _ s'(1)] by (simp add: pm_call_def)
qed

lemma register_typed:
  assumes "node_typed w" and "ne_socket env \<notin> set (pm_pollItems (gw_pm w))"
    and "map_of (publishMapByID (gw_pm w)) i \<noteq> Some None"
  shows "\<exists>ret w'. registerDataProductInternal env i tr c rel lo ar w = Inr (ret, w') \<and> node_typed w'"
proof -
  let ?n = "gw_node w" and ?k = "ne_socket env"
  show ?thesis
  proof (cases "\<not> initialized ?n \<or> reserved_id ar i ?n \<or> smap_has (publishMap ?n) i")
    case True
    then show ?thesis using assms(1) by (auto simp: registerDataProductInternal_def Let_def)
  next
    case False
    have new: "map_of (publishMap ?n) i = None" using False by (simp add: smap_has_def)
    obtain r n1 where r: "pm_registration_of env i tr c ?n = (r, n1)" by fastforce
    have n1: "typed_maps n1" "publishMap n1 = publishMap ?n" "pr_dataProductID r = i"
      using typed_registration [OF _ r] params_frame_registration [OF r] assms(1)
      by (auto simp: node_typed_def params_frame_def)
    obtain s reply where s: "registerDataProduct (ne_zmq_bind env) (Some ?k) r (gw_pm w) = (s, reply)" by fastforce
    let ?w2 = "w\<lparr>gw_node := n1, gw_pm := s\<rparr>"
    have call: "pm_call (PRegister r (ne_zmq_bind env) (Some ?k)) (w\<lparr>gw_node := n1\<rparr>) = Inr (reply, ?w2)"
      using s by (auto simp: pm_call_def registerDataProduct_def split: option.splits)
    have pm: "pm_wf s" "\<And>j url. j \<noteq> i \<Longrightarrow> hosts (gw_pm w) j url \<Longrightarrow> hosts s j url"
      using pm_wf_register [of "gw_pm w" r "ne_zmq_bind env" "Some ?k"]
        hosts_register [OF _ assms(2), of _ _ r "ne_zmq_bind env"] assms(1,2) s n1(3)
      by (auto simp: node_typed_def)
    have host: "reply_text reply \<noteq> '''' \<Longrightarrow> hosts s i (reply_text reply)" "map_of (publishMapByID s) i \<noteq> Some None"
      using s n1(3) assms(3) by (auto simp: hosts_def registerDataProduct_def split: option.splits)
    have old: "hosts s j url" if "map_of (publishMap ?n) j = Some url" for j url
      using assms(1) that new pm(2) by (cases "j = i") (auto simp: node_typed_def)
    obtain ret w3 where w3: "register_with_directory env i (reply_text reply) rel lo ?w2 = (ret, w3)" by fastforce
    note frame = register_with_directory_frame [OF w3]
    have "\<exists>w'. finish_registration i (reply_text reply) (ne_now env) ret w3 = Inr (ret, w') \<and> node_typed w'"
    proof (cases "ret = SUCCESS")
      case True
      then show ?thesis using frame n1 pm host(1) old
        by (auto simp: finish_registration_def set_node_def node_typed_def note_publisher_def typed_maps_def)
    next
      case False
      have "pm_wf (gw_pm w3)" "map_of (publishMapByID (gw_pm w3)) i \<noteq> Some None"
        using frame pm host(2) by simp_all
      from pm_call_unregister_typed [OF this] obtain q w4 where w4: "pm_call (PUnregister i) w3 = Inr (q, w4)"
          "gw_node w4 = gw_node w3" "pm_wf (gw_pm w4)"
          "\<forall>j url. j \<noteq> i \<longrightarrow> hosts (gw_pm w3) j url \<longrightarrow> hosts (gw_pm w4) j url" by blast
      have "hosts (gw_pm w4) j url" if "map_of (publishMap ?n) j = Some url" for j url
        using old [OF that] w4(4) frame that new by (cases "j = i") auto
      then show ?thesis using False w4 frame n1 by (simp add: finish_registration_def node_typed_def)
    qed
    then show ?thesis using False r call w3 by (auto simp: registerDataProductInternal_def Let_def)
  qed
qed

lemma unregister_typed:
  assumes "node_typed w" and "map_of (publishMapByID (gw_pm w)) i \<noteq> Some None"
  shows "\<exists>ret w'. node_unregisterDataProduct i w = Inr (ret, w') \<and> node_typed w'"
proof -
  let ?n = "gw_node w"
  obtain q w1 where w1: "pm_call (PUnregister i) w = Inr (q, w1)" "gw_node w1 = ?n" "pm_wf (gw_pm w1)"
      "\<forall>j url. j \<noteq> i \<longrightarrow> hosts (gw_pm w) j url \<longrightarrow> hosts (gw_pm w1) j url"
    using pm_call_unregister_typed [OF _ assms(2)] assms(1) by (auto simp: node_typed_def)
  let ?w2 = "set_node (forget_publisher i) w1"
  have w2: "node_typed ?w2"
    using w1 assms(1) by (auto simp: set_node_def forget_publisher_def node_typed_def typed_maps_def)
  have "node_typed (snd (announce_unregistration ur ?w2))" for ur
    using w2 announce_unregistration_frame [OF surjective_pairing, of ur ?w2] by (simp add: node_typed_def)
  then show ?thesis
    using assms(1) w1(1) w2 by (auto simp: node_unregisterDataProduct_def Let_def prod_eq_iff)
qed

subsection \<open>All operations\<close>

lemma node_subscribe_frame:
  "publishMap (gw_node (snd (node_subscribe i u f d w))) = publishMap (gw_node w) \<and>
   typed_maps (gw_node (snd (node_subscribe i u f d w))) = typed_maps (gw_node w) \<and>
   gw_pm (snd (node_subscribe i u f d w)) = gw_pm w"
proof -
  have send: "gw_node w' = gw_node w \<and> gw_pm w' = gw_pm w"
    if "ServiceDirectoryDataProductLookup i d w = (ret, infos, w')" for i d w ret infos w'
    using that by (auto simp: ServiceDirectoryDataProductLookup_def sendRequestToServiceDirectory_def Let_def
        split: prod.splits if_splits option.splits sd_response.splits)
  have find: "gw_node w' = gw_node w \<and> gw_pm w' = gw_pm w" if "find_update_publisher n w = (r, w')" for n w r w'
    using that
  proof (induction n arbitrary: w)
    case (Suc n)
    then show ?case by (auto simp: Let_def split: prod.splits if_splits dest!: send)
  qed simp
  let ?d = "if d = '''' then myDomain (gw_node w) else d"
  obtain ret infos w1 where look: "ServiceDirectoryDataProductLookup i ?d w = (ret, infos, w1)"
    using prod_cases3 by blast
  obtain r w2 where upd: "find_update_publisher 5 w1 = (r, w2)" by fastforce
  show ?thesis
    using send [OF look] find [OF upd]
    by (simp add: node_subscribe_def subscribeInternal_def look upd set_node_def send_subscription_def
        typed_maps_def split: sum.split list.split option.split)
qed

lemma node_op_typed:
  assumes "node_typed w" and "node_op_ok w e"
  shows "\<exists>w'. node_op_run ser w e = Inr w' \<and> node_typed w'"
proof (cases e)
  case (Op_register env i tr c)
  then show ?thesis
    using register_typed [OF assms(1), of env i tr c False False False] assms(2)
    by (auto simp: node_registerDataProduct_def)
next
  case (Op_unregister i)
  then show ?thesis using unregister_typed [OF assms(1), of i] assms(2) by auto
next
  case (Op_publish now p f t)
  then show ?thesis using assms(1) typed_publish by (simp add: set_node_def node_typed_def)
next
  case (Op_param env k v)
  obtain r n' where n': "getStringParam env k v (gw_node w) = (r, n')" by fastforce
  then show ?thesis
    using Op_param assms(1) typed_getStringParam [OF _ n'] params_frame_string [OF n']
    by (auto simp: set_node_def node_typed_def params_frame_def)
next
  case (Op_subscribe i u f d)
  then show ?thesis using assms(1) node_subscribe_frame [of i u f d w] by (simp add: node_typed_def)
next
  case (Op_unsubscribe i u f d)
  then show ?thesis
    using assms(1) by (auto simp: unsubscribeInternal_def Let_def set_node_def node_typed_def typed_maps_def)
next
  case Op_take
  show ?thesis
  proof (cases "to_publisher (gw_node w)")
    case (Cons m ms)
    obtain s where s: "publish (pb_dataProductID m) (pb_timestamp m) (pb_filterText m)
        (ser (pb_dataProduct m)) (gw_pm w) = Some s" "pm_wf s"
      using pm_wf_publish assms(1) unfolding node_typed_def by blast
    then show ?thesis
      using Op_take Cons assms(1) hosts_publish [OF _ s(1)]
      by (simp add: take_publication_def node_typed_def typed_maps_def)
  qed (use Op_take assms in simp)
qed

interpretation node: keeps_invariant "node_next ser" node_op_ok node_typed for ser
  using node_op_typed [where ser = ser] by unfold_locales (fastforce simp: node_next_def)

lemma node_ops_next:
  "node_typed w \<Longrightarrow> admissible node_op_ok (node_next ser) w es \<Longrightarrow>
     node_ops ser es w = Inr (foldl (node_next ser) w es)"
proof (induction es arbitrary: w)
  case (Cons e es)
  then obtain w' where "node_op_run ser w e = Inr w'" "node_typed w'"
    using node_op_typed [of w e ser] by auto
  then show ?case using Cons by (simp add: node_next_def)
qed simp



end
