(* ===== verification/Archive_Correct.thy ===== *)
theory Archive_Correct
  imports Archive Node_Types
begin

unbundle bit_operations_syntax

section \<open>Correctness of archiving and playback\<close>

text \<open>
  What the archiver has written is what arrived while it was not suspended, and the two threads of
  the replay component take exactly the archived products of the list from the file, in order,
  whatever the interleaving. An archive of a host with the other byte order can be read when no
  size has a low byte from 128 on; otherwise the process ends.
\<close>

subsection \<open>Byte order\<close>

lemma send_bytes:
  "sendUint32Message v = [ucast v, ucast (drop_bit 8 v), ucast (drop_bit 16 v), ucast (drop_bit 24 v)]"
  by (simp add: sendUint32Message_def upt_rec)

lemma length_int_bytes [simp]: "length (int_bytes order i) = 4"
  by (simp add: int_bytes_def sendIntMessage_def send_bytes split: byte_order.split)

lemma join_send [simp]: "join_bytes (sendUint32Message v) = v"
  using read_send_uint32 [of v] by (simp add: readUint32Message_def join_bytes_def split: if_splits)

lemma int_of_int_bytes [simp]: "int_of_bytes order (int_bytes order i) = word_of_int i"
  by (cases order) (simp_all add: int_of_bytes_def int_bytes_def sendIntMessage_def)

definition reversed :: "u32 \<Rightarrow> u32" where
  "reversed v = join_bytes (rev (sendUint32Message v))"

lemma int_of_foreign_bytes:
  "order \<noteq> order' \<Longrightarrow> int_of_bytes order (int_bytes order' i) = reversed (word_of_int i)"
  by (cases order; cases order')
    (simp_all add: int_of_bytes_def int_bytes_def sendIntMessage_def reversed_def)

lemma reversed_def2:
  "reversed v = push_bit 24 (take_bit 8 v) OR push_bit 16 (take_bit 8 (drop_bit 8 v)) OR
     push_bit 8 (take_bit 8 (drop_bit 16 v)) OR take_bit 8 (drop_bit 24 v)"
  by (rule bit_word_eqI)
    (auto simp: reversed_def send_bytes join_bytes_def bit_simps)

lemma bit_reversed:
  "bit (reversed v) n =
     (if n < 8 then bit v (n + 24) else if n < 16 then bit v (n + 8)
      else if n < 24 then bit v (n - 8) else if n < 32 then bit v (n - 24) else False)"
  unfolding reversed_def2
  by (auto simp: bit_simps less_diff_conv add.commute dest: bit_imp_le_length)

lemma byte_masks: "(0x00FF0000 :: u32) = push_bit 16 (mask 8)" "(0x0000FF00 :: u32) = push_bit 8 (mask 8)"
  by (simp_all add: mask_eq_exp_minus_1 push_bit_eq_mult)

lemma bit_endian_swap_reversed:
  "n < 32 \<Longrightarrow> bit (endian_swap (reversed v)) n = (bit v n \<or> 8 \<le> n \<and> bit v 7)"
  unfolding endian_swap_def byte_masks
  by (auto simp: bit_simps bit_reversed bit_signed_drop_bit_iff)

text \<open>The low byte decides: its top bit is copied into all the bytes above it.\<close>

lemma endian_swap_reversed: "\<not> bit v 7 \<Longrightarrow> endian_swap (reversed v) = v"
  by (rule bit_word_eqI) (simp add: bit_endian_swap_reversed)

lemma endian_swap_negative:
  assumes "bit v 7"
  shows "sint (endian_swap (reversed v)) < 0"
proof -
  have "bit (endian_swap (reversed v)) 31" using assms by (simp add: bit_endian_swap_reversed)
  then show ?thesis using bit_last_iff [of "endian_swap (reversed v)"] by simp
qed

lemma low_byte: "bit (word_of_nat n :: u32) 7 \<longleftrightarrow> 128 \<le> n mod 256"
proof -
  have "bit n 7 \<longleftrightarrow> bit (take_bit 8 n) 7" by (simp add: bit_take_bit_iff)
  also have "\<dots> \<longleftrightarrow> odd (n mod 256 div 128)" by (simp add: take_bit_eq_mod bit_iff_odd)
  also have "\<dots> \<longleftrightarrow> 128 \<le> n mod 256"
  proof
    assume "128 \<le> n mod 256"
    moreover have "n mod 256 < 256" by simp
    ultimately have "n mod 256 div 128 = 1" by linarith
    then show "odd (n mod 256 div 128)" by simp
  next
    assume "odd (n mod 256 div 128)"
    then show "128 \<le> n mod 256" by (cases "n mod 256 < 128") auto
  qed
  finally show ?thesis by (simp add: bit_simps)
qed

subsection \<open>Reading one product back\<close>

text \<open>
  \<open>readable parse serialize order order' p\<close>: protobuf decodes what it has encoded, the encoding
  has fewer than \<open>2^31\<close> bytes (protobuf's own limit), and when the archive comes from a host of the
  other byte order (\<open>order'\<close>) the low byte of its size is below 128.
\<close>

definition readable ::
  "(string \<Rightarrow> GravityDataProductPB) \<Rightarrow> (GravityDataProductPB \<Rightarrow> string) \<Rightarrow> byte_order \<Rightarrow> byte_order \<Rightarrow>
     GravityDataProductPB \<Rightarrow> bool" where
  "readable parse serialize order order' p \<longleftrightarrow>
     parse (serialize p) = p \<and> length (serialize p) < 2 ^ 31 \<and>
     (order = order' \<or> length (serialize p) mod 256 < 128)"

definition archive_bytes :: "byte_order \<Rightarrow> (GravityDataProductPB \<Rightarrow> string) \<Rightarrow> GravityDataProductPB list \<Rightarrow> frame" where
  "archive_bytes order serialize ps = concat (map (archive_product order serialize) ps)"

lemma archive_bytes_simps [simp]:
  "archive_bytes order serialize [] = []"
  "archive_bytes order serialize (p # ps) = archive_product order serialize p @ archive_bytes order serialize ps"
  "archive_bytes order serialize (ps @ qs) = archive_bytes order serialize ps @ archive_bytes order serialize qs"
  by (simp_all add: archive_bytes_def)

lemma length_sendString [simp]: "length (sendStringMessage s) = length s"
  by (simp add: sendStringMessage_def)

lemma sint_small: "n < 2 ^ 31 \<Longrightarrow> sint (word_of_nat n :: u32) = int n"
  by (simp add: signed_of_nat signed_take_bit_int_eq_self)

lemma unat_small: "n < 2 ^ 31 \<Longrightarrow> unat (word_of_nat n :: u32) = n"
  by (simp add: unat_of_nat)

lemma size_read:
  assumes "n < 2 ^ 31" and "order = order' \<or> n mod 256 < 128"
  shows "(let raw = int_of_bytes order (int_bytes order' (int n))
          in if order \<noteq> order' then endian_swap raw else raw) = word_of_nat n"
  using assms low_byte [of n]
  by (cases "order = order'") (simp_all add: int_of_foreign_bytes endian_swap_reversed)

lemma read_loop_archive:
  assumes "\<forall>p\<in>set ps. readable parse serialize order order' p"
  shows "read_loop parse order (order \<noteq> order') dps (archive_bytes order' serialize ps) =
     (case dropWhile (\<lambda>p. \<not> wanted dps p) ps of
        [] \<Rightarrow> Some (None, [])
      | p # qs \<Rightarrow> Some (Some p, archive_bytes order' serialize qs))"
  using assms
proof (induction ps)
  case Nil
  then show ?case by (subst read_loop.simps) simp
next
  case (Cons p ps)
  let ?b = "serialize p"
  have p: "parse ?b = p" "length ?b < 2 ^ 31" "order = order' \<or> length ?b mod 256 < 128"
    using Cons.prems by (simp_all add: readable_def)
  have size: "(let raw = int_of_bytes order (int_bytes order' (int (length ?b)))
      in if order \<noteq> order' then endian_swap raw else raw) = word_of_nat (length ?b)"
    using p(2,3) by (rule size_read)
  have bytes: "archive_bytes order' serialize (p # ps) =
      int_bytes order' (int (length ?b)) @ sendStringMessage ?b @ archive_bytes order' serialize ps"
    by (simp add: archive_product_def Let_def)
  show ?case
    using Cons.IH Cons.prems p(1) size
    unfolding bytes
    by (subst read_loop.simps) (simp add: Let_def sint_small [OF p(2)] unat_small [OF p(2)] read_send_string)
qed

subsection \<open>What the archiver writes\<close>

lemma fold_archive:
  "fold (\<lambda>p s. s\<lparr>archiveFile := archiveFile s @ archive_product order serialize p\<rparr>) ps s =
     s\<lparr>archiveFile := archiveFile s @ archive_bytes order serialize ps\<rparr>"
  by (induction ps arbitrary: s) simp_all

text \<open>\<open>archived susp es\<close>: the products that arrive while the archiver is not suspended.\<close>

fun archived :: "bool \<Rightarrow> fa_event list \<Rightarrow> GravityDataProductPB list" where
  "archived susp [] = []"
| "archived susp (Fa_filled ps # es) = (if susp then [] else ps) @ archived susp es"
| "archived susp (Fa_request i c # es) =
     archived (if i = ''FileArchiverControlRequest'' then (case c of None \<Rightarrow> susp | Some b \<Rightarrow> b) else susp) es"

lemma archiver_file:
  "archiveFile (fold (fa_step order serialize) es s) =
     archiveFile s @ archive_bytes order serialize (archived (suspend s) es)"
proof (induction es arbitrary: s)
  case (Cons e es)
  then show ?case
    by (cases e) (auto simp: archiver_subscriptionFilled_def fold_archive archiver_request_def split: option.split)
qed simp

text \<open>\<open>FileReader::init\<close> on such a file.\<close>

lemma reversed_one: "reversed 1 \<noteq> 1"
  by (simp add: reversed_def2 take_bit_eq_mod)

lemma init_archive:
  "FileReader_init order junk (Some (int_bytes order' 1 @ bytes)) dpl =
     \<lparr>fr_bytes = bytes, fr_good = True, swapEndian = (order \<noteq> order'),
      fr_dpList = split_names dpl, fr_dataProducts = []\<rparr>"
  using int_of_foreign_bytes [of order order' 1] reversed_one
  by (cases "order = order'") (simp_all add: FileReader_init_def)

subsection \<open>The two threads of the playback\<close>

text \<open>
  \<open>reader_ok\<close>: the bytes not read yet are the archive of the products \<open>qs\<close>. \<open>playback_ok\<close>: the
  products taken, those in the queue and the wanted ones still in the file are the \<open>expected\<close> ones
  in order.
\<close>

definition reader_ok ::
  "(string \<Rightarrow> GravityDataProductPB) \<Rightarrow> (GravityDataProductPB \<Rightarrow> string) \<Rightarrow> byte_order \<Rightarrow> byte_order \<Rightarrow>
     string list \<Rightarrow> GravityDataProductPB list \<Rightarrow> fr_state \<Rightarrow> bool" where
  "reader_ok parse serialize order order' dps qs f \<longleftrightarrow>
     fr_bytes f = archive_bytes order' serialize qs \<and> (\<forall>p\<in>set qs. readable parse serialize order order' p) \<and>
     swapEndian f = (order \<noteq> order') \<and> fr_dpList f = dps \<and> (\<not> fr_good f \<longrightarrow> qs = [])"

lemma readNext_ok:
  assumes "reader_ok parse serialize order order' dps qs f"
  shows "\<exists>f1 qs1 new. readNextDataProduct parse order f = Some (length (fr_dataProducts f1), f1) \<and>
     reader_ok parse serialize order order' dps qs1 f1 \<and>
     fr_dataProducts f1 = fr_dataProducts f @ new \<and>
     filter (wanted dps) qs = new @ filter (wanted dps) qs1 \<and> (new = [] \<longrightarrow> qs1 = [])"
proof (cases "fr_good f")
  case False
  then show ?thesis using assms by (auto simp: readNextDataProduct_def reader_ok_def)
next
  case True
  have qs: "\<forall>p\<in>set qs. readable parse serialize order order' p" using assms by (simp add: reader_ok_def)
  have loop: "read_loop parse order (swapEndian f) (fr_dpList f) (fr_bytes f) =
     (case dropWhile (\<lambda>p. \<not> wanted dps p) qs of [] \<Rightarrow> Some (None, [])
      | p # qs1 \<Rightarrow> Some (Some p, archive_bytes order' serialize qs1))"
    using assms read_loop_archive [OF qs] by (simp add: reader_ok_def)
  show ?thesis
  proof (cases "dropWhile (\<lambda>p. \<not> wanted dps p) qs")
    case Nil
    then have "filter (wanted dps) qs = []" by (auto simp: filter_empty_conv dropWhile_eq_Nil_conv)
    with True loop Nil assms show ?thesis by (auto simp: readNextDataProduct_def reader_ok_def)
  next
    case (Cons p qs1)
    have split: "qs = takeWhile (\<lambda>p. \<not> wanted dps p) qs @ p # qs1"
      using Cons takeWhile_dropWhile_id [of "\<lambda>p. \<not> wanted dps p" qs] by simp
    have "wanted dps p" using Cons hd_dropWhile [of "\<lambda>p. \<not> wanted dps p" qs] by simp
    then have "filter (wanted dps) qs = p # filter (wanted dps) qs1"
      by (subst split) (auto simp: filter_empty_conv dest: set_takeWhileD)
    moreover have "set qs1 \<subseteq> set qs" using split by (metis Un_upper2 set_append set_subset_Cons subset_trans)
    moreover let ?f1 = "f\<lparr>fr_bytes := archive_bytes order' serialize qs1, fr_dataProducts := fr_dataProducts f @ [p]\<rparr>"
    have "readNextDataProduct parse order f = Some (length (fr_dataProducts ?f1), ?f1)"
      using True loop Cons by (simp add: readNextDataProduct_def)
    moreover have "reader_ok parse serialize order order' dps qs1 ?f1"
      using assms True calculation(2) by (auto simp: reader_ok_def)
    ultimately show ?thesis by (intro exI [of _ ?f1] exI [of _ qs1] exI [of _ "[p]"]) simp
  qed
qed

definition playback_ok ::
  "(string \<Rightarrow> GravityDataProductPB) \<Rightarrow> (GravityDataProductPB \<Rightarrow> string) \<Rightarrow> byte_order \<Rightarrow> byte_order \<Rightarrow>
     string list \<Rightarrow> GravityDataProductPB list \<Rightarrow> playback \<Rightarrow> bool" where
  "playback_ok parse serialize order order' dps expected s \<longleftrightarrow>
     (\<exists>qs. reader_ok parse serialize order order' dps qs (pb_file s) \<and>
        pb_popped s @ fr_dataProducts (pb_file s) @ filter (wanted dps) qs = expected) \<and>
     (pb_replay s = M_pop \<longrightarrow> fr_dataProducts (pb_file s) \<noteq> []) \<and>
     (pb_replay s = M_done \<longrightarrow> pb_popped s = expected)"

fun replay_steps :: "replay_pc \<Rightarrow> nat" where
  "replay_steps M_has = 2"
| "replay_steps M_read = 1"
| "replay_steps M_pop = 0"
| "replay_steps M_done = 0"

definition steps_left :: "GravityDataProductPB list \<Rightarrow> playback \<Rightarrow> nat" where
  "steps_left expected s = 3 * (length expected - length (pb_popped s)) + replay_steps (pb_replay s)"

lemma reader_step_ok:
  assumes "playback_ok parse serialize order order' dps expected s"
  shows "\<exists>s1. reader_step parse order s = Some s1 \<and>
     playback_ok parse serialize order order' dps expected s1 \<and> steps_left expected s1 = steps_left expected s"
proof (cases "pb_reader s")
  case R_read
  obtain qs where qs: "reader_ok parse serialize order order' dps qs (pb_file s)"
      "pb_popped s @ fr_dataProducts (pb_file s) @ filter (wanted dps) qs = expected"
    using assms by (auto simp: playback_ok_def)
  obtain f1 qs1 new where f1: "readNextDataProduct parse order (pb_file s) = Some (length (fr_dataProducts f1), f1)"
      "reader_ok parse serialize order order' dps qs1 f1" "fr_dataProducts f1 = fr_dataProducts (pb_file s) @ new"
      "filter (wanted dps) qs = new @ filter (wanted dps) qs1"
    using readNext_ok [OF qs(1)] by blast
  then show ?thesis
    using assms qs R_read by (auto simp: reader_step_def playback_ok_def steps_left_def)
qed (use assms in \<open>auto simp: reader_step_def playback_ok_def steps_left_def\<close>)

lemma replay_step_ok:
  assumes "playback_ok parse serialize order order' dps expected s"
  shows "\<exists>s1. replay_step parse order s = Some s1 \<and>
     playback_ok parse serialize order order' dps expected s1 \<and>
     steps_left expected s1 \<le> steps_left expected s - 1"
proof -
  obtain qs where qs: "reader_ok parse serialize order order' dps qs (pb_file s)"
      "pb_popped s @ fr_dataProducts (pb_file s) @ filter (wanted dps) qs = expected"
    using assms by (auto simp: playback_ok_def)
  show ?thesis
  proof (cases "pb_replay s")
    case M_has
    then show ?thesis
      using assms by (auto simp: replay_step_def playback_ok_def steps_left_def hasData_def)
  next
    case M_read
    obtain f1 qs1 new where f1: "readNextDataProduct parse order (pb_file s) = Some (length (fr_dataProducts f1), f1)"
        "reader_ok parse serialize order order' dps qs1 f1" "fr_dataProducts f1 = fr_dataProducts (pb_file s) @ new"
        "filter (wanted dps) qs = new @ filter (wanted dps) qs1" "new = [] \<longrightarrow> qs1 = []"
      using readNext_ok [OF qs(1)] by blast
    have "fr_dataProducts f1 = [] \<Longrightarrow> pb_popped s = expected" using f1(3-5) qs(2) by auto
    with f1 qs(2) M_read show ?thesis by (auto simp: replay_step_def playback_ok_def steps_left_def)
  next
    case M_pop
    then obtain p ps where q: "fr_dataProducts (pb_file s) = p # ps"
      using assms by (cases "fr_dataProducts (pb_file s)") (auto simp: playback_ok_def)
    then have "length (pb_popped s) < length expected" using qs(2) by auto
    with q qs M_pop show ?thesis
      by (auto simp: replay_step_def popGravityDataProduct_def playback_ok_def steps_left_def reader_ok_def)
  next
    case M_done
    then show ?thesis using assms by (auto simp: replay_step_def playback_ok_def steps_left_def)
  qed
qed

interpretation playback: scheduled_steps "playback_step parse order"
  "playback_ok parse serialize order order' dps expected" "steps_left expected" Replayer
  for parse serialize order order' dps expected
proof
  fix s t
  assume ok: "playback_ok parse serialize order order' dps expected s"
  show "\<exists>s1. playback_step parse order t s = Some s1 \<and>
      playback_ok parse serialize order order' dps expected s1 \<and>
      steps_left expected s1 \<le> steps_left expected s - (if t = Replayer then 1 else 0)"
    using reader_step_ok [OF ok] replay_step_ok [OF ok] by (cases t) auto
qed

subsection \<open>Playback of an archive\<close>

text \<open>The archive that an archiver has written after the events \<open>es\<close>.\<close>

definition archive_of ::
  "byte_order \<Rightarrow> (GravityDataProductPB \<Rightarrow> string) \<Rightarrow> bool \<Rightarrow> fa_event list \<Rightarrow> frame" where
  "archive_of order serialize susp es =
     archiveFile (fold (fa_step order serialize) es \<lparr>archiveFile = int_bytes order 1, suspend = susp\<rparr>)"

lemma archive_of_bytes:
  "archive_of order serialize susp es = int_bytes order 1 @ archive_bytes order serialize (archived susp es)"
  by (simp add: archive_of_def archiver_file)

lemma playback_start_ok:
  assumes "\<forall>p\<in>set (archived susp es). readable parse serialize order order' p"
  shows "playback_ok parse serialize order order' (split_names dpl)
     (filter (wanted (split_names dpl)) (archived susp es))
     (playback_start (FileReader_init order junk (Some (archive_of order' serialize susp es)) dpl))"
  using assms by (auto simp: archive_of_bytes init_archive playback_start_def playback_ok_def reader_ok_def)

lemma playback_run_takes:
  assumes "\<forall>p\<in>set (archived susp es). readable parse serialize order order' p"
  shows "\<exists>s. playback_run parse order ts (playback_start
       (FileReader_init order junk (Some (archive_of order' serialize susp es)) dpl)) = Some s \<and>
     (let expected = filter (wanted (split_names dpl)) (archived susp es)
      in (\<exists>rest. expected = pb_popped s @ rest) \<and>
         (pb_replay s = M_done \<longrightarrow> pb_popped s = expected) \<and>
         (3 * length expected + 2 \<le> length (filter (\<lambda>t. t = Replayer) ts) \<longrightarrow> pb_replay s = M_done))"
proof -
  let ?E = "filter (wanted (split_names dpl)) (archived susp es)"
  let ?s = "playback_start (FileReader_init order junk (Some (archive_of order' serialize susp es)) dpl)"
  obtain s where s: "playback_run parse order ts ?s = Some s"
      "playback_ok parse serialize order order' (split_names dpl) ?E s"
      "steps_left ?E s \<le> steps_left ?E ?s - length (filter (\<lambda>t. t = Replayer) ts)"
    unfolding playback_run_def using playback.run_ok [OF playback_start_ok [OF assms]] by blast
  have "\<exists>rest. ?E = pb_popped s @ rest" "pb_replay s = M_done \<longrightarrow> pb_popped s = ?E"
    using s(2) unfolding playback_ok_def by (metis, blast)
  moreover have "pb_replay s = M_done" if "3 * length ?E + 2 \<le> length (filter (\<lambda>t. t = Replayer) ts)"
  proof (rule ccontr)
    assume "pb_replay s \<noteq> M_done"
    moreover have "steps_left ?E s = 0" using s(3) that by (simp add: steps_left_def playback_start_def)
    ultimately have "pb_replay s = M_pop" "length ?E \<le> length (pb_popped s)"
      by (auto simp: steps_left_def elim: replay_steps.elims)
    moreover obtain qs where "pb_popped s @ fr_dataProducts (pb_file s) @ filter (wanted (split_names dpl)) qs = ?E"
        "pb_replay s = M_pop \<longrightarrow> fr_dataProducts (pb_file s) \<noteq> []" using s(2) by (auto simp: playback_ok_def)
    moreover from this(1) have "length ?E = length (pb_popped s) + length (fr_dataProducts (pb_file s)) +
        length (filter (wanted (split_names dpl)) qs)" by (metis add.assoc length_append)
    ultimately show False by simp
  qed
  ultimately show ?thesis using s(1) unfolding Let_def by blast
qed

text \<open>C21. An archive written on one host is played back on another, for every run of the archiver and
  every interleaving of the reader thread with the thread that takes the products: nothing fails, the
  products taken are the first of the products that arrived while the archiver was not suspended and
  that the configured list selects, in the order in which they arrived; the end of the archive is
  reported only when all of them were taken, and it is reported after at most three steps per
  product and two more. Assumed are protobuf's round trip and, between hosts of different byte
  order, sizes with a low byte below 128.\<close>

theorem playback_takes_archived_products:
  assumes "\<forall>p\<in>set (archived susp es). readable parse serialize order order' p"
  shows "\<exists>s. playback_run parse order ts (playback_start
       (FileReader_init order junk (Some (archive_of order' serialize susp es)) dpl)) = Some s \<and>
     (let names = split_names dpl;
          expected = filter (\<lambda>p. names = [] \<or> getDataProductID p \<in> set names) (archived susp es)
      in (\<exists>rest. expected = pb_popped s @ rest) \<and>
         (pb_replay s = M_done \<longrightarrow> pb_popped s = expected) \<and>
         (3 * length expected + 2 \<le> length (filter (\<lambda>t. t = Replayer) ts) \<longrightarrow> pb_replay s = M_done))"
proof -
  have "wanted (split_names dpl) = (\<lambda>p. split_names dpl = [] \<or> getDataProductID p \<in> set (split_names dpl))"
    by (simp add: wanted_def fun_eq_iff)
  with playback_run_takes [OF assms, of ts junk dpl] show ?thesis unfolding Let_def by simp
qed

theorem playback_takes_archived_products_witness:
  "\<exists>s. playback_run GravityDataProduct Little_endian (replicate 5 Reader @ replicate 8 Replayer)
       (playback_start (FileReader_init Little_endian 0 (Some (archive_of Big_endian getDataProductID False
          [Fa_filled [GravityDataProduct ''A''], Fa_request ''FileArchiverControlRequest'' (Some True),
           Fa_filled [GravityDataProduct ''B''], Fa_request ''FileArchiverControlRequest'' (Some False),
           Fa_filled [GravityDataProduct ''C'']])) '''')) = Some s \<and>
     pb_popped s = [GravityDataProduct ''A'', GravityDataProduct ''C'']"
proof -
  have a: "archived False [Fa_filled [GravityDataProduct ''A''], Fa_request ''FileArchiverControlRequest'' (Some True),
           Fa_filled [GravityDataProduct ''B''], Fa_request ''FileArchiverControlRequest'' (Some False),
           Fa_filled [GravityDataProduct ''C'']] = [GravityDataProduct ''A'', GravityDataProduct ''C'']"
    by simp
  have "split_names '''' = []" by (simp add: split_names_def getline_tokens.simps)
  then show ?thesis
    using playback_takes_archived_products [of False "[Fa_filled [GravityDataProduct ''A''],
        Fa_request ''FileArchiverControlRequest'' (Some True), Fa_filled [GravityDataProduct ''B''],
        Fa_request ''FileArchiverControlRequest'' (Some False), Fa_filled [GravityDataProduct ''C'']]"
        GravityDataProduct getDataProductID Little_endian Big_endian
        "replicate 5 Reader @ replicate 8 Replayer" 0 "''''"]
    unfolding a by (auto simp: readable_def getDataProductID_def GravityDataProduct_def Let_def)
qed

text \<open>C39. Reading an archive of a host with the other byte order ends the process at the first product
  whose size has a low byte from 128 on: \<open>endian_swap\<close> shifts a negative \<open>int\<close>, the result is
  negative, and the buffer of that length cannot be made.\<close>

theorem foreign_archive_ends_process:
  assumes "order \<noteq> order'" and "length (serialize p) < 2 ^ 31" and "128 \<le> length (serialize p) mod 256"
  shows "readNextDataProduct parse order (FileReader_init order junk
     (Some (int_bytes order' 1 @ archive_product order' serialize p @ rest)) dpl) = None"
proof -
  have "sint (endian_swap (int_of_bytes order (int_bytes order' (int (length (serialize p)))))) < 0"
    using assms(1,3) low_byte [of "length (serialize p)"] int_of_foreign_bytes [of order order']
    by (simp add: endian_swap_negative)
  then show ?thesis
    using assms(1)
    by (simp add: init_archive readNextDataProduct_def archive_product_def Let_def) (subst read_loop.simps, simp)
qed

theorem foreign_archive_ends_process_witness:
  "readNextDataProduct GravityDataProduct Little_endian (FileReader_init Little_endian 0
     (Some (int_bytes Big_endian 1 @ archive_product Big_endian (\<lambda>p. replicate 200 CHR ''x'')
        (GravityDataProduct ''A''))) '''') = None"
  using foreign_archive_ends_process [of Little_endian Big_endian "\<lambda>p. replicate 200 CHR ''x''"
      "GravityDataProduct ''A''" GravityDataProduct 0 "[]" "''''"] by simp

subsection \<open>Publishing the products again\<close>

text \<open>The ids and contents of the publications the node has queued, without its own settings.\<close>

definition payloads :: "publish_message list \<Rightarrow> (string \<times> string option) list" where
  "payloads q = map (\<lambda>m. (pb_dataProductID m, dp_data (pb_dataProduct m)))
     (filter (\<lambda>m. pb_dataProductID m \<noteq> GRAVITY_SETTINGS_DPID) q)"

definition archived_payloads :: "GravityDataProductPB list \<Rightarrow> (string \<times> string option) list" where
  "archived_payloads ps = map (\<lambda>p. (getDataProductID p, dp_data p))
     (filter (\<lambda>p. getDataProductID p \<noteq> GRAVITY_SETTINGS_DPID) ps)"

lemma dp_data_published: "dp_data (publish_product now t p n) = dp_data p"
  by (simp add: publish_product_def setRegistrationTime_def setDomain_def setComponentId_def Let_def)

lemma node_publish_queue:
  "to_publisher (fst (node_publish now p f t n)) =
     to_publisher n @ (if initialized n then [\<lparr>pb_dataProductID = getDataProductID p,
       pb_timestamp = getGravityTimestamp (publish_product now t p n), pb_filterText = f,
       pb_dataProduct = publish_product now t p n\<rparr>] else [])"
  "initialized (fst (node_publish now p f t n)) = initialized n"
  by (simp_all add: node_publish_def Let_def)

lemma payloads_publish:
  "initialized n \<Longrightarrow> payloads (to_publisher (fst (node_publish now p f t n))) =
     payloads (to_publisher n) @ archived_payloads [p]"
  by (simp add: node_publish_queue payloads_def archived_payloads_def dp_data_published)

lemma payloads_string:
  assumes "getStringParam env k v n = (r, n')"
  shows "payloads (to_publisher n') = payloads (to_publisher n)"
proof -
  have "payloads (to_publisher (fst (node_publish (ne_now env) (setData_message b t (GravityDataProduct
      GRAVITY_SETTINGS_DPID)) c 0 n))) = payloads (to_publisher n)" for b t c
    by (simp add: node_publish_queue payloads_def setData_message_def GravityDataProduct_def getDataProductID_def)
  then show ?thesis
    using assms by (auto simp: getStringParam_def Let_def split: option.splits if_splits)
qed

lemma payloads_registration:
  "pm_registration_of env i tr c n = (r, n') \<Longrightarrow> payloads (to_publisher n') = payloads (to_publisher n)"
  by (auto simp: pm_registration_of_def port_range_def getIntParam_def Let_def split: prod.splits if_splits
      dest!: payloads_string)

text \<open>What a registration may change besides the maps.\<close>

definition only_registers :: "node_env \<Rightarrow> gn_world \<Rightarrow> gn_world \<Rightarrow> bool" where
  "only_registers env w w' \<longleftrightarrow> initialized (gw_node w') = initialized (gw_node w) \<and>
     payloads (to_publisher (gw_node w')) = payloads (to_publisher (gw_node w)) \<and>
     set (pm_pollItems (gw_pm w')) \<subseteq> insert (ne_socket env) (set (pm_pollItems (gw_pm w))) \<and>
     (\<forall>i. map_of (publishMapByID (gw_pm w')) i = Some None \<longrightarrow> map_of (publishMapByID (gw_pm w)) i = Some None)"

lemma pm_register_only:
  "registerDataProduct zb (Some k) r s = (s', reply) \<Longrightarrow> set (pm_pollItems s') \<subseteq> insert k (set (pm_pollItems s)) \<and>
     (\<forall>i. map_of (publishMapByID s') i = Some None \<longrightarrow> map_of (publishMapByID s) i = Some None)"
  by (auto simp: registerDataProduct_def split: option.splits if_splits)

lemma pm_unregister_only:
  "unregisterDataProduct i s = Some (s', reply) \<Longrightarrow> set (pm_pollItems s') \<subseteq> set (pm_pollItems s) \<and>
     (\<forall>i. map_of (publishMapByID s') i = Some None \<longrightarrow> map_of (publishMapByID s) i = Some None)"
  by (auto simp: unregisterDataProduct_def Let_def split: option.splits if_splits)

lemma finish_registration_only:
  assumes "finish_registration i url t ret w = Inr (ret', w')"
  shows "only_registers env w w'"
proof (cases "ret = SUCCESS")
  case True
  then show ?thesis
    using assms by (auto simp: finish_registration_def only_registers_def set_node_def note_publisher_def)
next
  case False
  then obtain s r where s: "unregisterDataProduct i (gw_pm w) = Some (s, r)" "w' = w\<lparr>gw_pm := s\<rparr>"
    using assms
    by (auto simp: finish_registration_def then_do_Inr pm_call_def split: option.splits if_splits)
  then show ?thesis using pm_unregister_only [OF s(1)] by (auto simp: only_registers_def)
qed

lemma register_only:
  assumes "registerDataProductInternal env i tr c rel lo ar w = Inr (ret, w')"
  shows "only_registers env w w'"
proof (cases "initialized (gw_node w) \<and> \<not> reserved_id ar i (gw_node w) \<and> \<not> smap_has (publishMap (gw_node w)) i")
  case False
  then show ?thesis
    using assms by (auto simp: registerDataProductInternal_def only_registers_def Let_def split: if_splits)
next
  case True
  obtain r n1 reply w2 w3 where r: "pm_registration_of env i tr c (gw_node w) = (r, n1)"
    and w2: "pm_call (PRegister r (ne_zmq_bind env) (Some (ne_socket env))) (w\<lparr>gw_node := n1\<rparr>) = Inr (reply, w2)"
    and w3: "register_with_directory env i (reply_text reply) rel lo w2 = (ret, w3)"
    and w': "finish_registration i (reply_text reply) (ne_now env) ret w3 = Inr (ret, w')"
    using register_steps [OF assms] True by metis
  obtain s where s: "registerDataProduct (ne_zmq_bind env) (Some (ne_socket env)) r (gw_pm w) = (s, reply)"
      "w2 = w\<lparr>gw_node := n1, gw_pm := s\<rparr>"
    using w2 by (auto simp: pm_call_def split: prod.splits if_splits)
  have "only_registers env w w2"
    using s(2) payloads_registration [OF r] params_frame_registration [OF r] pm_register_only [OF s(1)]
    by (simp add: only_registers_def params_frame_def)
  moreover have "gw_node w3 = gw_node w2" "gw_pm w3 = gw_pm w2"
    using register_with_directory_frame [OF w3] by simp_all
  ultimately show ?thesis
    using finish_registration_only [OF w', of env] by (auto simp: only_registers_def)
qed

subsection \<open>The whole replay\<close>

definition fresh_envs :: "(node_env \<times> u64 \<times> u64) list \<Rightarrow> gn_world \<Rightarrow> bool" where
  "fresh_envs es w \<longleftrightarrow> distinct (map (\<lambda>e. ne_socket (fst e)) es) \<and>
     (\<forall>e\<in>set es. ne_socket (fst e) \<notin> set (pm_pollItems (gw_pm w)))"

definition no_null_entry :: "gn_world \<Rightarrow> bool" where
  "no_null_entry w \<longleftrightarrow> (\<forall>i. map_of (publishMapByID (gw_pm w)) i \<noteq> Some None)"

lemma replay_wait_datatypes:
  "replay_datatypes (snd (replay_wait now t (r\<lparr>replay_datatypes := xs\<rparr>))) = xs"
  by (simp add: replay_wait_def Let_def)

lemma replay_product_ok:
  assumes "node_typed w" and "initialized (gw_node w)" and "no_null_entry w" and "fresh_envs ((env, now, pub) # es) w"
  shows "\<exists>wait r' w'. replay_product env now pub p r w = Inr ((wait, r'), w') \<and> node_typed w' \<and>
     initialized (gw_node w') \<and> no_null_entry w' \<and> fresh_envs es w' \<and>
     payloads (to_publisher (gw_node w')) = payloads (to_publisher (gw_node w)) @ archived_payloads [p] \<and>
     set (replay_datatypes r') = insert (getDataProductID p) (set (replay_datatypes r))"
proof -
  let ?i = "getDataProductID p" and ?c = "defaultCacheLastSentDataprodut (gw_node w)"
  obtain ret' w1' where reg: "node_registerDataProduct env ?i TCP ?c w = Inr (ret', w1')" "node_typed w1'"
    using register_typed [OF assms(1), of env ?i TCP ?c False False False] assms
    by (auto simp: node_registerDataProduct_def no_null_entry_def fresh_envs_def)
  obtain ret w1 where w1: "(if ?i \<in> set (replay_datatypes r) then Inr (SUCCESS, w)
      else node_registerDataProduct env ?i TCP ?c w) = Inr (ret, w1)" "node_typed w1"
    using reg assms(1) by (cases "?i \<in> set (replay_datatypes r)") auto
  have only: "only_registers env w w1"
    using w1(1) register_only by (auto simp: node_registerDataProduct_def only_registers_def split: if_splits)
  have w1_ok: "initialized (gw_node w1)" "no_null_entry w1" "fresh_envs es w1"
    using only assms(2-4)
    by (auto simp: only_registers_def no_null_entry_def fresh_envs_def image_iff dest!: subsetD)
  let ?w' = "w1\<lparr>gw_node := fst (node_publish pub p '''' 0 (gw_node w1))\<rparr>"
  have "node_typed ?w'" using w1(2) typed_publish by (simp add: node_typed_def)
  moreover have "payloads (to_publisher (gw_node ?w')) = payloads (to_publisher (gw_node w)) @ archived_payloads [p]"
    using only payloads_publish [OF w1_ok(1)] by (simp add: only_registers_def)
  moreover obtain wait r' where "replay_wait now (replay_timestamp p)
      (r\<lparr>replay_datatypes := sset_insert ?i (replay_datatypes r)\<rparr>) = (wait, r')"
      "set (replay_datatypes r') = insert ?i (set (replay_datatypes r))"
    using replay_wait_datatypes [of now "replay_timestamp p"] by (metis set_sset_insert surjective_pairing)
  ultimately show ?thesis
    using w1(1) w1_ok unfolding replay_product_def Let_def
    by (simp add: node_publish_queue no_null_entry_def fresh_envs_def)
qed

text \<open>C24. Replaying products on a node publishes exactly these products, in order and with their
  contents (besides the node's own settings), and whether the registrations of their ids succeed or
  not, the replay goes on to the end; it remembers exactly the ids it has seen, and the node's data
  stays well-formed.\<close>

theorem replay_publishes_archive:
  assumes "node_typed w" and "initialized (gw_node w)" and "no_null_entry w" and "fresh_envs es w"
    and "length es = length ps"
  shows "\<exists>waits r' w'. replay_products es ps r w = Inr ((waits, r'), w') \<and> length waits = length ps \<and>
     payloads (to_publisher (gw_node w')) = payloads (to_publisher (gw_node w)) @ archived_payloads ps \<and>
     set (replay_datatypes r') = set (replay_datatypes r) \<union> getDataProductID ` set ps \<and> node_typed w'"
  using assms
proof (induction ps arbitrary: es r w)
  case Nil
  then show ?case by (simp add: archived_payloads_def)
next
  case (Cons p ps)
  obtain env now pub es1 where es: "es = (env, now, pub) # es1"
    using Cons.prems(5) by (cases es) auto
  obtain wait r1 w1 where one: "replay_product env now pub p r w = Inr ((wait, r1), w1)" "node_typed w1"
      "initialized (gw_node w1)" "no_null_entry w1" "fresh_envs es1 w1"
      "payloads (to_publisher (gw_node w1)) = payloads (to_publisher (gw_node w)) @ archived_payloads [p]"
      "set (replay_datatypes r1) = insert (getDataProductID p) (set (replay_datatypes r))"
    using replay_product_ok [OF Cons.prems(1-3) Cons.prems(4) [unfolded es]] by metis
  have "length es1 = length ps" using Cons.prems(5) es by simp
  from Cons.IH [OF one(2-5) this, of r1] one es show ?case
    by (auto simp: archived_payloads_def)
qed

theorem replay_publishes_archive_witness:
  "\<exists>waits r' w'. replay_products [(sample_env 5000000, 6000000, 7000000)] [GravityDataProduct ''A''] replay_init
       (sample_world []) = Inr ((waits, r'), w') \<and>
     payloads (to_publisher (gw_node w')) = [(''A'', None)]"
proof -
  let ?w = "sample_world []" and ?e = "[(sample_env 5000000, 6000000, 7000000)] :: (node_env \<times> u64 \<times> u64) list"
  have "node_typed ?w" "initialized (gw_node ?w)"
    by (simp_all add: node_typed_def typed_maps_def sample_defs pm_wf_init)
  moreover have "no_null_entry ?w" "fresh_envs ?e ?w"
    by (simp_all add: no_null_entry_def fresh_envs_def sample_world_def pm_init_def)
  moreover have "payloads (to_publisher (gw_node ?w)) = []"
    by (simp add: payloads_def sample_defs)
  moreover have "archived_payloads [GravityDataProduct ''A''] = [(''A'', None)]"
    by (simp add: archived_payloads_def GravityDataProduct_def getDataProductID_def GRAVITY_SETTINGS_DPID_def)
  ultimately show ?thesis
    using replay_publishes_archive [of ?w ?e "[GravityDataProduct ''A'']" replay_init] by fastforce
qed

text \<open>The replay keeps the pace of the archive: a product whose time stamp is \<open>d\<close> microseconds
  after that of the first one is published no sooner than \<open>d\<close> after the first one, as long as less than
  \<open>2^32\<close> microseconds are left to wait and the clock does not go back.\<close>

theorem replay_keeps_pace:
  assumes "firstPublishTime r \<noteq> 0" and "firstPublishTime r \<le> now" and "firstDataTime r \<le> t"
    and "unat (t - firstDataTime r) < unat (now - firstPublishTime r) + 2 ^ 32"
  shows "unat t - unat (firstDataTime r) \<le> unat now + unat (fst (replay_wait now t r)) - unat (firstPublishTime r)"
proof -
  let ?d = "t - firstDataTime r" and ?e = "now - firstPublishTime r"
  have d: "unat ?d = unat t - unat (firstDataTime r)" and e: "unat ?e = unat now - unat (firstPublishTime r)"
    using assms(2,3) by (simp_all add: unat_sub)
  have le: "unat (firstPublishTime r) \<le> unat now" using assms(2) by (simp add: word_le_nat_alt)
  show ?thesis
  proof (cases "?e < ?d")
    case False
    then have "unat ?d \<le> unat ?e" by (simp only: word_less_nat_alt not_less)
    then show ?thesis using d e by simp
  next
    case True
    then have "unat ?e \<le> unat ?d" by (simp add: word_less_nat_alt)
    then have "unat (?d - ?e) = unat ?d - unat ?e" by (simp add: unat_sub word_le_nat_alt)
    moreover have "unat ?d - unat ?e < 2 ^ 32" using assms(4) \<open>unat ?e \<le> unat ?d\<close> by simp
    ultimately have u: "unat (ucast (?d - ?e) :: u32) = unat ?d - unat ?e"
      by (simp add: unsigned_ucast_eq take_bit_nat_eq_self)
    have "firstDataTime r < t" using True assms(3) by (cases "firstDataTime r = t") (auto simp: order_less_le)
    then have "fst (replay_wait now t r) = ucast (?d - ?e)"
      using True assms(1) by (simp add: replay_wait_def Let_def)
    then show ?thesis using u d e le \<open>unat ?e \<le> unat ?d\<close> by simp
  qed
qed

theorem replay_keeps_pace_witness:
  "unat (5000 :: u64) - unat (1000 :: u64) \<le> unat (70 :: u64) +
     unat (fst (replay_wait 70 5000 \<lparr>replay_datatypes = [], firstPublishTime = 50, firstDataTime = 1000\<rparr>)) - unat (50 :: u64)"
  using replay_keeps_pace [of "\<lparr>replay_datatypes = [], firstPublishTime = 50, firstDataTime = 1000\<rparr>" 70 5000] by simp

end
