(* ===== verification/Relay.thy ===== *)
theory Relay
  imports Archive_Correct
begin

section \<open>Relay and log recorder (\<open>Relay.cpp\<close>, \<open>GravityLogRecorder.cpp\<close>)\<close>

text \<open>
  Two components that are subscribers. The relay registers as a publisher of the products it
  subscribes to and publishes again what it receives, marked as relayed; when it is told to quit it
  takes its registrations back. The log recorder writes log messages to a file and starts a new file
  now and then.
\<close>

subsection \<open>The relay\<close>

definition setIsRelayedDataproduct :: "bool \<Rightarrow> GravityDataProductPB \<Rightarrow> GravityDataProductPB" where
  "setIsRelayedDataproduct b p = p\<lparr>dp_is_relayed_dataproduct := Some b\<rparr>"

text \<open>
  The part of \<open>run\<close> that registers the products of the list, one \<open>node_env\<close> for each (\<open>me\<close> is the
  relay as a subscriber); the return codes are ignored.
\<close>

fun relay_register ::
  "node_env list \<Rightarrow> nat \<Rightarrow> bool \<Rightarrow> string list \<Rightarrow> gn_world \<Rightarrow> gn_fail + unit \<times> gn_world" where
  "relay_register (env # envs) me localOnly (token # tokens) w =
     then_do (registerRelay env token me localOnly TCP False w) (\<lambda>ret w1.
       relay_register envs me localOnly tokens w1)"
| "relay_register _ me localOnly _ w = Inr ((), w)"

definition relay_start :: "node_env list \<Rightarrow> nat \<Rightarrow> gn_world \<Rightarrow> gn_fail + string list \<times> gn_world" where
  "relay_start envs me w =
     (let (localOnly, n1) = getBoolParam (hd envs) ''ProvideLocalOnly'' True (gw_node w);
          (dpList, n2) = getStringParam (hd envs) ''DataProductList'' '''' n1;
          tokens = split_names dpList
      in then_do (relay_register (tl envs) me localOnly tokens (w\<lparr>gw_node := n2\<rparr>)) (\<lambda>u w1. Inr (tokens, w1)))"

text \<open>The loop after \<open>quit\<close> has been set.\<close>

fun relay_stop :: "nat \<Rightarrow> string list \<Rightarrow> gn_world \<Rightarrow> gn_fail + unit \<times> gn_world" where
  "relay_stop me [] w = Inr ((), w)"
| "relay_stop me (i # is) w = then_do (unregisterRelay i me w) (\<lambda>ret w1. relay_stop me is w1)"

definition relay_subscriptionFilled :: "u64 \<Rightarrow> GravityDataProductPB list \<Rightarrow> gn_state \<Rightarrow> gn_state" where
  "relay_subscriptionFilled now dataProducts n =
     fold (\<lambda>p n. fst (node_publish now (setIsRelayedDataproduct True p) '''' 0 n)) dataProducts n"

subsection \<open>What the relay passes on\<close>

definition relayed :: "u32 \<Rightarrow> GravityDataProductPB \<Rightarrow> publish_message" where
  "relayed regTime p =
     \<lparr>pb_dataProductID = getDataProductID p, pb_timestamp = getGravityTimestamp p, pb_filterText = '''',
      pb_dataProduct = p\<lparr>dp_is_relayed_dataproduct := Some True, dp_registration_time := Some regTime\<rparr>\<rparr>"

lemma node_publish_relayed:
  assumes "initialized n"
  shows "to_publisher (fst (node_publish now (setIsRelayedDataproduct True p) '''' 0 n)) =
     to_publisher n @ [relayed (smap_at 0 (dataRegistrationTimeMap n) (getDataProductID p)) p]"
    and "initialized (fst (node_publish now (setIsRelayedDataproduct True p) '''' 0 n))"
    and "smap_at 0 (dataRegistrationTimeMap (fst (node_publish now (setIsRelayedDataproduct True p) '''' 0 n))) i =
       smap_at 0 (dataRegistrationTimeMap n) i"
  using assms
  by (simp_all add: node_publish_def publish_product_def setIsRelayedDataproduct_def isRelayedDataproduct_def
      setRegistrationTime_def getDataProductID_def getGravityTimestamp_def relayed_def Let_def)

text \<open>C29. The relay passes on exactly what it receives, in order: the publications keep time stamp,
  component, domain and contents of the original publisher, and differ from what was received only in
  being marked as relayed and in carrying the registration time of the relay's own registration.\<close>

theorem relay_passes_products:
  assumes "initialized n"
  shows "to_publisher (relay_subscriptionFilled now ps n) = to_publisher n @
     map (\<lambda>p. relayed (smap_at 0 (dataRegistrationTimeMap n) (getDataProductID p)) p) ps"
  using assms
proof (induction ps arbitrary: n)
  case Nil
  then show ?case by (simp add: relay_subscriptionFilled_def)
next
  case (Cons p ps)
  let ?n = "fst (node_publish now (setIsRelayedDataproduct True p) '''' 0 n)"
  have "relay_subscriptionFilled now (p # ps) n = relay_subscriptionFilled now ps ?n"
    by (simp add: relay_subscriptionFilled_def)
  then show ?case
    using Cons.IH [OF node_publish_relayed(2) [OF Cons.prems]] node_publish_relayed [OF Cons.prems] by simp
qed

theorem relay_passes_products_witness:
  "to_publisher (relay_subscriptionFilled 7 [GravityDataProduct ''P''] sample_node) = [relayed 0 (GravityDataProduct ''P'')]"
  using relay_passes_products [of sample_node 7 "[GravityDataProduct ''P'']"] by (simp add: sample_defs)

subsection \<open>Leaving\<close>

lemma unregister_removes:
  assumes "node_unregisterDataProduct i w = Inr (ret, w')" and "initialized (gw_node w)"
  shows "publishMap (gw_node w') = smap_erase i (publishMap (gw_node w))"
    and "initialized (gw_node w')" and "myDomain (gw_node w') = myDomain (gw_node w)"
    and "subscriptionList (gw_node w') = subscriptionList (gw_node w)"
proof -
  have frame: "gw_node (snd (announce_unregistration ur v)) = gw_node v" for ur v
    using announce_unregistration_frame [OF surjective_pairing] by blast
  have erase: "smap_erase i (publishMap (gw_node w)) = publishMap (gw_node w)" if "\<not> smap_has (publishMap (gw_node w)) i"
    using that by (auto simp: smap_has_def smap_erase_def map_of_eq_None_iff filter_id_conv image_iff)
  show "publishMap (gw_node w') = smap_erase i (publishMap (gw_node w))" "initialized (gw_node w')"
    "myDomain (gw_node w') = myDomain (gw_node w)" "subscriptionList (gw_node w') = subscriptionList (gw_node w)"
    using assms erase
    by (auto simp: frame node_unregisterDataProduct_def Let_def then_do_Inr set_node_def forget_publisher_def
        prod_eq_iff dest!: pm_call_unregister split: if_splits)
qed

lemma unregister_no_null:
  "node_unregisterDataProduct i w = Inr (ret, w') \<Longrightarrow> no_null_entry w \<Longrightarrow> no_null_entry w'"
proof -
  have frame: "gw_pm (snd (announce_unregistration ur v)) = gw_pm v" for ur v
    using announce_unregistration_frame [OF surjective_pairing] by blast
  have call: "no_null_entry v'" if "pm_call (PUnregister i) v = Inr (r, v')" "no_null_entry v" for v v' r
    using that pm_unregister_only by (fastforce simp: pm_call_def no_null_entry_def split: option.splits if_splits)
  assume "node_unregisterDataProduct i w = Inr (ret, w')" "no_null_entry w"
  then show ?thesis
    using call
    by (auto simp: frame node_unregisterDataProduct_def Let_def then_do_Inr no_null_entry_def set_node_def prod_eq_iff
        split: if_splits)
qed

text \<open>What is left of a relay: nothing registered, no subscription in the node's domain.\<close>

definition relay_gone :: "nat \<Rightarrow> string \<Rightarrow> gn_world \<Rightarrow> bool" where
  "relay_gone me i w \<longleftrightarrow> map_of (publishMap (gw_node w)) i = None \<and>
     (\<forall>x\<in>set (subscriptionList (gw_node w)). \<not> (ns_dataProductID x = i \<and> ns_domain x = myDomain (gw_node w) \<and>
        ns_filter x = '''' \<and> ns_subscriber x = me))"

lemma unregisterRelay_ok:
  assumes "node_typed w" and "no_null_entry w" and "initialized (gw_node w)"
  shows "\<exists>ret w'. unregisterRelay i me w = Inr (ret, w') \<and> node_typed w' \<and> no_null_entry w' \<and>
     initialized (gw_node w') \<and> relay_gone me i w' \<and> (\<forall>j. relay_gone me j w \<longrightarrow> relay_gone me j w')"
proof -
  obtain ret w1 where w1: "node_unregisterDataProduct i w = Inr (ret, w1)" "node_typed w1"
    using unregister_typed [OF assms(1)] assms(2) unfolding no_null_entry_def by blast
  note removed = unregister_removes [OF w1(1) assms(3)]
  let ?n = "snd (unsubscribeInternal i me '''' '''' (gw_node w1))"
  have un: "unregisterRelay i me w =
      Inr (if ret \<noteq> SUCCESS then ret else fst (unsubscribeInternal i me '''' '''' (gw_node w1)), w1\<lparr>gw_node := ?n\<rparr>)"
    using w1(1) assms(3) by (simp add: unregisterRelay_def split_def Let_def)
  have n: "?n = (gw_node w1)\<lparr>to_subscriber := to_subscriber (gw_node w1) @
        [Sub_unsubscribe i '''' (myDomain (gw_node w1)) me],
      subscriptionList := filter (\<lambda>x. \<not> (ns_dataProductID x = i \<and> ns_domain x = myDomain (gw_node w1) \<and>
        ns_filter x = '''' \<and> ns_subscriber x = me)) (subscriptionList (gw_node w1))\<rparr>"
    using removed(2) by (simp add: unsubscribeInternal_def Let_def)
  have "node_typed (w1\<lparr>gw_node := ?n\<rparr>)"
    using w1(2) unfolding n by (simp add: node_typed_def typed_maps_def)
  moreover have "no_null_entry (w1\<lparr>gw_node := ?n\<rparr>)" "initialized ?n"
    using unregister_no_null [OF w1(1) assms(2)] removed(2) unfolding n by (simp_all add: no_null_entry_def)
  moreover have "relay_gone me i (w1\<lparr>gw_node := ?n\<rparr>)"
    "\<And>j. relay_gone me j w \<Longrightarrow> relay_gone me j (w1\<lparr>gw_node := ?n\<rparr>)"
    using removed unfolding n by (auto simp: relay_gone_def)
  ultimately show ?thesis using un by auto
qed



subsection \<open>The log recorder\<close>

text \<open>
  \<open>log_file\<close> is the content of the open file, \<open>closed_logs\<close> those of the files closed before.
  \<open>format\<close> stands for the line of a product: domain, level, time and text. A file can always be
  opened.
\<close>

record lr_state =
  log_file :: "string list"
  closed_logs :: "string list list"
  num_logs :: int

definition NUM_LOGS_BEFORE_ROTATE :: int where "NUM_LOGS_BEFORE_ROTATE = 1000000 div 81"

definition LogRecorder :: lr_state where
  "LogRecorder = \<lparr>log_file = [], closed_logs = [], num_logs = 0\<rparr>"

definition rotateLogs :: "lr_state \<Rightarrow> lr_state" where
  "rotateLogs s = s\<lparr>closed_logs := closed_logs s @ [log_file s], log_file := []\<rparr>"

text \<open>The \<open>return\<close> is inside the loop: only the first product is handled.\<close>

definition recorder_subscriptionFilled ::
  "(GravityDataProductPB \<Rightarrow> string) \<Rightarrow> GravityDataProductPB list \<Rightarrow> lr_state \<Rightarrow> lr_state" where
  "recorder_subscriptionFilled format dataProducts s =
     (case dataProducts of
        [] \<Rightarrow> s
      | p # ps \<Rightarrow>
          (let s1 = s\<lparr>num_logs := num_logs s + 1, log_file := log_file s @ [format p]\<rparr>
           in if num_logs s1 \<ge> NUM_LOGS_BEFORE_ROTATE then rotateLogs s1 else s1))"

definition recorded_lines :: "lr_state \<Rightarrow> string list" where
  "recorded_lines s = concat (closed_logs s) @ log_file s"

text \<open>The log recorder writes the first message of every call and no other: what its files have
  after any sequence of calls is one line for each call with a message, so a call with several
  messages loses all but one. From the message with number \<open>NUM_LOGS_BEFORE_ROTATE\<close> on, each line
  gets a file of its own, because the count is never reset.\<close>

theorem recorder_writes_first_of_batch:
  "recorded_lines (fold (recorder_subscriptionFilled format) batches LogRecorder) =
     map (\<lambda>b. format (hd b)) (filter (\<lambda>b. b \<noteq> []) batches) \<and>
   (let s = fold (recorder_subscriptionFilled format) batches LogRecorder
    in num_logs s = int (length (filter (\<lambda>b. b \<noteq> []) batches)) \<and>
       int (length (closed_logs s)) = max 0 (num_logs s - NUM_LOGS_BEFORE_ROTATE + 1))"
proof (induction batches rule: rev_induct)
  case Nil
  then show ?case by (simp add: LogRecorder_def recorded_lines_def NUM_LOGS_BEFORE_ROTATE_def)
next
  case (snoc b batches)
  then show ?case
    by (cases b) (auto simp: recorder_subscriptionFilled_def recorded_lines_def rotateLogs_def Let_def)
qed

end
