(* ===== verification/MetricsManager.thy ===== *)
theory MetricsManager
  imports GravityNode "HOL-Library.Product_Lexorder"
begin

section \<open>Metrics manager (\<open>GravityMetricsManager.cpp\<close>)\<close>

text \<open>
  The thread that collects the message counts. Every sample period it asks the publish manager and
  then the subscription manager for the counts since the last time, appends them to what it has for
  the data product and direction, and after \<open>samplesPerPublish\<close> samples publishes everything it has.
  The state is the record \<open>mm_state\<close>; \<open>mm_sent\<close> are the messages sent to the publish manager and
  \<open>mm_reports\<close> the decoded reports they carry (\<open>encode\<close> is protobuf's encoding). An iteration of
  the loop runs in \<open>mm_world\<close>, which has the two managers that answer the requests; the clock
  readings are arguments. \<open>None\<close> is an answer whose frames cannot be read.
\<close>

datatype MessageType = PUBLICATION | SUBSCRIPTION | REQUEST | RESPONSE

fun message_type_value :: "MessageType \<Rightarrow> nat" where
  "message_type_value PUBLICATION = 0"
| "message_type_value SUBSCRIPTION = 1"
| "message_type_value REQUEST = 2"
| "message_type_value RESPONSE = 3"

lemma message_type_value_inj: "message_type_value a = message_type_value b \<Longrightarrow> a = b"
  by (cases a; cases b) simp_all

text \<open>The order of the enumeration, which orders the keys of the map.\<close>

instantiation MessageType :: linorder
begin

definition less_eq_MessageType :: "MessageType \<Rightarrow> MessageType \<Rightarrow> bool" where
  "less_eq_MessageType a b \<longleftrightarrow> message_type_value a \<le> message_type_value b"

definition less_MessageType :: "MessageType \<Rightarrow> MessageType \<Rightarrow> bool" where
  "less_MessageType a b \<longleftrightarrow> message_type_value a < message_type_value b"

instance
  by standard (auto simp: less_eq_MessageType_def less_MessageType_def intro: message_type_value_inj)

end

record GravityMetricsPB =
  mt_dataProductID :: "string option"
  mt_messageType :: "MessageType option"
  mt_startTime :: "u64 list"
  mt_endTime :: "u64 list"
  mt_numBytes :: "u32 list"
  mt_numMessages :: "u32 list"

record GravityMetricsDataPB =
  md_componentID :: string
  md_ipAddress :: string
  md_metrics :: "GravityMetricsPB list"

record mm_state =
  mm_metricsEnabled :: bool
  samplePeriod :: int
  samplesPerPublish :: int
  sampleCount :: int
  mm_componentID :: string
  mm_ipAddr :: string
  mm_regTimestamp :: int
  mm_metricsData :: "(string \<times> MessageType, GravityMetricsPB) smap"
  mm_sent :: "publish_message list"
  mm_reports :: "GravityMetricsDataPB list"

record mm_world =
  mw_mm :: mm_state
  mw_pm :: pm_state
  mw_sm :: sm_state

definition empty_metrics :: GravityMetricsPB where
  "empty_metrics = \<lparr>mt_dataProductID = None, mt_messageType = None, mt_startTime = [], mt_endTime = [],
     mt_numBytes = [], mt_numMessages = []\<rparr>"

text \<open>The counts are \<open>int\<close>s, the fields of the message \<open>uint32\<close>.\<close>

definition add_sample :: "GravityMetrics \<Rightarrow> string \<Rightarrow> MessageType \<Rightarrow> GravityMetricsPB \<Rightarrow> GravityMetricsPB" where
  "add_sample metrics i ty g =
     (let g1 = (if mt_dataProductID g = None then g\<lparr>mt_dataProductID := Some i, mt_messageType := Some ty\<rparr> else g)
      in g1\<lparr>mt_numBytes := mt_numBytes g1 @ [word_of_int (getByteCount i metrics)],
            mt_numMessages := mt_numMessages g1 @ [word_of_int (getMessageCount i metrics)],
            mt_startTime := mt_startTime g1 @ [startTime metrics],
            mt_endTime := mt_endTime g1 @ [endTime metrics]\<rparr>)"

definition mm_collectMetrics :: "MessageType \<Rightarrow> frame list \<Rightarrow> mm_state \<Rightarrow> mm_state option" where
  "mm_collectMetrics ty reply s =
     (case populateFromMessage reply of
        None \<Rightarrow> None
      | Some (metrics, rest) \<Rightarrow>
          Some (s\<lparr>mm_metricsData := fold (\<lambda>i d. smap_put (i, ty)
             (add_sample metrics i ty (smap_at empty_metrics d (i, ty))) d)
             (smap_keys (gm_metrics metrics)) (mm_metricsData s)\<rparr>))"

definition publishMetrics :: "(GravityMetricsDataPB \<Rightarrow> string) \<Rightarrow> u64 \<Rightarrow> mm_state \<Rightarrow> mm_state" where
  "publishMetrics encode now s =
     (let metrics = \<lparr>md_componentID = mm_componentID s, md_ipAddress = mm_ipAddr s,
            md_metrics = map snd (mm_metricsData s)\<rparr>;
          gdp = setData_message (encode metrics) ''gravity.GravityMetricsDataPB''
            (setRegistrationTime (word_of_int (mm_regTimestamp s))
              ((GravityDataProduct METRICS_DATA_DPID)\<lparr>dp_timestamp := Some now\<rparr>))
      in s\<lparr>mm_sent := mm_sent s @ [\<lparr>pb_dataProductID = getDataProductID gdp,
              pb_timestamp = getGravityTimestamp gdp, pb_filterText = mm_componentID s, pb_dataProduct = gdp\<rparr>],
           mm_reports := mm_reports s @ [metrics], mm_metricsData := []\<rparr>)"

datatype mm_command = MM_enable int int string string int | MM_disable | MM_unknown string

text \<open>\<open>MetricsEnable\<close> is passed on to the two collectors (at time \<open>now\<close>), \<open>MetricsDisable\<close> is not.\<close>

fun mm_handle :: "u64 \<Rightarrow> mm_command \<Rightarrow> mm_world \<Rightarrow> mm_world" where
  "mm_handle now (MM_enable period samples compID ip regTime) w =
     w\<lparr>mw_mm := (mw_mm w)\<lparr>mm_metricsEnabled := True, samplePeriod := period, samplesPerPublish := samples,
          sampleCount := 0, mm_componentID := compID, mm_ipAddr := ip, mm_regTimestamp := regTime\<rparr>,
       mw_pm := (case pm_handle (\<lambda>b. b) (PMetricsEnable now) (mw_pm w) of None \<Rightarrow> mw_pm w | Some (s, r) \<Rightarrow> s),
       mw_sm := sm_handle (\<lambda>k. k) (\<lambda>p. 0) (SMMetricsEnable now) (mw_sm w)\<rparr>"
| "mm_handle now MM_disable w = w\<lparr>mw_mm := (mw_mm w)\<lparr>mm_metricsEnabled := False\<rparr>\<rparr>"
| "mm_handle now (MM_unknown c) w = w"

text \<open>
  The answer to \<open>GetMetrics\<close>: the counts with the end time \<open>t1\<close>; the manager starts counting again
  at \<open>t2\<close>.
\<close>

definition ask_pub_metrics :: "u64 \<Rightarrow> u64 \<Rightarrow> mm_world \<Rightarrow> frame list \<times> mm_world" where
  "ask_pub_metrics t1 t2 w =
     (case pm_handle (\<lambda>b. b) (PGetMetrics t1 t2) (mw_pm w) of
        Some (s, ReplyMetrics fs) \<Rightarrow> (fs, w\<lparr>mw_pm := s\<rparr>)
      | _ \<Rightarrow> ([], w))"

definition ask_sub_metrics :: "u64 \<Rightarrow> u64 \<Rightarrow> mm_world \<Rightarrow> frame list \<times> mm_world" where
  "ask_sub_metrics t1 t2 w =
     (sendAsMessage (done_metrics t1 (sm_metricsData (mw_sm w))),
      w\<lparr>mw_sm := sm_handle (\<lambda>k. k) (\<lambda>p. 0) (SMGetMetrics t1 t2) (mw_sm w)\<rparr>)"

text \<open>\<open>mm_times\<close>: the readings of the clocks of the managers, and of this thread when it publishes.\<close>

record mm_times =
  tm_command :: u64
  tm_pub_done :: u64
  tm_pub_reset :: u64
  tm_sub_done :: u64
  tm_sub_reset :: u64
  tm_publish :: u64

definition sample_metrics :: "mm_times \<Rightarrow> mm_world \<Rightarrow> mm_world option" where
  "sample_metrics t w =
     (let (fs, w1) = ask_pub_metrics (tm_pub_done t) (tm_pub_reset t) w
      in case mm_collectMetrics PUBLICATION fs (mw_mm w1) of
           None \<Rightarrow> None
         | Some s1 \<Rightarrow>
             (let (gs, w2) = ask_sub_metrics (tm_sub_done t) (tm_sub_reset t) (w1\<lparr>mw_mm := s1\<rparr>)
              in case mm_collectMetrics SUBSCRIPTION gs (mw_mm w2) of
                   None \<Rightarrow> None
                 | Some s2 \<Rightarrow> Some (w2\<lparr>mw_mm := s2\<rparr>)))"

text \<open>
  One round of the loop after the poll, with the command it found, if there was one. (Without
  metrics the poll blocks until there is one.) \<open>samplesPerPublish\<close> is compared after the count has
  been raised.
\<close>

definition mm_iteration ::
  "(GravityMetricsDataPB \<Rightarrow> string) \<Rightarrow> mm_times \<Rightarrow> mm_command option \<Rightarrow> mm_world \<Rightarrow> mm_world option" where
  "mm_iteration encode t c w =
     (let w1 = (case c of None \<Rightarrow> w | Some cmd \<Rightarrow> mm_handle (tm_command t) cmd w)
      in if \<not> mm_metricsEnabled (mw_mm w1) then Some w1
         else (case sample_metrics t w1 of
                 None \<Rightarrow> None
               | Some w2 \<Rightarrow>
                   (let s = (mw_mm w2)\<lparr>sampleCount := sampleCount (mw_mm w2) + 1\<rparr>
                    in Some (w2\<lparr>mw_mm := (if sampleCount s = samplesPerPublish s
                         then (publishMetrics encode (tm_publish t) s)\<lparr>sampleCount := 0\<rparr> else s)\<rparr>))))"

end
