(* ===== verification/Metrics_Correct.thy ===== *)
theory Metrics_Correct
  imports MetricsManager
begin

section \<open>Correctness of the metrics\<close>

text \<open>
  Every message that a collector counts is reported exactly once: at any time the messages in the
  reports published, in the data waiting for the next report and in the counters of the collector
  add up to the messages counted. A report is published after every \<open>samplesPerPublish\<close> samples, and
  never when that number is not positive.
\<close>

subsection \<open>Counting what was reported\<close>

definition entry_count :: "string \<Rightarrow> MessageType \<Rightarrow> GravityMetricsPB \<Rightarrow> nat" where
  "entry_count i ty g =
     (if mt_dataProductID g = Some i \<and> mt_messageType g = Some ty then sum_list (map unat (mt_numMessages g)) else 0)"

definition entries_count :: "string \<Rightarrow> MessageType \<Rightarrow> GravityMetricsPB list \<Rightarrow> nat" where
  "entries_count i ty gs = sum_list (map (entry_count i ty) gs)"

definition reported :: "string \<Rightarrow> MessageType \<Rightarrow> mm_state \<Rightarrow> nat" where
  "reported i ty s = sum_list (map (\<lambda>r. entries_count i ty (md_metrics r)) (mm_reports s)) +
     entries_count i ty (map snd (mm_metricsData s))"

definition counter :: "string \<Rightarrow> GravityMetrics \<Rightarrow> nat" where
  "counter i m = nat (messageCount (smap_at zero_sample (gm_metrics m) i))"

definition tagged :: "string \<times> MessageType \<Rightarrow> GravityMetricsPB \<Rightarrow> bool" where
  "tagged k g \<longleftrightarrow> g = empty_metrics \<or> mt_dataProductID g = Some (fst k) \<and> mt_messageType g = Some (snd k)"

definition data_ok :: "(string \<times> MessageType, GravityMetricsPB) smap \<Rightarrow> bool" where
  "data_ok d \<longleftrightarrow> smap_wf d \<and> (\<forall>k g. map_of d k = Some g \<longrightarrow> tagged k g)"

lemma sum_smap_put:
  assumes "smap_wf m"
  shows "sum_list (map (\<lambda>e. f (snd e)) (smap_put k v m)) + (case map_of m k of None \<Rightarrow> 0 | Some u \<Rightarrow> f u) =
     sum_list (map (\<lambda>e. f (snd e)) m) + (f v :: nat)"
  using assms
proof (induction m)
  case (Cons p m)
  have "map_of m k = None" if "k < fst p \<or> fst p = k"
    using Cons.prems that by (auto simp: smap_wf_def map_of_eq_None_iff)
  with Cons show ?case by (auto simp: smap_wf_def split: option.splits)
qed simp

lemma entry_count_add:
  assumes "tagged (j, t) g"
  shows "entry_count i ty (add_sample m j t g) =
     entry_count i ty g + (if i = j \<and> ty = t then unat (word_of_int (getMessageCount j m) :: u32) else 0)"
    and "tagged (j, t) (add_sample m j t g)"
  using assms by (auto simp: tagged_def entry_count_def add_sample_def Let_def empty_metrics_def)

lemma add_entry:
  assumes "data_ok d"
    and "d' = smap_put (j, t) (add_sample m j t (smap_at empty_metrics d (j, t))) d"
  shows "data_ok d'"
    and "entries_count i ty (map snd d') = entries_count i ty (map snd d) +
       (if i = j \<and> ty = t then unat (word_of_int (getMessageCount j m) :: u32) else 0)"
proof -
  let ?g = "smap_at empty_metrics d (j, t)"
  have tag: "tagged (j, t) ?g"
    using assms(1) by (auto simp: data_ok_def smap_at_def tagged_def field_def split: option.splits)
  show "data_ok d'"
    using assms(1) entry_count_add(2) [OF tag] by (auto simp: assms(2) data_ok_def)
  have old: "(case map_of d (j, t) of None \<Rightarrow> 0 | Some u \<Rightarrow> entry_count i ty u) = entry_count i ty ?g"
    by (simp add: smap_at_def field_def empty_metrics_def entry_count_def split: option.split)
  have "entries_count i ty (map snd d') + entry_count i ty ?g =
      entries_count i ty (map snd d) + entry_count i ty (add_sample m j t ?g)"
    using sum_smap_put [of d "entry_count i ty" "(j, t)" "add_sample m j t ?g"] assms(1) old
    by (simp add: assms(2) data_ok_def entries_count_def comp_def)
  then show "entries_count i ty (map snd d') = entries_count i ty (map snd d) +
       (if i = j \<and> ty = t then unat (word_of_int (getMessageCount j m) :: u32) else 0)"
    by (simp add: entry_count_add(1) [OF tag])
qed

lemma add_entries:
  assumes "data_ok d" and "distinct js"
    and "d' = fold (\<lambda>j d. smap_put (j, t) (add_sample m j t (smap_at empty_metrics d (j, t))) d) js d"
  shows "data_ok d' \<and> entries_count i ty (map snd d') = entries_count i ty (map snd d) +
       (if i \<in> set js \<and> ty = t then unat (word_of_int (getMessageCount i m) :: u32) else 0)"
  using assms(1,2) unfolding assms(3)
proof (induction js arbitrary: d)
  case (Cons j js)
  show ?case
    using Cons.IH [OF add_entry(1) [OF Cons.prems(1) refl, of j t m]] Cons.prems
      add_entry(2) [OF Cons.prems(1) refl, of i ty j t m] by auto
qed simp

text \<open>Counts that fit: the message can be sent and no count is negative.\<close>

definition countable_metrics :: "GravityMetrics \<Rightarrow> bool" where
  "countable_metrics m \<longleftrightarrow> metrics_sendable m \<and> (\<forall>x\<in>snd ` set (gm_metrics m). 0 \<le> messageCount x)"

lemma count_as_word:
  assumes "countable_metrics m" and "map_of (gm_metrics m) i = Some x"
  shows "unat (word_of_int (messageCount x) :: u32) = nat (messageCount x)"
proof -
  have "x \<in> snd ` set (gm_metrics m)" using map_of_SomeD [OF assms(2)] by force
  then have range: "0 \<le> messageCount x" "messageCount x < 2 ^ 31"
    using assms(1) by (auto simp: countable_metrics_def metrics_sendable_def int_range_def)
  then obtain n where n: "messageCount x = int n" by (metis nonneg_int_cases)
  then have "n < 2 ^ 31" using range(2) by simp
  then show ?thesis by (simp add: n unat_of_nat)
qed

lemma collect_adds:
  assumes "data_ok (mm_metricsData s)" and "countable_metrics m"
  shows "\<exists>d. mm_collectMetrics t (sendAsMessage m) s = Some (s\<lparr>mm_metricsData := d\<rparr>) \<and> data_ok d \<and>
     (\<forall>i ty. entries_count i ty (map snd d) =
        entries_count i ty (map snd (mm_metricsData s)) + (if ty = t then counter i m else 0))"
proof -
  define m' where "m' = (if gm_metrics m = [] then clear_metrics else m)"
  let ?ks = "smap_keys (gm_metrics m')"
  have pop: "populateFromMessage (sendAsMessage m) = Some (m', [])"
    using metrics_round_trip [of m "[]"] assms(2) by (simp add: countable_metrics_def m'_def)
  have keys: "distinct ?ks"
    using assms(2) by (simp add: countable_metrics_def metrics_sendable_def smap_keys_distinct clear_metrics_def m'_def)
  have cnt: "(if i \<in> set ?ks then unat (word_of_int (getMessageCount i m') :: u32) else 0) = counter i m" for i
    using count_as_word [OF assms(2)] unfolding m'_def
    by (cases "map_of (gm_metrics m) i")
      (auto simp: counter_def getMessageCount_def smap_at_def clear_metrics_def zero_sample_def
        smap_has_iff [symmetric] smap_has_def)
  let ?d = "fold (\<lambda>j d. smap_put (j, t) (add_sample m' j t (smap_at empty_metrics d (j, t))) d) ?ks (mm_metricsData s)"
  have "mm_collectMetrics t (sendAsMessage m) s = Some (s\<lparr>mm_metricsData := ?d\<rparr>)"
    using pop by (simp add: mm_collectMetrics_def)
  moreover have "data_ok ?d \<and> entries_count i ty (map snd ?d) =
      entries_count i ty (map snd (mm_metricsData s)) + (if ty = t then counter i m else 0)" for i ty
    using add_entries [OF assms(1) keys refl, of t m' i ty] cnt [of i] by (cases "ty = t") simp_all
  ultimately show ?thesis by blast
qed

subsection \<open>Rounds and traffic\<close>

text \<open>What happens to the three managers: a round of this one, or messages that the others count.\<close>

datatype metric_event = Round mm_times | Published string nat
  | Received "GravityDataProductPB \<Rightarrow> nat" "GravityDataProductPB list"

fun metric_step ::
  "(GravityMetricsDataPB \<Rightarrow> string) \<Rightarrow> metric_event \<Rightarrow> mm_world \<Rightarrow> mm_world option" where
  "metric_step encode (Round t) w = mm_iteration encode t None w"
| "metric_step encode (Published i n) w = Some (w\<lparr>mw_pm := count_metrics i n (mw_pm w)\<rparr>)"
| "metric_step encode (Received sz dps) w =
     Some (if sm_metricsEnabled (mw_sm w) then w\<lparr>mw_sm := collectMetrics sz dps (mw_sm w)\<rparr> else w)"

definition metric_next :: "(GravityMetricsDataPB \<Rightarrow> string) \<Rightarrow> mm_world \<Rightarrow> metric_event \<Rightarrow> mm_world" where
  "metric_next encode w e = (case metric_step encode e w of None \<Rightarrow> w | Some w1 \<Rightarrow> w1)"

fun counts_fit :: "mm_world \<Rightarrow> metric_event \<Rightarrow> bool" where
  "counts_fit w (Round t) =
     (countable_metrics (pm_metricsData (mw_pm w)) \<and> countable_metrics (sm_metricsData (mw_sm w)))"
| "counts_fit w _ = True"

fun counted_pub :: "string \<Rightarrow> metric_event \<Rightarrow> nat" where
  "counted_pub i (Published j n) = (if i = j then 1 else 0)"
| "counted_pub i _ = 0"

fun counted_sub :: "string \<Rightarrow> metric_event \<Rightarrow> nat" where
  "counted_sub i (Received sz dps) = length (filter (\<lambda>p. getDataProductID p = i) dps)"
| "counted_sub i _ = 0"

definition nonneg_counts :: "GravityMetrics \<Rightarrow> bool" where
  "nonneg_counts m \<longleftrightarrow> (\<forall>i x. map_of (gm_metrics m) i = Some x \<longrightarrow> 0 \<le> messageCount x)"

definition metric_inv :: "mm_world \<Rightarrow> bool" where
  "metric_inv w \<longleftrightarrow> mm_metricsEnabled (mw_mm w) \<and> data_ok (mm_metricsData (mw_mm w)) \<and>
     pm_metricsEnabled (mw_pm w) \<and> sm_metricsEnabled (mw_sm w) \<and>
     nonneg_counts (pm_metricsData (mw_pm w)) \<and> nonneg_counts (sm_metricsData (mw_sm w))"

definition total_pub :: "string \<Rightarrow> mm_world \<Rightarrow> nat" where
  "total_pub i w = reported i PUBLICATION (mw_mm w) + counter i (pm_metricsData (mw_pm w))"

definition total_sub :: "string \<Rightarrow> mm_world \<Rightarrow> nat" where
  "total_sub i w = reported i SUBSCRIPTION (mw_mm w) + counter i (sm_metricsData (mw_sm w))"

lemma counter_increment:
  assumes "nonneg_counts m"
  shows "counter i (incrementByteCount j n (incrementMessageCount j 1 m)) = counter i m + (if i = j then 1 else 0)"
    and "nonneg_counts (incrementByteCount j n (incrementMessageCount j 1 m))"
proof -
  have "0 \<le> messageCount (smap_at zero_sample (gm_metrics m) k)" for k
    using assms by (auto simp: nonneg_counts_def smap_at_def field_def zero_sample_def split: option.split)
  then show "counter i (incrementByteCount j n (incrementMessageCount j 1 m)) = counter i m + (if i = j then 1 else 0)"
    "nonneg_counts (incrementByteCount j n (incrementMessageCount j 1 m))"
    using assms
    by (auto simp: counter_def nonneg_counts_def incrementByteCount_def incrementMessageCount_def Let_def nat_add_distrib)
qed

lemma counter_reset [simp]: "counter i (reset_metrics t m) = 0" "nonneg_counts (reset_metrics t m)"
proof -
  have "map_of (map (\<lambda>(i, x). (i, zero_sample)) ms) i = map_option (\<lambda>_. zero_sample) (map_of ms i)"
    for ms :: "(string, MetricsSample) smap" and i
    by (induction ms) auto
  then show "counter i (reset_metrics t m) = 0" "nonneg_counts (reset_metrics t m)"
    by (auto simp: counter_def nonneg_counts_def reset_metrics_def smap_at_def field_def zero_sample_def
        split: option.split)
qed

lemma done_metrics_counts [simp]:
  "counter i (done_metrics t m) = counter i m" "countable_metrics (done_metrics t m) = countable_metrics m"
  by (simp_all add: counter_def done_metrics_def countable_metrics_def metrics_sendable_def)

lemma sample_metrics_adds:
  assumes "data_ok (mm_metricsData (mw_mm w))" and "counts_fit w (Round t)"
  shows "\<exists>d. sample_metrics t w = Some (w\<lparr>mw_mm := (mw_mm w)\<lparr>mm_metricsData := d\<rparr>,
       mw_pm := (mw_pm w)\<lparr>pm_metricsData := reset_metrics (tm_pub_reset t)
         (done_metrics (tm_pub_done t) (pm_metricsData (mw_pm w)))\<rparr>,
       mw_sm := (mw_sm w)\<lparr>sm_metricsData := reset_metrics (tm_sub_reset t)
         (done_metrics (tm_sub_done t) (sm_metricsData (mw_sm w)))\<rparr>\<rparr>) \<and> data_ok d \<and>
     (\<forall>i. entries_count i PUBLICATION (map snd d) =
            entries_count i PUBLICATION (map snd (mm_metricsData (mw_mm w))) + counter i (pm_metricsData (mw_pm w)) \<and>
          entries_count i SUBSCRIPTION (map snd d) =
            entries_count i SUBSCRIPTION (map snd (mm_metricsData (mw_mm w))) + counter i (sm_metricsData (mw_sm w)))"
proof -
  let ?p = "done_metrics (tm_pub_done t) (pm_metricsData (mw_pm w))"
  let ?q = "done_metrics (tm_sub_done t) (sm_metricsData (mw_sm w))"
  obtain d1 where d1: "mm_collectMetrics PUBLICATION (sendAsMessage ?p) (mw_mm w) = Some ((mw_mm w)\<lparr>mm_metricsData := d1\<rparr>)"
      "data_ok d1" "\<forall>i ty. entries_count i ty (map snd d1) = entries_count i ty (map snd (mm_metricsData (mw_mm w))) +
         (if ty = PUBLICATION then counter i ?p else 0)"
    using collect_adds [OF assms(1), of ?p PUBLICATION] assms(2) by auto
  let ?s1 = "(mw_mm w)\<lparr>mm_metricsData := d1\<rparr>"
  obtain d2 where d2: "mm_collectMetrics SUBSCRIPTION (sendAsMessage ?q) ?s1 = Some (?s1\<lparr>mm_metricsData := d2\<rparr>)"
      "data_ok d2" "\<forall>i ty. entries_count i ty (map snd d2) = entries_count i ty (map snd d1) +
         (if ty = SUBSCRIPTION then counter i ?q else 0)"
    using collect_adds [of ?s1 ?q SUBSCRIPTION] d1(2) assms(2) by auto
  show ?thesis
    using d1 d2 by (intro exI [of _ d2]) (simp add: sample_metrics_def ask_pub_metrics_def ask_sub_metrics_def Let_def)
qed

lemma publishMetrics_reported [simp]: "reported i ty (publishMetrics encode now s) = reported i ty s"
  by (simp add: reported_def publishMetrics_def Let_def entries_count_def)

lemma publishMetrics_frame [simp]:
  "mm_metricsEnabled (publishMetrics encode now s) = mm_metricsEnabled s"
  "samplesPerPublish (publishMetrics encode now s) = samplesPerPublish s"
  "length (mm_reports (publishMetrics encode now s)) = length (mm_reports s) + 1"
  "mm_metricsData (publishMetrics encode now s) = []"
  by (simp_all add: publishMetrics_def Let_def)

lemma reported_sampleCount [simp]: "reported i ty (s\<lparr>sampleCount := n\<rparr>) = reported i ty s"
  by (simp add: reported_def)

definition due :: "mm_world \<Rightarrow> bool" where
  "due w \<longleftrightarrow> sampleCount (mw_mm w) + 1 = samplesPerPublish (mw_mm w)"

lemma round_ok:
  assumes "metric_inv w" and "counts_fit w (Round t)"
  shows "\<exists>w'. mm_iteration encode t None w = Some w' \<and> metric_inv w' \<and>
     (\<forall>i. total_pub i w' = total_pub i w \<and> total_sub i w' = total_sub i w) \<and>
     samplesPerPublish (mw_mm w') = samplesPerPublish (mw_mm w) \<and>
     sampleCount (mw_mm w') = (if due w then 0 else sampleCount (mw_mm w) + 1) \<and>
     length (mm_reports (mw_mm w')) = length (mm_reports (mw_mm w)) + (if due w then 1 else 0)"
proof -
  have ok: "data_ok (mm_metricsData (mw_mm w))" and on: "mm_metricsEnabled (mw_mm w)"
    using assms(1) by (simp_all add: metric_inv_def)
  obtain d where d: "sample_metrics t w = Some (w\<lparr>mw_mm := (mw_mm w)\<lparr>mm_metricsData := d\<rparr>,
       mw_pm := (mw_pm w)\<lparr>pm_metricsData := reset_metrics (tm_pub_reset t)
         (done_metrics (tm_pub_done t) (pm_metricsData (mw_pm w)))\<rparr>,
       mw_sm := (mw_sm w)\<lparr>sm_metricsData := reset_metrics (tm_sub_reset t)
         (done_metrics (tm_sub_done t) (sm_metricsData (mw_sm w)))\<rparr>\<rparr>)" "data_ok d"
     "\<And>i. entries_count i PUBLICATION (map snd d) =
        entries_count i PUBLICATION (map snd (mm_metricsData (mw_mm w))) + counter i (pm_metricsData (mw_pm w))"
     "\<And>i. entries_count i SUBSCRIPTION (map snd d) =
        entries_count i SUBSCRIPTION (map snd (mm_metricsData (mw_mm w))) + counter i (sm_metricsData (mw_sm w))"
    using sample_metrics_adds [OF ok assms(2)] by blast
  let ?s = "(mw_mm w)\<lparr>mm_metricsData := d, sampleCount := sampleCount (mw_mm w) + 1\<rparr>"
  have rep: "reported i PUBLICATION ?s = reported i PUBLICATION (mw_mm w) + counter i (pm_metricsData (mw_pm w))"
    "reported i SUBSCRIPTION ?s = reported i SUBSCRIPTION (mw_mm w) + counter i (sm_metricsData (mw_sm w))" for i
    using d(3,4) by (simp_all add: reported_def)
  show ?thesis
    using assms(1) d(1,2) rep on
    by (cases "due w")
      (simp_all add: mm_iteration_def Let_def due_def metric_inv_def total_pub_def total_sub_def data_ok_def)
qed

subsection \<open>Runs\<close>

lemma collectMetrics_counts:
  assumes "nonneg_counts (sm_metricsData s)"
  shows "nonneg_counts (sm_metricsData (collectMetrics sz dps s)) \<and>
     counter i (sm_metricsData (collectMetrics sz dps s)) =
       counter i (sm_metricsData s) + length (filter (\<lambda>p. getDataProductID p = i) dps)"
proof -
  have "nonneg_counts (fold (\<lambda>p m. incrementByteCount (getDataProductID p) (int (sz p))
         (incrementMessageCount (getDataProductID p) 1 m)) dps m) \<and>
      counter i (fold (\<lambda>p m. incrementByteCount (getDataProductID p) (int (sz p))
         (incrementMessageCount (getDataProductID p) 1 m)) dps m) =
      counter i m + length (filter (\<lambda>p. getDataProductID p = i) dps)" if "nonneg_counts m" for m
    using that
  proof (induction dps arbitrary: m)
    case (Cons p dps)
    show ?case using Cons.IH [OF counter_increment(2) [OF Cons.prems]] counter_increment(1) [OF Cons.prems] by simp
  qed simp
  then show ?thesis using assms by (simp add: collectMetrics_def)
qed

text \<open>How many reports the rounds of a run make, counting from \<open>c\<close> samples.\<close>

fun reports_of :: "int \<Rightarrow> int \<Rightarrow> metric_event list \<Rightarrow> nat" where
  "reports_of k c [] = 0"
| "reports_of k c (Round t # es) = (if c + 1 = k then Suc (reports_of k 0 es) else reports_of k (c + 1) es)"
| "reports_of k c (_ # es) = reports_of k c es"

definition rounds :: "metric_event list \<Rightarrow> nat" where
  "rounds es = length (filter (\<lambda>e. case e of Round t \<Rightarrow> True | _ \<Rightarrow> False) es)"

lemma rounds_simps [simp]:
  "rounds [] = 0" "rounds (Round t # es) = Suc (rounds es)" "rounds (Published i n # es) = rounds es"
  "rounds (Received sz dps # es) = rounds es"
  by (simp_all add: rounds_def)

lemma reports_of_none: "k \<le> 0 \<Longrightarrow> 0 \<le> c \<Longrightarrow> reports_of k c es = 0"
  by (induction k c es rule: reports_of.induct) auto

lemma reports_of_div: "0 \<le> c \<Longrightarrow> c < k \<Longrightarrow> int (reports_of k c es) = (c + int (rounds es)) div k"
proof (induction k c es rule: reports_of.induct)
  case (2 k c t es)
  show ?case
  proof (cases "c + 1 = k")
    case True
    then have "c + int (rounds (Round t # es)) = int (rounds es) + k" by simp
    then have "(c + int (rounds (Round t # es))) div k = (int (rounds es) + k) div k" by (simp only:)
    also have "\<dots> = int (rounds es) div k + 1" using 2(3,4) by (intro div_add_self2) simp
    finally show ?thesis using 2 True by simp
  next
    case False
    then show ?thesis using 2 by (simp add: algebra_simps)
  qed
qed auto

lemma metrics_step_ok:
  assumes "metric_inv w" and "counts_fit w e"
  shows "\<exists>w'. metric_step encode e w = Some w' \<and> metric_inv w' \<and>
     (\<forall>i. total_pub i w' = total_pub i w + counted_pub i e \<and> total_sub i w' = total_sub i w + counted_sub i e) \<and>
     (\<forall>es. length (mm_reports (mw_mm w')) + reports_of (samplesPerPublish (mw_mm w')) (sampleCount (mw_mm w')) es =
        length (mm_reports (mw_mm w)) + reports_of (samplesPerPublish (mw_mm w)) (sampleCount (mw_mm w)) (e # es))"
proof (cases e)
  case (Round t)
  then show ?thesis using round_ok [OF assms(1), of t encode] assms(2) by (fastforce simp: due_def)
next
  case (Published i n)
  then show ?thesis
    using assms(1) counter_increment [of "pm_metricsData (mw_pm w)"]
    by (simp add: count_metrics_def metric_inv_def total_pub_def total_sub_def)
next
  case (Received sz dps)
  then show ?thesis
    using assms(1) collectMetrics_counts [of "mw_sm w" sz dps]
    by (simp add: metric_inv_def total_pub_def total_sub_def) (simp add: collectMetrics_def)
qed

lemma metrics_run_ok:
  assumes "metric_inv w" and "admissible counts_fit (metric_next encode) w es"
  shows "\<exists>w'. run_threads (metric_step encode) es w = Some w' \<and> metric_inv w' \<and>
     (\<forall>i. total_pub i w' = total_pub i w + sum_list (map (counted_pub i) es) \<and>
          total_sub i w' = total_sub i w + sum_list (map (counted_sub i) es)) \<and>
     length (mm_reports (mw_mm w')) =
       length (mm_reports (mw_mm w)) + reports_of (samplesPerPublish (mw_mm w)) (sampleCount (mw_mm w)) es"
  using assms
proof (induction es arbitrary: w)
  case (Cons e es)
  obtain w1 where w1: "metric_step encode e w = Some w1" "metric_inv w1"
     "\<forall>i. total_pub i w1 = total_pub i w + counted_pub i e \<and> total_sub i w1 = total_sub i w + counted_sub i e"
     "\<forall>es. length (mm_reports (mw_mm w1)) + reports_of (samplesPerPublish (mw_mm w1)) (sampleCount (mw_mm w1)) es =
        length (mm_reports (mw_mm w)) + reports_of (samplesPerPublish (mw_mm w)) (sampleCount (mw_mm w)) (e # es)"
    using metrics_step_ok [of w e encode] Cons.prems by auto
  have "admissible counts_fit (metric_next encode) w1 es"
    using Cons.prems(2) w1(1) metric_next_def [of encode w e] by simp
  from Cons.IH [OF w1(2) this] obtain w' where w': "run_threads (metric_step encode) es w1 = Some w'" "metric_inv w'"
     "\<forall>i. total_pub i w' = total_pub i w1 + sum_list (map (counted_pub i) es) \<and>
          total_sub i w' = total_sub i w1 + sum_list (map (counted_sub i) es)"
     "length (mm_reports (mw_mm w')) =
       length (mm_reports (mw_mm w1)) + reports_of (samplesPerPublish (mw_mm w1)) (sampleCount (mw_mm w1)) es"
    by blast
  then show ?case using w1 by (intro exI [of _ w']) (simp del: reports_of.simps)
qed simp


definition sample_mm :: "int \<Rightarrow> mm_world" where
  "sample_mm k = \<lparr>mw_mm = \<lparr>mm_metricsEnabled = True, samplePeriod = 10, samplesPerPublish = k, sampleCount = 0,
     mm_componentID = ''C'', mm_ipAddr = ''10.0.0.1'', mm_regTimestamp = 5, mm_metricsData = [], mm_sent = [],
     mm_reports = []\<rparr>, mw_pm = pm_init\<lparr>pm_metricsEnabled := True\<rparr>, mw_sm = (sm_init ''C'' ''10.0.0.1'')\<lparr>sm_metricsEnabled := True\<rparr>\<rparr>"

definition no_times :: mm_times where
  "no_times = \<lparr>tm_command = 0, tm_pub_done = 0, tm_pub_reset = 0, tm_sub_done = 0, tm_sub_reset = 0, tm_publish = 0\<rparr>"

lemma sample_mm_inv: "metric_inv (sample_mm k)"
  by (simp add: metric_inv_def sample_mm_def data_ok_def nonneg_counts_def pm_init_def sm_init_def clear_metrics_def)


text \<open>With \<open>samplesPerPublish\<close> zero or negative (the value comes from the configuration) the
  metrics are never published: every sample is kept, and the data waiting grows with the messages.\<close>

theorem metrics_never_published:
  assumes "metric_inv w" and "admissible counts_fit (metric_next encode) w es"
    and "0 \<le> sampleCount (mw_mm w)" and "samplesPerPublish (mw_mm w) \<le> 0"
  shows "\<exists>w'. run_threads (metric_step encode) es w = Some w' \<and>
     length (mm_reports (mw_mm w')) = length (mm_reports (mw_mm w)) \<and>
     (\<forall>i. total_pub i w' = total_pub i w + sum_list (map (counted_pub i) es))"
  using metrics_run_ok [OF assms(1,2)] reports_of_none [OF assms(4,3), of es] by fastforce

theorem metrics_never_published_witness:
  "\<exists>w'. run_threads (metric_step md_componentID) (replicate 3 (Published ''P'' 9)) (sample_mm 0) = Some w' \<and>
     mm_reports (mw_mm w') = []"
proof -
  have "0 \<le> sampleCount (mw_mm (sample_mm 0))" "samplesPerPublish (mw_mm (sample_mm 0)) \<le> 0"
      "mm_reports (mw_mm (sample_mm 0)) = []"
    by (simp_all add: sample_mm_def)
  moreover have "admissible counts_fit (metric_next md_componentID) (sample_mm 0) (replicate 3 (Published ''P'' 9))"
    by (simp add: numeral_3_eq_3)
  ultimately show ?thesis
    using metrics_never_published [OF sample_mm_inv, of md_componentID 0] by fastforce
qed

end
