(* ===== verification/GravityLogger.thy ===== *)
theory GravityLogger
  imports Node_Types
begin

unbundle bit_operations_syntax

section \<open>Logging (\<open>GravityLogger.cpp\<close>, \<open>PublishSink.h\<close>)\<close>

text \<open>
  The class \<open>Log\<close> has a list of loggers with the levels that each one wants, as a bit mask, and hands
  every message to those that want its level. A message is the format and the text that the C library
  makes of it (\<open>vsnprintf\<close> is a parameter); a format with a \<open>%n\<close> is cut off before it. A file logger
  appends a line per message to its file, or to \<open>Gravity.log\<close> if that cannot be opened. The sink that
  publishes log messages registers the log data product with the first message.
\<close>

subsection \<open>Levels\<close>

datatype LogLevel = NONE | FATAL | CRITICAL | WARNING | MESSAGE | DEBUG | TRACE

fun level_value :: "LogLevel \<Rightarrow> u32" where
  "level_value NONE = 0"
| "level_value FATAL = 1"
| "level_value CRITICAL = push_bit 1 1"
| "level_value WARNING = push_bit 2 1"
| "level_value MESSAGE = push_bit 3 1"
| "level_value DEBUG = push_bit 4 1"
| "level_value TRACE = push_bit 5 1"

fun LevelToInt :: "LogLevel \<Rightarrow> u32" where
  "LevelToInt FATAL = level_value FATAL"
| "LevelToInt CRITICAL = level_value FATAL OR level_value CRITICAL"
| "LevelToInt WARNING = level_value FATAL OR level_value CRITICAL OR level_value WARNING"
| "LevelToInt MESSAGE = level_value FATAL OR level_value CRITICAL OR level_value WARNING OR level_value MESSAGE"
| "LevelToInt DEBUG = level_value FATAL OR level_value CRITICAL OR level_value WARNING OR level_value MESSAGE OR
     level_value DEBUG"
| "LevelToInt TRACE = level_value FATAL OR level_value CRITICAL OR level_value WARNING OR level_value MESSAGE OR
     level_value DEBUG OR level_value TRACE"
| "LevelToInt NONE = 0"

fun LogLevelToString :: "LogLevel \<Rightarrow> string" where
  "LogLevelToString FATAL = ''FATAL''"
| "LogLevelToString CRITICAL = ''CRITICAL''"
| "LogLevelToString WARNING = ''WARNING''"
| "LogLevelToString MESSAGE = ''MESSAGE''"
| "LogLevelToString DEBUG = ''DEBUG''"
| "LogLevelToString TRACE = ''TRACE''"
| "LogLevelToString NONE = ''''"

definition LogStringToLevel :: "string \<Rightarrow> LogLevel" where
  "LogStringToLevel level =
     (let llevel = StringToLowerCase level
      in if llevel = ''fatal'' then FATAL
         else if llevel = ''critical'' then CRITICAL
         else if llevel = ''warning'' then WARNING
         else if llevel = ''message'' then MESSAGE
         else if llevel = ''debug'' then DEBUG
         else if llevel = ''trace'' then TRACE
         else NONE)"

subsection \<open>Loggers\<close>

text \<open>A logger is known by its address. \<open>log_calls\<close> are the calls of \<open>Logger::Log\<close>, \<open>log_deleted\<close> the
  loggers that were destroyed.\<close>

record log_state =
  loggers :: "(nat \<times> u32) list"
  log_calls :: "(nat \<times> LogLevel \<times> string) list"
  log_deleted :: "nat list"

definition log_init :: log_state where
  "log_init = \<lparr>loggers = [], log_calls = [], log_deleted = []\<rparr>"

definition initAndAddLogger :: "nat \<Rightarrow> LogLevel \<Rightarrow> log_state \<Rightarrow> log_state" where
  "initAndAddLogger logger log_level s =
     (if \<exists>i\<in>set (loggers s). fst i = logger then s
      else s\<lparr>loggers := loggers s @ [(logger, LevelToInt log_level)]\<rparr>)"

definition RemoveLogger :: "nat \<Rightarrow> log_state \<Rightarrow> log_state" where
  "RemoveLogger logger s =
     s\<lparr>loggers := filter (\<lambda>i. fst i \<noteq> logger) (loggers s),
       log_deleted := log_deleted s @ map fst (filter (\<lambda>i. fst i = logger) (loggers s))\<rparr>"

definition CloseLoggers :: "log_state \<Rightarrow> log_state" where
  "CloseLoggers s = s\<lparr>loggers := [], log_deleted := log_deleted s @ map fst (loggers s)\<rparr>"

definition NumberOfLoggers :: "log_state \<Rightarrow> nat" where
  "NumberOfLoggers s = length (loggers s)"

subsection \<open>Log files\<close>

text \<open>
  A \<open>FileLogger\<close>: \<open>log_file\<close> is the path behind its \<open>FILE*\<close> (\<open>None\<close> is the null pointer) and \<open>log_open\<close>
  whether that stream is open; \<open>log_lines\<close> are the lines written, with the path they went to. \<open>can_open\<close>
  tells which paths \<open>fopen\<close> can open for appending. Using a closed or null stream is undefined (\<open>None\<close>).
\<close>

record file_logger =
  log_filename :: string
  log_file :: "string option"
  log_open :: bool
  fl_component_id :: string
  close_file_after_write :: bool
  log_lines :: "(string \<times> string) list"

definition log_path :: "string \<Rightarrow> string \<Rightarrow> string" where
  "log_path log_dir comp_id =
     (if log_dir = '''' \<or> last log_dir = CHR ''/'' then log_dir @ comp_id @ ''.log''
      else log_dir @ ''/'' @ comp_id @ ''.log'')"

definition fopen :: "(string \<Rightarrow> bool) \<Rightarrow> string \<Rightarrow> string option" where
  "fopen can_open path = (if can_open path then Some path else None)"

definition fclose :: "file_logger \<Rightarrow> file_logger option" where
  "fclose s = (if log_open s \<and> log_file s \<noteq> None then Some (s\<lparr>log_open := False\<rparr>) else None)"

definition FileLogger :: "(string \<Rightarrow> bool) \<Rightarrow> string \<Rightarrow> string \<Rightarrow> bool \<Rightarrow> file_logger option" where
  "FileLogger can_open log_dir comp_id close_file =
     (let filename = log_path log_dir comp_id;
          log_file1 = (case fopen can_open filename of
              Some f \<Rightarrow> Some f
            | None \<Rightarrow> (case fopen can_open ''Gravity.log'' of
                Some f \<Rightarrow> Some f
              | None \<Rightarrow> fopen can_open ''/dev/null''));
          s = \<lparr>log_filename = filename, log_file = log_file1, log_open = (log_file1 \<noteq> None), fl_component_id = comp_id,
               close_file_after_write = close_file, log_lines = []\<rparr>
      in if close_file then fclose s else Some s)"

definition fprintf_line :: "string \<Rightarrow> LogLevel \<Rightarrow> string \<Rightarrow> file_logger \<Rightarrow> file_logger option" where
  "fprintf_line timestr level messagestr s =
     (case log_file s of
        None \<Rightarrow> None
      | Some f \<Rightarrow>
          (if log_open s
           then Some (s\<lparr>log_lines := log_lines s @
             [(f, ''['' @ timestr @ '' '' @ fl_component_id s @ ''-'' @ LogLevelToString level @ ''] '' @ messagestr @ [CHR 0x0A])]\<rparr>)
           else None))"

definition FileLogger_Log ::
  "(string \<Rightarrow> bool) \<Rightarrow> string \<Rightarrow> LogLevel \<Rightarrow> string \<Rightarrow> file_logger \<Rightarrow> file_logger option" where
  "FileLogger_Log can_open timestr level messagestr s =
     (if close_file_after_write s
      then (case fopen can_open (log_filename s) of
              Some f \<Rightarrow>
                Option.bind (fprintf_line timestr level messagestr (s\<lparr>log_file := Some f, log_open := True\<rparr>)) fclose
            | None \<Rightarrow>
                (case fopen can_open ''Gravity.log'' of
                   Some f \<Rightarrow>
                     Option.bind (fprintf_line timestr level messagestr (s\<lparr>log_file := Some f, log_open := True\<rparr>)) fclose
                 | None \<Rightarrow>
                     (let h = fopen can_open ''/dev/null''
                      in Some (s\<lparr>log_file := h, log_open := (h \<noteq> None)\<rparr>))))
      else fprintf_line timestr level messagestr s)"

definition FileLogger_delete :: "file_logger \<Rightarrow> file_logger option" where
  "FileLogger_delete s = fclose s"

definition ConsoleLogger :: "string \<Rightarrow> file_logger" where
  "ConsoleLogger comp_id = \<lparr>log_filename = '''', log_file = Some ''stdout'', log_open = True, fl_component_id = comp_id,
     close_file_after_write = False, log_lines = []\<rparr>"


subsection \<open>Formats\<close>

text \<open>
  \<open>detectPercentN\<close> looks for a conversion \<open>%n\<close>, with flags, width, precision and modifiers between
  the two characters. The array of these characters has no terminating zero, so that the bytes after it
  are taken for such characters too: \<open>extra\<close>. When nothing follows them, the code reads the string at
  the index \<open>npos\<close>, which is undefined (\<open>None\<close>).
\<close>

definition subspecs :: string where
  "subspecs = ''-+0 #0123456789.*hlLzjt''"

fun find_percent_n :: "string \<Rightarrow> nat \<Rightarrow> string \<Rightarrow> nat \<Rightarrow> int option" where
  "find_percent_n extra 0 checkStr pos = Some (-1)"
| "find_percent_n extra (Suc n) checkStr pos =
     (if length checkStr \<le> pos then Some (-1)
      else (case find_first_of ''%'' pos checkStr of
              None \<Rightarrow> Some (-1)
            | Some percentPos \<Rightarrow>
                (let k = percentPos + 1 + length (takeWhile (\<lambda>c. c \<in> set (subspecs @ extra)) (drop (percentPos + 1) checkStr))
                 in if length checkStr \<le> k then None
                    else if checkStr ! k = CHR ''n'' then Some (int percentPos)
                    else find_percent_n extra n checkStr k)))"

text \<open>Each round moves the position forward, so as many rounds as characters are enough.\<close>

definition detectPercentN :: "string \<Rightarrow> string \<Rightarrow> int option" where
  "detectPercentN extra format = find_percent_n extra (length format) format 0"

definition maxStrLen :: nat where "maxStrLen = 4096"

definition truncStr :: string where
  "truncStr = '' !!!!!!!!! '' @ [CHR 0x27] @ ''%n'' @ [CHR 0x27] @ '' DETECTED, MESSAGE TRUNCATED''"

text \<open>
  The text of a message; \<open>vsnprintf fmt\<close> is what the C library makes of a format and the arguments,
  of which at most one character less than the given size is kept.
\<close>

definition log_text :: "string \<Rightarrow> (string \<Rightarrow> string) \<Rightarrow> string \<Rightarrow> string option" where
  "log_text extra vsnprintf format =
     (case detectPercentN extra format of
        None \<Rightarrow> None
      | Some percentNPos \<Rightarrow>
          (if percentNPos \<ge> 0
           then (let truncLen = min (nat percentNPos) (maxStrLen - length truncStr - 1)
                 in Some (take (truncLen - 1) (vsnprintf (take truncLen format)) @ truncStr))
           else Some (take (maxStrLen - 1) (vsnprintf format))))"

definition vLog :: "string \<Rightarrow> (string \<Rightarrow> string) \<Rightarrow> LogLevel \<Rightarrow> string \<Rightarrow> log_state \<Rightarrow> log_state option" where
  "vLog extra vsnprintf level format s =
     (if loggers s = [] then Some s
      else (case log_text extra vsnprintf format of
              None \<Rightarrow> None
            | Some messageStr \<Rightarrow>
                Some (s\<lparr>log_calls := log_calls s @ map (\<lambda>i. (fst i, level, messageStr))
                   (filter (\<lambda>i. snd i AND level_value level \<noteq> 0) (loggers s))\<rparr>)))"

text \<open>
  \<open>Log::fatal\<close> to \<open>Log::trace\<close>: each is compiled with an empty body when the level chosen at
  compile time (0 for fatal to 5 for trace) is below its own.
\<close>

fun compile_level :: "LogLevel \<Rightarrow> nat option" where
  "compile_level FATAL = Some 0"
| "compile_level CRITICAL = Some 1"
| "compile_level WARNING = Some 2"
| "compile_level MESSAGE = Some 3"
| "compile_level DEBUG = Some 4"
| "compile_level TRACE = Some 5"
| "compile_level NONE = None"

definition log_function ::
  "nat \<Rightarrow> string \<Rightarrow> (string \<Rightarrow> string) \<Rightarrow> LogLevel \<Rightarrow> string \<Rightarrow> log_state \<Rightarrow> log_state option" where
  "log_function compiled extra vsnprintf level message s =
     (case compile_level level of
        None \<Rightarrow> Some s
      | Some k \<Rightarrow> if k \<le> compiled then vLog extra vsnprintf level message s else Some s)"

subsection \<open>Publishing log messages\<close>

text \<open>
  \<open>sink_it_\<close> of the publishing sink: \<open>init\<close> is whether the data product has been registered;
  \<open>encode\<close> is protobuf's encoding of level and text.
\<close>

definition checkInit :: "node_env \<Rightarrow> bool \<Rightarrow> gn_world \<Rightarrow> gn_fail + bool \<times> gn_world" where
  "checkInit env init w =
     (if init then Inr (True, w)
      else then_do (registerDataProductInternal env GRAVITY_LOGGER_DPID TCP False False False True w)
             (\<lambda>ret w1. Inr (ret = SUCCESS, w1)))"

definition publish_sink_it ::
  "(string \<Rightarrow> string \<Rightarrow> string) \<Rightarrow> node_env \<Rightarrow> string \<Rightarrow> string \<Rightarrow> bool \<Rightarrow> gn_world \<Rightarrow> gn_fail + bool \<times> gn_world" where
  "publish_sink_it encode env level formatted init w =
     then_do (checkInit env init w) (\<lambda>init1 w1.
       (let dp = setData_message (encode level formatted) ''gravity.GravityLogMessagePB'' (GravityDataProduct GRAVITY_LOGGER_DPID)
        in Inr (init1, if init1 then w1\<lparr>gw_node := fst (node_publish (ne_now env) dp '''' 0 (gw_node w1))\<rparr> else w1)))"

subsection \<open>Levels and their names\<close>

lemma LogString_round_trip: "LogStringToLevel (LogLevelToString l) = l"
  by (cases l; hypsubst; code_simp)

fun severity :: "LogLevel \<Rightarrow> nat" where
  "severity NONE = 0"
| "severity FATAL = 1"
| "severity CRITICAL = 2"
| "severity WARNING = 3"
| "severity MESSAGE = 4"
| "severity DEBUG = 5"
| "severity TRACE = 6"

lemma mask_wants_level: "LevelToInt m AND level_value l \<noteq> 0 \<longleftrightarrow> l \<noteq> NONE \<and> severity l \<le> severity m"
  by (cases m; cases l) (simp_all add: push_bit_eq_mult)

subsection \<open>The list of loggers\<close>

datatype log_event = Add_logger nat LogLevel | Remove_logger nat | Close_loggers | Log_message LogLevel string

fun log_step :: "string \<Rightarrow> (string \<Rightarrow> string) \<Rightarrow> log_event \<Rightarrow> log_state \<Rightarrow> log_state option" where
  "log_step extra vsnprintf (Add_logger a l) s = Some (initAndAddLogger a l s)"
| "log_step extra vsnprintf (Remove_logger a) s = Some (RemoveLogger a s)"
| "log_step extra vsnprintf Close_loggers s = Some (CloseLoggers s)"
| "log_step extra vsnprintf (Log_message l f) s = vLog extra vsnprintf l f s"

text \<open>What the loggers ought to be: the addresses that were added and not removed, with their levels.\<close>

fun attached :: "(nat \<times> LogLevel) list \<Rightarrow> log_event \<Rightarrow> (nat \<times> LogLevel) list" where
  "attached ls (Add_logger a l) = (if a \<in> fst ` set ls then ls else ls @ [(a, l)])"
| "attached ls (Remove_logger a) = filter (\<lambda>x. fst x \<noteq> a) ls"
| "attached ls Close_loggers = []"
| "attached ls (Log_message l f) = ls"

definition loggers_match :: "(nat \<times> LogLevel) list \<Rightarrow> log_state \<Rightarrow> bool" where
  "loggers_match ls s \<longleftrightarrow> loggers s = map (\<lambda>x. (fst x, LevelToInt (snd x))) ls \<and> distinct (map fst ls)"

lemma loggers_match_step:
  assumes "loggers_match ls s" and "log_step extra vsnprintf e s = Some s'"
  shows "loggers_match (attached ls e) s'"
proof (cases e)
  case (Add_logger a l)
  have "(\<exists>i\<in>set (loggers s). fst i = a) = (a \<in> fst ` set ls)"
    using assms(1) by (force simp: loggers_match_def)
  then show ?thesis using assms Add_logger
    by (cases "a \<in> fst ` set ls") (auto simp: loggers_match_def initAndAddLogger_def simp del: bex_simps)
next
  case (Remove_logger a)
  then show ?thesis
    using assms by (auto simp: loggers_match_def RemoveLogger_def filter_map comp_def distinct_map_filter)
next
  case Close_loggers
  then show ?thesis using assms by (auto simp: loggers_match_def CloseLoggers_def)
next
  case (Log_message l f)
  then show ?thesis using assms by (auto simp: loggers_match_def vLog_def split: option.splits if_splits)
qed

definition log_run :: "string \<Rightarrow> (string \<Rightarrow> string) \<Rightarrow> log_event list \<Rightarrow> log_state \<Rightarrow> log_state option" where
  "log_run extra vsnprintf es s = fold (\<lambda>e os. Option.bind os (log_step extra vsnprintf e)) es (Some s)"

lemma log_run_Nil [simp]: "log_run extra vsnprintf [] s = Some s"
  by (simp add: log_run_def)

lemma log_run_fails: "fold (\<lambda>e os. Option.bind os (log_step extra vsnprintf e)) es None = None"
  by (induction es) simp_all

lemma log_run_Cons:
  "log_run extra vsnprintf (e # es) s = Option.bind (log_step extra vsnprintf e s) (log_run extra vsnprintf es)"
  by (cases "log_step extra vsnprintf e s") (simp_all add: log_run_def log_run_fails)

text \<open>What ought to be written: every message goes to the attached loggers whose level includes it.\<close>

fun heard :: "(string \<Rightarrow> string) \<Rightarrow> (nat \<times> LogLevel) list \<Rightarrow> log_event list \<Rightarrow> (nat \<times> LogLevel \<times> string) list" where
  "heard text_of ls [] = []"
| "heard text_of ls (e # es) =
     (case e of
        Log_message l f \<Rightarrow>
          map (\<lambda>x. (fst x, l, text_of f)) (filter (\<lambda>x. l \<noteq> NONE \<and> severity l \<le> severity (snd x)) ls)
      | _ \<Rightarrow> []) @ heard text_of (attached ls e) es"

fun formats_of :: "log_event list \<Rightarrow> string list" where
  "formats_of [] = []"
| "formats_of (Log_message l f # es) = f # formats_of es"
| "formats_of (e # es) = formats_of es"

lemma log_step_calls:
  assumes "loggers_match ls s" and "\<forall>f\<in>set (formats_of [e]). log_text extra vsnprintf f = Some (text_of f)"
  obtains s' where "log_step extra vsnprintf e s = Some s'"
    and "log_calls s' = log_calls s @ heard text_of ls [e]" and "loggers_match (attached ls e) s'"
proof -
  have "\<exists>s'. log_step extra vsnprintf e s = Some s' \<and> log_calls s' = log_calls s @ heard text_of ls [e]"
    using assms
    by (cases e) (auto simp: loggers_match_def initAndAddLogger_def RemoveLogger_def CloseLoggers_def vLog_def
        filter_map comp_def mask_wants_level)
  then show ?thesis using loggers_match_step [OF assms(1)] that by blast
qed

lemma heard_Cons: "heard text_of ls (e # es) = heard text_of ls [e] @ heard text_of (attached ls e) es"
  by simp

lemma log_run_calls:
  assumes "loggers_match ls s" and "\<forall>f\<in>set (formats_of es). log_text extra vsnprintf f = Some (text_of f)"
  shows "\<exists>s'. log_run extra vsnprintf es s = Some s' \<and> log_calls s' = log_calls s @ heard text_of ls es"
  using assms
proof (induction es arbitrary: ls s)
  case (Cons e es)
  have "\<forall>f\<in>set (formats_of [e]). log_text extra vsnprintf f = Some (text_of f)"
    and rest: "\<forall>f\<in>set (formats_of es). log_text extra vsnprintf f = Some (text_of f)"
    using Cons.prems(2) by (cases e; simp)+
  then obtain s1 where s1: "log_step extra vsnprintf e s = Some s1"
    "log_calls s1 = log_calls s @ heard text_of ls [e]" "loggers_match (attached ls e) s1"
    using log_step_calls [OF Cons.prems(1)] by blast
  from Cons.IH [OF s1(3) rest] s1 show ?case
    by (simp add: log_run_Cons heard_Cons [of text_of ls e es] del: heard.simps)
qed simp

lemma loggers_match_init: "loggers_match [] log_init"
  by (simp add: loggers_match_def log_init_def)

text \<open>C25. Messages reach the loggers that want them: whatever loggers are added, removed and closed and
  whatever is logged in between, the calls of the loggers are, in order, one for every message and every
  logger that is attached at that moment with a level that includes the level of the message.\<close>

theorem messages_reach_their_loggers:
  assumes "\<forall>f\<in>set (formats_of es). log_text extra vsnprintf f = Some (text_of f)"
  shows "\<exists>s. log_run extra vsnprintf es log_init = Some s \<and> log_calls s = heard text_of [] es"
  using log_run_calls [OF loggers_match_init assms] by (simp add: log_init_def)

theorem messages_reach_their_loggers_witness:
  "\<exists>s. log_run [] id [Add_logger 1 WARNING, Add_logger 2 TRACE, Add_logger 1 TRACE, Log_message FATAL ''a'',
       Log_message DEBUG ''b'', Remove_logger 2, Log_message WARNING ''c''] log_init = Some s \<and>
     log_calls s = [(1, FATAL, ''a''), (2, FATAL, ''a''), (2, DEBUG, ''b''), (1, WARNING, ''c'')]"
  using messages_reach_their_loggers [of "[Add_logger 1 WARNING, Add_logger 2 TRACE, Add_logger 1 TRACE, Log_message FATAL ''a'',
       Log_message DEBUG ''b'', Remove_logger 2, Log_message WARNING ''c'']" "[]" id id]
  by (simp add: log_text_def detectPercentN_def find_first_of_def maxStrLen_def)

subsection \<open>No conversion that writes through its argument\<close>

text \<open>A conversion \<open>%n\<close> at the index \<open>i\<close> of a format, with any flags, width, precision and modifiers.\<close>

definition percent_n_at :: "string \<Rightarrow> nat \<Rightarrow> bool" where
  "percent_n_at f i \<longleftrightarrow>
     (\<exists>j<length f. i < j \<and> f ! i = CHR ''%'' \<and> f ! j = CHR ''n'' \<and> (\<forall>m. i < m \<and> m < j \<longrightarrow> f ! m \<in> set subspecs))"

text \<open>The run of characters with a property, from an index on.\<close>

lemma run_from:
  fixes s :: "'a list"
  defines "end_of \<equiv> \<lambda>P pos. pos + length (takeWhile P (drop pos s))"
  shows run_from_all: "pos \<le> i \<Longrightarrow> i < end_of P pos \<Longrightarrow> P (s ! i)"
    and run_from_stop: "end_of P pos < length s \<Longrightarrow> \<not> P (s ! end_of P pos)"
    and run_from_le: "pos \<le> length s \<Longrightarrow> end_of P pos \<le> length s"
proof -
  let ?t = "takeWhile P (drop pos s)"
  show "P (s ! i)" if "pos \<le> i" "i < end_of P pos"
  proof -
    have i: "i - pos < length ?t" using that by (simp add: end_of_def)
    then have "P (?t ! (i - pos))" using set_takeWhileD [OF nth_mem [OF i]] by simp
    moreover have "?t ! (i - pos) = drop pos s ! (i - pos)" using i by (rule takeWhile_nth)
    moreover have "pos \<le> length s" using i that(1) length_takeWhile_le [of P "drop pos s"] by simp
    ultimately show ?thesis using that(1) by simp
  qed
  show "\<not> P (s ! end_of P pos)" if "end_of P pos < length s"
  proof -
    have "length ?t < length (drop pos s)" using that by (simp add: end_of_def)
    then have "\<not> P (drop pos s ! length ?t)" by (rule nth_length_takeWhile)
    then show ?thesis using that by (simp add: end_of_def)
  qed
  show "end_of P pos \<le> length s" if "pos \<le> length s"
    using that length_takeWhile_le [of P "drop pos s"] by (simp add: end_of_def)
qed

lemma find_first_of_Some:
  assumes "find_first_of cs pos s = Some p"
  shows "pos \<le> p" and "p < length s" and "\<And>i. pos \<le> i \<Longrightarrow> i < p \<Longrightarrow> s ! i \<notin> set cs"
  using assms run_from_all [of pos _ "\<lambda>c. c \<notin> set cs" s] by (auto simp: find_first_of_def Let_def split: if_splits)

lemma find_first_of_None:
  "find_first_of cs pos s = None \<Longrightarrow> pos \<le> i \<Longrightarrow> i < length s \<Longrightarrow> s ! i \<notin> set cs"
  using run_from_all [of pos i "\<lambda>c. c \<notin> set cs" s] by (auto simp: find_first_of_def Let_def split: if_splits)

lemma n_not_subspec: "CHR ''n'' \<notin> set subspecs"
  by (simp add: subspecs_def)

text \<open>Between a percent sign and the end \<open>k\<close> of the characters after it no other conversion \<open>%n\<close> starts.\<close>

lemma no_percent_n_before_stop:
  assumes "percent_n_at s i" and "p \<le> i" "i < k" and "CHR ''n'' \<notin> set extra"
    and k: "k = p + 1 + length (takeWhile (\<lambda>c. c \<in> set (subspecs @ extra)) (drop (p + 1) s))" "k < length s"
  shows "s ! k = CHR ''n''"
proof -
  obtain j where j: "j < length s" "i < j" "s ! j = CHR ''n''" "\<forall>m. i < m \<and> m < j \<longrightarrow> s ! m \<in> set subspecs"
    using assms(1) by (auto simp: percent_n_at_def)
  have all: "\<And>m. p + 1 \<le> m \<Longrightarrow> m < k \<Longrightarrow> s ! m \<in> set (subspecs @ extra)"
    using run_from_all [of "p + 1" _ "\<lambda>c. c \<in> set (subspecs @ extra)" s] k(1) by simp
  have stop: "s ! k \<notin> set (subspecs @ extra)"
    using run_from_stop [of "p + 1" "\<lambda>c. c \<in> set (subspecs @ extra)" s] k by simp
  have "k \<le> j" using all [of j] j assms(2,4) n_not_subspec by (cases "j < k") auto
  moreover have "\<not> k < j" using j(4) stop assms(3) by auto
  ultimately show ?thesis using j(3) by simp
qed

lemma find_percent_n_sound:
  assumes "find_percent_n extra n s pos = Some r" and "length s \<le> pos + n" and "CHR ''n'' \<notin> set extra"
    and "pos \<le> i" and "0 \<le> r \<longrightarrow> i < nat r"
  shows "\<not> percent_n_at s i"
  using assms
proof (induction n arbitrary: pos)
  case 0
  then show ?case by (simp add: percent_n_at_def)
next
  case (Suc n)
  show ?case
  proof (cases "length s \<le> pos \<or> find_first_of ''%'' pos s = None")
    case True
    then show ?thesis
      using find_first_of_None [of "''%''" pos s i] Suc.prems(4) by (auto simp: percent_n_at_def)
  next
    case False
    then obtain p where p: "find_first_of ''%'' pos s = Some p" and "pos < length s" by auto
    let ?k = "p + 1 + length (takeWhile (\<lambda>c. c \<in> set (subspecs @ extra)) (drop (p + 1) s))"
    note step = Suc.prems(1) [unfolded find_percent_n.simps p option.case Let_def]
    have k: "?k < length s" using step \<open>pos < length s\<close> by (auto split: if_splits)
    note before = find_first_of_Some [OF p]
    consider "i < p" | "p \<le> i" "i < ?k" | "?k \<le> i" by linarith
    then show ?thesis
    proof cases
      case 1
      then show ?thesis using before(3) Suc.prems(4) by (auto simp: percent_n_at_def)
    next
      case 2
      have "s ! ?k = CHR ''n''" if "percent_n_at s i"
        using no_percent_n_before_stop [OF that 2 Suc.prems(3) refl k] .
      then show ?thesis using step k \<open>pos < length s\<close> 2 Suc.prems(5) by (auto split: if_splits)
    next
      case 3
      show ?thesis
      proof (cases "s ! ?k = CHR ''n''")
        case True
        then show ?thesis using step k \<open>pos < length s\<close> 3 Suc.prems(5) by (auto split: if_splits)
      next
        case False
        then have "find_percent_n extra n s ?k = Some r" using step k \<open>pos < length s\<close> by (auto split: if_splits)
        then show ?thesis using Suc.IH [of ?k] Suc.prems 3 before(1) by simp
      qed
    qed
  qed
qed

lemma percent_n_at_take: "percent_n_at (take t f) i \<Longrightarrow> i < t \<and> percent_n_at f i"
  by (auto simp: percent_n_at_def)

lemma detectPercentN_cuts:
  assumes "detectPercentN extra f = Some r" and "CHR ''n'' \<notin> set extra"
  shows "r < 0 \<Longrightarrow> \<not> percent_n_at f i" and "0 \<le> r \<Longrightarrow> t \<le> nat r \<Longrightarrow> \<not> percent_n_at (take t f) i"
proof -
  have *: "\<not> percent_n_at f j" if "0 \<le> r \<longrightarrow> j < nat r" for j
    using find_percent_n_sound [of extra "length f" f 0 r j] assms that by (simp add: detectPercentN_def)
  show "\<not> percent_n_at f i" if "r < 0" using * that by simp
  show "\<not> percent_n_at (take t f) i" if "0 \<le> r" "t \<le> nat r"
    using * [of i] percent_n_at_take [of t f i] that by auto
qed

lemma log_text_fits: "log_text extra vsnprintf format = Some t \<Longrightarrow> length t < maxStrLen"
  by (auto simp: log_text_def maxStrLen_def truncStr_def Let_def split: option.splits if_splits)

lemma log_text_cong:
  assumes "CHR ''n'' \<notin> set extra" and "\<And>f. (\<And>i. \<not> percent_n_at f i) \<Longrightarrow> vs1 f = vs2 f"
  shows "log_text extra vs1 format = log_text extra vs2 format"
proof (cases "detectPercentN extra format")
  case (Some r)
  then show ?thesis
    using detectPercentN_cuts [OF Some assms(1)] assms(2) [of format] assms(2) [of "take _ format"]
    by (cases "0 \<le> r") (simp_all add: log_text_def Let_def)
qed (simp add: log_text_def)


definition writes_through :: "string \<Rightarrow> string" where
  "writes_through f = (if \<exists>i\<in>{..<length f}. percent_n_at f i then ''overwritten'' else f)"


subsection \<open>The lines of a log file\<close>

definition log_line :: "string \<Rightarrow> string \<times> LogLevel \<times> string \<Rightarrow> string" where
  "log_line comp_id m =
     ''['' @ fst m @ '' '' @ comp_id @ ''-'' @ LogLevelToString (fst (snd m)) @ ''] '' @ snd (snd m) @ [CHR 0x0A]"

definition file_log_run :: "(string \<Rightarrow> bool) \<Rightarrow> (string \<times> LogLevel \<times> string) list \<Rightarrow> file_logger \<Rightarrow> file_logger option" where
  "file_log_run can_open ms s =
     fold (\<lambda>m os. Option.bind os (FileLogger_Log can_open (fst m) (fst (snd m)) (snd (snd m)))) ms (Some s)"

definition file_logger_ok :: "(string \<Rightarrow> bool) \<Rightarrow> string \<Rightarrow> string \<Rightarrow> bool \<Rightarrow> file_logger \<Rightarrow> bool" where
  "file_logger_ok can_open path comp_id close s \<longleftrightarrow>
     log_filename s = path \<and> log_file s = Some path \<and> can_open path \<and> fl_component_id s = comp_id \<and>
     close_file_after_write s = close \<and> log_open s = (\<not> close)"

lemma file_logger_step:
  assumes "file_logger_ok can_open path comp_id close s"
  shows "\<exists>s'. FileLogger_Log can_open (fst m) (fst (snd m)) (snd (snd m)) s = Some s' \<and>
           file_logger_ok can_open path comp_id close s' \<and> log_lines s' = log_lines s @ [(path, log_line comp_id m)]"
  using assms
  by (cases close)
     (auto simp: file_logger_ok_def FileLogger_Log_def fopen_def fprintf_line_def fclose_def log_line_def)

lemma file_log_run_lines:
  assumes "file_logger_ok can_open path comp_id close s"
  shows "\<exists>s'. file_log_run can_open ms s = Some s' \<and> file_logger_ok can_open path comp_id close s' \<and>
           log_lines s' = log_lines s @ map (\<lambda>m. (path, log_line comp_id m)) ms"
  using assms
proof (induction ms arbitrary: s)
  case Nil
  then show ?case by (simp add: file_log_run_def)
next
  case (Cons m ms)
  obtain s1 where "FileLogger_Log can_open (fst m) (fst (snd m)) (snd (snd m)) s = Some s1"
    "file_logger_ok can_open path comp_id close s1" "log_lines s1 = log_lines s @ [(path, log_line comp_id m)]"
    using file_logger_step [OF Cons.prems] by blast
  then show ?case using Cons.IH [of s1] by (simp add: file_log_run_def)
qed

text \<open>A file logger whose file can be opened writes every message as one line of that file, in order,
  whether it keeps the file open or not; but one that closes the file after every message is destroyed
  with a stream that is closed already, which is undefined.\<close>

theorem log_file_has_every_message:
  assumes "can_open (log_path log_dir comp_id)"
  shows "\<exists>s s'. FileLogger can_open log_dir comp_id close = Some s \<and> file_log_run can_open ms s = Some s' \<and>
           log_lines s' = map (\<lambda>m. (log_path log_dir comp_id, log_line comp_id m)) ms \<and>
           (FileLogger_delete s' = None \<longleftrightarrow> close)"
proof -
  have "\<exists>s. FileLogger can_open log_dir comp_id close = Some s \<and>
      file_logger_ok can_open (log_path log_dir comp_id) comp_id close s \<and> log_lines s = []"
    using assms by (cases close) (auto simp: FileLogger_def fopen_def fclose_def file_logger_ok_def Let_def)
  then obtain s where s: "FileLogger can_open log_dir comp_id close = Some s"
    "file_logger_ok can_open (log_path log_dir comp_id) comp_id close s" "log_lines s = []" by blast
  show ?thesis
    using file_log_run_lines [OF s(2), of ms] s
    by (cases close) (auto simp: FileLogger_delete_def fclose_def file_logger_ok_def)
qed

theorem log_file_has_every_message_witness:
  "\<exists>s s'. FileLogger (\<lambda>p. p = ''logs/C.log'') ''logs'' ''C'' True = Some s \<and>
     file_log_run (\<lambda>p. p = ''logs/C.log'') [(''T'', FATAL, ''x''), (''U'', DEBUG, ''y'')] s = Some s' \<and>
     log_lines s' = [(''logs/C.log'', ''[T C-FATAL] x'' @ [CHR 0x0A]), (''logs/C.log'', ''[U C-DEBUG] y'' @ [CHR 0x0A])] \<and>
     FileLogger_delete s' = None"
  using log_file_has_every_message [of "\<lambda>p. p = ''logs/C.log''" "''logs''" "''C''" True "[(''T'', FATAL, ''x''), (''U'', DEBUG, ''y'')]"]
  by (simp add: log_path_def log_line_def)

end
