(* ===== verification/Key_Value.thy ===== *)
theory Key_Value
  imports Utility
begin

unbundle bit_operations_syntax

section \<open>Configuration files (\<open>keyvalue_parser.c\<close>, \<open>KeyValueParserWrap.h\<close>, \<open>ConfigServer.cpp\<close>)\<close>

text \<open>
  The key-value library keeps the pairs of a file in a hash table of 64 linked lists. A bucket is the
  list of its pairs from head to tail. The grammar is compiled by yacc: \<open>yyparse sec kvs\<close> is what a
  parse of the file for the section \<open>sec\<close> does when the pairs \<open>kvs\<close> are in the table (the file can
  refer to them as variables): the pairs its action inserts, in order, and whether it succeeds. A
  file that cannot be opened is \<open>None\<close>.
\<close>

type_synonym kv_pairs = "(string \<times> string) list"
type_synonym yacc_parser = "string \<Rightarrow> kv_pairs \<Rightarrow> kv_pairs \<times> bool"

definition NBUCKETS :: nat where "NBUCKETS = 64"

text \<open>A \<open>char\<close> is signed; the sum is unsigned.\<close>

definition get_bucket_idx :: "string \<Rightarrow> nat" where
  "get_bucket_idx key =
     unat (foldl (\<lambda>val c. val + word_of_int (char_value c)) (0 :: u32) key AND word_of_nat (NBUCKETS - 1))"

definition var_list_find :: "kv_pairs \<Rightarrow> string \<Rightarrow> (string \<times> string) option" where
  "var_list_find vl key = find (\<lambda>e. take (length key) (fst e) = key \<and> length (fst e) = length key) vl"

definition var_list_insert :: "kv_pairs \<Rightarrow> string \<times> string \<Rightarrow> kv_pairs" where
  "var_list_insert vl e = vl @ [e]"

definition kv_insert :: "string \<times> string \<Rightarrow> kv_pairs list \<Rightarrow> kv_pairs list" where
  "kv_insert e bs = (let k = get_bucket_idx (fst e) in bs[k := var_list_insert (bs ! k) e])"

text \<open>
  The loop of \<open>keyvalue_parse_params\<close> over the sections: the table, the pairs in the order of their
  insertion, and whether the last parse failed (1 at the start). A failure ends the loop.
\<close>

fun parse_sections ::
  "yacc_parser option \<Rightarrow> string list \<Rightarrow> bool \<Rightarrow> kv_pairs \<Rightarrow> kv_pairs list \<Rightarrow> bool \<times> kv_pairs list" where
  "parse_sections file [] failed kvs bs = (failed, bs)"
| "parse_sections None (sec # ss) failed kvs bs = parse_sections None ss failed kvs bs"
| "parse_sections (Some yyparse) (sec # ss) failed kvs bs =
     (let (new, ok) = yyparse sec kvs;
          bs1 = fold kv_insert new bs
      in if \<not> ok then (True, bs1) else parse_sections (Some yyparse) ss False (kvs @ new) bs1)"

definition keyvalue_parse_params :: "yacc_parser option \<Rightarrow> string list \<Rightarrow> kv_pairs list option" where
  "keyvalue_parse_params file sections =
     (let (failed, bs) = parse_sections file sections True [] (replicate NBUCKETS [])
      in if failed then None else Some bs)"

definition keyvalue_getkeys :: "kv_pairs list option \<Rightarrow> string list" where
  "keyvalue_getkeys handle = (case handle of None \<Rightarrow> [] | Some bs \<Rightarrow> concat (map (map fst) bs))"

definition keyvalue_getstring :: "kv_pairs list option \<Rightarrow> string \<Rightarrow> string" where
  "keyvalue_getstring handle key =
     (case handle of
        None \<Rightarrow> ''''
      | Some bs \<Rightarrow> (case var_list_find (bs ! get_bucket_idx key) key of None \<Rightarrow> '''' | Some e \<Rightarrow> snd e))"

definition GetString :: "kv_pairs list option \<Rightarrow> string \<Rightarrow> string \<Rightarrow> string" where
  "GetString handle key default_value =
     (let value = keyvalue_getstring handle key in if value \<noteq> '''' then value else default_value)"

definition GetKeys :: "kv_pairs list option \<Rightarrow> string list" where
  "GetKeys handle = keyvalue_getkeys handle"

subsection \<open>The two users of the library\<close>

text \<open>\<open>GravityConfigParser::ParseConfigFile\<close>, from the file.\<close>

definition parse_config :: "yacc_parser option \<Rightarrow> string \<Rightarrow> config \<Rightarrow> config" where
  "parse_config file componentID m =
     (let h = keyvalue_parse_params file [componentID, ''general'']
      in ParseConfigFile (map (\<lambda>k. (k, GetString h k '''')) (GetKeys h)) m)"

text \<open>
  \<open>ConfigServer::request\<close>: the keys and values of the response for a component, or the null
  pointer when there are none.
\<close>

definition ConfigServer_request ::
  "yacc_parser option \<Rightarrow> string \<Rightarrow> (string list \<times> string list) option" where
  "ConfigServer_request file componentID =
     (let h = keyvalue_parse_params file [''general'', componentID];
          m = fold (\<lambda>k m. (let value = GetString h k '''' in if value \<noteq> '''' then smap_put k value m else m))
                (GetKeys h) []
      in if m = [] then None else Some (map fst m, map snd m))"

subsection \<open>The table is an association list\<close>

text \<open>\<open>table_of kvs\<close>: the table after inserting \<open>kvs\<close>: each bucket has its pairs in order.\<close>

definition table_of :: "kv_pairs \<Rightarrow> kv_pairs list" where
  "table_of kvs = map (\<lambda>k. filter (\<lambda>e. get_bucket_idx (fst e) = k) kvs) [0..<NBUCKETS]"

lemma get_bucket_idx_less: "get_bucket_idx key < NBUCKETS"
proof -
  have "(63 :: u32) = mask 6" by (simp add: mask_eq_exp_minus_1)
  then have "w AND 63 < 64" for w :: u32
    using and_mask_less' [of 6 w] by simp
  then show ?thesis by (simp add: get_bucket_idx_def NBUCKETS_def word_less_nat_alt)
qed

lemma table_of_bucket: "table_of kvs ! get_bucket_idx key = filter (\<lambda>e. get_bucket_idx (fst e) = get_bucket_idx key) kvs"
  using get_bucket_idx_less by (simp add: table_of_def)

lemma kv_insert_table: "kv_insert e (table_of kvs) = table_of (kvs @ [e])"
  by (rule nth_equalityI)
    (auto simp: kv_insert_def Let_def table_of_def var_list_insert_def nth_list_update get_bucket_idx_less)

lemma fold_kv_insert: "fold kv_insert new (table_of kvs) = table_of (kvs @ new)"
  by (induction new arbitrary: kvs) (simp_all add: kv_insert_table)

lemma same_key: "(take (length key) k = key \<and> length k = length key) = (k = key)"
  by auto

lemma find_filter: "(\<And>x. P x \<Longrightarrow> Q x) \<Longrightarrow> find P (filter Q xs) = find P xs"
  by (induction xs) auto

lemma keyvalue_getstring_first:
  "keyvalue_getstring (Some (table_of kvs)) key = (case map_of kvs key of None \<Rightarrow> '''' | Some v \<Rightarrow> v)"
proof -
  have "find (\<lambda>e. fst e = key) kvs = map_option (\<lambda>v. (key, v)) (map_of kvs key)"
    by (induction kvs) auto
  then show ?thesis
    by (simp add: keyvalue_getstring_def var_list_find_def table_of_bucket same_key
        find_filter [where P = "\<lambda>e. fst e = key"] split: option.split)
qed

lemma parse_two_sections:
  assumes "yyparse a [] = (new, True)" and "yyparse b new = (added, True)"
  shows "keyvalue_parse_params (Some yyparse) [a, b] = Some (table_of (new @ added))"
proof -
  have "replicate NBUCKETS [] = table_of []"
    by (simp add: table_of_def map_replicate_const)
  then show ?thesis using assms fold_kv_insert [of _ "[]"] fold_kv_insert [of added new]
    by (simp add: keyvalue_parse_params_def)
qed

lemma GetKeys_table: "set (GetKeys (Some (table_of kvs))) = fst ` set kvs"
  using get_bucket_idx_less by (force simp: GetKeys_def keyvalue_getkeys_def table_of_def)

lemma GetString_table: "GetString (Some (table_of kvs)) key '''' = (case map_of kvs key of None \<Rightarrow> '''' | Some v \<Rightarrow> v)"
  by (simp add: GetString_def keyvalue_getstring_first Let_def)

subsection \<open>Precedence\<close>

text \<open>What the node's configuration has for a key that is spelled in one way in the file.\<close>

lemma parse_config_look:
  assumes "keyvalue_parse_params (Some yyparse) [c, ''general''] = Some (table_of kvs)"
    and "\<forall>k\<in>fst ` set kvs. StringToLowerCase k = StringToLowerCase key \<longrightarrow> k = key"
  shows "map_of (parse_config (Some yyparse) c m) (StringToLowerCase key) =
     (case map_of kvs key of None \<Rightarrow> map_of m (StringToLowerCase key) | Some v \<Rightarrow> Some v)"
proof -
  let ?h = "Some (table_of kvs)"
  let ?ps = "map (\<lambda>k. (k, GetString ?h k '''')) (GetKeys ?h)"
  have look: "map_of (parse_config (Some yyparse) c m) (StringToLowerCase key) =
      (case find (\<lambda>(j, v). StringToLowerCase j = StringToLowerCase key) (rev ?ps) of
         Some (j, v) \<Rightarrow> Some v | None \<Rightarrow> map_of m (StringToLowerCase key))"
    using ParseConfigFile_look [of ?ps m] assms(1) by (simp add: parse_config_def Let_def split: option.split)
  show ?thesis
  proof (cases "find (\<lambda>(j, v). StringToLowerCase j = StringToLowerCase key) (rev ?ps)")
    case None
    then have "key \<notin> set (GetKeys ?h)" by (auto simp: find_None_all)
    then have "map_of kvs key = None" by (simp add: GetKeys_table map_of_eq_None_iff)
    then show ?thesis using look None by simp
  next
    case (Some e)
    then have e: "e \<in> set ?ps" "StringToLowerCase (fst e) = StringToLowerCase key"
      using find_SomeD [OF Some] by auto
    then have "fst e \<in> fst ` set kvs" by (auto simp: GetKeys_table [symmetric])
    then have key: "fst e = key" using assms(2) e(2) by blast
    moreover have "map_of kvs key \<noteq> None" using \<open>fst e \<in> fst ` set kvs\<close> key by (simp add: map_of_eq_None_iff)
    ultimately show ?thesis using look Some e(1) by (auto simp: GetString_table split: option.splits)
  qed
qed

text \<open>The hash table of the configuration file is transparent: for a key that the two sections spell
  in one way, a node gets the value of its own section, the first one if there are several, else the
  first value of the section \<open>general\<close>, else the default.\<close>

theorem own_section_first:
  assumes "yyparse componentID [] = (own, True)" and "yyparse ''general'' own = (general, True)"
    and "\<forall>k\<in>fst ` set (own @ general). StringToLowerCase k = StringToLowerCase key \<longrightarrow> k = key"
  shows "getString key dflt (parse_config (Some yyparse) componentID []) =
     (case map_of own key of Some v \<Rightarrow> v | None \<Rightarrow> (case map_of general key of Some v \<Rightarrow> v | None \<Rightarrow> dflt))"
  using parse_config_look [OF parse_two_sections [where a = componentID, OF assms(1,2)] assms(3)]
  by (simp add: getString_def map_add_def split: option.split)

theorem own_section_first_witness:
  "getString ''Port'' ''0'' (parse_config (Some (\<lambda>sec kvs. if sec = ''C'' then ([(''Port'', ''1''), (''Port'', ''2'')], True)
     else ([(''Port'', ''3''), (''Ip'', ''x'')], True))) ''C'' []) = ''1''"
  by (subst own_section_first [where own = "[(''Port'', ''1''), (''Port'', ''2'')]"
        and general = "[(''Port'', ''3''), (''Ip'', ''x'')]"])
    (simp_all add: StringToLowerCase_def)

subsection \<open>The configuration server\<close>

lemma fold_put_nonempty:
  "smap_wf m \<Longrightarrow> smap_wf (fold (\<lambda>k m. (let value = f k in if value \<noteq> [] then smap_put k value m else m)) ks m) \<and>
   map_of (fold (\<lambda>k m. (let value = f k in if value \<noteq> [] then smap_put k value m else m)) ks m) key =
     (if key \<in> set ks \<and> f key \<noteq> [] then Some (f key) else map_of m key)"
  by (induction ks arbitrary: m) (auto simp: Let_def)

text \<open>C40. The configuration server answers with the value of the section \<open>general\<close> for every key that has
  one there, also when the component's own section has another value (only the keys that \<open>general\<close>
  does not have come from the component's section): specific parameters do not override general ones.\<close>

theorem config_server_prefers_general:
  assumes "yyparse ''general'' [] = (general, True)" and "yyparse componentID general = (own, True)"
    and "map_of general key = Some v" and "v \<noteq> ''''"
  shows "\<exists>ks vs. ConfigServer_request (Some yyparse) componentID = Some (ks, vs) \<and> map_of (zip ks vs) key = Some v"
proof -
  let ?h = "Some (table_of (general @ own))"
  let ?m = "fold (\<lambda>k m. (let value = GetString ?h k '''' in if value \<noteq> '''' then smap_put k value m else m)) (GetKeys ?h) []"
  have "key \<in> set (GetKeys ?h)" using map_of_SomeD [OF assms(3)] by (force simp: GetKeys_table)
  moreover have "GetString ?h key '''' = v" using assms(3) by (simp add: GetString_table)
  ultimately have m: "map_of ?m key = Some v"
    using fold_put_nonempty [of "[]" "\<lambda>k. GetString ?h k ''''" "GetKeys ?h" key] assms(4) by simp
  then have "?m \<noteq> []" by auto
  then show ?thesis
    using m parse_two_sections [OF assms(1,2)] by (simp add: ConfigServer_request_def Let_def zip_map_fst_snd)
qed

theorem config_server_prefers_general_witness:
  "\<exists>ks vs. ConfigServer_request (Some (\<lambda>sec kvs. if sec = ''general'' then ([(''Port'', ''1'')], True)
     else ([(''Port'', ''2'')], True))) ''C'' = Some (ks, vs) \<and> map_of (zip ks vs) ''Port'' = Some ''1''"
  by (rule config_server_prefers_general [where own = "[(''Port'', ''2'')]" and general = "[(''Port'', ''1'')]"])
    simp_all

text \<open>Two spellings of a key are two entries of the table, and the node's configuration keeps the one
  whose bucket comes last: a value of the section \<open>general\<close> can replace that of the component's own
  section.\<close>

theorem spelling_decides_precedence:
  "getString ''alpha'' '''' (parse_config (Some (\<lambda>sec kvs. if sec = ''C'' then ([(''alpha'', ''1'')], True)
     else ([(''Alpha'', ''2'')], True))) ''C'' []) = ''2''"
  by code_simp

end
