(* ===== verification/Node_Init.thy ===== *)
theory Node_Init
  imports Heartbeat MetricsManager Key_Value
begin

section \<open>The node: initialisation and destruction (\<open>GravityNode.cpp\<close>)\<close>

text \<open>
  \<open>init\<close> reads the configuration files, starts and configures the manager threads, finds the
  service directory (by its URL or by the broadcast of its domain), asks it for the domain, registers
  the node's own data products, asks the configuration server for the parameters that the files do
  not have, and starts the heartbeat.

  \<open>ni_state\<close> is the world of the node with what \<open>init\<close> does to the other threads: whether the
  service and subscription managers have got their configuration (they wait for the first one and do
  not read another), the subscription manager, the commands for the metrics manager and the
  heartbeat threads started. What the operating system and the network tell it is \<open>init_env\<close>: the
  files by name, the name lookup, the frames of the domain listener, the answers for the configuration
  service, the period of the heartbeat in microseconds (a rounded double) as a function of its text,
  and an environment for each registration. Loggers are not modelled, except that the pointer to the
  node's logger is null until they have been configured.
\<close>

record ni_state =
  ni_world :: gn_world
  ni_logInitialized :: bool
  ni_configured :: bool
  ni_subscriptions :: sm_state
  ni_metrics :: "mm_command list"
  ni_heartbeats :: "HBParams list"

record init_env =
  ie_files :: "string \<Rightarrow> yacc_parser option"
  ie_resolve :: "string \<Rightarrow> string"
  ie_rounds :: "string list option list"
  ie_config :: "string \<Rightarrow> GravityDataProductPB \<Rightarrow> unit \<Rightarrow> unit \<times> GravityDataProductPB"
  ie_config_net :: "net_outcome \<times> net_outcome"
  ie_config_request :: "string \<Rightarrow> string"
  ie_config_response :: "GravityDataProductPB \<Rightarrow> string list \<times> string list"
  ie_micros :: "string \<Rightarrow> int"
  ie_env :: node_env
  ie_settings_env :: node_env
  ie_metrics_env :: node_env
  ie_heartbeat_env :: node_env

definition DEFAULT_BROADCAST_PORT :: int where "DEFAULT_BROADCAST_PORT = 8276"
definition DEFAULT_BROADCAST_TIMEOUT_SEC :: int where "DEFAULT_BROADCAST_TIMEOUT_SEC = 10"

subsection \<open>Configuration files and managers\<close>

definition load_configuration :: "(string \<Rightarrow> yacc_parser option) \<Rightarrow> string \<Rightarrow> config" where
  "load_configuration files componentId =
     (let m = parse_config (files ''Gravity.ini'') componentId [];
          config_file_name = componentId @ ''.ini''
      in if IsValidFilename config_file_name then parse_config (files config_file_name) componentId m else m)"

text \<open>The managers are started; the publish manager is told the high-water mark and keep-alive values.\<close>

definition configure_publish_manager :: "node_env \<Rightarrow> gn_world \<Rightarrow> gn_world" where
  "configure_publish_manager env w =
     (let (publishHWM, n1) = getIntParam env ''PublishHWM'' 1000 (gw_node w);
          s1 = (if publishHWM < 0 then gw_pm w else (gw_pm w)\<lparr>publishHWM := publishHWM\<rparr>);
          (subscribeHWM, n2) = getIntParam env ''SubscribeHWM'' 1000 n1;
          n3 = (if subscribeHWM < 0 then n2 else n2\<lparr>to_subscriber := to_subscriber n2 @ [Sub_set_hwm subscribeHWM]\<rparr>);
          (keepAlive, n4) = getBoolParam env ''TcpKeepAliveEnabled'' False n3
      in if keepAlive
         then (let (t, n5) = getIntParam env ''TcpKeepAliveTime'' 7200 n4;
                   (p, n6) = getIntParam env ''TcpKeepAliveProbes'' 9 n5;
                   (i, n7) = getIntParam env ''TcpKeepAliveIntvl'' 75 n6
               in w\<lparr>gw_node := n7, gw_pm := s1\<lparr>tcpKeepAlive := Some (t, p, i)\<rparr>\<rparr>)
         else w\<lparr>gw_node := n4, gw_pm := s1\<rparr>)"

subsection \<open>Finding the service directory\<close>

text \<open>
  The URL and whether the wait for the broadcast timed out. On the first call (\<open>first\<close>) the domain
  listener is started and configured, which reads the port and the timeout.
\<close>

definition find_directory ::
  "bool \<Rightarrow> node_env \<Rightarrow> string list option list \<Rightarrow> gn_state \<Rightarrow> (string \<times> bool) \<times> gn_state" where
  "find_directory first env rounds n =
     (let (domain, n1) = getStringParam env ''Domain'' '''' n;
          (url, n2) = getStringParam env ''ServiceDirectoryURL'' '''' n1
      in if domain \<noteq> '''' \<and> componentID n \<noteq> ''ServiceDirectory'' \<and> url = ''''
         then (let n3 = (if first
                         then snd (getIntParam env ''ServiceDirectoryBroadcastTimeout'' DEFAULT_BROADCAST_TIMEOUT_SEC
                               (snd (getIntParam env ''ServiceDirectoryBroadcastPort'' DEFAULT_BROADCAST_PORT n2)))
                         else n2);
                   (timeout, n4) = getIntParam env ''ServiceDirectoryBroadcastTimeout'' DEFAULT_BROADCAST_TIMEOUT_SEC n3;
                   found = getDomainUrl timeout rounds
               in ((found, found = ''''), if first then n4\<lparr>listenerEnabled := True\<rparr> else n4))
         else ((url, False), n2))"

text \<open>The frames that configure the listener, and what it reads; \<open>node\<close> is the pointer to the node.\<close>

definition configureNodeDomainListener :: "string \<Rightarrow> int \<Rightarrow> int \<Rightarrow> string \<Rightarrow> u64 \<Rightarrow> frame list" where
  "configureNodeDomainListener domain port timeout compID node =
     [sendStringMessage ''configure'', sendStringMessage domain, sendIntMessage port, sendIntMessage timeout,
      sendStringMessage compID, sendUint64Message node]"

fun readDomainListenerParameters :: "frame list \<Rightarrow> (string \<times> u32 \<times> u32 \<times> string \<times> u64) option" where
  "readDomainListenerParameters (c # d # p # t # i # nd # fs) =
     (if readStringMessage c \<noteq> ''configure'' then None
      else (case (readUint32Message p, readUint32Message t, readUint64Message nd) of
              (Some port, Some timeout, Some node) \<Rightarrow>
                Some (readStringMessage d, port, timeout, readStringMessage i, node)
            | _ \<Rightarrow> None))"
| "readDomainListenerParameters _ = None"

definition getDomain :: "node_env \<Rightarrow> gn_world \<Rightarrow> GravityReturnCode \<times> gn_world" where
  "getDomain env w =
     (if componentID (gw_node w) \<noteq> ''ServiceDirectory''
      then (let (ret, resp, w1) = sendRequestToServiceDirectory GetDomain w
            in (ret, if ret = SUCCESS
                     then set_node (\<lambda>n. n\<lparr>myDomain := (case resp of Some (RespBytes b) \<Rightarrow> b | _ \<Rightarrow> '''')\<rparr>) w1
                     else w1))
      else (let (d, n1) = getStringParam env ''Domain'' '''' (gw_node w)
            in (SUCCESS, w\<lparr>gw_node := n1\<lparr>myDomain := d\<rparr>\<rparr>)))"

subsection \<open>The node's own data products\<close>

definition enable_settings :: "init_env \<Rightarrow> gn_world \<Rightarrow> gn_fail + unit \<times> gn_world" where
  "enable_settings ie w =
     (let (enabled, n1) = getBoolParam (ie_env ie) ''GravitySettingsPublishEnabled'' False (gw_node w);
          w1 = w\<lparr>gw_node := n1\<lparr>settingsPubEnabled := enabled\<rparr>\<rparr>
      in if enabled
         then then_do (registerDataProductInternal (ie_settings_env ie) GRAVITY_SETTINGS_DPID TCP False False False True w1)
                (\<lambda>ret w2. Inr ((), w2))
         else Inr ((), w1))"

definition enable_metrics :: "init_env \<Rightarrow> gn_world \<Rightarrow> gn_fail + mm_command list \<times> gn_world" where
  "enable_metrics ie w =
     (let env = ie_env ie;
          (enabled, n1) = getBoolParam env ''GravityMetricsEnabled'' False (gw_node w);
          w1 = w\<lparr>gw_node := n1\<lparr>metricsEnabled := enabled\<rparr>\<rparr>
      in if enabled
         then then_do (registerDataProductInternal (ie_metrics_env ie) METRICS_DATA_DPID TCP False False False True w1)
                (\<lambda>ret w2.
                  (let (period, n2) = getIntParam env ''GravityMetricsSamplePeriodSeconds'' 10 (gw_node w2);
                       (samples, n3) = getIntParam env ''GravityMetricsSamplesPerPublish'' 6 n2;
                       n4 = n3\<lparr>dataRegistrationTimeMap := smap_touch METRICS_DATA_DPID 0 (dataRegistrationTimeMap n3)\<rparr>
                   in Inr ([MM_enable period samples (componentID n3) (getIP (ne_os_ip env) n3)
                              (sint (smap_at 0 (dataRegistrationTimeMap n3) METRICS_DATA_DPID))],
                           w2\<lparr>gw_node := n4\<rparr>)))
         else Inr ([], w1))"

text \<open>\<open>ParseConfigService\<close> with the request it makes.\<close>

definition ask_config_server :: "init_env \<Rightarrow> gn_world \<Rightarrow> gn_world" where
  "ask_config_server ie w =
     (let (noServer, n1) = (if componentID (gw_node w) = ''ConfigServer'' then (True, gw_node w)
            else getBoolParam (ie_env ie) ''NoConfigServer'' False (gw_node w));
          w1 = w\<lparr>gw_node := n1\<rparr>
      in if noServer then w1
         else (let rq = setData_message (ie_config_request ie (componentID n1)) ''ConfigRequestPB''
                     (GravityDataProduct ''ConfigRequestPB'');
                   (resp, u, w2) = request_sync (ie_config ie) (fst (ie_config_net ie)) (snd (ie_config_net ie))
                     ''ConfigService'' rq '''' () w1
               in set_node (\<lambda>n. n\<lparr>gn_parser := map_option (ParseConfigService
                    (map_option (ie_config_response ie) resp)) (gn_parser n)\<rparr>) w2))"

subsection \<open>init\<close>

definition first_start :: "init_env \<Rightarrow> string \<Rightarrow> ni_state \<Rightarrow> (string \<times> bool) \<times> ni_state" where
  "first_start ie compID s =
     (let w0 = (ni_world s)\<lparr>gw_node := (gw_node (ni_world s))\<lparr>gn_parser := Some (load_configuration (ie_files ie) compID)\<rparr>,
            gw_pm := pm_init, gw_rm := rm_init\<rparr>;
          w1 = configure_publish_manager (ie_env ie) w0;
          (found, n1) = find_directory True (ie_env ie) (ie_rounds ie) (gw_node w1);
          (cache, n2) = getBoolParam (ie_env ie) ''CacheLastSentDataproduct'' True n1;
          (receive, n3) = getBoolParam (ie_env ie) ''ReceiveLastSentDataproduct'' True n2
      in (found, s\<lparr>ni_world := w1\<lparr>gw_node := n3\<lparr>defaultCacheLastSentDataprodut := cache,
             defaultReceiveLastSentDataproduct := receive, initialized := True\<rparr>\<rparr>, ni_logInitialized := True\<rparr>))"

definition configure_managers :: "init_env \<Rightarrow> ni_state \<Rightarrow> ni_state" where
  "configure_managers ie s =
     (let n = gw_node (ni_world s)
      in if ni_configured s then s
         else s\<lparr>ni_configured := True, ni_world := (ni_world s)\<lparr>gw_sv := sv_init (myDomain n) (componentID n)\<rparr>,
                ni_subscriptions := sm_init (componentID n) (getIP (ne_os_ip (ie_env ie)) n)\<rparr>)"

definition auto_heartbeat :: "init_env \<Rightarrow> ni_state \<Rightarrow> gn_fail + ni_state" where
  "auto_heartbeat ie s =
     (let (text, n1) = getStringParam (ie_env ie) ''GravityHeartbeatPeriodSecs'' ''-1.000000'' (gw_node (ni_world s));
          w1 = (ni_world s)\<lparr>gw_node := n1\<rparr>
      in if 0 < ie_micros ie text
         then (case startHeartbeat (ie_heartbeat_env ie) (ie_micros ie text) w1 of
                 Inl e \<Rightarrow> Inl e
               | Inr ((ret, params), w2) \<Rightarrow>
                   Inr (s\<lparr>ni_world := w2, ni_heartbeats := ni_heartbeats s @
                     (case params of None \<Rightarrow> [] | Some p \<Rightarrow> [p])\<rparr>))
         else Inr (s\<lparr>ni_world := w1\<rparr>))"

text \<open>What follows when the directory's URL is known.\<close>

definition join_directory :: "init_env \<Rightarrow> string \<Rightarrow> ni_state \<Rightarrow> gn_fail + GravityReturnCode \<times> ni_state" where
  "join_directory ie url s =
     (case updateServiceDirectoryUrl (ie_resolve ie) url (gw_node (ni_world s)) of
        None \<Rightarrow> Inl Crashed
      | Some n1 \<Rightarrow>
          (let (ret, w1) = getDomain (ie_env ie) ((ni_world s)\<lparr>gw_node := n1\<rparr>)
           in if ret \<noteq> SUCCESS then Inr (ret, s\<lparr>ni_world := w1\<rparr>)
              else (case (if componentID (gw_node w1) \<noteq> ''ServiceDirectory''
                          then then_do (enable_settings ie w1) (\<lambda>u w2. enable_metrics ie w2) else Inr ([], w1)) of
                      Inl e \<Rightarrow> Inl e
                    | Inr (cmds, w3) \<Rightarrow>
                        (case auto_heartbeat ie (configure_managers ie
                           (s\<lparr>ni_world := ask_config_server ie w3, ni_metrics := ni_metrics s @ cmds\<rparr>)) of
                           Inl e \<Rightarrow> Inl e
                         | Inr s4 \<Rightarrow> Inr (ret, s4)))))"

definition init :: "init_env \<Rightarrow> string \<Rightarrow> ni_state \<Rightarrow> gn_fail + GravityReturnCode \<times> ni_state" where
  "init ie compID s =
     (let s0 = s\<lparr>ni_world := set_node (\<lambda>n. n\<lparr>componentID := compID, gravityNode_ReservedDataProductIDs :=
            sset_insert (heartbeat_name compID) (gravityNode_ReservedDataProductIDs n)\<rparr>) (ni_world s)\<rparr>;
          ((url, domainTimeout), s1) =
            (if \<not> initialized (gw_node (ni_world s)) then first_start ie compID s0
             else (let (found, n1) = find_directory False (ie_env ie) (ie_rounds ie) (gw_node (ni_world s0))
                   in (found, s0\<lparr>ni_world := (ni_world s0)\<lparr>gw_node := n1\<rparr>\<rparr>)))
      in if domainTimeout then Inr (FAILURE, s1) else join_directory ie url s1)"

text \<open>
  \<open>init()\<close> without a component id. Without one in the file it reports the error through the node's
  logger, which only \<open>init\<close> with an id has configured: a null pointer the first time.
\<close>

definition init_default :: "init_env \<Rightarrow> ni_state \<Rightarrow> gn_fail + GravityReturnCode \<times> ni_state" where
  "init_default ie s =
     (let m = parse_config (ie_files ie ''Gravity.ini'') '''' [];
          s1 = s\<lparr>ni_world := set_node (\<lambda>n. n\<lparr>gn_parser := Some m\<rparr>) (ni_world s)\<rparr>;
          i = getString ''GravityComponentID'' '''' m
      in if i \<noteq> '''' then init ie i s1
         else if \<not> ni_logInitialized s then Inl Crashed
         else init ie ''GravityNode'' s1)"

subsection \<open>The destructor\<close>

text \<open>
  The threads that are told to end, in order; \<open>hbSocket\<close> is whether the node listens to heartbeats.
  The heartbeat is stopped last, when the socket to the publish manager has been closed: a request on
  it is undefined (\<open>Crashed\<close>).
\<close>

definition kill_messages :: "bool \<Rightarrow> gn_state \<Rightarrow> string list" where
  "kill_messages hbSocket n =
     (if listenerEnabled n then [''domain listener''] else []) @
     [''subscription manager'', ''request manager'', ''publish manager'', ''service manager'', ''metrics manager''] @
     (if hbSocket then [''heartbeat listener''] else [])"

definition destroy_node :: "bool \<Rightarrow> gn_world \<Rightarrow> gn_fail + string list \<times> gn_world" where
  "destroy_node hbSocket w =
     then_do (if metricsEnabled (gw_node w) then node_unregisterDataProduct METRICS_DATA_DPID w else Inr (SUCCESS, w))
       (\<lambda>ret w1. (let n = gw_node w1
                  in if heartbeatStarted n \<and> initialized n \<and> smap_has (publishMap n) (heartbeat_name (componentID n))
                     then Inl Crashed
                     else Inr (kill_messages hbSocket n, set_node (\<lambda>n. n\<lparr>heartbeatStarted := False\<rparr>) w1)))"

end
