(* ===== verification/Init_Correct.thy ===== *)
theory Init_Correct
  imports Node_Init Node_Types Node_Limits
begin

section \<open>Correctness of the initialisation\<close>

text \<open>
  A node that reports success has the component id it was given and the domain of its directory, and
  its service manager works with both. When the broadcast of the directory does not arrive in time
  \<open>init\<close> fails but can be called again. Parameters come from the component's own file first, then
  from \<open>Gravity.ini\<close>, then from the configuration server.
\<close>

subsection \<open>What the phases leave as it was\<close>

definition ident :: "gn_state \<Rightarrow> bool \<times> string \<times> string" where
  "ident n = (initialized n, componentID n, myDomain n)"

lemma ident_updates [simp]:
  "ident (n\<lparr>metricsEnabled := b\<rparr>) = ident n" "ident (n\<lparr>settingsPubEnabled := b\<rparr>) = ident n"
  "ident (n\<lparr>dataRegistrationTimeMap := m\<rparr>) = ident n" "ident (n\<lparr>gn_parser := c\<rparr>) = ident n"
  "ident (n\<lparr>heartbeatStarted := b\<rparr>) = ident n" "ident (n\<lparr>publishMap := pub\<rparr>) = ident n"
  "ident (n\<lparr>urlInstanceMap := um\<rparr>) = ident n"
  by (simp_all add: ident_def)

lemma ident_string [simp]: "ident (snd (getStringParam env key v n)) = ident n"
  using params_frame_string [OF surjective_pairing [of "getStringParam env key v n"]] by (simp add: params_frame_def ident_def)

lemma ident_int [simp]: "ident (snd (getIntParam env key v n)) = ident n"
  using params_frame_int [OF surjective_pairing [of "getIntParam env key v n"]] by (simp add: params_frame_def ident_def)

lemma ident_bool [simp]: "ident (snd (getBoolParam env key v n)) = ident n"
  by (simp add: getBoolParam_def split_def Let_def)

lemma ident_ports [simp]: "ident (snd (snd (port_range env n))) = ident n"
  by (simp add: port_range_def split_def Let_def)

lemma pm_call_node: "pm_call e w = Inr (r, w') \<Longrightarrow> gw_node w' = gw_node w \<and> gw_sv w' = gw_sv w"
  by (auto simp: pm_call_def split: option.splits if_splits)

lemma register_with_directory_sv: "gw_sv (snd (register_with_directory env i url rel lo w)) = gw_sv w"
  using announce_registration_frame [OF surjective_pairing]
  by (auto simp: register_with_directory_def Let_def)

lemma register_ident:
  assumes "registerDataProductInternal env i tr c rel lo ar w = Inr (ret, w')"
  shows "ident (gw_node w') = ident (gw_node w)" and "gw_sv w' = gw_sv w"
proof -
  have "ident (gw_node w') = ident (gw_node w) \<and> gw_sv w' = gw_sv w"
  proof (cases "initialized (gw_node w) \<and> \<not> reserved_id ar i (gw_node w) \<and> \<not> smap_has (publishMap (gw_node w)) i")
    case False
    then show ?thesis
      using assms by (auto simp: registerDataProductInternal_def Let_def split: if_splits)
  next
    case True
    obtain r n1 reply w2 w3 where r: "pm_registration_of env i tr c (gw_node w) = (r, n1)"
      and w2: "pm_call (PRegister r (ne_zmq_bind env) (Some (ne_socket env))) (w\<lparr>gw_node := n1\<rparr>) = Inr (reply, w2)"
      and w3: "register_with_directory env i (reply_text reply) rel lo w2 = (ret, w3)"
      and w': "finish_registration i (reply_text reply) (ne_now env) ret w3 = Inr (ret, w')"
      using register_steps [OF assms] True by metis
    have "ident (gw_node w') = ident (gw_node w3) \<and> gw_sv w' = gw_sv w3"
      using w' pm_call_node
      by (fastforce simp: finish_registration_def then_do_Inr set_node_def note_publisher_def split: if_splits)
    moreover have "ident n1 = ident (gw_node w)"
      using params_frame_registration [OF r] by (simp add: params_frame_def ident_def)
    ultimately show ?thesis
      using register_with_directory_frame [OF w3] pm_call_node [OF w2] register_with_directory_sv [of env i _ rel lo w2]
        w3 by (metis gn_world.select_convs(1,3) gn_world.surjective gn_world.update_convs(1) snd_conv)
  qed
  then show "ident (gw_node w') = ident (gw_node w)" and "gw_sv w' = gw_sv w" by simp_all
qed

lemma enable_settings_ident: "enable_settings ie w = Inr (u, w') \<Longrightarrow> ident (gw_node w') = ident (gw_node w)"
  by (auto simp: enable_settings_def split_def Let_def then_do_Inr split: if_splits dest!: register_ident(1))

lemma enable_metrics_ident: "enable_metrics ie w = Inr (cmds, w') \<Longrightarrow> ident (gw_node w') = ident (gw_node w)"
  by (auto simp: enable_metrics_def split_def Let_def then_do_Inr split: if_splits dest!: register_ident(1))

lemma service_lookup_node: "gw_node (snd (ServiceDirectoryServiceLookup i d w)) = gw_node w"
  by (simp add: ServiceDirectoryServiceLookup_def sendRequestToServiceDirectory_def split_def Let_def)

lemma request_sync_node: "gw_node (snd (snd (request_sync ask a b i p d q w))) = gw_node w"
  using service_lookup_node [of i d w]
  by (auto simp: request_sync_def Let_def split: prod.splits sum.splits option.splits)

lemma ask_config_server_ident: "ident (gw_node (ask_config_server ie w)) = ident (gw_node w)"
  by (simp add: ask_config_server_def split_def Let_def set_node_def request_sync_node)

lemma startHeartbeat_ident:
  assumes "startHeartbeat env t w = Inr (r, w')"
  shows "ident (gw_node w') = ident (gw_node w)" and "gw_sv w' = gw_sv w"
  using assms register_ident
  by (auto simp: startHeartbeat_def split_def Let_def then_do_Inr split: if_splits)

lemma auto_heartbeat_ident:
  assumes "auto_heartbeat ie s = Inr s'"
  shows "ident (gw_node (ni_world s')) = ident (gw_node (ni_world s)) \<and> ni_configured s' = ni_configured s \<and>
     gw_sv (ni_world s') = gw_sv (ni_world s)"
  using assms startHeartbeat_ident
  by (fastforce simp: auto_heartbeat_def split_def Let_def split: if_splits sum.splits)

subsection \<open>Joining the directory\<close>

interpretation domain_request: repeatable_request serve_request GetDomain "\<lambda>d. sd_domain d = D" for D
  by unfold_locales (simp add: fst_serve_request)

lemma getDomain_success:
  assumes "getDomain env w = (SUCCESS, w')" and "componentID (gw_node w) \<noteq> ''ServiceDirectory''"
  shows "gw_node w' = (gw_node w)\<lparr>myDomain := sd_domain (gw_dir w)\<rparr>"
proof -
  obtain ret resp net d where send: "sendRequestsToServiceProvider serve_request GetDomain NETWORK_RETRIES
      (gw_net w) (gw_dir w) = (ret, resp, net, d)"
    using prod_cases4 by blast
  then have ret: "ret = SUCCESS"
    using assms by (simp add: getDomain_def sendRequestToServiceDirectory_def)
  obtain d0 r where "sd_domain d0 = sd_domain (gw_dir w)" "serve_request GetDomain d0 = (d, r)" "resp = Some r"
    using domain_request.send_many(2) [OF refl send ret] by blast
  then have "resp = Some (RespBytes (sd_domain (gw_dir w)))"
    using snd_serve_request [of GetDomain d0] by simp
  then show ?thesis
    using assms send ret by (auto simp: getDomain_def sendRequestToServiceDirectory_def set_node_def)
qed

lemma join_directory_success:
  assumes "join_directory ie url s = Inr (SUCCESS, s')"
    and "componentID (gw_node (ni_world s)) \<noteq> ''ServiceDirectory''"
  shows "ident (gw_node (ni_world s')) = (initialized (gw_node (ni_world s)), componentID (gw_node (ni_world s)),
       sd_domain (gw_dir (ni_world s))) \<and> ni_configured s' \<and>
     (\<not> ni_configured s \<longrightarrow> sv_domain (gw_sv (ni_world s')) = sd_domain (gw_dir (ni_world s)) \<and>
        sv_componentID (gw_sv (ni_world s')) = componentID (gw_node (ni_world s)))"
proof -
  let ?n = "gw_node (ni_world s)" and ?D = "sd_domain (gw_dir (ni_world s))"
  obtain n1 where n1: "updateServiceDirectoryUrl (ie_resolve ie) url ?n = Some n1"
    using assms(1) by (auto simp: join_directory_def split: option.splits)
  have n1_id: "ident n1 = ident ?n"
    using n1 by (auto simp: updateServiceDirectoryUrl_def ident_def split: option.splits)
  let ?w = "(ni_world s)\<lparr>gw_node := n1\<rparr>"
  obtain ret w1 where w1: "getDomain (ie_env ie) ?w = (ret, w1)" by fastforce
  then have ret: "ret = SUCCESS"
    using assms(1) n1
    by (auto simp: join_directory_def split: if_splits sum.splits prod.splits)
  have "componentID (gw_node ?w) \<noteq> ''ServiceDirectory''" using assms(2) n1_id by (simp add: ident_def)
  then have w1_id: "ident (gw_node w1) = (initialized ?n, componentID ?n, ?D)"
    using getDomain_success [OF w1 [unfolded ret]] n1_id by (simp add: ident_def)
  then have "componentID (gw_node w1) \<noteq> ''ServiceDirectory''" using assms(2) by (simp add: ident_def)
  then obtain cmds w3 where w3: "then_do (enable_settings ie w1) (\<lambda>u w2. enable_metrics ie w2) = Inr (cmds, w3)"
    and hb: "auto_heartbeat ie (configure_managers ie
       (s\<lparr>ni_world := ask_config_server ie w3, ni_metrics := ni_metrics s @ cmds\<rparr>)) = Inr s'"
    using assms(1) n1 w1 ret
    by (auto simp: join_directory_def split: sum.splits)
  let ?s = "s\<lparr>ni_world := ask_config_server ie w3, ni_metrics := ni_metrics s @ cmds\<rparr>"
  have "ident (gw_node w3) = ident (gw_node w1)"
    using w3 enable_settings_ident enable_metrics_ident by (fastforce simp: then_do_Inr)
  then have id: "ident (gw_node (ni_world ?s)) = (initialized ?n, componentID ?n, ?D)"
    using w1_id ask_config_server_ident [of ie w3] by simp
  moreover have "ident (gw_node (ni_world (configure_managers ie ?s))) = ident (gw_node (ni_world ?s))"
    "ni_configured (configure_managers ie ?s)"
    by (simp_all add: configure_managers_def Let_def ident_def)
  moreover have "\<not> ni_configured s \<Longrightarrow> gw_sv (ni_world (configure_managers ie ?s)) = sv_init ?D (componentID ?n)"
    using id by (simp add: configure_managers_def Let_def ident_def)
  ultimately show ?thesis using auto_heartbeat_ident [OF hb] by (simp add: sv_init_def)
qed

lemma configure_publish_manager_ident:
  "ident (gw_node (configure_publish_manager env w)) = ident (gw_node w)"
  "gw_dir (configure_publish_manager env w) = gw_dir w"
proof -
  have sub: "ident (n\<lparr>to_subscriber := q\<rparr>) = ident n" for n q by (simp add: ident_def)
  show "ident (gw_node (configure_publish_manager env w)) = ident (gw_node w)"
    "gw_dir (configure_publish_manager env w) = gw_dir w"
    by (simp_all add: configure_publish_manager_def split_def Let_def sub)
qed

lemma find_directory_ident: "ident (snd (find_directory first env rounds n)) = ident n"
proof -
  have "ident (n\<lparr>listenerEnabled := b\<rparr>) = ident n" for n b by (simp add: ident_def)
  then show ?thesis by (simp add: find_directory_def split_def Let_def)
qed

lemma first_start_ident:
  "first_start ie compID s = (found, s1) \<Longrightarrow>
     initialized (gw_node (ni_world s1)) \<and> componentID (gw_node (ni_world s1)) = componentID (gw_node (ni_world s)) \<and>
     gw_dir (ni_world s1) = gw_dir (ni_world s) \<and> ni_configured s1 = ni_configured s"
proof -
  let ?w = "(ni_world s)\<lparr>gw_node := (gw_node (ni_world s))\<lparr>gn_parser := Some (load_configuration (ie_files ie) compID)\<rparr>,
      gw_pm := pm_init, gw_rm := rm_init\<rparr>"
  let ?w1 = "configure_publish_manager (ie_env ie) ?w"
  let ?n1 = "snd (find_directory True (ie_env ie) (ie_rounds ie) (gw_node ?w1))"
  let ?n2 = "snd (getBoolParam (ie_env ie) ''CacheLastSentDataproduct'' True ?n1)"
  have "ident (snd (getBoolParam (ie_env ie) ''ReceiveLastSentDataproduct'' True ?n2)) = ident (gw_node (ni_world s))"
    using find_directory_ident [of True] configure_publish_manager_ident(1) [of "ie_env ie" ?w] by simp
  moreover assume "first_start ie compID s = (found, s1)"
  ultimately show ?thesis
    using configure_publish_manager_ident(2) [of "ie_env ie" ?w]
    by (auto simp: first_start_def split_def Let_def ident_def)
qed

text \<open>C10. When \<open>init\<close> reports success for a component other than the directory, the node is
  initialised, has the component id it was given and the domain of the directory it asked, whatever
  the network did to the first attempts, and its service manager has been configured with both.\<close>

theorem init_joins_directory:
  assumes "init ie compID s = Inr (SUCCESS, s')" and "compID \<noteq> ''ServiceDirectory''"
  shows "initialized (gw_node (ni_world s')) \<and> componentID (gw_node (ni_world s')) = compID \<and>
     myDomain (gw_node (ni_world s')) = sd_domain (gw_dir (ni_world s)) \<and> ni_configured s' \<and>
     (\<not> ni_configured s \<longrightarrow> sv_domain (gw_sv (ni_world s')) = sd_domain (gw_dir (ni_world s)) \<and>
        sv_componentID (gw_sv (ni_world s')) = compID)"
proof -
  let ?s0 = "s\<lparr>ni_world := set_node (\<lambda>n. n\<lparr>componentID := compID, gravityNode_ReservedDataProductIDs :=
        sset_insert (heartbeat_name compID) (gravityNode_ReservedDataProductIDs n)\<rparr>) (ni_world s)\<rparr>"
  obtain url s1 where s1: "join_directory ie url s1 = Inr (SUCCESS, s')" "initialized (gw_node (ni_world s1))"
      "componentID (gw_node (ni_world s1)) = compID" "gw_dir (ni_world s1) = gw_dir (ni_world s)"
      "ni_configured s1 = ni_configured s"
  proof (cases "initialized (gw_node (ni_world s))")
    case True
    then show thesis
      using assms(1) that find_directory_ident [of False "ie_env ie" "ie_rounds ie" "gw_node (ni_world ?s0)"]
      by (auto simp: init_def Let_def ident_def set_node_def split: prod.splits if_splits)
  next
    case False
    obtain url t s1 where f: "first_start ie compID ?s0 = ((url, t), s1)" using prod_cases3 by (metis surj_pair)
    then have "join_directory ie url s1 = Inr (SUCCESS, s')"
      using assms(1) False by (auto simp: init_def Let_def split: if_splits)
    then show thesis using that first_start_ident [OF f] by (simp add: set_node_def)
  qed
  then show ?thesis using join_directory_success [OF s1(1)] assms(2) by (simp add: ident_def)
qed

subsection \<open>Parameters while settings are not published\<close>

definition param :: "gn_state \<Rightarrow> string \<Rightarrow> string \<Rightarrow> string" where
  "param n key v = (case gn_parser n of None \<Rightarrow> v | Some m \<Rightarrow> getString key v m)"

lemma quiet_string [simp]: "\<not> settingsPubEnabled n \<Longrightarrow> getStringParam env key v n = (param n key v, n)"
  by (auto simp: getStringParam_def param_def hasKey_def getString_def smap_has_def split: option.splits)

lemma quiet_int [simp]:
  "\<not> settingsPubEnabled n \<Longrightarrow> getIntParam env key v n = (StringToInt (param n key (show_int v)) v, n)"
  by (simp add: getIntParam_def)

definition truth :: "string \<Rightarrow> bool" where
  "truth v \<longleftrightarrow> StringToLowerCase v \<in> {''true'', ''t'', ''yes'', ''y''}"

lemma quiet_bool [simp]:
  "\<not> settingsPubEnabled n \<Longrightarrow>
     getBoolParam env key v n = (truth (param n key (if v then ''true'' else ''false'')), n)"
  by (simp add: getBoolParam_def truth_def Let_def)

subsection \<open>Waiting for the directory's broadcast\<close>

definition broadcast_timeout :: "gn_state \<Rightarrow> int" where
  "broadcast_timeout n =
     StringToInt (param n ''ServiceDirectoryBroadcastTimeout'' (show_int DEFAULT_BROADCAST_TIMEOUT_SEC))
       DEFAULT_BROADCAST_TIMEOUT_SEC"

definition uses_domain :: "gn_state \<Rightarrow> bool" where
  "uses_domain n \<longleftrightarrow> param n ''Domain'' '''' \<noteq> '''' \<and> param n ''ServiceDirectoryURL'' '''' = ''''"

lemma find_directory_domain:
  assumes "\<not> settingsPubEnabled n" and "uses_domain n" and "componentID n \<noteq> ''ServiceDirectory''"
  shows "find_directory first env rounds n =
     ((getDomainUrl (broadcast_timeout n) rounds, getDomainUrl (broadcast_timeout n) rounds = ''''),
      if first then n\<lparr>listenerEnabled := True\<rparr> else n)"
  using assms by (simp add: find_directory_def uses_domain_def broadcast_timeout_def Let_def)

lemma configure_publish_manager_quiet:
  assumes "\<not> settingsPubEnabled (gw_node w)"
  shows "\<exists>q. gw_node (configure_publish_manager env w) = (gw_node w)\<lparr>to_subscriber := q\<rparr>"
proof -
  let ?n = "gw_node w"
  let ?h = "StringToInt (param ?n ''SubscribeHWM'' (show_int 1000)) 1000"
  have "\<not> settingsPubEnabled (?n\<lparr>to_subscriber := q\<rparr>)" for q using assms by simp
  then show ?thesis
    using assms
    by (intro exI [of _ "if ?h < 0 then to_subscriber ?n else to_subscriber ?n @ [Sub_set_hwm ?h]"])
      (simp add: configure_publish_manager_def split_def Let_def)
qed

lemma sset_insert_idem: "sset_insert k (sset_insert k xs) = sset_insert k xs"
  by (induction xs) auto

lemma params_of_update [simp]:
  "param (n\<lparr>to_subscriber := q\<rparr>) = param n" "param (n\<lparr>listenerEnabled := b\<rparr>) = param n"
  "param (n\<lparr>defaultCacheLastSentDataprodut := b\<rparr>) = param n"
  "param (n\<lparr>defaultReceiveLastSentDataproduct := b\<rparr>) = param n" "param (n\<lparr>initialized := b\<rparr>) = param n"
  "param (n\<lparr>componentID := i\<rparr>) = param n" "param (n\<lparr>gravityNode_ReservedDataProductIDs := r\<rparr>) = param n"
  by (simp_all add: param_def fun_eq_iff)

lemma init_again:
  assumes "n = gw_node (ni_world s)" and "initialized n" and "\<not> settingsPubEnabled n" and "uses_domain n"
    and "componentID n = compID" and "compID \<noteq> ''ServiceDirectory''"
    and "gravityNode_ReservedDataProductIDs n = sset_insert (heartbeat_name compID) r"
    and "getDomainUrl (broadcast_timeout n) (ie_rounds ie) = url" and "url \<noteq> ''''"
  shows "init ie compID s = join_directory ie url s"
proof -
  have "n\<lparr>componentID := compID, gravityNode_ReservedDataProductIDs :=
      sset_insert (heartbeat_name compID) (gravityNode_ReservedDataProductIDs n)\<rparr> = n"
    using assms(5,7) by (simp add: sset_insert_idem)
  then have "set_node (\<lambda>n. n\<lparr>componentID := compID, gravityNode_ReservedDataProductIDs :=
      sset_insert (heartbeat_name compID) (gravityNode_ReservedDataProductIDs n)\<rparr>) (ni_world s) = ni_world s"
    by (simp add: set_node_def assms(1))
  moreover have "find_directory False (ie_env ie) (ie_rounds ie) (gw_node (ni_world s)) = ((url, False), n)"
    using find_directory_domain [of n False "ie_env ie" "ie_rounds ie"] assms by auto
  ultimately show ?thesis using assms(1,2) by (simp add: init_def)
qed


definition sample_ie :: "(string \<Rightarrow> yacc_parser option) \<Rightarrow> string list option list \<Rightarrow> init_env" where
  "sample_ie files rounds = \<lparr>ie_files = files, ie_resolve = (\<lambda>h. h), ie_rounds = rounds,
     ie_config = (\<lambda>u p x. ((), p)), ie_config_net = (Net_lost, Net_lost), ie_config_request = (\<lambda>c. c),
     ie_config_response = (\<lambda>p. ([], [])), ie_micros = (\<lambda>_. -1), ie_env = sample_env 5,
     ie_settings_env = sample_env 5, ie_metrics_env = sample_env 5, ie_heartbeat_env = sample_env 5\<rparr>"

definition sample_ni :: "net_outcome list \<Rightarrow> ni_state" where
  "sample_ni net = \<lparr>ni_world = (sample_world net)\<lparr>gw_node := GravityNode_default\<rparr>, ni_logInitialized = False,
     ni_configured = False, ni_subscriptions = sm_init '''' '''', ni_metrics = [], ni_heartbeats = []\<rparr>"

lemma no_files: "load_configuration (\<lambda>_. None) c = []"
  by (simp add: load_configuration_def parse_config_def keyvalue_parse_params_def GetKeys_def keyvalue_getkeys_def
      ParseConfigFile_def Let_def)

lemma default_node:
  "initialized GravityNode_default = False" "settingsPubEnabled GravityNode_default = False"
  "componentID GravityNode_default = ''''"
  by (simp_all add: GravityNode_default_def blank_node_def)

lemma truth_simps [simp]: "truth ''true''" "\<not> truth ''false''"
  by code_simp+

lemma empty_url: "parse_directory_url resolve '''' =
    Some \<lparr>loc_transport = ''tcp'', loc_ipAddress = ''localhost'', loc_port = word_of_int (StringToInt '''' 5555)\<rparr>"
  by (simp add: parse_directory_url_def find_first_of_def substr_to_def)

text \<open>A node without configuration files, which finds its directory at the default address.\<close>

definition unconfigured :: "gn_state \<Rightarrow> bool" where
  "unconfigured n \<longleftrightarrow> \<not> settingsPubEnabled n \<and> gn_parser n = Some [] \<and> componentID n = ''C''"

lemma unconfigured_param: "unconfigured n \<Longrightarrow> param n key v = v"
  by (simp add: unconfigured_def param_def getString_def)

lemma unconfigured_updates [simp]:
  "unconfigured (n\<lparr>to_subscriber := q\<rparr>) = unconfigured n" "unconfigured (n\<lparr>initialized := b\<rparr>) = unconfigured n"
  "unconfigured (n\<lparr>myDomain := d\<rparr>) = unconfigured n"
  "unconfigured (n\<lparr>settingsPubEnabled := False\<rparr>) = (gn_parser n = Some [] \<and> componentID n = ''C'')"
  "unconfigured (n\<lparr>metricsEnabled := b\<rparr>) = unconfigured n" "unconfigured (n\<lparr>to_requester := rq\<rparr>) = unconfigured n"
  "unconfigured (n\<lparr>sdn_transport := x\<rparr>) = unconfigured n" "unconfigured (n\<lparr>sdn_ipAddress := x\<rparr>) = unconfigured n"
  "unconfigured (n\<lparr>sdn_port := p\<rparr>) = unconfigured n"
  "unconfigured (n\<lparr>defaultCacheLastSentDataprodut := b\<rparr>) = unconfigured n"
  "unconfigured (n\<lparr>defaultReceiveLastSentDataproduct := b\<rparr>) = unconfigured n"
  by (simp_all add: unconfigured_def)

lemma unconfigured_reads [simp]:
  assumes "unconfigured n"
  shows "getStringParam env key t n = (t, n)" and "getIntParam env key v n = (StringToInt (show_int v) v, n)"
    and "getBoolParam env key b n = (b, n)"
  using assms unconfigured_param [OF assms] by (simp_all add: unconfigured_def)

lemma sample_configure:
  assumes "unconfigured (gw_node w)"
  shows "\<exists>n s. configure_publish_manager env w = w\<lparr>gw_node := n, gw_pm := s\<rparr> \<and> unconfigured n"
proof -
  have "StringToInt (show_int 1000) 1000 = 1000" by (simp add: StringToInt_show_int)
  then show ?thesis
    using assms
    by (intro exI [of _ "(gw_node w)\<lparr>to_subscriber := to_subscriber (gw_node w) @ [Sub_set_hwm 1000]\<rparr>"]
        exI [of _ "(gw_pm w)\<lparr>publishHWM := 1000\<rparr>"]) (simp add: configure_publish_manager_def)
qed

lemma sample_first_start:
  assumes "\<not> settingsPubEnabled (gw_node (ni_world t))" and "componentID (gw_node (ni_world t)) = ''C''"
  shows "\<exists>s1. first_start (sample_ie (\<lambda>_. None) []) ''C'' t = (('''', False), s1) \<and> unconfigured (gw_node (ni_world s1)) \<and>
     initialized (gw_node (ni_world s1)) \<and> gw_net (ni_world s1) = gw_net (ni_world t)"
proof -
  let ?w = "(ni_world t)\<lparr>gw_node := (gw_node (ni_world t))\<lparr>gn_parser := Some []\<rparr>, gw_pm := pm_init, gw_rm := rm_init\<rparr>"
  have "unconfigured (gw_node ?w)" using assms by (simp add: unconfigured_def)
  then obtain n s where "configure_publish_manager (sample_env 5) ?w = ?w\<lparr>gw_node := n, gw_pm := s\<rparr>" "unconfigured n"
    using sample_configure by blast
  then show ?thesis
    by (simp add: first_start_def sample_ie_def no_files find_directory_def)
qed

lemma sample_join:
  assumes "unconfigured (gw_node (ni_world s))" and "initialized (gw_node (ni_world s))"
    and "gw_net (ni_world s) = [Net_lost, Net_ok]"
  shows "\<exists>s'. join_directory (sample_ie (\<lambda>_. None) []) '''' s = Inr (SUCCESS, s')"
proof -
  have comp: "componentID (gw_node (ni_world s)) = ''C''" using assms(1) by (simp add: unconfigured_def)
  obtain n1 where n1: "updateServiceDirectoryUrl (\<lambda>h. h) '''' (gw_node (ni_world s)) = Some n1"
      "unconfigured n1" "initialized n1"
    using assms(1,2) by (simp add: updateServiceDirectoryUrl_def empty_url)
  let ?w = "(ni_world s)\<lparr>gw_node := n1\<rparr>"
  have "\<exists>r d. sendRequestToServiceDirectory GetDomain ?w = (SUCCESS, Some r, ?w\<lparr>gw_net := [], gw_dir := d\<rparr>)"
    using assms(3)
    by (simp add: sendRequestToServiceDirectory_def sendRequestsToServiceProvider_def NETWORK_RETRIES_def
        numeral_3_eq_3 sendRequestToServiceProvider_def split_def Let_def) (rule exI, rule refl)
  then obtain D d where w1: "getDomain (sample_env 5) ?w = (SUCCESS, ?w\<lparr>gw_net := [], gw_dir := d,
      gw_node := n1\<lparr>myDomain := D\<rparr>\<rparr>)"
    using n1(2) by (auto simp: getDomain_def unconfigured_def set_node_def)
  let ?n = "n1\<lparr>myDomain := D, settingsPubEnabled := False, metricsEnabled := False\<rparr>"
  let ?w1 = "?w\<lparr>gw_net := [], gw_dir := d, gw_node := ?n\<rparr>"
  have n: "unconfigured ?n" "unconfigured (n1\<lparr>myDomain := D, settingsPubEnabled := False\<rparr>)" "componentID n1 = ''C''"
    using n1(2) by (simp_all add: unconfigured_def)
  have own: "then_do (enable_settings (sample_ie (\<lambda>_. None) []) (?w\<lparr>gw_net := [], gw_dir := d, gw_node := n1\<lparr>myDomain := D\<rparr>\<rparr>))
      (\<lambda>u w2. enable_metrics (sample_ie (\<lambda>_. None) []) w2) = Inr ([], ?w1)"
    using n1(2) n
    by (simp add: enable_settings_def enable_metrics_def sample_ie_def Let_def del: quiet_string quiet_int quiet_bool)
  have "\<not> settingsPubEnabled (gw_node (ask_config_server (sample_ie (\<lambda>_. None) []) ?w1))"
    using n by (simp add: ask_config_server_def sample_ie_def set_node_def request_sync_node split_def Let_def
        unconfigured_def)
  then have "\<exists>s4. auto_heartbeat (sample_ie (\<lambda>_. None) []) (configure_managers (sample_ie (\<lambda>_. None) [])
      (s\<lparr>ni_world := ask_config_server (sample_ie (\<lambda>_. None) []) ?w1, ni_metrics := ni_metrics s @ []\<rparr>)) = Inr s4"
    by (simp add: auto_heartbeat_def configure_managers_def sample_ie_def Let_def)
  then show ?thesis
    using n1(1) w1 own n(3)
    by (auto simp: join_directory_def) (simp_all add: sample_ie_def)
qed

theorem init_joins_directory_witness:
  "\<exists>s'. init (sample_ie (\<lambda>_. None) []) ''C'' (sample_ni [Net_lost, Net_ok]) = Inr (SUCCESS, s') \<and>
     myDomain (gw_node (ni_world s')) = ''D''"
proof -
  let ?ie = "sample_ie (\<lambda>_. None) []" and ?s = "sample_ni [Net_lost, Net_ok]"
  let ?t = "?s\<lparr>ni_world := set_node (\<lambda>n. n\<lparr>componentID := ''C'', gravityNode_ReservedDataProductIDs :=
            sset_insert (heartbeat_name ''C'') (gravityNode_ReservedDataProductIDs n)\<rparr>) (ni_world ?s)\<rparr>"
  have node: "gw_node (ni_world ?s) = GravityNode_default" by (simp add: sample_ni_def)
  obtain s1 where s1: "first_start ?ie ''C'' ?t = (('''', False), s1)" "unconfigured (gw_node (ni_world s1))"
      "initialized (gw_node (ni_world s1))" "gw_net (ni_world s1) = [Net_lost, Net_ok]"
    using sample_first_start [of ?t] node default_node by (auto simp: set_node_def sample_ni_def sample_world_def)
  obtain s' where s': "join_directory ?ie '''' s1 = Inr (SUCCESS, s')" using sample_join [OF s1(2-4)] by blast
  have "init ?ie ''C'' ?s = Inr (SUCCESS, s')"
    using s1(1) s' node default_node by (simp add: init_def)
  moreover from init_joins_directory [OF this] have "myDomain (gw_node (ni_world s')) = ''D''"
    by (simp add: sample_ni_def sample_world_def)
  ultimately show ?thesis by blast
qed

lemma no_broadcast: "domain_url_loop n [] [] = []"
  by (induction n) simp_all

definition sample_file :: yacc_parser where
  "sample_file sec kvs = ([(''Domain'', ''D'')], True)"

lemma sample_file_look:
  assumes "StringToLowerCase key = StringToLowerCase ''Domain'' \<longrightarrow> key = ''Domain''"
  shows "map_of (parse_config (Some sample_file) c m) (StringToLowerCase key) =
     (if key = ''Domain'' then Some ''D'' else map_of m (StringToLowerCase key))"
proof -
  have "keyvalue_parse_params (Some sample_file) [c, ''general''] = Some (table_of [(''Domain'', ''D''), (''Domain'', ''D'')])"
    using parse_two_sections [of sample_file c "[(''Domain'', ''D'')]" "''general''" "[(''Domain'', ''D'')]"]
    by (simp add: sample_file_def)
  from parse_config_look [OF this, of key m] assms show ?thesis by auto
qed

lemma sample_file_param:
  assumes "StringToLowerCase key = StringToLowerCase ''Domain'' \<longrightarrow> key = ''Domain''"
  shows "param (n\<lparr>gn_parser := Some (load_configuration (\<lambda>_. Some sample_file) c)\<rparr>) key v =
     (if key = ''Domain'' then ''D'' else v)"
  using sample_file_look [OF assms]
  by (cases "key = ''Domain''") (simp_all add: param_def load_configuration_def getString_def Let_def)


text \<open>\<open>init()\<close> without a component id in \<open>Gravity.ini\<close> ends the process: it reports the missing id
  through a logger that has not been created yet.\<close>

theorem init_without_id_crashes:
  assumes "getString ''GravityComponentID'' '''' (parse_config (ie_files ie ''Gravity.ini'') '''' []) = ''''"
    and "\<not> ni_logInitialized s"
  shows "init_default ie s = Inl Crashed"
  using assms by (simp add: init_default_def)

theorem init_without_id_crashes_witness: "init_default (sample_ie (\<lambda>_. None) []) (sample_ni []) = Inl Crashed"
  by (rule init_without_id_crashes)
    (simp_all add: sample_ie_def sample_ni_def parse_config_def keyvalue_parse_params_def GetKeys_def keyvalue_getkeys_def
      ParseConfigFile_def getString_def Let_def)

subsection \<open>Precedence of parameters\<close>

definition one_spelling :: "string \<Rightarrow> kv_pairs \<Rightarrow> bool" where
  "one_spelling key kvs \<longleftrightarrow> (\<forall>k\<in>fst ` set kvs. StringToLowerCase k = StringToLowerCase key \<longrightarrow> k = key)"

text \<open>The first of several sources that has a value.\<close>

fun first_value :: "string option list \<Rightarrow> string \<Rightarrow> string" where
  "first_value [] dflt = dflt"
| "first_value (None # vs) dflt = first_value vs dflt"
| "first_value (Some v # vs) dflt = v"

text \<open>C26. Where a node gets a parameter from: first the component's own file (its own section before
  \<open>general\<close>), then \<open>Gravity.ini\<close> in the same way, then the configuration server, then the default of
  the call; within a section the first entry counts. (For a key that the files spell in one way, and
  a component id that makes a valid file name.)\<close>

theorem parameter_precedence:
  assumes "files ''Gravity.ini'' = Some common" and "files (c @ ''.ini'') = Some private" and "IsValidFilename (c @ ''.ini'')"
    and "common c [] = (a, True)" and "common ''general'' a = (b, True)" and "one_spelling key (a @ b)"
    and "private c [] = (a', True)" and "private ''general'' a' = (b', True)" and "one_spelling key (a' @ b')"
  shows "getString key dflt (ParseConfigService (Some (ks, vs)) (load_configuration files c)) =
     first_value [map_of a' key, map_of b' key, map_of a key, map_of b key,
       map_option snd (find (\<lambda>(k, v). StringToLowerCase k = StringToLowerCase key) (zip ks vs))] dflt"
proof -
  have "map_of (load_configuration files c) (StringToLowerCase key) =
      (case map_of (a' @ b') key of None \<Rightarrow> map_of (a @ b) key | Some v \<Rightarrow> Some v)"
    using parse_config_look [OF parse_two_sections [OF assms(4,5)], of key "[]"]
      parse_config_look [OF parse_two_sections [OF assms(7,8)], of key] assms(1-3,6,9)
    by (auto simp: load_configuration_def one_spelling_def map_add_def split: option.splits)
  then show ?thesis
    by (auto simp: getString_def ParseConfigService_def ParseConfigService_look map_add_def split: option.split)
qed

theorem parameter_precedence_witness:
  "getString ''Port'' ''0'' (ParseConfigService (Some ([''port''], [''9''])) (load_configuration
     (\<lambda>f. if f = ''Gravity.ini'' then Some (\<lambda>sec kvs. ([(''Port'', ''1'')], True)) else Some (\<lambda>sec kvs. ([], True))) ''C'')) = ''1''"
proof -
  have "IsValidFilename (''C'' @ ''.ini'')" by code_simp
  from parameter_precedence [of "\<lambda>f. if f = ''Gravity.ini'' then Some (\<lambda>sec kvs. ([(''Port'', ''1'')], True)) else Some (\<lambda>sec kvs. ([], True))"
      "\<lambda>sec kvs. ([(''Port'', ''1'')], True)" "''C''" "\<lambda>sec kvs. ([], True)" "[(''Port'', ''1'')]" "[(''Port'', ''1'')]"
      "''Port''" "[]" "[]" "''0''" "[''port'']" "[''9'']"] this
  show ?thesis by (simp add: one_spelling_def)
qed

subsection \<open>The domain listener and the destructor\<close>

text \<open>The listener reads the parameters that the node sends, port and timeout as unsigned numbers.\<close>

lemma listener_parameters_arrive:
  "readDomainListenerParameters (configureNodeDomainListener d p t i nd) =
     Some (d, word_of_int p, word_of_int t, i, nd)"
  by (simp add: configureNodeDomainListener_def read_send_string read_send_uint64 sendIntMessage_def read_send_uint32)

text \<open>Destroying a node while its heartbeat is registered uses a socket after it was closed.\<close>

lemma destroy_with_heartbeat:
  "\<not> metricsEnabled (gw_node w) \<Longrightarrow> initialized (gw_node w) \<Longrightarrow> heartbeatStarted (gw_node w) \<Longrightarrow>
   smap_has (publishMap (gw_node w)) (heartbeat_name (componentID (gw_node w))) \<Longrightarrow>
   destroy_node h w = Inl Crashed"
  by (simp add: destroy_node_def)

end
