(* ===== verification/Node_Logging.thy ===== *)
theory Node_Logging
  imports GravityLogger Init_Correct
begin

section \<open>The loggers of a node (\<open>GravityNode::init\<close>, \<open>GravityNode::configSpdLoggers\<close>)\<close>

text \<open>
  The first \<open>init\<close> of a node sets up its loggers from the configuration: a file and a console logger of
  the class \<open>Log\<close>, and two loggers of the library \<open>spdlog\<close>, one for Gravity itself and one for the
  application, each with a list of sinks and their levels. What the library does is a parameter: its
  conversion \<open>from_str\<close> of a name to a level (0 is trace, 6 is off); a sink takes the messages whose level
  is not below its own.
\<close>

datatype log_sink = Console_sink | File_sink string | Publish_sink

definition SPDLOG_LEVEL_OFF :: nat where "SPDLOG_LEVEL_OFF = 6"

record spd_state =
  gravity_sinks :: "(log_sink \<times> nat) list option"
  app_sinks :: "(log_sink \<times> nat) list option"
  default_is_app :: bool
  pattern_id :: string

definition spd_level :: "(string \<Rightarrow> nat) \<Rightarrow> node_env \<Rightarrow> string \<Rightarrow> gn_state \<Rightarrow> nat \<times> gn_state" where
  "spd_level from_str env key n =
     (let (v, n1) = getStringParam env key ''off'' n in (from_str (StringToLowerCase v), n1))"

definition configSpdLoggers ::
  "(string \<Rightarrow> nat) \<Rightarrow> node_env \<Rightarrow> gn_state \<Rightarrow> spd_state \<Rightarrow> spd_state \<times> gn_state" where
  "configSpdLoggers from_str env n s =
     (if gravity_sinks s \<noteq> None then (s, n)
      else
       (let (gravity_file_level, n1) = spd_level from_str env ''GravityFileLogLevel'' n;
            (gravity_console_level, n2) = spd_level from_str env ''GravityConsoleLogLevel'' n1;
            (app_file_level, n3) = spd_level from_str env ''AppFileLogLevel'' n2;
            (app_console_level, n4) = spd_level from_str env ''AppConsoleLogLevel'' n3;
            (app_publish_level, n5) = spd_level from_str env ''AppNetworkLogLevel'' n4;
            has_gravity_file_logger = (gravity_file_level \<noteq> SPDLOG_LEVEL_OFF);
            has_app_file_logger = (app_file_level \<noteq> SPDLOG_LEVEL_OFF);
            has_app_console_logger = (app_console_level \<noteq> SPDLOG_LEVEL_OFF);
            has_app_publish_logger = (app_publish_level \<noteq> SPDLOG_LEVEL_OFF);
            (filename, n6) =
              (if has_gravity_file_logger \<or> has_app_file_logger
               then (let (d, n') = getStringParam env ''LogDirectory'' ''.'' n5
                     in (d @ ''/'' @ componentID n @ ''.log'', n'))
               else ('''', n5))
        in (s\<lparr>gravity_sinks := Some ((Console_sink, gravity_console_level) #
                (if has_gravity_file_logger then [(File_sink filename, gravity_file_level)] else [])),
              app_sinks := Some ((Console_sink, app_console_level) #
                (if has_app_file_logger then [(File_sink filename, app_file_level)] else []) @
                (if has_app_publish_logger then [(Publish_sink, app_publish_level)] else [])),
              default_is_app := default_is_app s \<or> has_app_file_logger \<or> has_app_console_logger \<or> has_app_publish_logger,
              pattern_id := componentID n\<rparr>, n6)))"

definition spd_reached :: "(log_sink \<times> nat) list option \<Rightarrow> nat \<Rightarrow> log_sink list" where
  "spd_reached sinks level =
     (case sinks of None \<Rightarrow> [] | Some ss \<Rightarrow> map fst (filter (\<lambda>s. snd s \<le> level) ss))"

text \<open>
  Setting up all loggers; \<open>addrs\<close> are the addresses of the new logger objects. \<open>None\<close> is the undefined
  behaviour of the constructor of the file logger when no file can be opened.
\<close>

record node_logs =
  nl_log :: log_state
  nl_files :: "(nat \<times> file_logger) list"
  nl_spd :: spd_state
  nl_logInitialized :: bool

definition initAndAddFileLogger ::
  "(string \<Rightarrow> bool) \<Rightarrow> nat \<Rightarrow> string \<Rightarrow> string \<Rightarrow> LogLevel \<Rightarrow> bool \<Rightarrow> node_logs \<Rightarrow> node_logs option" where
  "initAndAddFileLogger can_open addr log_dir comp_id level close s =
     map_option (\<lambda>f. s\<lparr>nl_files := nl_files s @ [(addr, f)], nl_log := initAndAddLogger addr level (nl_log s)\<rparr>)
       (FileLogger can_open log_dir comp_id close)"

definition initAndAddConsoleLogger :: "nat \<Rightarrow> string \<Rightarrow> LogLevel \<Rightarrow> node_logs \<Rightarrow> node_logs" where
  "initAndAddConsoleLogger addr comp_id level s =
     s\<lparr>nl_files := nl_files s @ [(addr, ConsoleLogger comp_id)], nl_log := initAndAddLogger addr level (nl_log s)\<rparr>"

definition init_logging ::
  "(string \<Rightarrow> nat) \<Rightarrow> (string \<Rightarrow> bool) \<Rightarrow> nat \<times> nat \<Rightarrow> node_env \<Rightarrow> gn_state \<Rightarrow> node_logs \<Rightarrow>
     (node_logs \<times> gn_state) option" where
  "init_logging from_str can_open addrs env n s =
     (if nl_logInitialized s then Some (s, n)
      else
       (let (l, n1) = getStringParam env ''LocalLogLevel'' ''none'' n;
            local_log_level = LogStringToLevel l
        in Option.bind
             (if local_log_level = NONE then Some (s, n1)
              else (let (d, n2) = getStringParam env ''LogDirectory'' '''' n1;
                        (close, n3) = getBoolParam env ''CloseLogFileAfterWrite'' False n2
                    in map_option (\<lambda>s1. (s1, n3))
                         (initAndAddFileLogger can_open (fst addrs) d (componentID n) local_log_level close s)))
             (\<lambda>(s1, n3).
               (let (c, n4) = getStringParam env ''ConsoleLogLevel'' ''none'' n3;
                    console_log_level = LogStringToLevel c;
                    s2 = (if console_log_level = NONE then s1
                          else initAndAddConsoleLogger (snd addrs) (componentID n) console_log_level s1);
                    (spd, n5) = configSpdLoggers from_str env n4 (nl_spd s2)
                in Some (s2\<lparr>nl_spd := spd, nl_logInitialized := True\<rparr>, n5)))))"

subsection \<open>Which messages reach which sink\<close>

definition configured_level :: "(string \<Rightarrow> nat) \<Rightarrow> gn_state \<Rightarrow> string \<Rightarrow> nat" where
  "configured_level from_str n key = from_str (StringToLowerCase (param n key ''off''))"

definition node_log_file :: "gn_state \<Rightarrow> string" where
  "node_log_file n = param n ''LogDirectory'' ''.'' @ ''/'' @ componentID n @ ''.log''"

lemma quiet_level [simp]:
  "\<not> settingsPubEnabled n \<Longrightarrow> spd_level from_str env key n = (configured_level from_str n key, n)"
  by (simp add: spd_level_def configured_level_def)

lemma configSpdLoggers_keeps: "gravity_sinks s \<noteq> None \<Longrightarrow> configSpdLoggers from_str env n s = (s, n)"
  by (simp add: configSpdLoggers_def)

definition unless_off :: "log_sink \<Rightarrow> nat \<Rightarrow> (log_sink \<times> nat) list" where
  "unless_off k level = (if level \<noteq> SPDLOG_LEVEL_OFF then [(k, level)] else [])"

lemma configSpdLoggers_fresh:
  assumes "\<not> settingsPubEnabled n" and "gravity_sinks s = None"
  shows "snd (configSpdLoggers from_str env n s) = n"
    and "gravity_sinks (fst (configSpdLoggers from_str env n s)) =
       Some ((Console_sink, configured_level from_str n ''GravityConsoleLogLevel'') #
         unless_off (File_sink (node_log_file n)) (configured_level from_str n ''GravityFileLogLevel''))"
    and "app_sinks (fst (configSpdLoggers from_str env n s)) =
       Some ((Console_sink, configured_level from_str n ''AppConsoleLogLevel'') #
         unless_off (File_sink (node_log_file n)) (configured_level from_str n ''AppFileLogLevel'') @
         unless_off Publish_sink (configured_level from_str n ''AppNetworkLogLevel''))"
  using assms by (simp_all add: configSpdLoggers_def unless_off_def node_log_file_def Let_def)

lemma reached_sinks:
  "spd_reached (Some (s # ss)) m = (if snd s \<le> m then [fst s] else []) @ spd_reached (Some ss) m"
  "spd_reached (Some (as @ bs)) m = spd_reached (Some as) m @ spd_reached (Some bs) m"
  "m < SPDLOG_LEVEL_OFF \<Longrightarrow> spd_reached (Some (unless_off k level)) m = (if level \<le> m then [k] else [])"
  by (auto simp: spd_reached_def unless_off_def)

text \<open>The first \<open>init\<close> sets the loggers up as configured: a message below the level off reaches
  exactly the sinks whose configured level is not above its own, each once; Gravity's own messages go
  to the console and the file only, never to the network, so that publishing a log message cannot lead
  to another one.\<close>

theorem configured_sinks_are_reached:
  assumes "\<not> settingsPubEnabled n" and "gravity_sinks s = None" and "m < SPDLOG_LEVEL_OFF"
    and "configSpdLoggers from_str env n s = (s1, n1)"
    and "on = (\<lambda>key k. if configured_level from_str n key \<le> m then [k] else [])"
  shows "n1 = n \<and>
     spd_reached (gravity_sinks s1) m =
       on ''GravityConsoleLogLevel'' Console_sink @ on ''GravityFileLogLevel'' (File_sink (node_log_file n)) \<and>
     spd_reached (app_sinks s1) m =
       on ''AppConsoleLogLevel'' Console_sink @ on ''AppFileLogLevel'' (File_sink (node_log_file n)) @
       on ''AppNetworkLogLevel'' Publish_sink"
  using configSpdLoggers_fresh [OF assms(1,2), of from_str env] assms(3-5) by (simp add: reached_sinks)

definition network_node :: gn_state where
  "network_node = GravityNode_default\<lparr>gn_parser := Some [(''appnetworkloglevel'', ''WARN''), (''gravityfileloglevel'', ''info'')],
     componentID := ''C''\<rparr>"

definition no_loggers :: spd_state where
  "no_loggers = \<lparr>gravity_sinks = None, app_sinks = None, default_is_app = False, pattern_id = ''''\<rparr>"

definition level_names :: "string \<Rightarrow> nat" where
  "level_names t = (if t = ''info'' then 2 else if t = ''warn'' then 3 else 6)"

theorem configured_sinks_are_reached_witness:
  "\<forall>env. spd_reached (gravity_sinks (fst (configSpdLoggers level_names env network_node no_loggers))) 3 = [File_sink ''./C.log''] \<and>
     spd_reached (app_sinks (fst (configSpdLoggers level_names env network_node no_loggers))) 3 = [Publish_sink]"
proof
  fix env
  have n: "\<not> settingsPubEnabled network_node" "gravity_sinks no_loggers = None" "3 < SPDLOG_LEVEL_OFF"
    by (simp_all add: network_node_def no_loggers_def SPDLOG_LEVEL_OFF_def GravityNode_default_def blank_node_def)
  have levels: "configured_level level_names network_node ''GravityConsoleLogLevel'' = 6"
    "configured_level level_names network_node ''GravityFileLogLevel'' = 2"
    "configured_level level_names network_node ''AppConsoleLogLevel'' = 6"
    "configured_level level_names network_node ''AppFileLogLevel'' = 6"
    "configured_level level_names network_node ''AppNetworkLogLevel'' = 3"
    "node_log_file network_node = ''./C.log''"
    by code_simp+
  show "spd_reached (gravity_sinks (fst (configSpdLoggers level_names env network_node no_loggers))) 3 = [File_sink ''./C.log''] \<and>
     spd_reached (app_sinks (fst (configSpdLoggers level_names env network_node no_loggers))) 3 = [Publish_sink]"
    using configured_sinks_are_reached [OF n surjective_pairing refl, of level_names env] by (simp add: levels)
qed

subsection \<open>The class Log after init\<close>

text \<open>A second node of the same process keeps the loggers of the first, and logs under its name.\<close>

lemma second_node_logs_as_first:
  assumes "\<not> settingsPubEnabled n" and "gravity_sinks (nl_spd s) \<noteq> None"
    and "init_logging from_str can_open addrs env n s = Some (s1, n1)"
  shows "nl_spd s1 = nl_spd s \<and> n1 = n \<and> nl_logInitialized s1"
  using assms
  by (cases "nl_logInitialized s"; cases "LogStringToLevel (param n ''LocalLogLevel'' ''none'') = NONE")
     (auto simp: init_logging_def configSpdLoggers_keeps initAndAddFileLogger_def initAndAddConsoleLogger_def Let_def
        split: if_splits option.splits simp: bind_eq_Some_conv)

end
