(* ===== verification/Node_Listener.thy ===== *)
theory Node_Listener
  imports Node_Init
begin

section \<open>The domain listener of a node (\<open>GravityNodeDomainListener\<close> in \<open>GravityNode.cpp\<close>)\<close>

text \<open>
  A node that is configured with a domain starts a thread that listens to the broadcasts of service
  directories. The thread tells the node the URL of the directory of its domain with every broadcast and
  makes the node register again when the directory has been restarted. \<open>dl_toNode\<close> are the messages on
  the socket to the node, \<open>dl_acks\<close> counts the acknowledgements of commands; sockets are inputs.
\<close>

record dl_state =
  dl_domain :: string
  dl_port :: u32
  dl_timeout :: u32
  dl_compId :: string
  dl_running :: bool
  dl_startTime :: int
  dl_toNode :: "string list list"
  dl_acks :: nat

text \<open>The loop until the parameters have been read; other messages are dropped without an answer.\<close>

fun await_parameters :: "frame list list \<Rightarrow> dl_state option" where
  "await_parameters [] = None"
| "await_parameters (m # ms) =
     (if m \<noteq> [] \<and> readStringMessage (hd m) = ''configure''
      then (case readDomainListenerParameters m of
              None \<Rightarrow> None
            | Some (d, p, t, i, node) \<Rightarrow>
                Some \<lparr>dl_domain = d, dl_port = p, dl_timeout = t, dl_compId = i, dl_running = True,
                      dl_startTime = 0, dl_toNode = [], dl_acks = 1\<rparr>)
      else await_parameters ms)"

text \<open>
  One round: what \<open>recvfrom\<close> gives (\<open>None\<close> is a timeout or an error), then a command of the node, if
  there is one.
\<close>

definition listener_round ::
  "(string \<Rightarrow> string) \<Rightarrow> ServiceDirectoryBroadcastPB option \<times> string option \<Rightarrow> dl_state \<times> gn_world \<Rightarrow>
     gn_fail + dl_state \<times> gn_world" where
  "listener_round resolve r sw =
     (case (case fst r of
              None \<Rightarrow> Inr (dl_startTime (fst sw), dl_toNode (fst sw), snd sw)
            | Some pb \<Rightarrow> on_domain_broadcast resolve (dl_domain (fst sw)) (dl_compId (fst sw)) pb
                (dl_startTime (fst sw), dl_toNode (fst sw), snd sw)) of
        Inl e \<Rightarrow> Inl e
      | Inr (t, sent, w1) \<Rightarrow>
          (let s1 = (fst sw)\<lparr>dl_startTime := t, dl_toNode := sent\<rparr>
           in case snd r of
                None \<Rightarrow> Inr (s1, w1)
              | Some command \<Rightarrow>
                  Inr (s1\<lparr>dl_acks := dl_acks s1 + 1, dl_running := (command \<noteq> ''kill'')\<rparr>, w1)))"

fun listener_run ::
  "(string \<Rightarrow> string) \<Rightarrow> (ServiceDirectoryBroadcastPB option \<times> string option) list \<Rightarrow> dl_state \<times> gn_world \<Rightarrow>
     gn_fail + dl_state \<times> gn_world" where
  "listener_run resolve [] sw = Inr sw"
| "listener_run resolve (r # rs) sw =
     (if dl_running (fst sw)
      then (case listener_round resolve r sw of Inl e \<Rightarrow> Inl e | Inr sw1 \<Rightarrow> listener_run resolve rs sw1)
      else Inr sw)"

subsection \<open>Restarts of the directory\<close>

text \<open>
  What the rounds ought to do. Of the broadcasts of the node's domain those with a later start time than
  all before are the starts of the directory; all but the first of them are restarts.
\<close>

definition own_broadcasts :: "string \<Rightarrow> ServiceDirectoryBroadcastPB option list \<Rightarrow> ServiceDirectoryBroadcastPB list" where
  "own_broadcasts d rs = filter (\<lambda>b. bc_domain b = d) (map the (filter (\<lambda>r. r \<noteq> None) rs))"

definition directory_starts :: "ServiceDirectoryBroadcastPB list \<Rightarrow> ServiceDirectoryBroadcastPB list" where
  "directory_starts bs =
     map ((!) bs) (filter (\<lambda>i. \<forall>j<i. bc_starttime (bs ! j) < bc_starttime (bs ! i)) [0..<length bs])"

fun register_again :: "(string \<Rightarrow> string) \<Rightarrow> string \<Rightarrow> string list \<Rightarrow> gn_world \<Rightarrow> gn_fail + gn_world" where
  "register_again resolve compID [] w = Inr w"
| "register_again resolve compID (u # us) w =
     (case ServiceDirectoryReregister resolve compID u w of
        Inl e \<Rightarrow> Inl e
      | Inr (ret, w1) \<Rightarrow> register_again resolve compID us w1)"

definition latest_start :: "ServiceDirectoryBroadcastPB list \<Rightarrow> int" where
  "latest_start bs = (if bs = [] then 0 else Max (bc_starttime ` set bs))"

lemma own_broadcasts_snoc:
  "own_broadcasts d (rs @ [r]) =
     own_broadcasts d rs @ (case r of None \<Rightarrow> [] | Some b \<Rightarrow> if bc_domain b = d then [b] else [])"
  by (cases r) (simp_all add: own_broadcasts_def)

lemma directory_starts_snoc:
  "directory_starts (bs @ [b]) =
     directory_starts bs @ (if \<forall>x\<in>set bs. bc_starttime x < bc_starttime b then [b] else [])"
proof -
  let ?P = "\<lambda>bs i. \<forall>j<i. bc_starttime (bs ! j) < bc_starttime (bs ! i)"
  have "filter (?P (bs @ [b])) [0..<length bs] = filter (?P bs) [0..<length bs]"
    by (rule filter_cong) (auto simp: nth_append)
  moreover have "map ((!) (bs @ [b])) (filter (?P bs) [0..<length bs]) = map ((!) bs) (filter (?P bs) [0..<length bs])"
    by (rule map_cong) (auto simp: nth_append)
  moreover have "?P (bs @ [b]) (length bs) \<longleftrightarrow> (\<forall>x\<in>set bs. bc_starttime x < bc_starttime b)"
    by (auto simp: nth_append all_set_conv_all_nth)
  ultimately show ?thesis by (simp add: directory_starts_def)
qed

lemma directory_starts_Nil_iff: "directory_starts bs = [] \<longleftrightarrow> bs = []"
proof (cases bs rule: rev_cases)
  case (snoc bs' b)
  then show ?thesis
  proof (induction bs' arbitrary: bs b rule: rev_induct)
    case (snoc x xs)
    then show ?case by (simp add: directory_starts_snoc [of "xs @ [x]"] del: append_assoc)
  qed (simp add: directory_starts_def)
qed (simp add: directory_starts_def)

lemma latest_start_less:
  "0 < bc_starttime b \<Longrightarrow> latest_start bs < bc_starttime b \<longleftrightarrow> (\<forall>x\<in>set bs. bc_starttime x < bc_starttime b)"
  by (simp add: latest_start_def)

lemma latest_start_snoc:
  assumes "0 < bc_starttime b"
  shows "latest_start (bs @ [b]) = max (latest_start bs) (bc_starttime b)"
  using assms by (auto simp: latest_start_def max.commute)

lemma latest_start_zero: "\<forall>b\<in>set bs. 0 < bc_starttime b \<Longrightarrow> latest_start bs = 0 \<longleftrightarrow> bs = []"
  by (cases bs) (auto simp: latest_start_def Max_eq_iff)

lemma register_again_snoc:
  "register_again resolve compID (us @ [u]) w =
     (case register_again resolve compID us w of
        Inl e \<Rightarrow> Inl e
      | Inr w1 \<Rightarrow> (case ServiceDirectoryReregister resolve compID u w1 of Inl e \<Rightarrow> Inl e | Inr (ret, w2) \<Rightarrow> Inr w2))"
  by (induction us arbitrary: w) (auto split: sum.splits)

lemma listener_run_snoc:
  "listener_run resolve (rs @ [r]) sw =
     (case listener_run resolve rs sw of
        Inl e \<Rightarrow> Inl e
      | Inr sw1 \<Rightarrow> if dl_running (fst sw1) then listener_round resolve r sw1 else Inr sw1)"
proof (induction rs arbitrary: sw)
  case (Cons q rs)
  show ?case
  proof (cases "dl_running (fst sw)")
    case True
    then show ?thesis using Cons.IH by (auto split: sum.splits)
  qed simp
qed (auto split: sum.splits)

lemma listener_round_quiet:
  assumes "\<forall>b\<in>set bs. 0 < bc_starttime b" and "fst sw = s\<lparr>dl_startTime := latest_start bs, dl_toNode := sent\<rparr>"
    and "bc_domain b = dl_domain s" and "0 < bc_starttime b"
  shows "listener_round resolve (Some b, None) sw =
     (case (if bs \<noteq> [] \<and> (\<forall>x\<in>set bs. bc_starttime x < bc_starttime b)
            then register_again resolve (dl_compId s) [bc_url b] (snd sw) else Inr (snd sw)) of
        Inl e \<Rightarrow> Inl e
      | Inr w1 \<Rightarrow> Inr (s\<lparr>dl_startTime := latest_start (bs @ [b]),
                          dl_toNode := sent @ [[''connect'', dl_domain s, bc_url b]]\<rparr>, w1))"
proof -
  have less: "latest_start bs < bc_starttime b \<longleftrightarrow> (\<forall>x\<in>set bs. bc_starttime x < bc_starttime b)"
    by (rule latest_start_less [OF assms(4)])
  consider "bs = []" | "bs \<noteq> []" "latest_start bs < bc_starttime b" | "bs \<noteq> []" "\<not> latest_start bs < bc_starttime b"
    by blast
  then show ?thesis
  proof cases
    case 1
    then show ?thesis using assms by (simp add: listener_round_def on_domain_broadcast_def Let_def latest_start_def)
  next
    case 2
    have all: "(\<forall>x\<in>set bs. bc_starttime x < bc_starttime b) = True" and "latest_start bs \<noteq> 0"
      and "latest_start (bs @ [b]) = bc_starttime b"
      using 2 less latest_start_zero [OF assms(1)] latest_start_snoc [OF assms(4), of bs] by simp_all
    then show ?thesis
      using 2 assms(2,3) unfolding all
      by (simp add: listener_round_def on_domain_broadcast_def Let_def split: sum.split)
  next
    case 3
    have all: "(\<forall>x\<in>set bs. bc_starttime x < bc_starttime b) = False" and "latest_start (bs @ [b]) = latest_start bs"
      using 3(2) less latest_start_snoc [OF assms(4), of bs] by (auto simp: max_def)
    then show ?thesis
      using 3 assms(2,3) unfolding all by (simp add: listener_round_def on_domain_broadcast_def Let_def)
  qed
qed

lemma listener_round_other:
  assumes "r = None \<or> (\<exists>b. r = Some b \<and> bc_domain b \<noteq> dl_domain (fst sw))"
  shows "listener_round resolve (r, None) sw = Inr sw"
  using assms by (cases sw) (auto simp: listener_round_def on_domain_broadcast_def)

lemma listener_run_spec:
  assumes "dl_running s" and "dl_startTime s = 0"
    and "\<forall>b\<in>set (own_broadcasts (dl_domain s) rs). 0 < bc_starttime b"
  shows "listener_run resolve (map (\<lambda>r. (r, None)) rs) (s, w) =
     (case register_again resolve (dl_compId s) (map bc_url (tl (directory_starts (own_broadcasts (dl_domain s) rs)))) w of
        Inl e \<Rightarrow> Inl e
      | Inr w1 \<Rightarrow>
          Inr (s\<lparr>dl_startTime := latest_start (own_broadcasts (dl_domain s) rs),
                 dl_toNode := dl_toNode s @
                   map (\<lambda>b. [''connect'', dl_domain s, bc_url b]) (own_broadcasts (dl_domain s) rs)\<rparr>, w1))"
  using assms(3)
proof (induction rs rule: rev_induct)
  case Nil
  then show ?case using assms(2) by (simp add: own_broadcasts_def directory_starts_def latest_start_def)
next
  case (snoc r rs)
  let ?bs = "own_broadcasts (dl_domain s) rs"
  have pos: "\<forall>b\<in>set ?bs. 0 < bc_starttime b" using snoc.prems by (simp add: own_broadcasts_snoc)
  note IH = snoc.IH [OF pos]
  show ?case
  proof (cases "\<exists>b. r = Some b \<and> bc_domain b = dl_domain s")
    case False
    then have "own_broadcasts (dl_domain s) (rs @ [r]) = ?bs" by (auto simp: own_broadcasts_snoc split: option.split)
    moreover have "listener_round resolve (r, None) sw = Inr sw" if "dl_domain (fst sw) = dl_domain s" for sw
      using that False by (intro listener_round_other) auto
    ultimately show ?thesis using IH assms(1) by (simp add: listener_run_snoc split: sum.split)
  next
    case True
    then obtain b where b: "r = Some b" "bc_domain b = dl_domain s" by blast
    then have own: "own_broadcasts (dl_domain s) (rs @ [Some b]) = ?bs @ [b]" by (simp add: own_broadcasts_snoc)
    have later: "0 < bc_starttime b" using snoc.prems own b(1) by simp
    note step = listener_round_quiet [OF pos _ b(2) later]
    show ?thesis
    proof (cases "?bs = []")
      case True
      then show ?thesis
        using IH assms(1)
        by (simp add: listener_run_snoc own b later listener_round_def on_domain_broadcast_def Let_def
            directory_starts_def latest_start_def)
    next
      case False
      then have starts: "directory_starts ?bs \<noteq> []" by (simp add: directory_starts_Nil_iff)
      show ?thesis
        using IH assms(1) False
        by (simp add: listener_run_snoc own b(1) step directory_starts_snoc tl_append2 [OF starts] register_again_snoc
            split: sum.split)
    qed
  qed
qed

text \<open>The URL that \<open>init\<close> waits for is the one of the first broadcast of the domain.\<close>

lemma domain_url_after_silence:
  "k < n \<Longrightarrow> domain_url_loop n [] (replicate k (Some []) @ Some ([''connect'', d, url] @ more_frames) # rounds) = url"
proof (induction k arbitrary: n)
  case 0
  then show ?case by (cases n) simp_all
next
  case (Suc k)
  then show ?case by (cases n) simp_all
qed

lemma listener_finds_directory:
  assumes "int k < timeout * 10" and "own_broadcasts (dl_domain s) rs = b # bs"
  shows "getDomainUrl timeout (replicate k (Some []) @
           Some (concat (map (\<lambda>b. [''connect'', dl_domain s, bc_url b]) (own_broadcasts (dl_domain s) rs))) # rounds) = bc_url b"
proof -
  have "k < nat (timeout * 10)" using assms(1) by linarith
  from domain_url_after_silence [OF this] show ?thesis by (simp add: getDomainUrl_def assms(2))
qed

text \<open>C9. The domain listener makes its node register again exactly once for every restart of the directory:
  whatever broadcasts arrive in whatever order, of other domains or of an earlier start, it registers
  again with the URL of each broadcast of its own domain whose start time is later than all before, except
  the first; the node is told the URL of every broadcast of its domain, and when the first of them arrives
  before the timeout, the node finds the directory at its URL.\<close>

theorem listener_registers_after_restarts:
  assumes "dl_running s" and "dl_startTime s = 0" and bs: "bs = own_broadcasts (dl_domain s) rs"
    and told: "told = map (\<lambda>b. [''connect'', dl_domain s, bc_url b]) bs" and pos: "\<forall>b\<in>set bs. 0 < bc_starttime b"
  shows "listener_run resolve (map (\<lambda>r. (r, None)) rs) (s, w) =
     (case register_again resolve (dl_compId s) (map bc_url (tl (directory_starts bs))) w of
        Inl e \<Rightarrow> Inl e
      | Inr w1 \<Rightarrow> Inr (s\<lparr>dl_startTime := latest_start bs, dl_toNode := dl_toNode s @ told\<rparr>, w1)) \<and>
     (bs \<noteq> [] \<and> int k < timeout * 10 \<longrightarrow>
        getDomainUrl timeout (replicate k (Some []) @ Some (concat told) # rounds) = bc_url (hd bs))"
proof (intro conjI impI)
  show "listener_run resolve (map (\<lambda>r. (r, None)) rs) (s, w) =
     (case register_again resolve (dl_compId s) (map bc_url (tl (directory_starts bs))) w of
        Inl e \<Rightarrow> Inl e
      | Inr w1 \<Rightarrow> Inr (s\<lparr>dl_startTime := latest_start bs, dl_toNode := dl_toNode s @ told\<rparr>, w1))"
    unfolding told bs using assms(1,2) pos [unfolded bs] by (rule listener_run_spec)
  assume "bs \<noteq> [] \<and> int k < timeout * 10"
  then show "getDomainUrl timeout (replicate k (Some []) @ Some (concat told) # rounds) = bc_url (hd bs)"
    using listener_finds_directory [of k timeout s rs "hd bs" "tl bs" rounds] by (simp add: told bs [symmetric])
qed

definition listening :: "string \<Rightarrow> string \<Rightarrow> dl_state" where
  "listening d i = \<lparr>dl_domain = d, dl_port = 8276, dl_timeout = 10, dl_compId = i, dl_running = True, dl_startTime = 0,
     dl_toNode = [], dl_acks = 1\<rparr>"

definition broadcast_of :: "string \<Rightarrow> string \<Rightarrow> int \<Rightarrow> ServiceDirectoryBroadcastPB option" where
  "broadcast_of d url t = Some \<lparr>bc_id = None, bc_domain = d, bc_url = url, bc_rate = None, bc_starttime = t\<rparr>"

text \<open>Two starts of the directory and one of another domain; the node registers again once.\<close>

theorem listener_registers_after_restarts_witness:
  "\<forall>w. listener_run id (map (\<lambda>r. (r, None))
       [broadcast_of ''D'' ''a:1'' 5, broadcast_of ''E'' ''e:1'' 9, None, broadcast_of ''D'' ''a:1'' 5,
        broadcast_of ''D'' ''b:1'' 7]) (listening ''D'' ''C'', w) =
     (case register_again id ''C'' [''b:1''] w of
        Inl e \<Rightarrow> Inl e
      | Inr w1 \<Rightarrow> Inr ((listening ''D'' ''C'')\<lparr>dl_startTime := 7, dl_toNode :=
          [[''connect'', ''D'', ''a:1''], [''connect'', ''D'', ''a:1''], [''connect'', ''D'', ''b:1'']]\<rparr>, w1)) \<and>
     getDomainUrl 1 (replicate 3 (Some []) @ [Some (concat
       [[''connect'', ''D'', ''a:1''], [''connect'', ''D'', ''a:1''], [''connect'', ''D'', ''b:1'']])]) = ''a:1''"
proof
  fix w
  let ?rs = "[broadcast_of ''D'' ''a:1'' 5, broadcast_of ''E'' ''e:1'' 9, None, broadcast_of ''D'' ''a:1'' 5,
    broadcast_of ''D'' ''b:1'' 7]"
  let ?s = "listening ''D'' ''C''"
  let ?bs = "own_broadcasts (dl_domain ?s) ?rs"
  have start: "dl_running ?s" "dl_startTime ?s = 0" and bs: "?bs = map the [broadcast_of ''D'' ''a:1'' 5, broadcast_of ''D'' ''a:1'' 5,
      broadcast_of ''D'' ''b:1'' 7]"
    by (simp_all add: listening_def own_broadcasts_def broadcast_of_def)
  have starts: "map bc_url (tl (directory_starts ?bs)) = [''b:1'']"
    unfolding bs by (simp add: directory_starts_def broadcast_of_def upt_rec All_less_Suc)
  have last: "latest_start ?bs = 7" unfolding bs by (simp add: latest_start_def broadcast_of_def)
  have pos: "\<forall>b\<in>set ?bs. 0 < bc_starttime b" unfolding bs by (simp add: broadcast_of_def)
  have told: "map (\<lambda>b. [''connect'', dl_domain ?s, bc_url b]) ?bs =
      [[''connect'', ''D'', ''a:1''], [''connect'', ''D'', ''a:1''], [''connect'', ''D'', ''b:1'']]"
    and head: "bc_url (hd ?bs) = ''a:1''" and "?bs \<noteq> []"
    unfolding bs by (simp_all add: broadcast_of_def listening_def)
  have comp: "dl_compId ?s = ''C''" "dl_toNode ?s = []" by (simp_all add: listening_def)
  note run = listener_registers_after_restarts [OF start refl refl pos, of id w 3 1 "[]", unfolded starts last told head comp append_Nil]
  show "listener_run id (map (\<lambda>r. (r, None)) ?rs) (?s, w) =
     (case register_again id ''C'' [''b:1''] w of
        Inl e \<Rightarrow> Inl e
      | Inr w1 \<Rightarrow> Inr (?s\<lparr>dl_startTime := 7, dl_toNode :=
          [[''connect'', ''D'', ''a:1''], [''connect'', ''D'', ''a:1''], [''connect'', ''D'', ''b:1'']]\<rparr>, w1)) \<and>
     getDomainUrl 1 (replicate 3 (Some []) @ [Some (concat
       [[''connect'', ''D'', ''a:1''], [''connect'', ''D'', ''a:1''], [''connect'', ''D'', ''b:1'']])]) = ''a:1''"
    using run \<open>?bs \<noteq> []\<close> by simp
qed

end
