(* ===== verification/Spec2Isabelle.thy ===== *)
theory Spec2Isabelle
  imports Directory_Start Synchronizer_Correct Publish_Correct Subscription_Correct
    Service_Correct Request_Correct
    Service_Flow Node_Limits Heartbeat_Correct
    Relay Metrics_Correct Node_Logging Node_Listener
begin

text \<open>
  \<^bold>\<open>Gravity.\<close> A verification development for the C++ core of Gravity, a publish/subscribe and
  service framework over ZeroMQ (\<open>src/src/api/cpp\<close> and \<open>src/src/components/cpp\<close>).

  \<^bold>\<open>The program.\<close> An application links a \<^emph>\<open>node\<close> (\<open>GravityNode\<close>). The node runs manager threads:
  the publish manager owns the sockets of the data products it publishes, the subscription manager
  those it subscribes to, the service manager those of the services it provides, the request manager
  the outstanding requests to others, and the metrics manager collects counts. The node talks to
  them over in-process sockets, and to the \<^emph>\<open>service directory\<close> of its domain over request-reply
  sockets: registrations, unregistrations and lookups. The directory publishes every change of its
  publisher lists; subscription managers follow these updates. Directories of several domains find
  each other by UDP broadcasts (receiver and broadcaster threads) and mirror each other's entries
  (synchronizer thread). A \<^emph>\<open>registration time\<close> in seconds identifies an incarnation of a publisher or
  service: data and responses with another one are rejected and reported as stale.

  \<^bold>\<open>How it is modelled.\<close> Each class is a record with its members, each operation a function that
  passes the state, each thread's loop a function or relation over one turn. What other parts
  do (the clock, new socket handles, results of binds and polls, arriving messages, callbacks into the
  application, the encoding of protobuf messages) are arguments. Messages sent and calls made are
  logged in the state. \<open>std::map\<close> and \<open>std::set\<close> are ordered association lists (\<open>Std_Map\<close>) with
  \<open>operator[]\<close>'s insertion of defaults written out; machine integers are words where they wrap.
  A null pointer that is read, an exception and a loop that does not end are values (\<open>None\<close>, \<open>Inl\<close>).

  \<^bold>\<open>Theories, in the order of their imports.\<close>
  \<^item> \<open>Gravity_Prelude\<close>, \<open>Std_Map\<close>: words for time stamps, optional protobuf fields, list lemmas;
    ordered maps with the locale \<open>ordered_map\<close> and its interpretation.
  \<^item> \<open>Protobufs\<close>: the records of the messages (\<open>src/src/api/protobufs\<close>).
  \<^item> \<open>ServiceDirectory\<close>, \<open>Directory_Correct\<close>, \<open>Directory_Spec\<close>, \<open>Directory_Setup\<close>, \<open>Directory_Start\<close>
    (\<open>ServiceDirectory.cpp\<close>): handlers, main loop, configuration, threads. \<open>Directory_Spec\<close> has the abstract
    directory, a set of registrations \<open>listed\<close>, and shows that the handlers refine it, that changes
    are announced, and that maps stay well-formed.
  \<^item> \<open>CommUtil\<close>, \<open>Utility\<close>, \<open>Data_Products\<close>, \<open>DomainDataKey\<close>: frames, ports, times, strings,
    configuration, data products and metrics.
  \<^item> \<open>UDP_Domains\<close>, \<open>UDP_Correct\<close>, \<open>Synchronizer\<close>, \<open>Synchronizer_Correct\<close>: discovery of other
    domains and mirroring; the updates made from a remote directory leave all its entries known.
  \<^item> \<open>PublishManager\<close>, \<open>SubscriptionManager\<close>, \<open>ServiceManager\<close>, \<open>RequestManager\<close>,
    \<open>MetricsManager\<close> and the theories \<open>..._Correct\<close>, \<open>Subscription_Delivery\<close>: the manager threads,
    with invariants of their maps, the functional behaviour of each command, and what goes wrong.
    Every counted message is reported exactly once (\<open>Metrics_Correct\<close>).
  \<^item> \<open>Key_Value\<close>: the table of a configuration file (\<open>keyvalue_parser.c\<close>), how a node reads it, and the
    service of \<open>ConfigServer.cpp\<close>.
  \<^item> \<open>GravityNode\<close>, \<open>Node_Services\<close>, \<open>Node_Control\<close>, \<open>Node_Init\<close>: the node's operations, its
    initialisation and its destructor. \<open>Node_Directory\<close> has the locale \<open>repeatable_request\<close>, the
    contract between a client that retries and a provider, interpreted for registrations, lookups,
    recovery and the request for the domain.
  \<^item> \<open>Node_Correct\<close>, \<open>Node_Flow\<close>, \<open>Service_Flow\<close>, \<open>Node_Restart\<close>, \<open>Node_Limits\<close>, \<open>Node_Types\<close>,
    \<open>Init_Correct\<close>, \<open>Node_Listener\<close>: the composition. A registration that reports success is in place
    in node, manager and directory; a publication reaches a subscriber of another node; a request reaches
    the service and its response the requestor; a restarted directory is noticed by the domain listener
    and recovers; attempts and addresses are bounded; the node's maps keep their invariant in every
    sequence of calls; \<open>init\<close> joins the directory and can be repeated.
  \<^item> \<open>Heartbeat\<close>, \<open>Heartbeat_Correct\<close>: heartbeats as a step relation with invariants over its runs.
  \<^item> \<open>GravityLogger\<close>, \<open>Node_Logging\<close>: the class \<open>Log\<close> (\<open>GravityLogger.cpp\<close>), the publishing sink
    (\<open>PublishSink.h\<close>) and the loggers that a node configures; messages reach the loggers that want them,
    and no format with \<open>%n\<close> is expanded.
  \<^item> \<open>Archive\<close>, \<open>Archive_Correct\<close>, \<open>Relay\<close>: the components that come with Gravity
    (\<open>FileArchiver.cpp\<close>, \<open>FileReader.cpp\<close>, \<open>FileReplay.cpp\<close>, \<open>Relay.cpp\<close>, \<open>GravityLogRecorder.cpp\<close>).
    An archive is played back as it was written, for every interleaving of the two threads of the playback
    (locale \<open>scheduled_steps\<close> of the prelude).

  \<^bold>\<open>Errors in the program.\<close> Where the code does not do what it means to do, a theorem states what it
  does: a request that expires and is not the first poll item hangs the request manager, a timed out registration stays listed (\<open>timed_out_registration_stays_listed\<close>), mirrored
  entries survive their domain, a heartbeat listener cannot be unsubscribed
  (\<open>unregistered_listener_stays_subscribed\<close>), an archive of a host with the other byte order can end the
  playback, the configuration server prefers general parameters, the log recorder writes the first message of each call only
  (\<open>recorder_writes_first_of_batch\<close>), and a file logger can close its file twice
  (\<open>log_file_has_every_message\<close>).

  \<^bold>\<open>Bounds and fuel.\<close> Loops whose recursion is structural are \<open>fun\<close>; the loop over the bytes of an archive
  is a \<open>function\<close> that terminates because the bytes get fewer; the two loops that may not end
  (\<open>replaceAll\<close>, the search for an expired poll item) are \<open>partial_function (option)\<close>, so that not
  returning is \<open>None\<close>, and it is proved when they return. Retries count down from the constants of the
  source. The search for \<open>%n\<close> counts down from the length of the format; the soundness lemma
  \<open>find_percent_n_sound\<close> shows that this is enough, since each round moves forward.

  \<^bold>\<open>Not modelled.\<close> ZeroMQ, protobuf, spdlog, the C library's formatting, sockets, files and the operating
  system are parameters. Thread creation, signal handling and the set-up of in-process sockets are left
  out; semaphores are used for mutual exclusion that the models take as given; the lexer and the grammar
  of configuration files are \<open>flex\<close> and \<open>bison\<close> input and stand as a parameter. Floating point
  parameters are left out (the period of an automatic heartbeat is a parameter). \<open>SpdLog.cpp\<close> and
  \<open>GravityMetricsUtil.cpp\<close> only forward or print. The bindings for Java, Python, .NET, Rust and MATLAB
  forward calls; tests and examples are not part of the program.
\<close>

end
